(* ===== verification/Prelude.thy ===== *)
theory Prelude
  imports Main "HOL-Library.Word"
begin

text \<open>
  Shared vocabulary of the development: the result type of fallible Rust code (a value, an error
  value, or a panic), big-endian byte strings, the Rust iterator adaptors the sources use, finite
  map updates from key/value lists, and saturating arithmetic on machine words.
  The collections \<open>result_simps\<close>, \<open>codec_simps\<close> and \<open>store_simps\<close> carry the component proofs.
\<close>

named_theorems result_simps "rewriting of fallible computations"
named_theorems codec_simps "round trips of byte encodings"
named_theorems store_simps "lookup after update in key/value stores"

section \<open>Fallible computations\<close>

text \<open>A Rust function returning \<open>Result\<close> either returns, reports an error, or panics
  (\<open>unwrap\<close>, \<open>expect\<close>, \<open>assert!\<close>, index out of range).\<close>

datatype ('e, 'a) res = Ok (ok_val: 'a) | Err (err_val: 'e) | Panic

type_synonym 'a panicking = "(unit, 'a) res"

primrec res_bind :: "('e, 'a) res \<Rightarrow> ('a \<Rightarrow> ('e, 'b) res) \<Rightarrow> ('e, 'b) res" where
  "res_bind (Ok x) f = f x"
| "res_bind (Err e) f = Err e"
| "res_bind Panic f = Panic"

primrec map_err :: "('e \<Rightarrow> 'f) \<Rightarrow> ('e, 'a) res \<Rightarrow> ('f, 'a) res" where
  "map_err g (Ok x) = Ok x"
| "map_err g (Err e) = Err (g e)"
| "map_err g Panic = Panic"

primrec map_ok :: "('a \<Rightarrow> 'b) \<Rightarrow> ('e, 'a) res \<Rightarrow> ('e, 'b) res" where
  "map_ok g (Ok x) = Ok (g x)"
| "map_ok g (Err e) = Err e"
| "map_ok g Panic = Panic"

primrec unwrap :: "('e, 'a) res \<Rightarrow> ('f, 'a) res" where
  "unwrap (Ok x) = Ok x"
| "unwrap (Err e) = Panic"
| "unwrap Panic = Panic"

primrec ok_or :: "'e \<Rightarrow> 'a option \<Rightarrow> ('e, 'a) res" where
  "ok_or e None = Err e"
| "ok_or e (Some x) = Ok x"

primrec unwrap_opt :: "'a option \<Rightarrow> ('e, 'a) res" where
  "unwrap_opt None = Panic"
| "unwrap_opt (Some x) = Ok x"

primrec is_ok :: "('e, 'a) res \<Rightarrow> bool" where
  "is_ok (Ok x) = True"
| "is_ok (Err e) = False"
| "is_ok Panic = False"

primrec res_option :: "('e, 'a) res \<Rightarrow> 'a option" where
  "res_option (Ok x) = Some x"
| "res_option (Err e) = None"
| "res_option Panic = None"

text \<open>\<open>iter().map(f).collect::<Result<Vec<_>, _>>()\<close>: the first error or panic wins.\<close>

primrec try_map :: "('a \<Rightarrow> ('e, 'b) res) \<Rightarrow> 'a list \<Rightarrow> ('e, 'b list) res" where
  "try_map f [] = Ok []"
| "try_map f (x # xs) = res_bind (f x) (\<lambda>y. res_bind (try_map f xs) (\<lambda>ys. Ok (y # ys)))"

text \<open>A \<open>for\<close> loop over a collection whose body may return early with an error.\<close>

primrec try_fold :: "('s \<Rightarrow> 'a \<Rightarrow> ('e, 's) res) \<Rightarrow> 's \<Rightarrow> 'a list \<Rightarrow> ('e, 's) res" where
  "try_fold f s [] = Ok s"
| "try_fold f s (x # xs) = res_bind (f s x) (\<lambda>s'. try_fold f s' xs)"

text \<open>Fallible steps that act on a state: the state reached is kept when a step fails.\<close>

definition st_bind :: "('e, 'x) res \<times> 's \<Rightarrow> ('x \<Rightarrow> 's \<Rightarrow> ('e, 'y) res \<times> 's) \<Rightarrow> ('e, 'y) res \<times> 's" where
  "st_bind m f = (case fst m of Ok x \<Rightarrow> f x (snd m) | Err e \<Rightarrow> (Err e, snd m) | Panic \<Rightarrow> (Panic, snd m))"

lemma st_bind_simps [simp]:
  "st_bind (Ok x, s) f = f x s" "st_bind (Err e, s) f = (Err e, s)" "st_bind (Panic, s) f = (Panic, s)"
  by (simp_all add: st_bind_def)

lemma res_bind_Ok_iff [result_simps]:
  "res_bind m f = Ok y \<longleftrightarrow> (\<exists>x. m = Ok x \<and> f x = Ok y)"
  by (cases m) auto

lemma res_bind_Ok_right [simp]: "res_bind m Ok = m"
  by (cases m) auto

lemma res_bind_assoc: "res_bind (res_bind m f) g = res_bind m (\<lambda>x. res_bind (f x) g)"
  by (cases m) auto

lemma map_ok_Ok_iff [result_simps]: "map_ok g m = Ok y \<longleftrightarrow> (\<exists>x. m = Ok x \<and> y = g x)"
  by (cases m) auto

lemma map_err_Ok_iff [result_simps]: "map_err g m = Ok y \<longleftrightarrow> m = Ok y"
  by (cases m) auto

lemma unwrap_Ok_iff [result_simps]: "unwrap m = Ok y \<longleftrightarrow> m = Ok y"
  by (cases m) auto

lemma unwrap_opt_Ok_iff [result_simps]: "unwrap_opt m = Ok y \<longleftrightarrow> m = Some y"
  by (cases m) auto

lemma ok_or_Ok_iff [result_simps]: "ok_or e m = Ok y \<longleftrightarrow> m = Some y"
  by (cases m) auto

lemma try_map_all_ok [result_simps]:
  "(\<And>x. x \<in> set xs \<Longrightarrow> f x = Ok (g x)) \<Longrightarrow> try_map f xs = Ok (map g xs)"
  by (induction xs) auto

lemma try_map_length: "try_map f xs = Ok ys \<Longrightarrow> length ys = length xs"
  by (induction xs arbitrary: ys) (auto simp: result_simps)

lemma try_map_nth:
  "try_map f xs = Ok ys \<Longrightarrow> i < length xs \<Longrightarrow> f (xs ! i) = Ok (ys ! i)"
proof (induction xs arbitrary: ys i)
  case (Cons x xs)
  then show ?case by (cases i) (auto simp: result_simps)
qed simp

lemma try_fold_append:
  "try_fold f s (xs @ ys) = res_bind (try_fold f s xs) (\<lambda>s'. try_fold f s' ys)"
  by (induction xs arbitrary: s) (auto simp: res_bind_assoc)

lemma try_fold_invariant:
  assumes "try_fold f s xs = Ok s'" and "P s"
    and "\<And>s x s'. x \<in> set xs \<Longrightarrow> P s \<Longrightarrow> f s x = Ok s' \<Longrightarrow> P s'"
  shows "P s'"
  using assms by (induction xs arbitrary: s) (auto simp: result_simps)

section \<open>Big-endian byte strings\<close>

type_synonym byte = "8 word"
type_synonym bytes = "byte list"

primrec be_acc :: "nat \<Rightarrow> bytes \<Rightarrow> nat" where
  "be_acc a [] = a"
| "be_acc a (b # bs) = be_acc (a * 256 + unat b) bs"

definition be_nat :: "bytes \<Rightarrow> nat" where
  "be_nat bs = be_acc 0 bs"

primrec nat_be :: "nat \<Rightarrow> nat \<Rightarrow> bytes" where
  "nat_be 0 n = []"
| "nat_be (Suc k) n = nat_be k (n div 256) @ [of_nat (n mod 256)]"

lemma be_acc_append [simp]: "be_acc a (xs @ ys) = be_acc (be_acc a xs) ys"
  by (induction xs arbitrary: a) auto

lemma be_acc_split: "be_acc a bs = a * 256 ^ length bs + be_nat bs"
proof (induction bs arbitrary: a)
  case (Cons b bs)
  show ?case
    using Cons [of "a * 256 + unat b"] Cons [of "unat b"]
    by (simp add: be_nat_def algebra_simps)
qed (simp add: be_nat_def)

lemma be_nat_Nil [simp]: "be_nat [] = 0"
  by (simp add: be_nat_def)

lemma be_nat_Cons: "be_nat (b # bs) = unat b * 256 ^ length bs + be_nat bs"
  using be_acc_split [of "unat b" bs] by (simp add: be_nat_def)

lemma be_nat_append: "be_nat (xs @ ys) = be_nat xs * 256 ^ length ys + be_nat ys"
  using be_acc_split [of "be_nat xs" ys] by (simp add: be_nat_def)

lemma be_nat_zeros [simp]: "be_nat (replicate k 0 @ bs) = be_nat bs"
  by (induction k) (simp_all add: be_nat_Cons)

lemma length_nat_be [simp]: "length (nat_be k n) = k"
  by (induction k arbitrary: n) auto

lemma byte_bound: "unat (b :: byte) < 256"
  using unsigned_less [of b] by simp

lemma unat_of_nat_byte: "unat (of_nat (n mod 256) :: byte) = n mod 256"
  by (simp add: unat_of_nat)

lemma be_nat_bound: "be_nat bs < 256 ^ length bs"
proof (induction bs)
  case (Cons b bs)
  have "unat b * 256 ^ length bs + be_nat bs < (unat b + 1) * 256 ^ length bs"
    using Cons.IH by simp
  also have "\<dots> \<le> 256 * 256 ^ length bs"
    using byte_bound [of b] by (intro mult_right_mono) auto
  finally show ?case by (simp add: be_nat_Cons)
qed simp

lemma be_nat_nat_be [codec_simps]: "be_nat (nat_be k n) = n mod 256 ^ k"
proof (induction k arbitrary: n)
  case (Suc k)
  have "be_nat (nat_be (Suc k) n) = (n div 256 mod 256 ^ k) * 256 + n mod 256"
    using Suc.IH [of "n div 256"]
    by (simp add: be_nat_append be_nat_Cons unat_of_nat_byte)
  also have "\<dots> = n mod 256 ^ Suc k"
    using mod_mult2_eq [of n 256 "256 ^ k"] by (simp add: mult.commute)
  finally show ?case .
qed simp

lemma be_nat_snoc: "be_nat (bs @ [b]) = be_nat bs * 256 + unat b"
  by (simp add: be_nat_append be_nat_Cons)

lemma nat_be_be_nat [codec_simps]: "nat_be (length bs) (be_nat bs) = bs"
proof (induction bs rule: rev_induct)
  case (snoc b bs)
  have "be_nat (bs @ [b]) div 256 = be_nat bs" "be_nat (bs @ [b]) mod 256 = unat b"
    using byte_bound [of b] by (simp_all add: be_nat_snoc)
  with snoc show ?case by simp
qed simp

lemma nat_be_inj: "nat_be k m = nat_be k n \<Longrightarrow> m < 256 ^ k \<Longrightarrow> n < 256 ^ k \<Longrightarrow> m = n"
  by (metis be_nat_nat_be mod_less)

lemma be_nat_inj: "length xs = length ys \<Longrightarrow> be_nat xs = be_nat ys \<Longrightarrow> xs = ys"
  by (metis nat_be_be_nat)

lemma nat_be_pad: "n < 256 ^ k \<Longrightarrow> nat_be (m + k) n = replicate m 0 @ nat_be k n"
proof -
  assume n: "n < 256 ^ k"
  have "be_nat (replicate m 0 @ nat_be k n) = n" using n by (simp add: codec_simps)
  moreover have "n < 256 ^ (m + k)"
    using n by (rule less_le_trans) (simp add: power_increasing)
  then have "be_nat (nat_be (m + k) n) = n" by (simp add: be_nat_nat_be)
  ultimately show ?thesis by (intro be_nat_inj) simp_all
qed

lemma take_nat_be: "take i (nat_be (i + j) n) = nat_be i (n div 256 ^ j)"
proof (induction j arbitrary: n)
  case (Suc j)
  show ?case using Suc.IH [of "n div 256"] by (simp add: div_mult2_eq)
qed simp

lemma drop_nat_be: "drop i (nat_be (i + j) n) = nat_be j n"
proof (induction j arbitrary: n)
  case (Suc j)
  show ?case using Suc.IH [of "n div 256"] by simp
qed simp

lemma nat_be_numeral: "nat_be (numeral k) n = nat_be (pred_numeral k) (n div 256) @ [of_nat (n mod 256)]"
  by (subst numeral_eq_Suc) (rule nat_be.simps)

lemma unat_inj_iff [simp]: "unat a = unat b \<longleftrightarrow> a = b"
  by (rule word_unat_eq_iff [symmetric])

text \<open>A byte string literal.\<close>

definition ascii :: "string \<Rightarrow> bytes" where
  "ascii s = map of_char s"

lemma length_ascii [simp]: "length (ascii s) = length s"
  by (simp add: ascii_def)

text \<open>\<open>buffer[i..i + n].copy_from_slice(src)\<close> for a source of length \<open>n\<close>.\<close>

definition copy_at :: "nat \<Rightarrow> 'a list \<Rightarrow> 'a list \<Rightarrow> 'a list" where
  "copy_at i src buffer = take i buffer @ src @ drop (i + length src) buffer"

lemma length_copy_at [simp]: "i + length src \<le> length buf \<Longrightarrow> length (copy_at i src buf) = length buf"
  by (simp add: copy_at_def)

section \<open>Numerals in strings\<close>

text \<open>Reading and printing of unsigned numbers as the standard library does it: a digit is an ASCII
  letter or digit below the radix, an optional leading plus sign is accepted, and a value outside
  the range of the target type is an error.\<close>

definition ascii_digit :: "char \<Rightarrow> nat option" where
  "ascii_digit c =
    (let n = (of_char c :: nat) in
     if 48 \<le> n \<and> n \<le> 57 then Some (n - 48)
     else if 97 \<le> n \<and> n \<le> 122 then Some (n - 87)
     else if 65 \<le> n \<and> n \<le> 90 then Some (n - 55)
     else None)"

definition digit_of :: "nat \<Rightarrow> char \<Rightarrow> nat option" where
  "digit_of base c =
    (case ascii_digit c of Some d \<Rightarrow> if d < base then Some d else None | None \<Rightarrow> None)"

fun radix_acc :: "nat \<Rightarrow> nat \<Rightarrow> string \<Rightarrow> nat option" where
  "radix_acc base a [] = Some a"
| "radix_acc base a (c # cs) =
    (case digit_of base c of None \<Rightarrow> None | Some d \<Rightarrow> radix_acc base (a * base + d) cs)"

definition parse_digits :: "nat \<Rightarrow> string \<Rightarrow> nat option" where
  "parse_digits base s = (if s = [] then None else radix_acc base 0 s)"

definition parse_u64 :: "string \<Rightarrow> nat option" where
  "parse_u64 s =
    (let ds = (case s of c # d # r \<Rightarrow> if c = CHR ''+'' then d # r else s | _ \<Rightarrow> s) in
     case parse_digits 10 ds of Some n \<Rightarrow> if n < 2 ^ 64 then Some n else None | None \<Rightarrow> None)"

definition dec_digit :: "nat \<Rightarrow> char" where
  "dec_digit d = char_of (48 + d)"

fun show_dec :: "nat \<Rightarrow> string" where
  "show_dec n = (if n < 10 then [dec_digit n] else show_dec (n div 10) @ [dec_digit (n mod 10)])"

declare show_dec.simps [simp del]

lemma digit_of_dec_digit [simp]: "d < 10 \<Longrightarrow> digit_of 10 (dec_digit d) = Some d"
  by (simp add: digit_of_def ascii_digit_def dec_digit_def)

lemma radix_acc_append:
  "radix_acc base a (xs @ ys) = (case radix_acc base a xs of None \<Rightarrow> None | Some b \<Rightarrow> radix_acc base b ys)"
  by (induction base a xs rule: radix_acc.induct) (auto split: option.splits)

lemma radix_acc_show_dec [codec_simps]: "radix_acc 10 0 (show_dec n) = Some n"
proof (induction n rule: show_dec.induct)
  case (1 n)
  then show ?case by (simp add: show_dec.simps [of n] radix_acc_append)
qed

lemma show_dec_not_Nil [simp]: "show_dec n \<noteq> []"
  by (simp add: show_dec.simps [of n])

lemma show_dec_digits: "c \<in> set (show_dec n) \<Longrightarrow> \<exists>d < 10. c = dec_digit d"
proof (induction n rule: show_dec.induct)
  case (1 n)
  have "\<exists>d < 10. dec_digit (n mod 10) = dec_digit d" by (rule exI [of _ "n mod 10"]) simp
  with 1 show ?case by (auto simp: show_dec.simps [of n] split: if_splits)
qed

lemma dec_digit_code: "d < 10 \<Longrightarrow> (of_char (dec_digit d) :: nat) = 48 + d"
  by (simp add: dec_digit_def)

lemma show_dec_no_char:
  "(of_char c :: nat) < 48 \<or> 57 < (of_char c :: nat) \<Longrightarrow> c \<notin> set (show_dec n)"
  using show_dec_digits [of c n] dec_digit_code by fastforce

lemma parse_u64_show_dec [codec_simps]: "n < 2 ^ 64 \<Longrightarrow> parse_u64 (show_dec n) = Some n"
proof -
  assume n: "n < 2 ^ 64"
  have plus: "CHR ''+'' \<notin> set (show_dec n)" by (rule show_dec_no_char) simp
  then have "(case show_dec n of c # d # r \<Rightarrow> if c = CHR ''+'' then d # r else show_dec n
      | _ \<Rightarrow> show_dec n) = show_dec n"
    by (auto split: list.splits)
  with n show ?thesis by (simp add: parse_u64_def parse_digits_def radix_acc_show_dec)
qed

section \<open>Iterator adaptors\<close>

text \<open>\<open>slice.chunks(n)\<close>: consecutive pieces of length \<open>n\<close>, the last one possibly shorter.\<close>

function chunks :: "nat \<Rightarrow> 'a list \<Rightarrow> 'a list list" where
  "chunks n xs = (if n = 0 \<or> xs = [] then [] else take n xs # chunks n (drop n xs))"
  by auto
termination by (relation "measure (\<lambda>(n, xs). length xs)") auto

declare chunks.simps [simp del]

lemma chunks_Nil [simp]: "chunks n [] = []"
  by (simp add: chunks.simps)

lemma chunks_short: "xs \<noteq> [] \<Longrightarrow> length xs \<le> n \<Longrightarrow> chunks n xs = [xs]"
proof -
  assume "xs \<noteq> []" "length xs \<le> n"
  moreover then have "n \<noteq> 0" by (cases xs) auto
  ultimately show ?thesis by (simp add: chunks.simps [of n xs])
qed

lemma concat_chunks [simp]: "0 < n \<Longrightarrow> concat (chunks n xs) = xs"
proof (induction n xs rule: chunks.induct)
  case (1 n xs)
  then show ?case by (simp add: chunks.simps [of n xs])
qed

lemma chunks_length: "c \<in> set (chunks n xs) \<Longrightarrow> length c \<le> n \<and> c \<noteq> []"
proof (induction n xs rule: chunks.induct)
  case (1 n xs)
  show ?case
  proof (cases "n = 0 \<or> xs = []")
    case True
    then show ?thesis using 1(2) by (simp add: chunks.simps [of n xs])
  next
    case False
    then show ?thesis using 1 by (auto simp: chunks.simps [of n xs])
  qed
qed

lemma replicate_numeral_unfold: "replicate (numeral k) x = x # replicate (pred_numeral k) x"
  by (simp add: numeral_eq_Suc)

text \<open>\<open>iter().enumerate()\<close> counts from zero.\<close>

definition enumerated :: "'a list \<Rightarrow> (nat \<times> 'a) list" where
  "enumerated xs = zip [0..<length xs] xs"

lemma length_enumerated [simp]: "length (enumerated xs) = length xs"
  by (simp add: enumerated_def)

lemma enumerated_nth: "i < length xs \<Longrightarrow> enumerated xs ! i = (i, xs ! i)"
  by (simp add: enumerated_def)

lemma map_snd_enumerated [simp]: "map snd (enumerated xs) = xs"
  by (simp add: enumerated_def)

lemma map_fst_enumerated [simp]: "map fst (enumerated xs) = [0..<length xs]"
  by (simp add: enumerated_def)

section \<open>Key/value stores\<close>

text \<open>A loop of \<open>insert(k, v)\<close> over a list of pairs; later pairs win.\<close>

primrec insert_all :: "('k \<rightharpoonup> 'v) \<Rightarrow> ('k \<times> 'v) list \<Rightarrow> ('k \<rightharpoonup> 'v)" where
  "insert_all m [] = m"
| "insert_all m (kv # kvs) = insert_all (m(fst kv \<mapsto> snd kv)) kvs"

lemma insert_all_map_of [store_simps]: "insert_all m kvs = m ++ map_of (rev kvs)"
  by (induction kvs arbitrary: m) (auto simp: map_add_upd_left fun_eq_iff map_add_def split: option.splits)

lemma insert_all_append [simp]: "insert_all m (xs @ ys) = insert_all (insert_all m xs) ys"
  by (induction xs arbitrary: m) auto

lemma insert_all_notin: "k \<notin> fst ` set kvs \<Longrightarrow> insert_all m kvs k = m k"
  by (induction kvs arbitrary: m) auto

lemma insert_all_distinct:
  "distinct (map fst kvs) \<Longrightarrow> (k, v) \<in> set kvs \<Longrightarrow> insert_all m kvs k = Some v"
proof (induction kvs arbitrary: m)
  case (Cons kv kvs)
  then show ?case by (cases kv) (force simp: insert_all_notin)
qed simp

lemma dom_insert_all: "dom (insert_all m kvs) = dom m \<union> fst ` set kvs"
  by (induction kvs arbitrary: m) auto

section \<open>Saturating machine arithmetic\<close>

definition saturating_add :: "'w::len word \<Rightarrow> 'w word \<Rightarrow> 'w word" where
  "saturating_add a b = (if unat a + unat b < 2 ^ LENGTH('w) then a + b else - 1)"

definition saturating_sub :: "'w::len word \<Rightarrow> 'w word \<Rightarrow> 'w word" where
  "saturating_sub a b = (if unat b \<le> unat a then a - b else 0)"

definition saturating_mul :: "'w::len word \<Rightarrow> 'w word \<Rightarrow> 'w word" where
  "saturating_mul a b = (if unat a * unat b < 2 ^ LENGTH('w) then a * b else - 1)"

lemma unat_saturating_add:
  "unat (saturating_add a (b :: 'w::len word)) = min (unat a + unat b) (2 ^ LENGTH('w) - 1)"
proof (cases "unat a + unat b < 2 ^ LENGTH('w)")
  case True
  then show ?thesis by (simp add: saturating_add_def unat_word_ariths)
next
  case False
  then show ?thesis by (simp add: saturating_add_def unsigned_minus_1_eq_mask mask_eq_exp_minus_1)
qed

lemma unat_saturating_sub: "unat (saturating_sub a (b :: 'w::len word)) = unat a - unat b"
  by (simp add: saturating_sub_def unat_sub word_le_nat_alt)

lemma unat_saturating_mul:
  "unat (saturating_mul a (b :: 'w::len word)) = min (unat a * unat b) (2 ^ LENGTH('w) - 1)"
proof (cases "unat a * unat b < 2 ^ LENGTH('w)")
  case True
  then show ?thesis by (simp add: saturating_mul_def unat_word_ariths)
next
  case False
  then show ?thesis by (simp add: saturating_mul_def unsigned_minus_1_eq_mask mask_eq_exp_minus_1)
qed

end
