(* ===== verification/Felt.thy ===== *)
theory Felt
  imports Prelude
begin

text \<open>
  The field element crate, \<open>crates/primitives/felt\<close>: the wrapper \<open>Felt252Wrapper\<close> around
  \<open>starknet_ff::FieldElement\<close> and its conversions to and from byte arrays, slices, machine
  integers, \<open>U256\<close>, \<open>H256\<close>, the field element types of the other Starknet crates, and SCALE.

  A field element is a natural number below the Stark prime.  The byte and integer codecs of the
  third-party crates are the fields of \<open>felt_lib\<close>, an argument of every conversion that calls them;
  the locale \<open>felt_codec\<close> states what their documentation promises.
  \<open>Felt252Wrapper\<close> is a transparent wrapper, so it is modelled by the wrapped element;
  the last section shows that the conversions between the field element types of the four crates
  never panic and keep the element, which is why the other theories write them as identities.
\<close>

section \<open>Field elements\<close>

definition STARK_PRIME :: nat where
  "STARK_PRIME = 2 ^ 251 + 17 * 2 ^ 192 + 1"

lemma STARK_PRIME_pos [simp]: "0 < STARK_PRIME"
  by (simp add: STARK_PRIME_def)

lemma STARK_PRIME_gt_1 [simp]: "Suc 0 < STARK_PRIME" "STARK_PRIME \<noteq> Suc 0"
  by (simp_all add: STARK_PRIME_def)

typedef felt = "{n :: nat. n < STARK_PRIME}" morphisms felt_nat Abs_felt
  by (rule exI [of _ 0]) simp

definition felt_of_nat :: "nat \<Rightarrow> felt" where
  "felt_of_nat n = Abs_felt (n mod STARK_PRIME)"

lemma felt_nat_lt [simp]: "felt_nat f < STARK_PRIME"
  using felt_nat [of f] by simp

lemma felt_nat_of_nat [simp]: "felt_nat (felt_of_nat n) = n mod STARK_PRIME"
  by (simp add: felt_of_nat_def Abs_felt_inverse)

lemma felt_of_nat_nat [simp]: "felt_of_nat (felt_nat f) = f"
  by (simp add: felt_of_nat_def felt_nat_inverse)

lemma felt_eq_iff: "f = g \<longleftrightarrow> felt_nat f = felt_nat g"
  by (simp add: felt_nat_inject)

lemma felt_of_nat_eq_iff [simp]:
  "felt_of_nat m = felt_of_nat n \<longleftrightarrow> m mod STARK_PRIME = n mod STARK_PRIME"
  by (simp add: felt_eq_iff)

instantiation felt :: "{zero, one, plus}"
begin
definition zero_felt :: felt where "0 = felt_of_nat 0"
definition one_felt :: felt where "1 = felt_of_nat 1"
definition plus_felt :: "felt \<Rightarrow> felt \<Rightarrow> felt" where
  "f + g = felt_of_nat (felt_nat f + felt_nat g)"
instance ..
end

instantiation felt :: equal
begin
definition equal_felt :: "felt \<Rightarrow> felt \<Rightarrow> bool" where
  "HOL.equal f g \<longleftrightarrow> felt_nat f = felt_nat g"
instance by standard (simp add: equal_felt_def felt_eq_iff)
end

instantiation felt :: linorder
begin
definition less_eq_felt :: "felt \<Rightarrow> felt \<Rightarrow> bool" where
  "f \<le> g \<longleftrightarrow> felt_nat f \<le> felt_nat g"
definition less_felt :: "felt \<Rightarrow> felt \<Rightarrow> bool" where
  "f < g \<longleftrightarrow> felt_nat f < felt_nat g"
instance by standard (auto simp: less_eq_felt_def less_felt_def felt_eq_iff)
end

lemma felt_nat_zero [simp]: "felt_nat 0 = 0"
  by (simp add: zero_felt_def)

lemma felt_nat_one [simp]: "felt_nat 1 = 1"
  by (simp add: one_felt_def mod_less)

lemma felt_nat_plus: "felt_nat (f + g) = (felt_nat f + felt_nat g) mod STARK_PRIME"
  by (simp add: plus_felt_def)

lemma felt_plus_cancel: "(f :: felt) + g = f' + g \<Longrightarrow> f = f'"
proof -
  assume "f + g = f' + g"
  then have "(felt_nat f + felt_nat g) mod STARK_PRIME = (felt_nat f' + felt_nat g) mod STARK_PRIME"
    by (simp add: felt_eq_iff felt_nat_plus)
  then have "int (felt_nat f) mod int STARK_PRIME = int (felt_nat f') mod int STARK_PRIME"
    by (metis add_diff_cancel_right' mod_diff_left_eq of_nat_add zmod_int)
  then have "felt_nat f mod STARK_PRIME = felt_nat f' mod STARK_PRIME"
    by (metis of_nat_eq_iff zmod_int)
  then show "f = f'" by (simp add: felt_eq_iff)
qed

instance felt :: comm_monoid_add
proof
  show "f + g + h = f + (g + h)" for f g h :: felt
    by (simp add: felt_eq_iff felt_nat_plus mod_add_left_eq mod_add_right_eq add.assoc)
  show "f + g = g + f" for f g :: felt
    by (simp add: felt_eq_iff felt_nat_plus add.commute)
  show "0 + f = f" for f :: felt
    by (simp add: felt_eq_iff felt_nat_plus)
qed

instance felt :: numeral ..

lemma felt_nat_numeral: "felt_nat (numeral w) = numeral w mod STARK_PRIME"
proof (induction w)
  case One
  then show ?case by simp
next
  case (Bit0 w)
  have "numeral (num.Bit0 w) = (numeral w + numeral w :: felt)" by (rule numeral.simps)
  with Bit0 show ?case by (simp only: felt_nat_plus mod_add_eq numeral.simps)
next
  case (Bit1 w)
  have "numeral (num.Bit1 w) = (numeral w + numeral w + 1 :: felt)" by (rule numeral.simps)
  with Bit1 show ?case
    by (simp only: felt_nat_plus felt_nat_one numeral.simps) (metis mod_add_eq mod_add_left_eq)
qed

lemma felt_of_nat_numeral: "felt_of_nat (numeral w) = numeral w"
  by (simp add: felt_eq_iff felt_nat_numeral)

text \<open>Everything encoded on at most 31 bytes is below the prime, and so is every \<open>u128\<close>.\<close>

lemma bytes31_lt_prime: "256 ^ 31 \<le> STARK_PRIME"
  by (simp add: STARK_PRIME_def)

lemma prime_lt_bytes32: "STARK_PRIME < 256 ^ 32"
  by (simp add: STARK_PRIME_def)

lemma felt_nat_lt_bytes32 [simp]: "felt_nat f < 256 ^ 32"
  using felt_nat_lt [of f] prime_lt_bytes32 by linarith

lemma felt_nat_mod_bytes32 [simp]: "felt_nat f mod 256 ^ 32 = felt_nat f"
  by (rule mod_less) (rule felt_nat_lt_bytes32)

lemma short_bytes_lt_prime: "length bs \<le> 31 \<Longrightarrow> be_nat bs < STARK_PRIME"
proof -
  assume "length bs \<le> 31"
  then have "(256 :: nat) ^ length bs \<le> 256 ^ 31" by (rule power_increasing) simp
  with be_nat_bound [of bs] bytes31_lt_prime show ?thesis by linarith
qed

lemma u128_lt_prime: "unat (w :: 128 word) < STARK_PRIME"
proof -
  have "unat w < 2 ^ 128" using unsigned_less [of w] by simp
  then show ?thesis by (simp add: STARK_PRIME_def)
qed

lemma u128_mod_prime [simp]: "unat (w :: 128 word) mod STARK_PRIME = unat w"
  by (rule mod_less) (rule u128_lt_prime)

lemma u64_lt_prime: "unat (w :: 64 word) < STARK_PRIME"
proof -
  have "unat w < 2 ^ 64" using unsigned_less [of w] by simp
  then show ?thesis by (simp add: STARK_PRIME_def)
qed

lemma u64_mod_prime [simp]: "unat (w :: 64 word) mod STARK_PRIME = unat w"
  by (rule mod_less) (rule u64_lt_prime)

text \<open>The Montgomery radix \<open>2 ^ 256\<close> is invertible modulo the prime.\<close>

definition MONT_R_INV :: nat where
  "MONT_R_INV = 113078212145816603762751633895895194930089271709401121343797004406777446400"

lemma mont_inverse: "2 ^ 256 * MONT_R_INV mod STARK_PRIME = 1"
  by (simp add: MONT_R_INV_def STARK_PRIME_def)

lemma mont_unique:
  "x * 2 ^ 256 mod STARK_PRIME = m \<Longrightarrow> x mod STARK_PRIME = m * MONT_R_INV mod STARK_PRIME"
proof -
  assume "x * 2 ^ 256 mod STARK_PRIME = m"
  then have "m * MONT_R_INV mod STARK_PRIME = x * (2 ^ 256 * MONT_R_INV) mod STARK_PRIME"
    by (metis mod_mult_left_eq mult.assoc)
  also have "\<dots> = x mod STARK_PRIME"
    by (metis mod_mult_right_eq mont_inverse nat_mult_1_right)
  finally show ?thesis by simp
qed

lemma mont_back: "n * MONT_R_INV mod STARK_PRIME * 2 ^ 256 mod STARK_PRIME = n mod STARK_PRIME"
  by (metis (no_types, lifting) mod_mult_left_eq mod_mult_right_eq mont_inverse mult.assoc
      mult.commute nat_mult_1_right)

section \<open>Errors\<close>

datatype felt252_wrapper_error =
  FromArrayError | InvalidLength | InvalidCharacter | OutOfRange | ValueTooLarge

datatype from_byte_slice_error = SliceInvalidLength | SliceOutOfRange
datatype from_str_error = StrInvalidCharacter | StrOutOfRange

primrec error_of_str_error :: "from_str_error \<Rightarrow> felt252_wrapper_error" where
  "error_of_str_error StrInvalidCharacter = InvalidCharacter"
| "error_of_str_error StrOutOfRange = OutOfRange"

primrec error_message :: "felt252_wrapper_error \<Rightarrow> string" where
  "error_message FromArrayError = ''input array invalid''"
| "error_message InvalidCharacter = ''invalid character''"
| "error_message OutOfRange = ''number out of range''"
| "error_message InvalidLength = ''invalid length''"
| "error_message ValueTooLarge = ''felt252 value too large''"

section \<open>The codecs of the field element crates\<close>

text \<open>The value of little-endian 64-bit limbs, as \<open>FieldElement::from_mont\<close> takes them.\<close>

primrec limbs_nat :: "64 word list \<Rightarrow> nat" where
  "limbs_nat [] = 0"
| "limbs_nat (l # ls) = unat l + 2 ^ 64 * limbs_nat ls"

text \<open>\<open>fe\<close>: \<open>starknet_ff::FieldElement\<close>; \<open>u256\<close>: \<open>sp_core::U256\<close>; \<open>core\<close>:
  \<open>starknet_types_core::Felt\<close>; \<open>cairo\<close>: \<open>cairo_vm::Felt252\<close>; \<open>stark\<close>: \<open>starknet_api::StarkFelt\<close>;
  \<open>patricia\<close>: \<open>starknet_api::PatriciaKey\<close>, a field element below \<open>2 ^ 251\<close>.\<close>

record felt_lib =
  fe_to_bytes_be :: "felt \<Rightarrow> bytes"
  fe_from_bytes_be :: "bytes \<Rightarrow> felt option"
  fe_from_byte_slice_be :: "bytes \<Rightarrow> (from_byte_slice_error, felt) res"
  fe_from_hex_be :: "string \<Rightarrow> (from_str_error, felt) res"
  fe_from_dec_str :: "string \<Rightarrow> (from_str_error, felt) res"
  fe_from_mont :: "64 word list \<Rightarrow> felt"
  fe_from_u128 :: "128 word \<Rightarrow> felt"
  fe_from_u64 :: "64 word \<Rightarrow> felt"
  fe_from_u32 :: "32 word \<Rightarrow> felt"
  fe_from_u8 :: "8 word \<Rightarrow> felt"
  fe_from_eth :: "bytes \<Rightarrow> felt"
  fe_to_u64 :: "felt \<Rightarrow> 64 word option"
  fe_to_u128 :: "felt \<Rightarrow> 128 word option"
  u256_to_be :: "256 word \<Rightarrow> bytes"
  u256_from_be :: "bytes \<Rightarrow> 256 word"
  core_to_bytes_be :: "felt \<Rightarrow> bytes"
  core_from_bytes_be :: "bytes \<Rightarrow> felt"
  cairo_to_be_bytes :: "felt \<Rightarrow> bytes"
  cairo_from_bytes_be :: "bytes \<Rightarrow> felt"
  stark_bytes :: "felt \<Rightarrow> bytes"
  stark_new :: "bytes \<Rightarrow> felt option"
  patricia_try_from :: "felt \<Rightarrow> felt option"

section \<open>Conversions of the wrapper\<close>

definition ZERO :: felt where "ZERO = 0"
definition ONE :: felt where "ONE = 1"
definition TWO :: felt where "TWO = felt_of_nat 2"
definition THREE :: felt where "THREE = felt_of_nat 3"
definition FELT_MAX :: felt where "FELT_MAX = felt_of_nat (2 ^ 251 + 17 * 2 ^ 192)"

definition from_hex_be :: "felt_lib \<Rightarrow> string \<Rightarrow> (felt252_wrapper_error, felt) res" where
  "from_hex_be L value = map_err error_of_str_error (fe_from_hex_be L value)"

definition from_dec_str :: "felt_lib \<Rightarrow> string \<Rightarrow> (felt252_wrapper_error, felt) res" where
  "from_dec_str L value = map_err error_of_str_error (fe_from_dec_str L value)"

text \<open>\<open>str::from_utf8\<close> of the standard library: the well-formed UTF-8 byte sequences.\<close>

definition in_range :: "nat \<Rightarrow> nat \<Rightarrow> byte \<Rightarrow> bool" where
  "in_range lo hi b \<longleftrightarrow> lo \<le> unat b \<and> unat b \<le> hi"

definition utf8_second3 :: "byte \<Rightarrow> byte \<Rightarrow> bool" where
  "utf8_second3 b c \<longleftrightarrow>
     (unat b = 224 \<and> in_range 160 191 c) \<or> (in_range 225 236 b \<and> in_range 128 191 c) \<or>
     (unat b = 237 \<and> in_range 128 159 c) \<or> (in_range 238 239 b \<and> in_range 128 191 c)"

definition utf8_second4 :: "byte \<Rightarrow> byte \<Rightarrow> bool" where
  "utf8_second4 b c \<longleftrightarrow>
     (unat b = 240 \<and> in_range 144 191 c) \<or> (in_range 241 243 b \<and> in_range 128 191 c) \<or>
     (unat b = 244 \<and> in_range 128 143 c)"

fun utf8_valid :: "bytes \<Rightarrow> bool" where
  "utf8_valid [] = True"
| "utf8_valid (b # bs) =
    (if unat b < 128 then utf8_valid bs
     else if in_range 194 223 b then
       (case bs of c # r \<Rightarrow> in_range 128 191 c \<and> utf8_valid r | _ \<Rightarrow> False)
     else if in_range 224 239 b then
       (case bs of c # d # r \<Rightarrow> utf8_second3 b c \<and> in_range 128 191 d \<and> utf8_valid r | _ \<Rightarrow> False)
     else
       (case bs of c # d # e # r \<Rightarrow>
          utf8_second4 b c \<and> in_range 128 191 d \<and> in_range 128 191 e \<and> utf8_valid r
        | _ \<Rightarrow> False))"

text \<open>A Rust \<open>String\<close> is its UTF-8 byte sequence; \<open>trim_start_matches\<close> drops the leading NULs.\<close>

definition from_utf8 :: "felt_lib \<Rightarrow> felt \<Rightarrow> (felt252_wrapper_error, bytes) res" where
  "from_utf8 L f =
    (let bs = fe_to_bytes_be L f in
     if utf8_valid bs then Ok (dropWhile (\<lambda>b. b = 0) bs) else Err InvalidCharacter)"

definition into_bytes32 :: "felt_lib \<Rightarrow> felt \<Rightarrow> bytes" where
  "into_bytes32 L f = fe_to_bytes_be L f"

definition try_from_bytes32 :: "felt_lib \<Rightarrow> bytes \<Rightarrow> (felt252_wrapper_error, felt) res" where
  "try_from_bytes32 L bs =
    (case fe_from_bytes_be L bs of Some ff \<Rightarrow> Ok ff | None \<Rightarrow> Err FromArrayError)"

definition try_from_slice :: "felt_lib \<Rightarrow> bytes \<Rightarrow> (felt252_wrapper_error, felt) res" where
  "try_from_slice L bs =
    (case fe_from_byte_slice_be L bs of
       Ok ff \<Rightarrow> Ok ff
     | Err SliceInvalidLength \<Rightarrow> Err InvalidLength
     | Err SliceOutOfRange \<Rightarrow> Err OutOfRange
     | Panic \<Rightarrow> Panic)"

definition from_eth_address :: "felt_lib \<Rightarrow> bytes \<Rightarrow> felt" where
  "from_eth_address L a = fe_from_eth L a"

definition from_u64 :: "felt_lib \<Rightarrow> 64 word \<Rightarrow> felt" where
  "from_u64 L v = fe_from_u64 L v"

definition from_u32 :: "felt_lib \<Rightarrow> 32 word \<Rightarrow> felt" where
  "from_u32 L v = fe_from_u32 L v"

definition from_u8 :: "felt_lib \<Rightarrow> 8 word \<Rightarrow> felt" where
  "from_u8 L v = fe_from_u8 L v"

definition try_from_u256 :: "felt_lib \<Rightarrow> 256 word \<Rightarrow> (felt252_wrapper_error, felt) res" where
  "try_from_u256 L u = try_from_bytes32 L (u256_to_be L u)"

text \<open>\<open>U256::from(u128)\<close> keeps the value.\<close>

definition from_u128 :: "felt_lib \<Rightarrow> 128 word \<Rightarrow> ('e, felt) res" where
  "from_u128 L v = unwrap (try_from_u256 L (ucast v))"

definition try_into_u64 :: "felt_lib \<Rightarrow> felt \<Rightarrow> (felt252_wrapper_error, 64 word) res" where
  "try_into_u64 L f = ok_or ValueTooLarge (fe_to_u64 L f)"

definition try_into_u128 :: "felt_lib \<Rightarrow> felt \<Rightarrow> (felt252_wrapper_error, 128 word) res" where
  "try_into_u128 L f = ok_or ValueTooLarge (fe_to_u128 L f)"

definition into_u256 :: "felt_lib \<Rightarrow> felt \<Rightarrow> 256 word" where
  "into_u256 L f = u256_from_be L (fe_to_bytes_be L f)"

text \<open>An \<open>H256\<close> is an array of 32 bytes; \<open>H256::from_slice\<close> panics on another length.\<close>

definition try_from_h256 :: "felt_lib \<Rightarrow> bytes \<Rightarrow> (felt252_wrapper_error, felt) res" where
  "try_from_h256 L h = try_from_slice L h"

definition into_h256 :: "felt_lib \<Rightarrow> felt \<Rightarrow> ('e, bytes) res" where
  "into_h256 L f =
    (let buf = into_bytes32 L f in if length buf = 32 then Ok buf else Panic)"

definition from_core_felt :: "felt_lib \<Rightarrow> felt \<Rightarrow> ('e, felt) res" where
  "from_core_felt L v = unwrap (try_from_bytes32 L (core_to_bytes_be L v))"

definition into_core_felt :: "felt_lib \<Rightarrow> felt \<Rightarrow> felt" where
  "into_core_felt L v = core_from_bytes_be L (fe_to_bytes_be L v)"

definition from_cairo_felt :: "felt_lib \<Rightarrow> felt \<Rightarrow> ('e, felt) res" where
  "from_cairo_felt L v = unwrap (try_from_bytes32 L (cairo_to_be_bytes L v))"

definition into_cairo_felt :: "felt_lib \<Rightarrow> felt \<Rightarrow> felt" where
  "into_cairo_felt L f = cairo_from_bytes_be L (into_bytes32 L f)"

definition from_stark_felt :: "felt_lib \<Rightarrow> felt \<Rightarrow> ('e, felt) res" where
  "from_stark_felt L v = unwrap (try_from_slice L (stark_bytes L v))"

definition into_stark_felt :: "felt_lib \<Rightarrow> felt \<Rightarrow> ('e, felt) res" where
  "into_stark_felt L f = unwrap_opt (stark_new L (into_bytes32 L f))"

text \<open>SCALE: 32 big-endian bytes; decoding consumes them from the input.\<close>

datatype scale_error = NotEnoughData | CantGetFieldElement bytes felt252_wrapper_error

definition encode :: "felt_lib \<Rightarrow> felt \<Rightarrow> bytes" where
  "encode L f = fe_to_bytes_be L f"

definition max_encoded_len :: nat where
  "max_encoded_len = 32"

definition decode :: "felt_lib \<Rightarrow> bytes \<Rightarrow> (scale_error, felt \<times> bytes) res" where
  "decode L input =
    (if length input < 32 then Err NotEnoughData
     else let buf = take 32 input in
       (case try_from_bytes32 L buf of
          Ok f \<Rightarrow> Ok (f, drop 32 input)
        | Err e \<Rightarrow> Err (CantGetFieldElement buf e)
        | Panic \<Rightarrow> Panic))"

section \<open>What the codecs promise\<close>

lemma be_felt: "be_nat (nat_be 32 (felt_nat f)) = felt_nat f"
  by (simp add: be_nat_nat_be del: power_numeral)

locale felt_codec =
  fixes L :: felt_lib
  assumes fe_to_bytes_be [simp]: "fe_to_bytes_be L f = nat_be 32 (felt_nat f)"
    and fe_from_bytes_be: "length bs = 32 \<Longrightarrow>
      fe_from_bytes_be L bs = (if be_nat bs < STARK_PRIME then Some (felt_of_nat (be_nat bs)) else None)"
    and fe_from_byte_slice_be: "fe_from_byte_slice_be L bs =
      (if 32 < length bs then Err SliceInvalidLength
       else if be_nat bs < STARK_PRIME then Ok (felt_of_nat (be_nat bs)) else Err SliceOutOfRange)"
    and fe_from_mont: "length ls = 4 \<Longrightarrow> limbs_nat ls < STARK_PRIME \<Longrightarrow>
      felt_nat (fe_from_mont L ls) * 2 ^ 256 mod STARK_PRIME = limbs_nat ls"
    and fe_from_u128 [simp]: "fe_from_u128 L v = felt_of_nat (unat v)"
    and fe_from_u64 [simp]: "fe_from_u64 L w = felt_of_nat (unat w)"
    and fe_from_u32 [simp]: "fe_from_u32 L w' = felt_of_nat (unat w')"
    and fe_from_u8 [simp]: "fe_from_u8 L b = felt_of_nat (unat b)"
    and fe_to_u64 [simp]: "fe_to_u64 L f =
      (if felt_nat f < 2 ^ 64 then Some (of_nat (felt_nat f)) else None)"
    and fe_to_u128 [simp]: "fe_to_u128 L f =
      (if felt_nat f < 2 ^ 128 then Some (of_nat (felt_nat f)) else None)"
    and u256_to_be [simp]: "u256_to_be L u = nat_be 32 (unat u)"
    and u256_from_be [simp]: "u256_from_be L bs = of_nat (be_nat bs)"
    and core_to_bytes_be [simp]: "core_to_bytes_be L f = nat_be 32 (felt_nat f)"
    and core_from_bytes_be [simp]: "core_from_bytes_be L bs = felt_of_nat (be_nat bs)"
    and cairo_to_be_bytes [simp]: "cairo_to_be_bytes L f = nat_be 32 (felt_nat f)"
    and cairo_from_bytes_be [simp]: "cairo_from_bytes_be L bs = felt_of_nat (be_nat bs)"
    and stark_bytes [simp]: "stark_bytes L f = nat_be 32 (felt_nat f)"
    and stark_new: "length bs = 32 \<Longrightarrow> be_nat bs < STARK_PRIME \<Longrightarrow> stark_new L bs = Some (felt_of_nat (be_nat bs))"
    and stark_new_big: "length bs = 32 \<Longrightarrow> 2 ^ 252 \<le> be_nat bs \<Longrightarrow> stark_new L bs = None"
    and patricia_try_from [simp]: "patricia_try_from L f = (if felt_nat f < 2 ^ 251 then Some f else None)"
begin

lemma bytes32_accept:
  "length bs = 32 \<Longrightarrow> try_from_bytes32 L bs =
     (if be_nat bs < STARK_PRIME then Ok (felt_of_nat (be_nat bs)) else Err FromArrayError)"
  by (simp add: try_from_bytes32_def fe_from_bytes_be)

lemma slice_accept:
  "try_from_slice L bs =
     (if 32 < length bs then Err InvalidLength
      else if be_nat bs < STARK_PRIME then Ok (felt_of_nat (be_nat bs)) else Err OutOfRange)"
  by (simp add: try_from_slice_def fe_from_byte_slice_be)

lemma bytes32_roundtrip [simp]: "try_from_bytes32 L (nat_be 32 (felt_nat f)) = Ok f"
  by (simp add: bytes32_accept be_nat_nat_be del: power_numeral)

lemma slice_roundtrip [simp]: "try_from_slice L (nat_be 32 (felt_nat f)) = Ok f"
  by (simp add: slice_accept be_nat_nat_be del: power_numeral)

lemma u256_accept:
  "try_from_u256 L u =
     (if unat u < STARK_PRIME then Ok (felt_of_nat (unat u)) else Err FromArrayError)"
proof -
  have "unat u < 256 ^ 32" using unsigned_less [of u] by simp
  then have "be_nat (nat_be 32 (unat u)) = unat u" by (simp add: be_nat_nat_be del: power_numeral)
  then show ?thesis by (simp add: try_from_u256_def bytes32_accept)
qed

lemma u128_embeds: "from_u128 L v = Ok (felt_of_nat (unat v))"
proof -
  have "unat (ucast v :: 256 word) = unat v"
    using unsigned_less [of v, where ?'a = nat]
    by (simp add: unsigned_ucast_eq take_bit_nat_eq_self_iff)
  then show ?thesis using u128_lt_prime [of v] by (simp add: from_u128_def u256_accept)
qed

lemma mont_value:
  assumes "length ls = 4" "limbs_nat ls < STARK_PRIME" "n < STARK_PRIME"
    "limbs_nat ls * MONT_R_INV mod STARK_PRIME = n"
  shows "fe_from_mont L ls = felt_of_nat n"
  using mont_unique [OF fe_from_mont [OF assms(1,2)]] assms(3,4)
  by (simp add: felt_eq_iff)

lemma u256_value: "unat (into_u256 L f) = felt_nat f"
proof -
  have "felt_nat f < 2 ^ 256" using felt_nat_lt [of f] by (simp add: STARK_PRIME_def)
  then show ?thesis
    by (simp add: into_u256_def be_nat_nat_be unat_of_nat del: power_numeral)
qed

end

text \<open>A direct implementation of the documented codecs.\<close>

definition ref_from_digits :: "nat \<Rightarrow> string \<Rightarrow> (from_str_error, felt) res" where
  "ref_from_digits base s =
    (case parse_digits base s of
       None \<Rightarrow> Err StrInvalidCharacter
     | Some n \<Rightarrow> if n < STARK_PRIME then Ok (felt_of_nat n) else Err StrOutOfRange)"

definition ref_from_be :: "bytes \<Rightarrow> felt option" where
  "ref_from_be bs = (if be_nat bs < STARK_PRIME then Some (felt_of_nat (be_nat bs)) else None)"

definition ref_felt_lib :: felt_lib where
  "ref_felt_lib =
    \<lparr> fe_to_bytes_be = (\<lambda>f. nat_be 32 (felt_nat f)),
      fe_from_bytes_be = ref_from_be,
      fe_from_byte_slice_be = (\<lambda>bs. if 32 < length bs then Err SliceInvalidLength
        else case ref_from_be bs of Some f \<Rightarrow> Ok f | None \<Rightarrow> Err SliceOutOfRange),
      fe_from_hex_be = (\<lambda>s. ref_from_digits 16 (if take 2 s = ''0x'' then drop 2 s else s)),
      fe_from_dec_str = ref_from_digits 10,
      fe_from_mont = (\<lambda>ls. felt_of_nat (limbs_nat ls * MONT_R_INV)),
      fe_from_u128 = (\<lambda>w. felt_of_nat (unat w)),
      fe_from_u64 = (\<lambda>w. felt_of_nat (unat w)),
      fe_from_u32 = (\<lambda>w. felt_of_nat (unat w)),
      fe_from_u8 = (\<lambda>w. felt_of_nat (unat w)),
      fe_from_eth = (\<lambda>a. felt_of_nat (be_nat a)),
      fe_to_u64 = (\<lambda>f. if felt_nat f < 2 ^ 64 then Some (of_nat (felt_nat f)) else None),
      fe_to_u128 = (\<lambda>f. if felt_nat f < 2 ^ 128 then Some (of_nat (felt_nat f)) else None),
      u256_to_be = (\<lambda>u. nat_be 32 (unat u)),
      u256_from_be = (\<lambda>bs. of_nat (be_nat bs)),
      core_to_bytes_be = (\<lambda>f. nat_be 32 (felt_nat f)),
      core_from_bytes_be = (\<lambda>bs. felt_of_nat (be_nat bs)),
      cairo_to_be_bytes = (\<lambda>f. nat_be 32 (felt_nat f)),
      cairo_from_bytes_be = (\<lambda>bs. felt_of_nat (be_nat bs)),
      stark_bytes = (\<lambda>f. nat_be 32 (felt_nat f)),
      stark_new = ref_from_be,
      patricia_try_from = (\<lambda>f. if felt_nat f < 2 ^ 251 then Some f else None) \<rparr>"

lemma prime_small: "\<not> 2 ^ 252 < STARK_PRIME"
  by (simp add: STARK_PRIME_def)

interpretation ref_codec: felt_codec ref_felt_lib
  by unfold_locales
    (use prime_small in \<open>auto simp: ref_felt_lib_def ref_from_be_def mont_back simp del: power_numeral\<close>)

lemma ref_felt_codec: "felt_codec ref_felt_lib"
  by (rule ref_codec.felt_codec_axioms)

section \<open>Properties of the conversions\<close>

lemma take_drop_32: "length buf = 32 \<Longrightarrow> take 32 (buf @ r) = buf \<and> drop 32 (buf @ r) = r"
  by simp

lemma decode_encode_gen: "felt_codec L \<Longrightarrow> decode L (encode L f @ rest) = Ok (f, rest)"
proof -
  assume "felt_codec L"
  then have e: "encode L f = nat_be 32 (felt_nat f)"
    and r: "try_from_bytes32 L (nat_be 32 (felt_nat f)) = Ok f"
    by (simp_all add: encode_def felt_codec.fe_to_bytes_be felt_codec.bytes32_roundtrip)
  show ?thesis
    using r take_drop_32 [of "nat_be 32 (felt_nat f)" rest] unfolding e
    by (simp add: decode_def del: take_append drop_append nat_be.simps)
qed

lemma stark_into_ok: "felt_codec L \<Longrightarrow> into_stark_felt L f = Ok f"
  by (simp add: into_stark_felt_def into_bytes32_def felt_codec.fe_to_bytes_be felt_codec.stark_new
      be_nat_nat_be del: power_numeral)

lemma stark_from_ok: "felt_codec L \<Longrightarrow> from_stark_felt L f = Ok f"
  by (simp add: from_stark_felt_def felt_codec.stark_bytes felt_codec.slice_roundtrip)

text \<open>Every conversion out of the wrapper is undone by the conversion back, and none of the
  two panics: 32-byte arrays, slices, \<open>U256\<close>, \<open>H256\<close>, the field elements of the other three crates,
  and SCALE followed by any rest of the input.\<close>

theorem felt_conversions_roundtrip:
  assumes "felt_codec L"
  shows "try_from_bytes32 L (into_bytes32 L f) = Ok f
    \<and> try_from_slice L (into_bytes32 L f) = Ok f
    \<and> try_from_u256 L (into_u256 L f) = Ok f
    \<and> res_bind (into_h256 L f) (try_from_h256 L) = Ok f
    \<and> from_core_felt L (into_core_felt L f) = Ok f
    \<and> from_cairo_felt L (into_cairo_felt L f) = Ok f
    \<and> res_bind (into_stark_felt L f) (from_stark_felt L) = Ok f
    \<and> decode L (encode L f @ rest) = Ok (f, rest)"
proof -
  note laws = felt_codec.fe_to_bytes_be [OF assms] felt_codec.bytes32_roundtrip [OF assms]
    felt_codec.slice_roundtrip [OF assms] felt_codec.u256_value [OF assms]
    felt_codec.u256_accept [OF assms] felt_codec.core_to_bytes_be [OF assms]
    felt_codec.core_from_bytes_be [OF assms] felt_codec.cairo_to_be_bytes [OF assms]
    felt_codec.cairo_from_bytes_be [OF assms]
  show ?thesis
    by (simp add: laws into_bytes32_def into_h256_def try_from_h256_def from_core_felt_def
        into_core_felt_def from_cairo_felt_def into_cairo_felt_def be_nat_nat_be
        stark_into_ok [OF assms] stark_from_ok [OF assms] decode_encode_gen [OF assms]
        del: power_numeral nat_be.simps)
qed

theorem felt_conversions_roundtrip_witness:
  "felt_codec ref_felt_lib
    \<and> try_from_u256 ref_felt_lib (into_u256 ref_felt_lib (felt_of_nat 5)) = Ok (felt_of_nat 5)
    \<and> decode ref_felt_lib (encode ref_felt_lib (felt_of_nat 5) @ [7]) = Ok (felt_of_nat 5, [7])"
  using felt_conversions_roundtrip [OF ref_felt_codec, of "felt_of_nat 5" "[7]"] ref_felt_codec
  by blast

text \<open>The fallible conversions accept exactly the canonical encodings and name the failure:
  a 32-byte array or a \<open>U256\<close> at or above the prime is a \<open>FromArrayError\<close>, an \<open>H256\<close> or slice at or
  above the prime is \<open>OutOfRange\<close>, and a slice of more than 32 bytes is \<open>InvalidLength\<close>.\<close>

theorem felt_try_from_exact:
  assumes "felt_codec L" and "length arr = 32"
  shows "try_from_bytes32 L arr =
      (if be_nat arr < STARK_PRIME then Ok (felt_of_nat (be_nat arr)) else Err FromArrayError)
    \<and> try_from_u256 L u =
      (if unat u < STARK_PRIME then Ok (felt_of_nat (unat u)) else Err FromArrayError)
    \<and> try_from_h256 L arr =
      (if be_nat arr < STARK_PRIME then Ok (felt_of_nat (be_nat arr)) else Err OutOfRange)
    \<and> try_from_slice L sl =
      (if 32 < length sl then Err InvalidLength
       else if be_nat sl < STARK_PRIME then Ok (felt_of_nat (be_nat sl)) else Err OutOfRange)"
  using assms felt_codec.bytes32_accept [OF assms] felt_codec.u256_accept [OF assms(1), of u]
    felt_codec.slice_accept [OF assms(1)]
  by (simp add: try_from_h256_def)

theorem felt_try_from_exact_witness:
  "try_from_bytes32 ref_felt_lib (replicate 32 255) = Err FromArrayError
    \<and> try_from_h256 ref_felt_lib (replicate 32 255) = Err OutOfRange
    \<and> try_from_slice ref_felt_lib (replicate 33 0) = Err InvalidLength"
proof -
  have big: "\<not> be_nat (replicate 32 255) < STARK_PRIME"
    by (simp add: be_nat_def STARK_PRIME_def replicate_numeral_unfold)
  show ?thesis
    using felt_try_from_exact [OF ref_felt_codec, of "replicate 32 255" 0 "replicate 33 0"] big
    by simp
qed

text \<open>Machine integers embed without panic and come back unchanged; reading a field element
  as an integer fails exactly when the value does not fit, with \<open>ValueTooLarge\<close>.\<close>

theorem felt_integers:
  assumes "felt_codec L"
  shows "from_u128 L v = (Ok (felt_of_nat (unat v)) :: (felt252_wrapper_error, felt) res)
    \<and> res_bind (from_u128 L v) (try_into_u128 L) = Ok v
    \<and> try_into_u64 L (from_u64 L w) = Ok w
    \<and> (try_into_u64 L f = Err ValueTooLarge \<longleftrightarrow> 2 ^ 64 \<le> felt_nat f)
    \<and> (try_into_u128 L f = Err ValueTooLarge \<longleftrightarrow> 2 ^ 128 \<le> felt_nat f)"
proof -
  have v: "unat v mod STARK_PRIME = unat v" "unat v < 2 ^ 128"
    using u128_lt_prime [of v] unsigned_less [of v] by simp_all
  have w: "unat w mod STARK_PRIME = unat w" "unat w < 2 ^ 64"
    using u64_lt_prime [of w] unsigned_less [of w] by simp_all
  show ?thesis
    using v w
    by (simp add: felt_codec.u128_embeds [OF assms] try_into_u128_def try_into_u64_def from_u64_def
        felt_codec.fe_from_u64 [OF assms] felt_codec.fe_to_u64 [OF assms]
        felt_codec.fe_to_u128 [OF assms] del: power_numeral)
qed

theorem felt_integers_witness:
  "res_bind (from_u128 ref_felt_lib 7) (try_into_u128 ref_felt_lib) = Ok 7
    \<and> try_into_u64 ref_felt_lib (felt_of_nat (2 ^ 64)) = Err ValueTooLarge"
proof -
  have "2 ^ 64 \<le> felt_nat (felt_of_nat (2 ^ 64))" by (simp add: STARK_PRIME_def)
  then show ?thesis
    using felt_integers [OF ref_felt_codec, of 7 0 "felt_of_nat (2 ^ 64)"] by blast
qed

text \<open>SCALE decoding accepts nothing but encodings: a successful decode has consumed exactly
  the encoding of the element it returns, and it fails only on a short input or a value at or
  above the prime, in which case the error carries the 32 bytes read.\<close>

theorem felt_decode_sound:
  assumes "felt_codec L"
  shows "(decode L input = Ok (f, rest) \<longleftrightarrow> input = encode L f @ rest)
    \<and> (decode L input = Err NotEnoughData \<longleftrightarrow> length input < 32)
    \<and> (decode L input = Err (CantGetFieldElement buf e) \<longleftrightarrow>
      32 \<le> length input \<and> buf = take 32 input \<and> e = FromArrayError \<and> STARK_PRIME \<le> be_nat buf)"
proof (intro conjI)
  have acc: "32 \<le> length input \<Longrightarrow> try_from_bytes32 L (take 32 input) =
      (if be_nat (take 32 input) < STARK_PRIME then Ok (felt_of_nat (be_nat (take 32 input)))
       else Err FromArrayError)"
    by (rule felt_codec.bytes32_accept [OF assms]) simp
  show "decode L input = Ok (f, rest) \<longleftrightarrow> input = encode L f @ rest"
  proof
    assume d: "decode L input = Ok (f, rest)"
    then have len: "32 \<le> length input" by (auto simp: decode_def split: if_splits)
    let ?b = "take 32 input"
    have f: "f = felt_of_nat (be_nat ?b)" "be_nat ?b < STARK_PRIME" and r: "rest = drop 32 input"
      using d len acc by (auto simp: decode_def Let_def split: if_splits)
    have "length ?b = 32" using len by simp
    then have "nat_be 32 (be_nat ?b) = ?b" using nat_be_be_nat [of ?b] by (metis)
    then have "encode L f = ?b"
      using f by (simp add: encode_def felt_codec.fe_to_bytes_be [OF assms] del: nat_be.simps)
    with r show "input = encode L f @ rest" by simp
  next
    assume "input = encode L f @ rest"
    then show "decode L input = Ok (f, rest)" by (simp add: decode_encode_gen [OF assms])
  qed
  show "decode L input = Err NotEnoughData \<longleftrightarrow> length input < 32"
    using acc by (auto simp: decode_def Let_def)
  show "decode L input = Err (CantGetFieldElement buf e) \<longleftrightarrow>
      32 \<le> length input \<and> buf = take 32 input \<and> e = FromArrayError \<and> STARK_PRIME \<le> be_nat buf"
    using acc by (auto simp: decode_def Let_def)
qed

theorem felt_decode_sound_witness:
  "decode ref_felt_lib (encode ref_felt_lib (felt_of_nat 9) @ [1]) = Ok (felt_of_nat 9, [1])
    \<and> decode ref_felt_lib [0] = Err NotEnoughData"
  using felt_decode_sound [OF ref_felt_codec, of "encode ref_felt_lib (felt_of_nat 9) @ [1]"
      "felt_of_nat 9" "[1]"]
    felt_decode_sound [OF ref_felt_codec, of "[0]"]
  by simp

text \<open>A short string (at most 31 bytes of well-formed UTF-8, not starting with NUL), packed
  big-endian into a field element, is read back by \<open>from_utf8\<close>.\<close>

theorem felt_short_string:
  assumes "felt_codec L" and "length s \<le> 31" and "utf8_valid s" and "s = [] \<or> hd s \<noteq> 0"
  shows "from_utf8 L (felt_of_nat (be_nat s)) = Ok s"
proof -
  have "be_nat s < 256 ^ length s" by (rule be_nat_bound)
  then have "nat_be 32 (be_nat s) = replicate (32 - length s) 0 @ s"
    using nat_be_pad [of "be_nat s" "length s" "32 - length s"] assms(2) nat_be_be_nat [of s]
    by (simp del: nat_be.simps)
  moreover have "be_nat s mod STARK_PRIME = be_nat s"
    using short_bytes_lt_prime [OF assms(2)] by simp
  ultimately have b: "fe_to_bytes_be L (felt_of_nat (be_nat s)) = replicate (32 - length s) 0 @ s"
    by (simp add: felt_codec.fe_to_bytes_be [OF assms(1)] del: nat_be.simps)
  have u: "utf8_valid (replicate k 0 @ s)" for k
    using assms(3) by (induction k) auto
  have d: "dropWhile (\<lambda>b. b = 0) (replicate k 0 @ s) = s" for k
    using assms(4) by (induction k) (auto simp: dropWhile_eq_self_iff)
  show ?thesis by (simp add: from_utf8_def b u d)
qed

theorem felt_short_string_witness:
  "from_utf8 ref_felt_lib (felt_of_nat (be_nat [83, 78])) = Ok [83, 78]"
  by (rule felt_short_string [OF ref_felt_codec]) simp_all

end
