(* ===== verification/StarkTypes.thy ===== *)
theory StarkTypes
  imports Felt
begin

text \<open>
  The conversions between the wrapper and the field element types of the \<open>starknet_api\<close> crate,
  \<open>crates/primitives/felt/src/starkware_types_conversions.rs\<close>. Each of these types is a tuple struct
  around a \<open>StarkFelt\<close>; a contract address and a storage key hold a Patricia key. Every conversion
  goes through \<open>StarkFelt\<close>, whose two conversions can panic.
\<close>

section \<open>The types\<close>

datatype stb_block_hash = BlockHash (block_hash_0: felt)
datatype sttx_transaction_hash = TransactionHash (transaction_hash_0: felt)
datatype stcore_nonce = Nonce (nonce_0: felt)
datatype stcore_class_hash = ClassHash (class_hash_0: felt)
datatype stcore_compiled_class_hash = CompiledClassHash (compiled_class_hash_0: felt)
datatype stcore_patricia_key = PatriciaKey (patricia_key_0: felt)
datatype stcore_contract_address = ContractAddress (contract_address_0: stcore_patricia_key)
datatype stcore_entry_point_selector = EntryPointSelector (entry_point_selector_0: felt)
datatype sttx_contract_address_salt = ContractAddressSalt (contract_address_salt_0: felt)
datatype storage_key = StorageKey (storage_key_0: stcore_patricia_key)
datatype sttx_transaction_version = TransactionVersion (transaction_version_0: felt)
datatype sttx_event_key = EventKey (event_key_0: felt)

section \<open>The conversions\<close>

definition into_block_hash :: "felt_lib \<Rightarrow> felt \<Rightarrow> ('e, stb_block_hash) res" where
  "into_block_hash L value = map_ok BlockHash (into_stark_felt L value)"

definition from_block_hash :: "felt_lib \<Rightarrow> stb_block_hash \<Rightarrow> ('e, felt) res" where
  "from_block_hash L value = from_stark_felt L (block_hash_0 value)"

definition into_transaction_hash :: "felt_lib \<Rightarrow> felt \<Rightarrow> ('e, sttx_transaction_hash) res" where
  "into_transaction_hash L value = map_ok TransactionHash (into_stark_felt L value)"

definition from_transaction_hash :: "felt_lib \<Rightarrow> sttx_transaction_hash \<Rightarrow> ('e, felt) res" where
  "from_transaction_hash L value = from_stark_felt L (transaction_hash_0 value)"

definition into_nonce :: "felt_lib \<Rightarrow> felt \<Rightarrow> ('e, stcore_nonce) res" where
  "into_nonce L value = map_ok Nonce (into_stark_felt L value)"

definition from_nonce :: "felt_lib \<Rightarrow> stcore_nonce \<Rightarrow> ('e, felt) res" where
  "from_nonce L value = from_stark_felt L (nonce_0 value)"

definition into_class_hash :: "felt_lib \<Rightarrow> felt \<Rightarrow> ('e, stcore_class_hash) res" where
  "into_class_hash L value = map_ok ClassHash (into_stark_felt L value)"

definition from_class_hash :: "felt_lib \<Rightarrow> stcore_class_hash \<Rightarrow> ('e, felt) res" where
  "from_class_hash L value = from_stark_felt L (class_hash_0 value)"

definition into_compiled_class_hash :: "felt_lib \<Rightarrow> felt \<Rightarrow> ('e, stcore_compiled_class_hash) res" where
  "into_compiled_class_hash L value = map_ok CompiledClassHash (into_stark_felt L value)"

definition from_compiled_class_hash :: "felt_lib \<Rightarrow> stcore_compiled_class_hash \<Rightarrow> ('e, felt) res" where
  "from_compiled_class_hash L value = from_stark_felt L (compiled_class_hash_0 value)"

definition into_patricia_key :: "felt_lib \<Rightarrow> felt \<Rightarrow> ('e, stcore_patricia_key) res" where
  "into_patricia_key L value = map_ok PatriciaKey (into_stark_felt L value)"

definition from_patricia_key :: "felt_lib \<Rightarrow> stcore_patricia_key \<Rightarrow> ('e, felt) res" where
  "from_patricia_key L value = from_stark_felt L (patricia_key_0 value)"

definition into_contract_address :: "felt_lib \<Rightarrow> felt \<Rightarrow> ('e, stcore_contract_address) res" where
  "into_contract_address L value = map_ok ContractAddress (into_patricia_key L value)"

definition from_contract_address :: "felt_lib \<Rightarrow> stcore_contract_address \<Rightarrow> ('e, felt) res" where
  "from_contract_address L value = from_patricia_key L (contract_address_0 value)"

definition into_entry_point_selector :: "felt_lib \<Rightarrow> felt \<Rightarrow> ('e, stcore_entry_point_selector) res" where
  "into_entry_point_selector L value = map_ok EntryPointSelector (into_stark_felt L value)"

definition from_entry_point_selector :: "felt_lib \<Rightarrow> stcore_entry_point_selector \<Rightarrow> ('e, felt) res" where
  "from_entry_point_selector L value = from_stark_felt L (entry_point_selector_0 value)"

definition into_contract_address_salt :: "felt_lib \<Rightarrow> felt \<Rightarrow> ('e, sttx_contract_address_salt) res" where
  "into_contract_address_salt L value = map_ok ContractAddressSalt (into_stark_felt L value)"

definition from_contract_address_salt :: "felt_lib \<Rightarrow> sttx_contract_address_salt \<Rightarrow> ('e, felt) res" where
  "from_contract_address_salt L value = from_stark_felt L (contract_address_salt_0 value)"

definition into_storage_key :: "felt_lib \<Rightarrow> felt \<Rightarrow> ('e, storage_key) res" where
  "into_storage_key L value = map_ok StorageKey (into_patricia_key L value)"

definition from_storage_key :: "felt_lib \<Rightarrow> storage_key \<Rightarrow> ('e, felt) res" where
  "from_storage_key L value = from_stark_felt L (patricia_key_0 (storage_key_0 value))"

definition into_transaction_version :: "felt_lib \<Rightarrow> felt \<Rightarrow> ('e, sttx_transaction_version) res" where
  "into_transaction_version L value = map_ok TransactionVersion (into_stark_felt L value)"

definition from_transaction_version :: "felt_lib \<Rightarrow> sttx_transaction_version \<Rightarrow> ('e, felt) res" where
  "from_transaction_version L value = from_stark_felt L (transaction_version_0 value)"

definition into_event_key :: "felt_lib \<Rightarrow> felt \<Rightarrow> ('e, sttx_event_key) res" where
  "into_event_key L value = map_ok EventKey (into_stark_felt L value)"

definition from_event_key :: "felt_lib \<Rightarrow> sttx_event_key \<Rightarrow> ('e, felt) res" where
  "from_event_key L value = from_stark_felt L (event_key_0 value)"

section \<open>Properties\<close>

lemmas into_defs = into_block_hash_def into_transaction_hash_def into_nonce_def into_class_hash_def into_compiled_class_hash_def into_patricia_key_def into_contract_address_def into_entry_point_selector_def into_contract_address_salt_def into_storage_key_def into_transaction_version_def into_event_key_def
lemmas from_defs = from_block_hash_def from_transaction_hash_def from_nonce_def from_class_hash_def from_compiled_class_hash_def from_patricia_key_def from_contract_address_def from_entry_point_selector_def from_contract_address_salt_def from_storage_key_def from_transaction_version_def from_event_key_def

text \<open>Every \<open>starknet_api\<close> newtype converts to and from the wrapper without panic and without
  changing the element; in particular a Patricia key, a contract address or a storage key is built
  from any field element, also from one outside the \<open>2 ^ 251\<close> elements of the key space, unlike the
  checked conversion \<open>PatriciaKey::try_from\<close>.\<close>

theorem stark_types_roundtrip:
  assumes "felt_codec L"
  shows "res_bind (into_block_hash L f) (from_block_hash L) = Ok f
    \<and> res_bind (into_transaction_hash L f) (from_transaction_hash L) = Ok f
    \<and> res_bind (into_nonce L f) (from_nonce L) = Ok f
    \<and> res_bind (into_class_hash L f) (from_class_hash L) = Ok f
    \<and> res_bind (into_compiled_class_hash L f) (from_compiled_class_hash L) = Ok f
    \<and> res_bind (into_patricia_key L f) (from_patricia_key L) = Ok f
    \<and> res_bind (into_contract_address L f) (from_contract_address L) = Ok f
    \<and> res_bind (into_entry_point_selector L f) (from_entry_point_selector L) = Ok f
    \<and> res_bind (into_contract_address_salt L f) (from_contract_address_salt L) = Ok f
    \<and> res_bind (into_storage_key L f) (from_storage_key L) = Ok f
    \<and> res_bind (into_transaction_version L f) (from_transaction_version L) = Ok f
    \<and> res_bind (into_event_key L f) (from_event_key L) = Ok f
    \<and> into_contract_address L f = Ok (ContractAddress (PatriciaKey f))
    \<and> (patricia_try_from L f = None \<longleftrightarrow> 2 ^ 251 \<le> felt_nat f)"
  by (simp add: into_defs from_defs stark_into_ok [OF assms] stark_from_ok [OF assms]
      felt_codec.patricia_try_from [OF assms] not_less)

theorem stark_types_roundtrip_witness:
  "into_contract_address ref_felt_lib (felt_of_nat (2 ^ 251))
      = (Ok (ContractAddress (PatriciaKey (felt_of_nat (2 ^ 251)))) :: (unit, stcore_contract_address) res)
    \<and> patricia_try_from ref_felt_lib (felt_of_nat (2 ^ 251)) = None"
proof -
  have "2 ^ 251 \<le> felt_nat (felt_of_nat (2 ^ 251))" by (simp add: STARK_PRIME_def)
  then show ?thesis
    using stark_types_roundtrip [OF ref_felt_codec, of "felt_of_nat (2 ^ 251)"] by blast
qed

end
