(* ===== verification/Hashers.thy ===== *)
theory Hashers
  imports Felt
begin

text \<open>
  The hashing crate, \<open>crates/primitives/hashers\<close>: the trait \<open>HasherT\<close> and its two implementations.
  The hash functions themselves (\<open>starknet_crypto\<close>, \<open>starknet_core\<close>, \<open>starknet_api\<close>) are the fields
  of \<open>crypto_lib\<close>; a theorem that needs the absence of collisions names the inputs it needs it for.
  The locale \<open>hasher\<close> is the contract of the trait, interpreted on both hashers.
\<close>

section \<open>The hash functions of the Starknet crates\<close>

record crypto_lib =
  pedersen_hash :: "felt \<Rightarrow> felt \<Rightarrow> felt"
  hash_on_elements :: "felt list \<Rightarrow> felt"
  poseidon_hash :: "felt \<Rightarrow> felt \<Rightarrow> felt"
  poseidon_hash_many :: "felt list \<Rightarrow> felt"
  starknet_keccak :: "bytes \<Rightarrow> felt"
  calculate_contract_address :: "felt \<Rightarrow> felt \<Rightarrow> felt list \<Rightarrow> felt \<Rightarrow> felt option"

section \<open>The trait and its implementations\<close>

record hasher_t =
  hash_bytes :: "bytes \<Rightarrow> (unit, felt) res"
  compute_hash_on_wrappers :: "felt list \<Rightarrow> felt"
  hash_elements :: "felt \<Rightarrow> felt \<Rightarrow> felt"
  compute_hash_on_elements :: "felt list \<Rightarrow> felt"

definition CHUNK_SIZE :: nat where
  "CHUNK_SIZE = 31"

definition pedersen_hash_bytes :: "felt_lib \<Rightarrow> crypto_lib \<Rightarrow> bytes \<Rightarrow> (unit, felt) res" where
  "pedersen_hash_bytes L K data =
    try_fold
      (\<lambda>hash_value chunk.
        res_bind (unwrap (fe_from_byte_slice_be L chunk))
          (\<lambda>field_element. Ok (pedersen_hash K hash_value field_element)))
      0 (chunks CHUNK_SIZE data)"

definition PedersenHasher :: "felt_lib \<Rightarrow> crypto_lib \<Rightarrow> hasher_t" where
  "PedersenHasher L K =
    \<lparr> hash_bytes = pedersen_hash_bytes L K,
      compute_hash_on_wrappers = (\<lambda>data. hash_on_elements K (map (\<lambda>x. x) data)),
      hash_elements = (\<lambda>a b. pedersen_hash K a b),
      compute_hash_on_elements = (\<lambda>elements. hash_on_elements K elements) \<rparr>"

definition poseidon_hash_bytes :: "felt_lib \<Rightarrow> crypto_lib \<Rightarrow> bytes \<Rightarrow> (unit, felt) res" where
  "poseidon_hash_bytes L K data =
    res_bind (try_map (\<lambda>chunk. unwrap (fe_from_byte_slice_be L chunk)) (chunks CHUNK_SIZE data))
      (\<lambda>field_element_vector. Ok (poseidon_hash_many K field_element_vector))"

definition PoseidonHasher :: "felt_lib \<Rightarrow> crypto_lib \<Rightarrow> hasher_t" where
  "PoseidonHasher L K =
    \<lparr> hash_bytes = poseidon_hash_bytes L K,
      compute_hash_on_wrappers = (\<lambda>data. poseidon_hash_many K (map (\<lambda>x. x) data)),
      hash_elements = (\<lambda>a b. poseidon_hash K a b),
      compute_hash_on_elements = (\<lambda>elements. poseidon_hash_many K elements) \<rparr>"

section \<open>Hashing of byte strings\<close>

text \<open>The field elements a byte string is cut into.\<close>

definition chunk_felts :: "bytes \<Rightarrow> felt list" where
  "chunk_felts data = map (\<lambda>c. felt_of_nat (be_nat c)) (chunks CHUNK_SIZE data)"

lemma chunk_is_felt:
  assumes "felt_codec L" and "c \<in> set (chunks CHUNK_SIZE data)"
  shows "unwrap (fe_from_byte_slice_be L c) = Ok (felt_of_nat (be_nat c))"
proof -
  have "length c \<le> 31" using chunks_length [OF assms(2)] by (simp add: CHUNK_SIZE_def)
  then show ?thesis
    using short_bytes_lt_prime [of c] by (simp add: felt_codec.fe_from_byte_slice_be [OF assms(1)])
qed

lemma fold_of_felts:
  "(\<And>c. c \<in> set cs \<Longrightarrow> g c = Ok (v c)) \<Longrightarrow>
   try_fold (\<lambda>h c. res_bind (g c) (\<lambda>f. Ok (k h f))) z cs = Ok (foldl k z (map v cs))"
  by (induction cs arbitrary: z) auto

lemma pedersen_hash_bytes_value:
  "felt_codec L \<Longrightarrow> pedersen_hash_bytes L K data = Ok (foldl (pedersen_hash K) 0 (chunk_felts data))"
  unfolding pedersen_hash_bytes_def chunk_felts_def by (rule fold_of_felts) (rule chunk_is_felt)

lemma poseidon_hash_bytes_value:
  "felt_codec L \<Longrightarrow> poseidon_hash_bytes L K data = Ok (poseidon_hash_many K (chunk_felts data))"
  unfolding poseidon_hash_bytes_def chunk_felts_def
  by (subst try_map_all_ok [where g = "\<lambda>c. felt_of_nat (be_nat c)"]) (auto intro: chunk_is_felt)

lemma short_felt_inj:
  "length a = length b \<Longrightarrow> length b \<le> 31 \<Longrightarrow> felt_of_nat (be_nat a) = felt_of_nat (be_nat b) \<Longrightarrow> a = b"
  using short_bytes_lt_prime [of a] short_bytes_lt_prime [of b] by (auto intro: be_nat_inj)

lemma chunk_felts_inj:
  "length a = length b \<Longrightarrow> chunk_felts a = chunk_felts b \<Longrightarrow> a = b"
proof (induction CHUNK_SIZE a arbitrary: b rule: chunks.induct)
  case (1 a)
  show ?case
  proof (cases "a = []")
    case True
    then show ?thesis using 1 by simp
  next
    case False
    then have b: "b \<noteq> []" using 1 by auto
    let ?n = CHUNK_SIZE
    have n: "?n \<noteq> 0" by (simp add: CHUNK_SIZE_def)
    have eq: "felt_of_nat (be_nat (take ?n a)) = felt_of_nat (be_nat (take ?n b))"
      "chunk_felts (drop ?n a) = chunk_felts (drop ?n b)"
      using "1.prems"(2) False b n
      by (simp_all add: chunk_felts_def chunks.simps [of ?n a] chunks.simps [of ?n b])
    have "take ?n a = take ?n b"
      by (rule short_felt_inj) (use "1.prems"(1) eq(1) in \<open>simp_all add: CHUNK_SIZE_def\<close>)
    moreover have "drop ?n a = drop ?n b"
      by (rule "1.hyps") (use "1.prems"(1) eq(2) False n in simp_all)
    ultimately show ?thesis by (metis append_take_drop_id)
  qed
qed

section \<open>The contract of the trait\<close>

locale hasher =
  fixes H :: hasher_t
  assumes hash_bytes_total: "\<exists>h. hash_bytes H data = Ok h"
    and hash_bytes_felts: "chunk_felts a = chunk_felts b \<Longrightarrow> hash_bytes H a = hash_bytes H b"
    and wrappers_eq: "compute_hash_on_wrappers H fs = compute_hash_on_elements H fs"
begin

lemma hash_bytes_no_panic: "hash_bytes H data \<noteq> Panic"
  using hash_bytes_total [of data] by auto

text \<open>A short last chunk is read as a number: leading zero bytes of it do not change the hash.\<close>

lemma hash_bytes_leading_zero:
  "bs \<noteq> [] \<Longrightarrow> length bs < CHUNK_SIZE \<Longrightarrow> hash_bytes H (0 # bs) = hash_bytes H bs"
  by (rule hash_bytes_felts)
    (simp add: chunk_felts_def chunks_short be_nat_Cons)

end

interpretation pedersen: hasher "PedersenHasher ref_felt_lib K" for K
  by unfold_locales
    (auto simp: PedersenHasher_def pedersen_hash_bytes_value [OF ref_felt_codec])

interpretation poseidon: hasher "PoseidonHasher ref_felt_lib K" for K
  by unfold_locales
    (auto simp: PoseidonHasher_def poseidon_hash_bytes_value [OF ref_felt_codec])

lemma pedersen_is_hasher: "felt_codec L \<Longrightarrow> hasher (PedersenHasher L K)"
  by unfold_locales (auto simp: PedersenHasher_def pedersen_hash_bytes_value)

lemma poseidon_is_hasher: "felt_codec L \<Longrightarrow> hasher (PoseidonHasher L K)"
  by unfold_locales (auto simp: PoseidonHasher_def poseidon_hash_bytes_value)

section \<open>The Pedersen hash chain\<close>

text \<open>The documentation of the trait: \<open>h(h(...h(h(0, x0), x1)...), n)\<close>.\<close>

definition pedersen_chain :: "crypto_lib \<Rightarrow> felt list \<Rightarrow> felt" where
  "pedersen_chain K xs = pedersen_hash K (foldl (pedersen_hash K) 0 xs) (felt_of_nat (length xs))"

locale chained_pedersen =
  fixes K :: crypto_lib
  assumes hash_on_elements_chain: "hash_on_elements K xs = pedersen_chain K xs"

text \<open>The pairs of elements the chain hashes.\<close>

primrec chain_pairs :: "(felt \<Rightarrow> felt \<Rightarrow> felt) \<Rightarrow> felt \<Rightarrow> felt list \<Rightarrow> (felt \<times> felt) set" where
  "chain_pairs h z [] = {}"
| "chain_pairs h z (x # xs) = insert (z, x) (chain_pairs h (h z x) xs)"

definition elements_pairs :: "crypto_lib \<Rightarrow> felt list \<Rightarrow> (felt \<times> felt) set" where
  "elements_pairs K xs = insert (foldl (pedersen_hash K) 0 xs, felt_of_nat (length xs))
     (chain_pairs (pedersen_hash K) 0 xs)"

lemma chain_pairs_snoc:
  "chain_pairs h z (xs @ [x]) = insert (foldl h z xs, x) (chain_pairs h z xs)"
  by (induction xs arbitrary: z) auto

lemma chain_binding:
  assumes "inj_on (\<lambda>(a, b). h a b) (chain_pairs h z xs \<union> chain_pairs h z ys)"
    and "length xs = length ys" and "foldl h z xs = foldl h z ys"
  shows "xs = ys"
  using assms
proof (induction xs arbitrary: ys rule: rev_induct)
  case (snoc x xs)
  then obtain ys' y where ys: "ys = ys' @ [y]" by (metis append_butlast_last_id length_0_conv
        length_append_singleton nat.simps(3))
  have "(foldl h z xs, x) = (foldl h z ys', y)"
    by (rule inj_onD [OF snoc.prems(1)])
      (use snoc.prems(3) in \<open>simp_all add: ys chain_pairs_snoc\<close>)
  moreover have "xs = ys'"
  proof (rule snoc.IH)
    show "inj_on (\<lambda>(a, b). h a b) (chain_pairs h z xs \<union> chain_pairs h z ys')"
      by (rule inj_on_subset [OF snoc.prems(1)]) (auto simp: ys chain_pairs_snoc)
  qed (use snoc.prems(2) calculation in \<open>simp_all add: ys\<close>)
  ultimately show ?case by (simp add: ys)
qed simp

context chained_pedersen
begin

lemma elements_binding:
  assumes "inj_on (\<lambda>(a, b). pedersen_hash K a b) (elements_pairs K xs \<union> elements_pairs K ys)"
    and "length xs < STARK_PRIME" "length ys < STARK_PRIME"
    and "hash_on_elements K xs = hash_on_elements K ys"
  shows "xs = ys"
proof -
  have last: "(foldl (pedersen_hash K) 0 xs, felt_of_nat (length xs))
      = (foldl (pedersen_hash K) 0 ys, felt_of_nat (length ys))"
    by (rule inj_onD [OF assms(1)])
      (use assms(4) in \<open>simp_all add: hash_on_elements_chain pedersen_chain_def elements_pairs_def\<close>)
  show ?thesis
  proof (rule chain_binding)
    show "inj_on (\<lambda>(a, b). pedersen_hash K a b)
        (chain_pairs (pedersen_hash K) 0 xs \<union> chain_pairs (pedersen_hash K) 0 ys)"
      by (rule inj_on_subset [OF assms(1)]) (auto simp: elements_pairs_def)
    show "length xs = length ys" using last assms(2,3) by simp
    show "foldl (pedersen_hash K) 0 xs = foldl (pedersen_hash K) 0 ys" using last by simp
  qed
qed

end

text \<open>A small instance for evaluation: the hash functions are injective on small inputs.\<close>

definition toy_hash :: "felt \<Rightarrow> felt \<Rightarrow> felt" where
  "toy_hash a b = felt_of_nat (felt_nat a * 1000 + felt_nat b + 1)"

definition ref_crypto :: crypto_lib where
  "ref_crypto =
    \<lparr> pedersen_hash = toy_hash,
      hash_on_elements = (\<lambda>xs. toy_hash (foldl toy_hash 0 xs) (felt_of_nat (length xs))),
      poseidon_hash = toy_hash,
      poseidon_hash_many = (\<lambda>xs. toy_hash (foldl toy_hash 0 xs) (felt_of_nat (length xs))),
      starknet_keccak = (\<lambda>bs. felt_of_nat (be_nat bs)),
      calculate_contract_address = (\<lambda>salt ch cd dep. Some (toy_hash salt ch)) \<rparr>"

interpretation ref_chain: chained_pedersen ref_crypto
  by unfold_locales (simp add: ref_crypto_def pedersen_chain_def)

lemma ref_chained: "chained_pedersen ref_crypto"
  by (rule ref_chain.chained_pedersen_axioms)

section \<open>Properties\<close>

text \<open>Hashing a byte string never panics with either hasher (every 31-byte chunk is below the
  prime, as the comments claim), and two byte strings of the same length are cut into the same
  field elements only if they are equal, so a collision of \<open>hash_bytes\<close> between strings of equal
  length is a collision of the underlying hash.\<close>

theorem hash_bytes_total_and_binding:
  assumes "felt_codec L"
  shows "hash_bytes (PedersenHasher L K) data = Ok (foldl (pedersen_hash K) 0 (chunk_felts data))
    \<and> hash_bytes (PoseidonHasher L K) data = Ok (poseidon_hash_many K (chunk_felts data))
    \<and> (length data = length data' \<longrightarrow> (chunk_felts data = chunk_felts data' \<longleftrightarrow> data = data'))"
  using chunk_felts_inj [of data data']
  by (auto simp: PedersenHasher_def PoseidonHasher_def pedersen_hash_bytes_value [OF assms]
      poseidon_hash_bytes_value [OF assms])

theorem hash_bytes_total_and_binding_witness:
  "hash_bytes (PedersenHasher ref_felt_lib ref_crypto) [1, 2]
     = Ok (foldl (pedersen_hash ref_crypto) 0 (chunk_felts [1, 2]))
    \<and> chunk_felts [1, 2] \<noteq> chunk_felts [2, 1]"
  using hash_bytes_total_and_binding [OF ref_felt_codec, of ref_crypto "[1, 2]" "[2, 1]"] by simp

text \<open>The hash of a byte string does not bind its length: for a string shorter than a chunk,
  a leading zero byte is invisible to both hashers.\<close>

theorem hash_bytes_ignores_leading_zero:
  assumes "felt_codec L" and "bs \<noteq> []" and "length bs < CHUNK_SIZE"
  shows "hash_bytes (PedersenHasher L K) (0 # bs) = hash_bytes (PedersenHasher L K) bs
    \<and> hash_bytes (PoseidonHasher L K) (0 # bs) = hash_bytes (PoseidonHasher L K) bs"
  using hasher.hash_bytes_leading_zero [OF pedersen_is_hasher [OF assms(1)] assms(2,3)]
    hasher.hash_bytes_leading_zero [OF poseidon_is_hasher [OF assms(1)] assms(2,3)] by simp

theorem hash_bytes_ignores_leading_zero_witness:
  "hash_bytes (PedersenHasher ref_felt_lib ref_crypto) [0, 109]
     = hash_bytes (PedersenHasher ref_felt_lib ref_crypto) [109]"
  using hash_bytes_ignores_leading_zero [OF ref_felt_codec, of "[109]" ref_crypto]
  by (simp add: CHUNK_SIZE_def)

text \<open>The Pedersen hash of a list of field elements binds the list, elements and length: if
  the two-element hash has no collision among the pairs the two chains hash, equal hashes come
  from equal lists.\<close>

theorem pedersen_elements_binding:
  assumes "chained_pedersen K"
    and "inj_on (\<lambda>(a, b). pedersen_hash K a b) (elements_pairs K xs \<union> elements_pairs K ys)"
    and "length xs < STARK_PRIME" "length ys < STARK_PRIME"
  shows "compute_hash_on_elements (PedersenHasher L K) xs
      = compute_hash_on_elements (PedersenHasher L K) ys \<longleftrightarrow> xs = ys"
  using chained_pedersen.elements_binding [OF assms] by (auto simp: PedersenHasher_def)

lemma toy_pairs_inj:
  "inj_on (\<lambda>(a, b). pedersen_hash ref_crypto a b)
     (elements_pairs ref_crypto [1] \<union> elements_pairs ref_crypto [1, 0])"
  by (auto simp: inj_on_def elements_pairs_def ref_crypto_def toy_hash_def one_felt_def
      zero_felt_def STARK_PRIME_def felt_eq_iff)

theorem pedersen_elements_binding_witness:
  "compute_hash_on_elements (PedersenHasher ref_felt_lib ref_crypto) [1]
     \<noteq> compute_hash_on_elements (PedersenHasher ref_felt_lib ref_crypto) [1, 0]"
  using pedersen_elements_binding [OF ref_chained toy_pairs_inj, of ref_felt_lib]
  by (simp add: STARK_PRIME_def)

end
