(* ===== verification/Transactions.thy ===== *)
theory Transactions
  imports Hashers "HOL-Library.Option_ord"
begin

text \<open>
  The transaction crate, \<open>crates/primitives/transactions\<close>: the transaction types of \<open>starknet_api\<close>
  as the sources use them, and the transaction hashes of \<open>compute_hash.rs\<close>.
  Every \<open>unwrap\<close> of the sources is a branch of the model; the theorems show when it cannot fail,
  which list of field elements each hash is computed from, and what that list binds.
\<close>

section \<open>Transactions\<close>

datatype resource = L1Gas | L2Gas

record resource_bounds =
  max_amount :: "64 word"
  max_price_per_unit :: "128 word"

type_synonym resource_bounds_mapping = "resource \<rightharpoonup> resource_bounds"

datatype data_availability_mode = DA_L1 | DA_L2

primrec da_as_u32 :: "data_availability_mode \<Rightarrow> nat" where
  "da_as_u32 DA_L1 = 0"
| "da_as_u32 DA_L2 = 1"

record invoke_v0 =
  iv0_max_fee :: "128 word"
  iv0_signature :: "felt list"
  iv0_contract_address :: felt
  iv0_entry_point_selector :: felt
  iv0_calldata :: "felt list"

record invoke_v1 =
  iv1_max_fee :: "128 word"
  iv1_signature :: "felt list"
  iv1_nonce :: felt
  iv1_sender_address :: felt
  iv1_calldata :: "felt list"

record invoke_v3 =
  iv3_resource_bounds :: resource_bounds_mapping
  iv3_tip :: "64 word"
  iv3_signature :: "felt list"
  iv3_nonce :: felt
  iv3_sender_address :: felt
  iv3_calldata :: "felt list"
  iv3_nonce_da :: data_availability_mode
  iv3_fee_da :: data_availability_mode
  iv3_paymaster_data :: "felt list"
  iv3_account_deployment_data :: "felt list"

record declare_v0v1 =
  dc1_max_fee :: "128 word"
  dc1_signature :: "felt list"
  dc1_nonce :: felt
  dc1_class_hash :: felt
  dc1_sender_address :: felt

record declare_v2 =
  dc2_max_fee :: "128 word"
  dc2_signature :: "felt list"
  dc2_nonce :: felt
  dc2_class_hash :: felt
  dc2_compiled_class_hash :: felt
  dc2_sender_address :: felt

record declare_v3 =
  dc3_resource_bounds :: resource_bounds_mapping
  dc3_tip :: "64 word"
  dc3_signature :: "felt list"
  dc3_nonce :: felt
  dc3_class_hash :: felt
  dc3_compiled_class_hash :: felt
  dc3_sender_address :: felt
  dc3_nonce_da :: data_availability_mode
  dc3_fee_da :: data_availability_mode
  dc3_paymaster_data :: "felt list"
  dc3_account_deployment_data :: "felt list"

record deploy_account_v1 =
  da1_max_fee :: "128 word"
  da1_signature :: "felt list"
  da1_nonce :: felt
  da1_class_hash :: felt
  da1_contract_address_salt :: felt
  da1_constructor_calldata :: "felt list"

record deploy_account_v3 =
  da3_resource_bounds :: resource_bounds_mapping
  da3_tip :: "64 word"
  da3_signature :: "felt list"
  da3_nonce :: felt
  da3_class_hash :: felt
  da3_contract_address_salt :: felt
  da3_constructor_calldata :: "felt list"
  da3_nonce_da :: data_availability_mode
  da3_fee_da :: data_availability_mode
  da3_paymaster_data :: "felt list"

record deploy_tx =
  dp_version :: felt
  dp_class_hash :: felt
  dp_contract_address_salt :: felt
  dp_constructor_calldata :: "felt list"

record l1_handler_tx =
  l1_version :: felt
  l1_nonce :: felt
  l1_contract_address :: felt
  l1_entry_point_selector :: felt
  l1_calldata :: "felt list"

datatype entry_point_type = Constructor | External | L1HandlerEntry

datatype invoke_transaction = InvokeV0 invoke_v0 | InvokeV1 invoke_v1 | InvokeV3 invoke_v3
datatype declare_transaction =
  DeclareV0 declare_v0v1 | DeclareV1 declare_v0v1 | DeclareV2 declare_v2 | DeclareV3 declare_v3
datatype deploy_account_transaction =
  DeployAccountV1 deploy_account_v1 | DeployAccountV3 deploy_account_v3

datatype transaction =
  Declare declare_transaction
| Deploy deploy_tx
| DeployAccount deploy_account_transaction
| Invoke invoke_transaction
| L1Handler l1_handler_tx

section \<open>Pieces of the hashed lists\<close>

definition DECLARE_PREFIX :: bytes where "DECLARE_PREFIX = ascii ''declare''"
definition DEPLOY_ACCOUNT_PREFIX :: bytes where "DEPLOY_ACCOUNT_PREFIX = ascii ''deploy_account''"
definition DEPLOY_PREFIX :: bytes where "DEPLOY_PREFIX = ascii ''deploy''"
definition INVOKE_PREFIX :: bytes where "INVOKE_PREFIX = ascii ''invoke''"
definition L1_HANDLER_PREFIX :: bytes where "L1_HANDLER_PREFIX = ascii ''l1_handler''"
definition L1_GAS :: bytes where "L1_GAS = ascii ''L1_GAS''"
definition L2_GAS :: bytes where "L2_GAS = ascii ''L2_GAS''"

definition SIMULATE_TX_VERSION_OFFSET :: "felt_lib \<Rightarrow> felt" where
  "SIMULATE_TX_VERSION_OFFSET L =
    fe_from_mont L [18446744073700081665, 17407, 18446744073709551584, 576460752142434320]"

definition LEGACY_BLOCK_NUMBER :: "64 word" where "LEGACY_BLOCK_NUMBER = 1470"
definition LEGACY_L1_HANDLER_BLOCK :: "64 word" where "LEGACY_L1_HANDLER_BLOCK = 854"

text \<open>The conversions of the calldata elements are identities on field elements.\<close>

definition convert_calldata :: "felt list \<Rightarrow> felt list" where
  "convert_calldata calldata = map (\<lambda>f. f) calldata"

definition prepare_resource_bound_value ::
    "felt_lib \<Rightarrow> resource_bounds_mapping \<Rightarrow> resource \<Rightarrow> felt panicking" where
  "prepare_resource_bound_value L bounds res =
    (let buffer = replicate 32 0;
         buffer = copy_at 2 (case res of L1Gas \<Rightarrow> L1_GAS | L2Gas \<Rightarrow> L2_GAS) buffer;
         buffer =
           (case bounds res of
              Some b \<Rightarrow> copy_at 16 (nat_be 16 (unat (max_price_per_unit b)))
                          (copy_at 8 (nat_be 8 (unat (max_amount b))) buffer)
            | None \<Rightarrow> buffer)
     in unwrap_opt (fe_from_bytes_be L buffer))"

definition prepare_data_availability_modes ::
    "felt_lib \<Rightarrow> data_availability_mode \<Rightarrow> data_availability_mode \<Rightarrow> felt panicking" where
  "prepare_data_availability_modes L nonce_mode fee_mode =
    (let buffer = replicate 32 0;
         buffer = copy_at 8 (nat_be 4 (da_as_u32 nonce_mode)) buffer;
         buffer = copy_at 12 (nat_be 4 (da_as_u32 fee_mode)) buffer
     in unwrap_opt (fe_from_bytes_be L buffer))"

text \<open>\<open>FieldElement::from_byte_slice_be(PREFIX).unwrap()\<close>, which opens every hash.\<close>

definition prefix_felt :: "felt_lib \<Rightarrow> bytes \<Rightarrow> felt panicking" where
  "prefix_felt L prefix = unwrap (fe_from_byte_slice_be L prefix)"

definition gas_hash ::
    "felt_lib \<Rightarrow> crypto_lib \<Rightarrow> 64 word \<Rightarrow> resource_bounds_mapping \<Rightarrow> felt panicking" where
  "gas_hash L K tip bounds =
    res_bind (prepare_resource_bound_value L bounds L1Gas) (\<lambda>l1.
    res_bind (prepare_resource_bound_value L bounds L2Gas) (\<lambda>l2.
      Ok (hash_on_elements K [fe_from_u64 L tip, l1, l2])))"

section \<open>Transaction hashes\<close>

type_synonym 'tx hash_fun =
  "felt_lib \<Rightarrow> crypto_lib \<Rightarrow> hasher_t \<Rightarrow> 'tx \<Rightarrow> felt \<Rightarrow> bool \<Rightarrow> 64 word option \<Rightarrow> felt panicking"

definition invoke_v0_compute_hash :: "invoke_v0 hash_fun" where
  "invoke_v0_compute_hash L K H tx chain_id offset_version block_number =
    res_bind (prefix_felt L INVOKE_PREFIX) (\<lambda>prefix.
    let version = (if offset_version then SIMULATE_TX_VERSION_OFFSET L else 0);
        sender_address = iv0_contract_address tx;
        entrypoint_selector = iv0_entry_point_selector tx;
        calldata_hash = hash_on_elements K (convert_calldata (iv0_calldata tx));
        max_fee = fe_from_u128 L (iv0_max_fee tx)
    in if block_number > Some LEGACY_BLOCK_NUMBER then
         Ok (compute_hash_on_elements H
           [prefix, version, sender_address, entrypoint_selector, calldata_hash, max_fee, chain_id])
       else
         Ok (compute_hash_on_elements H
           [prefix, sender_address, entrypoint_selector, calldata_hash, chain_id]))"

definition invoke_v1_compute_hash :: "invoke_v1 hash_fun" where
  "invoke_v1_compute_hash L K H tx chain_id offset_version block_number =
    res_bind (prefix_felt L INVOKE_PREFIX) (\<lambda>prefix.
    let version = (if offset_version then SIMULATE_TX_VERSION_OFFSET L + 1 else 1);
        sender_address = iv1_sender_address tx;
        entrypoint_selector = 0;
        calldata_hash = hash_on_elements K (convert_calldata (iv1_calldata tx));
        max_fee = fe_from_u128 L (iv1_max_fee tx);
        nonce = iv1_nonce tx
    in Ok (compute_hash_on_elements H
         [prefix, version, sender_address, entrypoint_selector, calldata_hash, max_fee, chain_id,
          nonce]))"

definition invoke_v3_compute_hash :: "invoke_v3 hash_fun" where
  "invoke_v3_compute_hash L K H tx chain_id offset_version block_number =
    res_bind (prefix_felt L INVOKE_PREFIX) (\<lambda>prefix.
    let version = (if offset_version then SIMULATE_TX_VERSION_OFFSET L + THREE else THREE);
        sender_address = iv3_sender_address tx
    in res_bind (gas_hash L K (iv3_tip tx) (iv3_resource_bounds tx)) (\<lambda>gas.
    let paymaster_hash = hash_on_elements K (map (\<lambda>f. f) (iv3_paymaster_data tx));
        nonce = iv3_nonce tx
    in res_bind (prepare_data_availability_modes L (iv3_nonce_da tx) (iv3_fee_da tx)) (\<lambda>da_modes.
    let account_deployment_data_hash =
          hash_on_elements K (map (\<lambda>f. f) (iv3_account_deployment_data tx));
        calldata_hash = hash_on_elements K (map (\<lambda>f. f) (iv3_calldata tx));
        data_hash = hash_on_elements K [account_deployment_data_hash, calldata_hash]
    in Ok (compute_hash_on_elements H
         [prefix, version, sender_address, gas, paymaster_hash, chain_id, nonce, da_modes,
          data_hash]))))"

primrec invoke_compute_hash :: "felt_lib \<Rightarrow> crypto_lib \<Rightarrow> hasher_t \<Rightarrow> invoke_transaction \<Rightarrow> felt \<Rightarrow> bool
    \<Rightarrow> 64 word option \<Rightarrow> felt panicking" where
  "invoke_compute_hash L K H (InvokeV0 tx) chain_id off bn = invoke_v0_compute_hash L K H tx chain_id off bn"
| "invoke_compute_hash L K H (InvokeV1 tx) chain_id off bn = invoke_v1_compute_hash L K H tx chain_id off bn"
| "invoke_compute_hash L K H (InvokeV3 tx) chain_id off bn = invoke_v3_compute_hash L K H tx chain_id off bn"

definition declare_v0v1_compute_hash :: "declare_v0v1 hash_fun" where
  "declare_v0v1_compute_hash L K H tx chain_id offset_version block_number =
    res_bind (prefix_felt L DECLARE_PREFIX) (\<lambda>prefix.
    let version = (if offset_version then SIMULATE_TX_VERSION_OFFSET L else 0);
        sender_address = dc1_sender_address tx;
        entrypoint_selector = 0;
        max_fee = fe_from_u128 L (dc1_max_fee tx);
        nonce_or_class_hash = (if version = 0 then dc1_class_hash tx else dc1_nonce tx);
        class_or_nothing_hash =
          (if version = 0 then hash_on_elements K [] else hash_on_elements K [dc1_class_hash tx])
    in Ok (compute_hash_on_elements H
         [prefix, version, sender_address, entrypoint_selector, class_or_nothing_hash, max_fee,
          chain_id, nonce_or_class_hash]))"

definition declare_v2_compute_hash :: "declare_v2 hash_fun" where
  "declare_v2_compute_hash L K H tx chain_id offset_version block_number =
    res_bind (prefix_felt L DECLARE_PREFIX) (\<lambda>prefix.
    let version = (if offset_version then SIMULATE_TX_VERSION_OFFSET L + TWO else TWO);
        sender_address = dc2_sender_address tx;
        entrypoint_selector = 0;
        calldata = hash_on_elements K [dc2_class_hash tx];
        max_fee = fe_from_u128 L (dc2_max_fee tx);
        nonce = dc2_nonce tx;
        compiled_class_hash = dc2_compiled_class_hash tx
    in Ok (compute_hash_on_elements H
         [prefix, version, sender_address, entrypoint_selector, calldata, max_fee, chain_id, nonce,
          compiled_class_hash]))"

definition declare_v3_compute_hash :: "declare_v3 hash_fun" where
  "declare_v3_compute_hash L K H tx chain_id offset_version block_number =
    res_bind (prefix_felt L DECLARE_PREFIX) (\<lambda>prefix.
    let version = (if offset_version then SIMULATE_TX_VERSION_OFFSET L + THREE else THREE);
        sender_address = dc3_sender_address tx
    in res_bind (gas_hash L K (dc3_tip tx) (dc3_resource_bounds tx)) (\<lambda>gas.
    let paymaster_hash = hash_on_elements K (map (\<lambda>f. f) (dc3_paymaster_data tx));
        nonce = dc3_nonce tx
    in res_bind (prepare_data_availability_modes L (dc3_nonce_da tx) (dc3_fee_da tx)) (\<lambda>da_modes.
    let account_deployment_data_hash =
          hash_on_elements K (map (\<lambda>f. f) (dc3_account_deployment_data tx))
    in Ok (compute_hash_on_elements H
         [prefix, version, sender_address, gas, paymaster_hash, chain_id, nonce, da_modes,
          account_deployment_data_hash, dc3_class_hash tx, dc3_compiled_class_hash tx]))))"

primrec declare_compute_hash :: "felt_lib \<Rightarrow> crypto_lib \<Rightarrow> hasher_t \<Rightarrow> declare_transaction \<Rightarrow> felt \<Rightarrow> bool
    \<Rightarrow> 64 word option \<Rightarrow> felt panicking" where
  "declare_compute_hash L K H (DeclareV0 tx) chain_id off bn = declare_v0v1_compute_hash L K H tx chain_id off bn"
| "declare_compute_hash L K H (DeclareV1 tx) chain_id off bn = declare_v0v1_compute_hash L K H tx chain_id off bn"
| "declare_compute_hash L K H (DeclareV2 tx) chain_id off bn = declare_v2_compute_hash L K H tx chain_id off bn"
| "declare_compute_hash L K H (DeclareV3 tx) chain_id off bn = declare_v3_compute_hash L K H tx chain_id off bn"

definition deploy_account_v1_compute_hash :: "deploy_account_v1 hash_fun" where
  "deploy_account_v1_compute_hash L K H tx chain_id offset_version block_number =
    (let constructor_calldata = convert_calldata (da1_constructor_calldata tx) in
    res_bind (unwrap_opt (calculate_contract_address K (da1_contract_address_salt tx)
        (da1_class_hash tx) (da1_constructor_calldata tx) 0)) (\<lambda>contract_address.
    res_bind (prefix_felt L DEPLOY_ACCOUNT_PREFIX) (\<lambda>prefix.
    let version = (if offset_version then SIMULATE_TX_VERSION_OFFSET L + 1 else 1);
        entrypoint_selector = 0;
        calldata = da1_class_hash tx # da1_contract_address_salt tx # constructor_calldata;
        calldata_hash = hash_on_elements K calldata;
        max_fee = fe_from_u128 L (da1_max_fee tx);
        nonce = da1_nonce tx
    in Ok (compute_hash_on_elements H
         [prefix, version, contract_address, entrypoint_selector, calldata_hash, max_fee, chain_id,
          nonce]))))"

definition deploy_account_v3_compute_hash :: "deploy_account_v3 hash_fun" where
  "deploy_account_v3_compute_hash L K H tx chain_id offset_version block_number =
    res_bind (prefix_felt L DEPLOY_ACCOUNT_PREFIX) (\<lambda>prefix.
    let version = (if offset_version then SIMULATE_TX_VERSION_OFFSET L + THREE else THREE);
        constructor_calldata = convert_calldata (da3_constructor_calldata tx)
    in res_bind (unwrap_opt (calculate_contract_address K (da3_contract_address_salt tx)
        (da3_class_hash tx) (da3_constructor_calldata tx) 0)) (\<lambda>contract_address.
    res_bind (gas_hash L K (da3_tip tx) (da3_resource_bounds tx)) (\<lambda>gas.
    let paymaster_hash = hash_on_elements K (map (\<lambda>f. f) (da3_paymaster_data tx));
        nonce = da3_nonce tx
    in res_bind (prepare_data_availability_modes L (da3_nonce_da tx) (da3_fee_da tx)) (\<lambda>da_modes.
    let constructor_calldata_hash = hash_on_elements K constructor_calldata
    in Ok (compute_hash_on_elements H
         [prefix, version, contract_address, gas, paymaster_hash, chain_id, nonce, da_modes,
          constructor_calldata_hash, da3_class_hash tx, da3_contract_address_salt tx])))))"

primrec deploy_account_compute_hash :: "felt_lib \<Rightarrow> crypto_lib \<Rightarrow> hasher_t \<Rightarrow> deploy_account_transaction
    \<Rightarrow> felt \<Rightarrow> bool \<Rightarrow> 64 word option \<Rightarrow> felt panicking" where
  "deploy_account_compute_hash L K H (DeployAccountV1 tx) chain_id off bn =
     deploy_account_v1_compute_hash L K H tx chain_id off bn"
| "deploy_account_compute_hash L K H (DeployAccountV3 tx) chain_id off bn =
     deploy_account_v3_compute_hash L K H tx chain_id off bn"

definition compute_hash_given_contract_address :: "felt_lib \<Rightarrow> crypto_lib \<Rightarrow> hasher_t \<Rightarrow> deploy_tx \<Rightarrow> felt
    \<Rightarrow> felt \<Rightarrow> bool \<Rightarrow> 64 word option \<Rightarrow> felt list \<Rightarrow> felt panicking" where
  "compute_hash_given_contract_address L K H transaction chain_id contract_address is_query
      block_number constructor_calldata =
    res_bind (prefix_felt L DEPLOY_PREFIX) (\<lambda>prefix.
    let version = dp_version transaction;
        constructor_calldata = hash_on_elements K constructor_calldata;
        constructor = starknet_keccak K (ascii ''constructor'')
    in if block_number > Some LEGACY_BLOCK_NUMBER then
         Ok (compute_hash_on_elements H
           [prefix, version, contract_address, constructor, constructor_calldata, 0, chain_id])
       else
         Ok (compute_hash_on_elements H
           [prefix, contract_address, constructor, constructor_calldata, chain_id]))"

definition deploy_compute_hash :: "deploy_tx hash_fun" where
  "deploy_compute_hash L K H tx chain_id is_query block_number =
    (let constructor_calldata = convert_calldata (dp_constructor_calldata tx) in
    res_bind (unwrap_opt (calculate_contract_address K (dp_contract_address_salt tx)
        (dp_class_hash tx) (dp_constructor_calldata tx) 0)) (\<lambda>contract_address.
      compute_hash_given_contract_address L K H tx chain_id contract_address is_query block_number
        constructor_calldata))"

definition l1_handler_compute_hash :: "l1_handler_tx hash_fun" where
  "l1_handler_compute_hash L K H tx chain_id offset_version block_number =
    res_bind (prefix_felt L L1_HANDLER_PREFIX) (\<lambda>prefix.
    res_bind (prefix_felt L INVOKE_PREFIX) (\<lambda>invoke_prefix.
    let version = (if offset_version then SIMULATE_TX_VERSION_OFFSET L else 0);
        contract_address = l1_contract_address tx;
        entrypoint_selector = l1_entry_point_selector tx;
        calldata_hash = hash_on_elements K (convert_calldata (l1_calldata tx));
        nonce = l1_nonce tx
    in if block_number < Some LEGACY_L1_HANDLER_BLOCK \<and> block_number \<noteq> None then
         Ok (compute_hash_on_elements H
           [invoke_prefix, contract_address, entrypoint_selector, calldata_hash, chain_id])
       else if block_number < Some LEGACY_BLOCK_NUMBER \<and> block_number \<noteq> None then
         Ok (compute_hash_on_elements H
           [prefix, contract_address, entrypoint_selector, calldata_hash, chain_id, nonce])
       else
         Ok (compute_hash_on_elements H
           [prefix, version, contract_address, entrypoint_selector, calldata_hash, 0, chain_id,
            nonce])))"

primrec compute_hash :: "felt_lib \<Rightarrow> crypto_lib \<Rightarrow> hasher_t \<Rightarrow> transaction \<Rightarrow> felt \<Rightarrow> bool
    \<Rightarrow> 64 word option \<Rightarrow> felt panicking" where
  "compute_hash L K H (Declare tx) chain_id off bn = declare_compute_hash L K H tx chain_id off bn"
| "compute_hash L K H (Deploy tx) chain_id off bn = deploy_compute_hash L K H tx chain_id off bn"
| "compute_hash L K H (DeployAccount tx) chain_id off bn =
     deploy_account_compute_hash L K H tx chain_id off bn"
| "compute_hash L K H (Invoke tx) chain_id off bn = invoke_compute_hash L K H tx chain_id off bn"
| "compute_hash L K H (L1Handler tx) chain_id off bn = l1_handler_compute_hash L K H tx chain_id off bn"

section \<open>The hashed lists\<close>

text \<open>What the pieces are when the codecs behave: short strings, and the packed resource bounds
  \<open>0 0 | name | max_amount | max_price_per_unit\<close>, where missing bounds count as zero.\<close>

definition short_felt :: "bytes \<Rightarrow> felt" where
  "short_felt p = felt_of_nat (be_nat p)"

definition bounds_or_zero :: "resource_bounds_mapping \<Rightarrow> resource \<Rightarrow> resource_bounds" where
  "bounds_or_zero m r =
    (case m r of Some b \<Rightarrow> b | None \<Rightarrow> \<lparr> max_amount = 0, max_price_per_unit = 0 \<rparr>)"

definition resource_name :: "resource \<Rightarrow> bytes" where
  "resource_name r = (case r of L1Gas \<Rightarrow> L1_GAS | L2Gas \<Rightarrow> L2_GAS)"

definition resource_buffer :: "resource_bounds_mapping \<Rightarrow> resource \<Rightarrow> bytes" where
  "resource_buffer m r = replicate 2 0 @ resource_name r
     @ nat_be 8 (unat (max_amount (bounds_or_zero m r)))
     @ nat_be 16 (unat (max_price_per_unit (bounds_or_zero m r)))"

definition da_buffer :: "data_availability_mode \<Rightarrow> data_availability_mode \<Rightarrow> bytes" where
  "da_buffer n f = replicate 8 0 @ nat_be 4 (da_as_u32 n) @ nat_be 4 (da_as_u32 f) @ replicate 16 0"

definition query_offset :: felt where
  "query_offset = felt_of_nat (2 ^ 128)"

definition version_felt :: "bool \<Rightarrow> felt \<Rightarrow> felt" where
  "version_felt off v = (if off then query_offset + v else v)"

definition gas_list :: "64 word \<Rightarrow> resource_bounds_mapping \<Rightarrow> felt list" where
  "gas_list tip m = [felt_of_nat (unat tip), short_felt (resource_buffer m L1Gas),
     short_felt (resource_buffer m L2Gas)]"

lemma prefix_felt_value: "felt_codec L \<Longrightarrow> length p \<le> 31 \<Longrightarrow> prefix_felt L p = Ok (short_felt p)"
  using short_bytes_lt_prime [of p]
  by (simp add: prefix_felt_def short_felt_def felt_codec.fe_from_byte_slice_be)

lemma simulate_offset_value: "felt_codec L \<Longrightarrow> SIMULATE_TX_VERSION_OFFSET L = query_offset"
  unfolding SIMULATE_TX_VERSION_OFFSET_def query_offset_def
  by (rule felt_codec.mont_value) (simp_all add: STARK_PRIME_def MONT_R_INV_def)

lemma zeros_split: "replicate 24 (0 :: byte) = replicate 8 0 @ replicate 16 0"
  by (simp flip: replicate_add)

lemma length_resource_name [simp]: "length (resource_name r) = 6"
  by (simp add: resource_name_def L1_GAS_def L2_GAS_def split: resource.split)

lemma nat_be_zero: "nat_be k 0 = replicate k 0"
  by (induction k) (simp_all add: replicate_append_same)

lemma resource_buffer_built:
  "(case m r of
      Some b \<Rightarrow> copy_at 16 (nat_be 16 (unat (max_price_per_unit b)))
        (copy_at 8 (nat_be 8 (unat (max_amount b)))
          (copy_at 2 (resource_name r) (replicate 32 0)))
    | None \<Rightarrow> copy_at 2 (resource_name r) (replicate 32 0)) = resource_buffer m r"
  by (cases "m r")
    (simp_all add: resource_buffer_def bounds_or_zero_def copy_at_def nat_be_zero zeros_split
      del: nat_be.simps)

lemma leading_zero_lt_prime: "length bs = 31 \<Longrightarrow> be_nat (0 # bs) < STARK_PRIME"
  using short_bytes_lt_prime [of bs] by (simp add: be_nat_Cons)

lemma zero_led_buffer:
  assumes "felt_codec L" "length buf = 32" "hd buf = 0"
  shows "unwrap_opt (fe_from_bytes_be L buf) = Ok (short_felt buf)"
proof -
  from assms obtain bs where "buf = 0 # bs" "length bs = 31" by (cases buf) auto
  then show ?thesis
    using leading_zero_lt_prime [of bs] assms(2)
    by (simp add: felt_codec.fe_from_bytes_be [OF assms(1)] short_felt_def)
qed

lemma length_resource_buffer [simp]: "length (resource_buffer m r) = 32"
  by (simp add: resource_buffer_def del: nat_be.simps)

lemma length_da_buffer [simp]: "length (da_buffer n f) = 32"
  by (simp add: da_buffer_def del: nat_be.simps)

lemma hd_buffers [simp]: "hd (resource_buffer m r) = 0" "hd (da_buffer n f) = 0"
  by (simp_all add: resource_buffer_def da_buffer_def replicate_numeral_unfold del: nat_be.simps)

lemma prepare_resource_bound_value_ok:
  "felt_codec L \<Longrightarrow> prepare_resource_bound_value L m r = Ok (short_felt (resource_buffer m r))"
  unfolding prepare_resource_bound_value_def Let_def
  unfolding resource_name_def [symmetric] resource_buffer_built
  by (rule zero_led_buffer) simp_all

lemma prepare_data_availability_modes_ok:
  "felt_codec L \<Longrightarrow> prepare_data_availability_modes L n f = Ok (short_felt (da_buffer n f))"
proof -
  assume L: "felt_codec L"
  have "copy_at 12 (nat_be 4 (da_as_u32 f)) (copy_at 8 (nat_be 4 (da_as_u32 n)) (replicate 32 0))
      = da_buffer n f"
    by (simp add: copy_at_def da_buffer_def del: nat_be.simps)
  then show ?thesis
    by (simp add: prepare_data_availability_modes_def zero_led_buffer [OF L] del: nat_be.simps)
qed

lemma gas_hash_ok: "felt_codec L \<Longrightarrow> gas_hash L K tip m = Ok (hash_on_elements K (gas_list tip m))"
  by (simp add: gas_hash_def prepare_resource_bound_value_ok felt_codec.fe_from_u64 gas_list_def)

text \<open>The list each transaction hash is computed from; \<open>None\<close> when the address of the contract to
  deploy cannot be computed.\<close>

fun tx_preimage :: "crypto_lib \<Rightarrow> transaction \<Rightarrow> felt \<Rightarrow> bool \<Rightarrow> 64 word option \<Rightarrow> felt list option" where
  "tx_preimage K (Invoke (InvokeV0 tx)) chain off bn = Some
    (if Some LEGACY_BLOCK_NUMBER < bn then
       [short_felt INVOKE_PREFIX, version_felt off 0, iv0_contract_address tx,
        iv0_entry_point_selector tx, hash_on_elements K (iv0_calldata tx),
        felt_of_nat (unat (iv0_max_fee tx)), chain]
     else
       [short_felt INVOKE_PREFIX, iv0_contract_address tx, iv0_entry_point_selector tx,
        hash_on_elements K (iv0_calldata tx), chain])"
| "tx_preimage K (Invoke (InvokeV1 tx)) chain off bn = Some
    [short_felt INVOKE_PREFIX, version_felt off 1, iv1_sender_address tx, 0,
     hash_on_elements K (iv1_calldata tx), felt_of_nat (unat (iv1_max_fee tx)), chain, iv1_nonce tx]"
| "tx_preimage K (Invoke (InvokeV3 tx)) chain off bn = Some
    [short_felt INVOKE_PREFIX, version_felt off THREE, iv3_sender_address tx,
     hash_on_elements K (gas_list (iv3_tip tx) (iv3_resource_bounds tx)),
     hash_on_elements K (iv3_paymaster_data tx), chain, iv3_nonce tx,
     short_felt (da_buffer (iv3_nonce_da tx) (iv3_fee_da tx)),
     hash_on_elements K [hash_on_elements K (iv3_account_deployment_data tx),
       hash_on_elements K (iv3_calldata tx)]]"
| "tx_preimage K (Declare (DeclareV0 tx)) chain off bn = Some
    [short_felt DECLARE_PREFIX, version_felt off 0, dc1_sender_address tx, 0,
     hash_on_elements K (if off then [dc1_class_hash tx] else []),
     felt_of_nat (unat (dc1_max_fee tx)), chain, if off then dc1_nonce tx else dc1_class_hash tx]"
| "tx_preimage K (Declare (DeclareV1 tx)) chain off bn = Some
    [short_felt DECLARE_PREFIX, version_felt off 0, dc1_sender_address tx, 0,
     hash_on_elements K (if off then [dc1_class_hash tx] else []),
     felt_of_nat (unat (dc1_max_fee tx)), chain, if off then dc1_nonce tx else dc1_class_hash tx]"
| "tx_preimage K (Declare (DeclareV2 tx)) chain off bn = Some
    [short_felt DECLARE_PREFIX, version_felt off TWO, dc2_sender_address tx, 0,
     hash_on_elements K [dc2_class_hash tx], felt_of_nat (unat (dc2_max_fee tx)), chain,
     dc2_nonce tx, dc2_compiled_class_hash tx]"
| "tx_preimage K (Declare (DeclareV3 tx)) chain off bn = Some
    [short_felt DECLARE_PREFIX, version_felt off THREE, dc3_sender_address tx,
     hash_on_elements K (gas_list (dc3_tip tx) (dc3_resource_bounds tx)),
     hash_on_elements K (dc3_paymaster_data tx), chain, dc3_nonce tx,
     short_felt (da_buffer (dc3_nonce_da tx) (dc3_fee_da tx)),
     hash_on_elements K (dc3_account_deployment_data tx), dc3_class_hash tx,
     dc3_compiled_class_hash tx]"
| "tx_preimage K (DeployAccount (DeployAccountV1 tx)) chain off bn =
    map_option (\<lambda>addr.
      [short_felt DEPLOY_ACCOUNT_PREFIX, version_felt off 1, addr, 0,
       hash_on_elements K
         (da1_class_hash tx # da1_contract_address_salt tx # da1_constructor_calldata tx),
       felt_of_nat (unat (da1_max_fee tx)), chain, da1_nonce tx])
    (calculate_contract_address K (da1_contract_address_salt tx) (da1_class_hash tx)
      (da1_constructor_calldata tx) 0)"
| "tx_preimage K (DeployAccount (DeployAccountV3 tx)) chain off bn =
    map_option (\<lambda>addr.
      [short_felt DEPLOY_ACCOUNT_PREFIX, version_felt off THREE, addr,
       hash_on_elements K (gas_list (da3_tip tx) (da3_resource_bounds tx)),
       hash_on_elements K (da3_paymaster_data tx), chain, da3_nonce tx,
       short_felt (da_buffer (da3_nonce_da tx) (da3_fee_da tx)),
       hash_on_elements K (da3_constructor_calldata tx), da3_class_hash tx,
       da3_contract_address_salt tx])
    (calculate_contract_address K (da3_contract_address_salt tx) (da3_class_hash tx)
      (da3_constructor_calldata tx) 0)"
| "tx_preimage K (Deploy tx) chain off bn =
    map_option (\<lambda>addr.
      if Some LEGACY_BLOCK_NUMBER < bn then
        [short_felt DEPLOY_PREFIX, dp_version tx, addr, starknet_keccak K (ascii ''constructor''),
         hash_on_elements K (dp_constructor_calldata tx), 0, chain]
      else
        [short_felt DEPLOY_PREFIX, addr, starknet_keccak K (ascii ''constructor''),
         hash_on_elements K (dp_constructor_calldata tx), chain])
    (calculate_contract_address K (dp_contract_address_salt tx) (dp_class_hash tx)
      (dp_constructor_calldata tx) 0)"
| "tx_preimage K (L1Handler tx) chain off bn = Some
    (if bn \<noteq> None \<and> bn < Some LEGACY_L1_HANDLER_BLOCK then
       [short_felt INVOKE_PREFIX, l1_contract_address tx, l1_entry_point_selector tx,
        hash_on_elements K (l1_calldata tx), chain]
     else if bn \<noteq> None \<and> bn < Some LEGACY_BLOCK_NUMBER then
       [short_felt L1_HANDLER_PREFIX, l1_contract_address tx, l1_entry_point_selector tx,
        hash_on_elements K (l1_calldata tx), chain, l1_nonce tx]
     else
       [short_felt L1_HANDLER_PREFIX, version_felt off 0, l1_contract_address tx,
        l1_entry_point_selector tx, hash_on_elements K (l1_calldata tx), 0, chain, l1_nonce tx])"

lemma offset_nonzero: "query_offset \<noteq> 0"
  by (simp add: query_offset_def zero_felt_def STARK_PRIME_def)

lemma felt_plus_zero [simp]: "(f :: felt) + 0 = f"
  by (simp add: felt_eq_iff felt_nat_plus)

lemmas compute_hash_defs =
  invoke_v0_compute_hash_def invoke_v1_compute_hash_def invoke_v3_compute_hash_def
  declare_v0v1_compute_hash_def declare_v2_compute_hash_def declare_v3_compute_hash_def
  deploy_account_v1_compute_hash_def deploy_account_v3_compute_hash_def deploy_compute_hash_def
  compute_hash_given_contract_address_def l1_handler_compute_hash_def

lemma prefix_lengths:
  "length DECLARE_PREFIX \<le> 31" "length DEPLOY_ACCOUNT_PREFIX \<le> 31" "length DEPLOY_PREFIX \<le> 31"
  "length INVOKE_PREFIX \<le> 31" "length L1_HANDLER_PREFIX \<le> 31"
  by (simp_all add: DECLARE_PREFIX_def DEPLOY_ACCOUNT_PREFIX_def DEPLOY_PREFIX_def
      INVOKE_PREFIX_def L1_HANDLER_PREFIX_def)

lemma compute_hash_value:
  assumes "felt_codec L"
  shows "compute_hash L K H tx chain off bn =
    (case tx_preimage K tx chain off bn of
       Some p \<Rightarrow> Ok (compute_hash_on_elements H p) | None \<Rightarrow> Panic)"
proof -
  note pieces = prefix_felt_value [OF assms] prefix_lengths gas_hash_ok [OF assms]
    prepare_data_availability_modes_ok [OF assms] simulate_offset_value [OF assms]
    felt_codec.fe_from_u128 [OF assms] offset_nonzero
  show ?thesis
    by (cases "(K, tx, chain, off, bn)" rule: tx_preimage.cases)
      (auto simp: compute_hash_defs pieces version_felt_def convert_calldata_def Let_def
        split: option.split simp del: nat_be.simps not_None_eq)
qed

section \<open>What a transaction hash binds\<close>

lemma zero_led_felt_inj:
  assumes "length a = 32" "length b = 32" "hd a = 0" "hd b = 0"
  shows "short_felt a = short_felt b \<longleftrightarrow> a = b"
proof -
  from assms obtain as bs where ab: "a = 0 # as" "b = 0 # bs" "length as = 31" "length bs = 31"
    by (cases a; cases b) auto
  have "be_nat a < STARK_PRIME" "be_nat b < STARK_PRIME"
    using leading_zero_lt_prime ab by blast+
  then show ?thesis using be_nat_inj [of a b] assms by (auto simp: short_felt_def)
qed

lemma nat_be_word_inj:
  "LENGTH('w) = 8 * k \<Longrightarrow> nat_be k (unat (a :: 'w::len word)) = nat_be k (unat b) \<longleftrightarrow> a = b"
proof -
  assume k: "LENGTH('w) = 8 * k"
  have "unat (x :: 'w word) < 256 ^ k" for x
    using unsigned_less [of x] k by (simp add: power_mult)
  then show ?thesis by (metis nat_be_inj unsigned_word_eqI)
qed

lemma resource_felt_inj:
  "short_felt (resource_buffer m r) = short_felt (resource_buffer m' r) \<longleftrightarrow>
     bounds_or_zero m r = bounds_or_zero m' r"
  by (auto simp: zero_led_felt_inj resource_buffer_def nat_be_word_inj simp del: nat_be.simps)

lemma da_felt_inj:
  "short_felt (da_buffer n f) = short_felt (da_buffer n' f') \<longleftrightarrow> n = n' \<and> f = f'"
  by (cases n; cases f; cases n'; cases f')
    (simp_all add: zero_led_felt_inj da_buffer_def nat_be_numeral)

lemma gas_list_inj:
  "gas_list t m = gas_list t' m' \<longleftrightarrow>
     t = t' \<and> (\<forall>r. bounds_or_zero m r = bounds_or_zero m' r)"
proof -
  have "(\<forall>r. P r) \<longleftrightarrow> P L1Gas \<and> P L2Gas" for P by (metis resource.exhaust)
  then show ?thesis by (simp add: gas_list_def resource_felt_inj)
qed

text \<open>The prefixes are distinct short strings.\<close>

lemma prefix_distinct:
  "distinct (map short_felt
     [DECLARE_PREFIX, DEPLOY_ACCOUNT_PREFIX, DEPLOY_PREFIX, INVOKE_PREFIX, L1_HANDLER_PREFIX])"
  by (simp add: short_felt_def be_nat_def ascii_def STARK_PRIME_def DECLARE_PREFIX_def
      DEPLOY_ACCOUNT_PREFIX_def DEPLOY_PREFIX_def INVOKE_PREFIX_def L1_HANDLER_PREFIX_def)

text \<open>What is left of a transaction when everything its hash does not depend on is erased: the
  signature, the version field of an L1 handler transaction, the distinction between absent and
  zero resource bounds, and, for a declare transaction of version 0 or 1, the version itself and
  (unless the version is offset) the nonce.\<close>

definition erase_bounds :: "resource_bounds_mapping \<Rightarrow> resource_bounds_mapping" where
  "erase_bounds m = (\<lambda>r. Some (bounds_or_zero m r))"

fun erased :: "bool \<Rightarrow> transaction \<Rightarrow> transaction" where
  "erased off (Invoke (InvokeV0 tx)) = Invoke (InvokeV0 (tx\<lparr>iv0_signature := []\<rparr>))"
| "erased off (Invoke (InvokeV1 tx)) = Invoke (InvokeV1 (tx\<lparr>iv1_signature := []\<rparr>))"
| "erased off (Invoke (InvokeV3 tx)) = Invoke (InvokeV3 (tx\<lparr>iv3_signature := [],
     iv3_resource_bounds := erase_bounds (iv3_resource_bounds tx)\<rparr>))"
| "erased off (Declare (DeclareV0 tx)) = Declare (DeclareV0 (tx\<lparr>dc1_signature := [],
     dc1_nonce := if off then dc1_nonce tx else 0\<rparr>))"
| "erased off (Declare (DeclareV1 tx)) = Declare (DeclareV0 (tx\<lparr>dc1_signature := [],
     dc1_nonce := if off then dc1_nonce tx else 0\<rparr>))"
| "erased off (Declare (DeclareV2 tx)) = Declare (DeclareV2 (tx\<lparr>dc2_signature := []\<rparr>))"
| "erased off (Declare (DeclareV3 tx)) = Declare (DeclareV3 (tx\<lparr>dc3_signature := [],
     dc3_resource_bounds := erase_bounds (dc3_resource_bounds tx)\<rparr>))"
| "erased off (DeployAccount (DeployAccountV1 tx)) =
     DeployAccount (DeployAccountV1 (tx\<lparr>da1_signature := []\<rparr>))"
| "erased off (DeployAccount (DeployAccountV3 tx)) =
     DeployAccount (DeployAccountV3 (tx\<lparr>da3_signature := [],
       da3_resource_bounds := erase_bounds (da3_resource_bounds tx)\<rparr>))"
| "erased off (Deploy tx) = Deploy tx"
| "erased off (L1Handler tx) = L1Handler (tx\<lparr>l1_version := 0\<rparr>)"

text \<open>The lists hashed on the way, and the inputs of the deployed address.\<close>

fun inner_lists :: "crypto_lib \<Rightarrow> transaction \<Rightarrow> felt list set" where
  "inner_lists K (Invoke (InvokeV0 tx)) = {iv0_calldata tx}"
| "inner_lists K (Invoke (InvokeV1 tx)) = {iv1_calldata tx}"
| "inner_lists K (Invoke (InvokeV3 tx)) =
    {gas_list (iv3_tip tx) (iv3_resource_bounds tx), iv3_paymaster_data tx, iv3_calldata tx,
     iv3_account_deployment_data tx,
     [hash_on_elements K (iv3_account_deployment_data tx), hash_on_elements K (iv3_calldata tx)]}"
| "inner_lists K (Declare (DeclareV0 tx)) = {[dc1_class_hash tx], []}"
| "inner_lists K (Declare (DeclareV1 tx)) = {[dc1_class_hash tx], []}"
| "inner_lists K (Declare (DeclareV2 tx)) = {[dc2_class_hash tx]}"
| "inner_lists K (Declare (DeclareV3 tx)) =
    {gas_list (dc3_tip tx) (dc3_resource_bounds tx), dc3_paymaster_data tx,
     dc3_account_deployment_data tx}"
| "inner_lists K (DeployAccount (DeployAccountV1 tx)) =
    {da1_class_hash tx # da1_contract_address_salt tx # da1_constructor_calldata tx}"
| "inner_lists K (DeployAccount (DeployAccountV3 tx)) =
    {gas_list (da3_tip tx) (da3_resource_bounds tx), da3_paymaster_data tx,
     da3_constructor_calldata tx}"
| "inner_lists K (Deploy tx) = {dp_constructor_calldata tx}"
| "inner_lists K (L1Handler tx) = {l1_calldata tx}"

fun address_inputs :: "transaction \<Rightarrow> (felt \<times> felt \<times> felt list) set" where
  "address_inputs (Deploy tx) =
    {(dp_contract_address_salt tx, dp_class_hash tx, dp_constructor_calldata tx)}"
| "address_inputs tx = {}"

definition no_collisions :: "crypto_lib \<Rightarrow> transaction \<Rightarrow> transaction \<Rightarrow> bool" where
  "no_collisions K a b \<longleftrightarrow>
    inj_on (hash_on_elements K) (inner_lists K a \<union> inner_lists K b) \<and>
    inj_on (\<lambda>(salt, ch, cd). calculate_contract_address K salt ch cd 0)
      (address_inputs a \<union> address_inputs b)"

lemma erase_bounds_eq: "erase_bounds m = erase_bounds m' \<longleftrightarrow>
    (\<forall>r. bounds_or_zero m r = bounds_or_zero m' r)"
  by (auto simp: erase_bounds_def fun_eq_iff)

lemma no_collisions_hash:
  "no_collisions K a b \<Longrightarrow> x \<in> inner_lists K a \<Longrightarrow> y \<in> inner_lists K b \<Longrightarrow>
     hash_on_elements K x = hash_on_elements K y \<longleftrightarrow> x = y"
  by (auto simp: no_collisions_def dest: inj_onD)

lemma no_collisions_address:
  "no_collisions K a b \<Longrightarrow> (s, h, d) \<in> address_inputs a \<Longrightarrow> (s', h', d') \<in> address_inputs b \<Longrightarrow>
     calculate_contract_address K s h d 0 = calculate_contract_address K s' h' d' 0 \<Longrightarrow>
     s = s' \<and> h = h' \<and> d = d'"
  unfolding no_collisions_def
  by (drule conjunct2, drule inj_onD [of _ _ "(s, h, d)" "(s', h', d')"]) auto

text \<open>Two records agree after the erasure iff the remaining fields agree.\<close>

lemma invoke_v0_erase_eq:
  "(a :: invoke_v0)\<lparr>iv0_signature := []\<rparr> = b\<lparr>iv0_signature := []\<rparr> \<longleftrightarrow>
     iv0_max_fee a = iv0_max_fee b \<and> iv0_contract_address a = iv0_contract_address b \<and>
     iv0_entry_point_selector a = iv0_entry_point_selector b \<and> iv0_calldata a =
     iv0_calldata b"
  by (cases a; cases b) (simp; blast)

lemma invoke_v1_erase_eq:
  "(a :: invoke_v1)\<lparr>iv1_signature := []\<rparr> = b\<lparr>iv1_signature := []\<rparr> \<longleftrightarrow>
     iv1_max_fee a = iv1_max_fee b \<and> iv1_nonce a = iv1_nonce b \<and> iv1_sender_address a
     = iv1_sender_address b \<and> iv1_calldata a = iv1_calldata b"
  by (cases a; cases b) (simp; blast)

lemma invoke_v3_erase_eq:
  "(a :: invoke_v3)\<lparr>iv3_signature := [], iv3_resource_bounds := m\<rparr> = b\<lparr>iv3_signature := [], iv3_resource_bounds := m'\<rparr> \<longleftrightarrow>
     iv3_tip a = iv3_tip b \<and> iv3_nonce a = iv3_nonce b \<and> iv3_sender_address a =
     iv3_sender_address b \<and> iv3_calldata a = iv3_calldata b \<and> iv3_nonce_da a =
     iv3_nonce_da b \<and> iv3_fee_da a = iv3_fee_da b \<and> iv3_paymaster_data a =
     iv3_paymaster_data b \<and> iv3_account_deployment_data a = iv3_account_deployment_data b
     \<and> m = m'"
  by (cases a; cases b) (simp; blast)

lemma declare_v0v1_erase_eq:
  "(a :: declare_v0v1)\<lparr>dc1_signature := [], dc1_nonce := n\<rparr> = b\<lparr>dc1_signature := [], dc1_nonce := n'\<rparr> \<longleftrightarrow>
     dc1_max_fee a = dc1_max_fee b \<and> dc1_class_hash a = dc1_class_hash b \<and>
     dc1_sender_address a = dc1_sender_address b \<and> n = n'"
  by (cases a; cases b) (simp; blast)

lemma declare_v2_erase_eq:
  "(a :: declare_v2)\<lparr>dc2_signature := []\<rparr> = b\<lparr>dc2_signature := []\<rparr> \<longleftrightarrow>
     dc2_max_fee a = dc2_max_fee b \<and> dc2_nonce a = dc2_nonce b \<and> dc2_class_hash a =
     dc2_class_hash b \<and> dc2_compiled_class_hash a = dc2_compiled_class_hash b \<and>
     dc2_sender_address a = dc2_sender_address b"
  by (cases a; cases b) (simp; blast)

lemma declare_v3_erase_eq:
  "(a :: declare_v3)\<lparr>dc3_signature := [], dc3_resource_bounds := m\<rparr> = b\<lparr>dc3_signature := [], dc3_resource_bounds := m'\<rparr> \<longleftrightarrow>
     dc3_tip a = dc3_tip b \<and> dc3_nonce a = dc3_nonce b \<and> dc3_class_hash a =
     dc3_class_hash b \<and> dc3_compiled_class_hash a = dc3_compiled_class_hash b \<and>
     dc3_sender_address a = dc3_sender_address b \<and> dc3_nonce_da a = dc3_nonce_da b \<and>
     dc3_fee_da a = dc3_fee_da b \<and> dc3_paymaster_data a = dc3_paymaster_data b \<and>
     dc3_account_deployment_data a = dc3_account_deployment_data b \<and> m = m'"
  by (cases a; cases b) (simp; blast)

lemma deploy_account_v1_erase_eq:
  "(a :: deploy_account_v1)\<lparr>da1_signature := []\<rparr> = b\<lparr>da1_signature := []\<rparr> \<longleftrightarrow>
     da1_max_fee a = da1_max_fee b \<and> da1_nonce a = da1_nonce b \<and> da1_class_hash a =
     da1_class_hash b \<and> da1_contract_address_salt a = da1_contract_address_salt b \<and>
     da1_constructor_calldata a = da1_constructor_calldata b"
  by (cases a; cases b) (simp; blast)

lemma deploy_account_v3_erase_eq:
  "(a :: deploy_account_v3)\<lparr>da3_signature := [], da3_resource_bounds := m\<rparr> = b\<lparr>da3_signature := [], da3_resource_bounds := m'\<rparr> \<longleftrightarrow>
     da3_tip a = da3_tip b \<and> da3_nonce a = da3_nonce b \<and> da3_class_hash a =
     da3_class_hash b \<and> da3_contract_address_salt a = da3_contract_address_salt b \<and>
     da3_constructor_calldata a = da3_constructor_calldata b \<and> da3_nonce_da a =
     da3_nonce_da b \<and> da3_fee_da a = da3_fee_da b \<and> da3_paymaster_data a =
     da3_paymaster_data b \<and> m = m'"
  by (cases a; cases b) (simp; blast)

lemma l1_handler_tx_erase_eq:
  "(a :: l1_handler_tx)\<lparr>l1_version := 0\<rparr> = b\<lparr>l1_version := 0\<rparr> \<longleftrightarrow>
     l1_nonce a = l1_nonce b \<and> l1_contract_address a = l1_contract_address b \<and>
     l1_entry_point_selector a = l1_entry_point_selector b \<and> l1_calldata a = l1_calldata b"
  by (cases a; cases b) (simp; blast)

lemma deploy_tx_erase_eq:
  "(a :: deploy_tx) = b \<longleftrightarrow>
     dp_version a = dp_version b \<and> dp_class_hash a = dp_class_hash b \<and>
     dp_contract_address_salt a = dp_contract_address_salt b \<and> dp_constructor_calldata a =
     dp_constructor_calldata b"
  by (cases a; cases b) (simp; blast)

lemmas erase_eqs =
  invoke_v0_erase_eq invoke_v1_erase_eq invoke_v3_erase_eq declare_v0v1_erase_eq
  declare_v2_erase_eq declare_v3_erase_eq deploy_account_v1_erase_eq deploy_account_v3_erase_eq
  l1_handler_tx_erase_eq

lemma modern_l1_handler:
  "Some LEGACY_BLOCK_NUMBER < bn \<Longrightarrow> tx_preimage K (L1Handler tx) chain off bn = Some
     [short_felt L1_HANDLER_PREFIX, version_felt off 0, l1_contract_address tx,
      l1_entry_point_selector tx, hash_on_elements K (l1_calldata tx), 0, chain, l1_nonce tx]"
proof -
  assume bn: "Some LEGACY_BLOCK_NUMBER < bn"
  have "Some LEGACY_L1_HANDLER_BLOCK < Some LEGACY_BLOCK_NUMBER"
    by (simp add: LEGACY_L1_HANDLER_BLOCK_def LEGACY_BLOCK_NUMBER_def)
  then have "\<not> bn < Some LEGACY_L1_HANDLER_BLOCK" "\<not> bn < Some LEGACY_BLOCK_NUMBER"
    using bn by (meson less_asym less_trans)+
  then show ?thesis by simp
qed

lemma invoke_v0_binds:
  assumes "no_collisions K (Invoke (InvokeV0 a)) (Invoke (InvokeV0 b))" and "Some LEGACY_BLOCK_NUMBER < bn"
  shows "tx_preimage K (Invoke (InvokeV0 a)) c off bn = tx_preimage K (Invoke (InvokeV0 b)) c' off bn \<longleftrightarrow>
    c = c' \<and> erased off (Invoke (InvokeV0 a)) = erased off (Invoke (InvokeV0 b))"
  using assms(2)
  by (simp add: no_collisions_hash [OF assms(1)] erase_eqs erase_bounds_eq gas_list_inj da_felt_inj)
    blast

lemma invoke_v1_binds:
  assumes "no_collisions K (Invoke (InvokeV1 a)) (Invoke (InvokeV1 b))"
  shows "tx_preimage K (Invoke (InvokeV1 a)) c off bn = tx_preimage K (Invoke (InvokeV1 b)) c' off bn \<longleftrightarrow>
    c = c' \<and> erased off (Invoke (InvokeV1 a)) = erased off (Invoke (InvokeV1 b))"
  by (simp add: no_collisions_hash [OF assms(1)] erase_eqs erase_bounds_eq gas_list_inj da_felt_inj)
    blast

lemma invoke_v3_binds:
  assumes "no_collisions K (Invoke (InvokeV3 a)) (Invoke (InvokeV3 b))"
  shows "tx_preimage K (Invoke (InvokeV3 a)) c off bn = tx_preimage K (Invoke (InvokeV3 b)) c' off bn \<longleftrightarrow>
    c = c' \<and> erased off (Invoke (InvokeV3 a)) = erased off (Invoke (InvokeV3 b))"
  by (simp add: no_collisions_hash [OF assms(1)] erase_eqs erase_bounds_eq gas_list_inj da_felt_inj)
    blast

lemma declare_v2_binds:
  assumes "no_collisions K (Declare (DeclareV2 a)) (Declare (DeclareV2 b))"
  shows "tx_preimage K (Declare (DeclareV2 a)) c off bn = tx_preimage K (Declare (DeclareV2 b)) c' off bn \<longleftrightarrow>
    c = c' \<and> erased off (Declare (DeclareV2 a)) = erased off (Declare (DeclareV2 b))"
  by (simp add: no_collisions_hash [OF assms(1)] erase_eqs erase_bounds_eq gas_list_inj da_felt_inj)
    blast

lemma declare_v3_binds:
  assumes "no_collisions K (Declare (DeclareV3 a)) (Declare (DeclareV3 b))"
  shows "tx_preimage K (Declare (DeclareV3 a)) c off bn = tx_preimage K (Declare (DeclareV3 b)) c' off bn \<longleftrightarrow>
    c = c' \<and> erased off (Declare (DeclareV3 a)) = erased off (Declare (DeclareV3 b))"
  by (simp add: no_collisions_hash [OF assms(1)] erase_eqs erase_bounds_eq gas_list_inj da_felt_inj)
    blast

lemma l1_handler_binds:
  assumes "no_collisions K (L1Handler a) (L1Handler b)" and "Some LEGACY_BLOCK_NUMBER < bn"
  shows "tx_preimage K (L1Handler a) c off bn = tx_preimage K (L1Handler b) c' off bn \<longleftrightarrow>
    c = c' \<and> erased off (L1Handler a) = erased off (L1Handler b)"
  unfolding modern_l1_handler [OF assms(2)]
  by (simp add: no_collisions_hash [OF assms(1)] erase_eqs) blast

lemma deploy_account_v1_binds:
  assumes "no_collisions K (DeployAccount (DeployAccountV1 a)) (DeployAccount (DeployAccountV1 b))"
    and "tx_preimage K (DeployAccount (DeployAccountV1 a)) c off bn \<noteq> None" "tx_preimage K (DeployAccount (DeployAccountV1 b)) c' off bn \<noteq> None"
  shows "tx_preimage K (DeployAccount (DeployAccountV1 a)) c off bn = tx_preimage K (DeployAccount (DeployAccountV1 b)) c' off bn \<longleftrightarrow>
    c = c' \<and> erased off (DeployAccount (DeployAccountV1 a)) = erased off (DeployAccount (DeployAccountV1 b))"
proof -
  obtain x where x: "calculate_contract_address K (da1_contract_address_salt a)
      (da1_class_hash a) (da1_constructor_calldata a) 0 = Some x"
    using assms(2) by auto
  obtain y where y: "calculate_contract_address K (da1_contract_address_salt b)
      (da1_class_hash b) (da1_constructor_calldata b) 0 = Some y"
    using assms(3) by auto
  show ?thesis
    using x y
    by (auto simp: no_collisions_hash [OF assms(1)] erase_eqs erase_bounds_eq gas_list_inj da_felt_inj)
qed

lemma deploy_account_v3_binds:
  assumes "no_collisions K (DeployAccount (DeployAccountV3 a)) (DeployAccount (DeployAccountV3 b))"
    and "tx_preimage K (DeployAccount (DeployAccountV3 a)) c off bn \<noteq> None" "tx_preimage K (DeployAccount (DeployAccountV3 b)) c' off bn \<noteq> None"
  shows "tx_preimage K (DeployAccount (DeployAccountV3 a)) c off bn = tx_preimage K (DeployAccount (DeployAccountV3 b)) c' off bn \<longleftrightarrow>
    c = c' \<and> erased off (DeployAccount (DeployAccountV3 a)) = erased off (DeployAccount (DeployAccountV3 b))"
proof -
  obtain x where x: "calculate_contract_address K (da3_contract_address_salt a)
      (da3_class_hash a) (da3_constructor_calldata a) 0 = Some x"
    using assms(2) by auto
  obtain y where y: "calculate_contract_address K (da3_contract_address_salt b)
      (da3_class_hash b) (da3_constructor_calldata b) 0 = Some y"
    using assms(3) by auto
  show ?thesis
    using x y
    by (auto simp: no_collisions_hash [OF assms(1)] erase_eqs erase_bounds_eq gas_list_inj da_felt_inj)
qed

lemma deploy_binds:
  assumes "no_collisions K (Deploy a) (Deploy b)"
    and "Some LEGACY_BLOCK_NUMBER < bn"
    and "tx_preimage K (Deploy a) c off bn \<noteq> None" "tx_preimage K (Deploy b) c' off bn \<noteq> None"
  shows "tx_preimage K (Deploy a) c off bn = tx_preimage K (Deploy b) c' off bn \<longleftrightarrow>
    c = c' \<and> erased off (Deploy a) = erased off (Deploy b)"
proof -
  obtain x where x: "calculate_contract_address K (dp_contract_address_salt a)
      (dp_class_hash a) (dp_constructor_calldata a) 0 = Some x"
    using assms(3) by auto
  obtain y where y: "calculate_contract_address K (dp_contract_address_salt b)
      (dp_class_hash b) (dp_constructor_calldata b) 0 = Some y"
    using assms(4) by auto
  have "x = y \<Longrightarrow>
      dp_contract_address_salt a = dp_contract_address_salt b \<and> dp_class_hash a = dp_class_hash b"
    using no_collisions_address [OF assms(1), of "dp_contract_address_salt a" "dp_class_hash a"
        "dp_constructor_calldata a" "dp_contract_address_salt b" "dp_class_hash b"
        "dp_constructor_calldata b"] x y by simp
  then show ?thesis
    using assms(2) x y
    by (cases "x = y") (auto simp: no_collisions_hash [OF assms(1)] deploy_tx_erase_eq)
qed

lemma declare_v0_binds:
  assumes "no_collisions K (Declare (DeclareV0 a)) (Declare (DeclareV0 b))"
  shows "tx_preimage K (Declare (DeclareV0 a)) c off bn = tx_preimage K (Declare (DeclareV0 b)) c' off bn
    \<longleftrightarrow> c = c' \<and> erased off (Declare (DeclareV0 a)) = erased off (Declare (DeclareV0 b))"
  by (simp add: no_collisions_hash [OF assms(1)] declare_v0v1_erase_eq del: declare_v0v1.update_convs)
    blast

text \<open>The model of a declare transaction of version 1 is that of version 0.\<close>

lemma declare_v1_as_v0:
  "tx_preimage K (Declare (DeclareV1 t)) c off bn = tx_preimage K (Declare (DeclareV0 t)) c off bn"
  "erased off (Declare (DeclareV1 t)) = erased off (Declare (DeclareV0 t))"
  "no_collisions K (Declare (DeclareV1 t)) b = no_collisions K (Declare (DeclareV0 t)) b"
  "no_collisions K b (Declare (DeclareV1 t)) = no_collisions K b (Declare (DeclareV0 t))"
  by (simp_all add: no_collisions_def)

text \<open>Prefix, version and length separate the kinds of transactions from each other.\<close>

fun tx_kind :: "transaction \<Rightarrow> nat" where
  "tx_kind (Invoke (InvokeV0 tx)) = 0"
| "tx_kind (Invoke (InvokeV1 tx)) = 1"
| "tx_kind (Invoke (InvokeV3 tx)) = 2"
| "tx_kind (Declare (DeclareV0 tx)) = 3"
| "tx_kind (Declare (DeclareV1 tx)) = 3"
| "tx_kind (Declare (DeclareV2 tx)) = 4"
| "tx_kind (Declare (DeclareV3 tx)) = 5"
| "tx_kind (DeployAccount (DeployAccountV1 tx)) = 6"
| "tx_kind (DeployAccount (DeployAccountV3 tx)) = 7"
| "tx_kind (Deploy tx) = 8"
| "tx_kind (L1Handler tx) = 9"

lemma tx_preimage_shape:
  assumes "Some LEGACY_BLOCK_NUMBER < bn" "tx_preimage K tx c off bn = Some p"
  shows "(hd p, length p) =
    [(short_felt INVOKE_PREFIX, 7), (short_felt INVOKE_PREFIX, 8), (short_felt INVOKE_PREFIX, 9),
     (short_felt DECLARE_PREFIX, 8), (short_felt DECLARE_PREFIX, 9), (short_felt DECLARE_PREFIX, 11),
     (short_felt DEPLOY_ACCOUNT_PREFIX, 8), (short_felt DEPLOY_ACCOUNT_PREFIX, 11),
     (short_felt DEPLOY_PREFIX, 7), (short_felt L1_HANDLER_PREFIX, 8)] ! tx_kind tx"
  using assms
  by (cases "(off, tx)" rule: erased.cases)
    (auto simp: modern_l1_handler simp del: tx_preimage.simps(11))

lemma kind_lt_10: "tx_kind tx < 10"
  by (cases tx rule: tx_kind.cases) auto

lemma shape_distinct:
  "distinct
    [(short_felt INVOKE_PREFIX, 7 :: nat), (short_felt INVOKE_PREFIX, 8), (short_felt INVOKE_PREFIX, 9),
     (short_felt DECLARE_PREFIX, 8), (short_felt DECLARE_PREFIX, 9), (short_felt DECLARE_PREFIX, 11),
     (short_felt DEPLOY_ACCOUNT_PREFIX, 8), (short_felt DEPLOY_ACCOUNT_PREFIX, 11),
     (short_felt DEPLOY_PREFIX, 7), (short_felt L1_HANDLER_PREFIX, 8)]"
  using prefix_distinct by auto

lemma preimage_kind:
  assumes "Some LEGACY_BLOCK_NUMBER < bn"
    and "tx_preimage K a c off bn = Some p" "tx_preimage K b c' off bn = Some p"
  shows "tx_kind a = tx_kind b"
  using tx_preimage_shape [OF assms(1,2)] tx_preimage_shape [OF assms(1,3)]
    nth_eq_iff_index_eq [OF shape_distinct, of "tx_kind a" "tx_kind b"] kind_lt_10 [of a]
    kind_lt_10 [of b]
  by simp

lemma kind_erased [simp]: "tx_kind (erased off a) = tx_kind a"
  by (cases "(off, a)" rule: erased.cases) simp_all

lemma kind_cases:
  assumes "tx_kind b = k"
  shows "k = 0 \<Longrightarrow> \<exists>y. b = Invoke (InvokeV0 y)"
    and "k = 1 \<Longrightarrow> \<exists>y. b = Invoke (InvokeV1 y)"
    and "k = 2 \<Longrightarrow> \<exists>y. b = Invoke (InvokeV3 y)"
    and "k = 3 \<Longrightarrow> \<exists>y. b = Declare (DeclareV0 y) \<or> b = Declare (DeclareV1 y)"
    and "k = 4 \<Longrightarrow> \<exists>y. b = Declare (DeclareV2 y)"
    and "k = 5 \<Longrightarrow> \<exists>y. b = Declare (DeclareV3 y)"
    and "k = 6 \<Longrightarrow> \<exists>y. b = DeployAccount (DeployAccountV1 y)"
    and "k = 7 \<Longrightarrow> \<exists>y. b = DeployAccount (DeployAccountV3 y)"
    and "k = 8 \<Longrightarrow> \<exists>y. b = Deploy y"
    and "k = 9 \<Longrightarrow> \<exists>y. b = L1Handler y"
  using assms by (cases b rule: tx_kind.cases; simp)+

lemma same_kind_binds:
  assumes kind: "tx_kind b = tx_kind a" and "no_collisions K a b"
    and "Some LEGACY_BLOCK_NUMBER < bn"
    and "tx_preimage K a c off bn \<noteq> None" "tx_preimage K b c' off bn \<noteq> None"
  shows "tx_preimage K a c off bn = tx_preimage K b c' off bn \<longleftrightarrow>
    c = c' \<and> erased off a = erased off b"
proof (cases a rule: tx_kind.cases)
  case (1 x)
  then show ?thesis using kind_cases(1) [OF kind] invoke_v0_binds assms by fastforce
next
  case (2 x)
  then show ?thesis using kind_cases(2) [OF kind] invoke_v1_binds assms by fastforce
next
  case (3 x)
  then show ?thesis using kind_cases(3) [OF kind] invoke_v3_binds assms by fastforce
next
  case (4 x)
  then obtain y where "b = Declare (DeclareV0 y) \<or> b = Declare (DeclareV1 y)"
    using kind_cases(4) [OF kind] by auto
  then show ?thesis using 4 assms(2) declare_v0_binds by (metis declare_v1_as_v0)
next
  case (5 x)
  then obtain y where "b = Declare (DeclareV0 y) \<or> b = Declare (DeclareV1 y)"
    using kind_cases(4) [OF kind] by auto
  then show ?thesis using 5 assms(2) declare_v0_binds by (metis declare_v1_as_v0)
next
  case (6 x)
  then show ?thesis using kind_cases(5) [OF kind] declare_v2_binds assms by fastforce
next
  case (7 x)
  then show ?thesis using kind_cases(6) [OF kind] declare_v3_binds assms by fastforce
next
  case (8 x)
  then show ?thesis using kind_cases(7) [OF kind] deploy_account_v1_binds assms by fastforce
next
  case (9 x)
  then show ?thesis using kind_cases(8) [OF kind] deploy_account_v3_binds assms by fastforce
next
  case (10 x)
  then show ?thesis using kind_cases(9) [OF kind] deploy_binds assms by fastforce
next
  case (11 x)
  then show ?thesis using kind_cases(10) [OF kind] l1_handler_binds assms by fastforce
qed

lemma preimage_binds:
  assumes "no_collisions K a b" and "Some LEGACY_BLOCK_NUMBER < bn"
    and "tx_preimage K a c off bn = Some p" "tx_preimage K b c' off bn = Some q"
  shows "p = q \<longleftrightarrow> c = c' \<and> erased off a = erased off b"
proof (cases "tx_kind b = tx_kind a")
  case True
  have "tx_preimage K a c off bn = tx_preimage K b c' off bn \<longleftrightarrow>
      c = c' \<and> erased off a = erased off b"
    by (rule same_kind_binds [OF True assms(1,2)]) (simp_all add: assms(3,4))
  then show ?thesis by (simp add: assms(3,4))
next
  case False
  moreover have "p \<noteq> q" using preimage_kind [OF assms(2,3)] assms(4) False by metis
  moreover have "erased off a \<noteq> erased off b" using False by (metis kind_erased)
  ultimately show ?thesis by simp
qed

section \<open>Properties\<close>

text \<open>The contract address goes into the hash of the transactions that deploy one.\<close>

fun address_computable :: "crypto_lib \<Rightarrow> transaction \<Rightarrow> bool" where
  "address_computable K (Deploy tx) = (calculate_contract_address K (dp_contract_address_salt tx) (dp_class_hash tx)
     (dp_constructor_calldata tx) 0 \<noteq> None)"
| "address_computable K (DeployAccount (DeployAccountV1 tx)) = (calculate_contract_address K (da1_contract_address_salt tx)
     (da1_class_hash tx) (da1_constructor_calldata tx) 0 \<noteq> None)"
| "address_computable K (DeployAccount (DeployAccountV3 tx)) = (calculate_contract_address K (da3_contract_address_salt tx)
     (da3_class_hash tx) (da3_constructor_calldata tx) 0 \<noteq> None)"
| "address_computable K _ = True"

lemma address_computable_preimage: "address_computable K tx \<longleftrightarrow> (\<exists>p. tx_preimage K tx chain off bn = Some p)"
  by (cases "(K, tx, chain, off, bn)" rule: tx_preimage.cases) auto

text \<open>C1: a transaction hash is the hash of one list of field elements, which \<open>tx_preimage\<close>
  writes out for every kind, version and era. Computing it panics exactly for a deploy or deploy-account
  transaction whose contract address cannot be computed, so none of the other \<open>unwrap\<close>s can fail.
  The list is the one the code uses: in particular a version 1 declaration has the hash of the version 0
  declaration with the same fields, so its version is not hashed and its nonce only off-chain.\<close>

theorem compute_hash_spec:
  assumes "felt_codec L"
  shows "(if address_computable K tx
      then \<exists>p. tx_preimage K tx chain off bn = Some p
        \<and> compute_hash L K H tx chain off bn = Ok (compute_hash_on_elements H p)
      else compute_hash L K H tx chain off bn = Panic)
    \<and> compute_hash L K H (Declare (DeclareV1 d)) chain off bn = compute_hash L K H (Declare (DeclareV0 d)) chain off bn"
  using address_computable_preimage [of K tx chain off bn]
  by (auto simp: compute_hash_value [OF assms] split: option.splits)

definition sample_invoke :: "felt \<Rightarrow> transaction" where
  "sample_invoke nonce = Invoke (InvokeV1 \<lparr> iv1_max_fee = 5, iv1_signature = [],
     iv1_nonce = nonce, iv1_sender_address = 1, iv1_calldata = [] \<rparr>)"

theorem compute_hash_spec_witness:
  "is_ok (compute_hash ref_felt_lib ref_crypto (PedersenHasher ref_felt_lib ref_crypto)
     (sample_invoke 1) 0 False None)"
  using compute_hash_spec [OF ref_felt_codec, where K = ref_crypto and tx = "sample_invoke 1" and chain = 0
      and off = False and bn = None and H = "PedersenHasher ref_felt_lib ref_crypto"]
  by (auto simp: sample_invoke_def)

text \<open>C2: after block 1470 the hash of a transaction binds the chain id and the whole transaction
  except what \<open>erased\<close> removes: two transactions, of whatever kinds, have the same hash iff they
  agree after the erasure, as long as the hash functions have no collision on the lists involved.\<close>

theorem compute_hash_binding:
  assumes "felt_codec L" and "no_collisions K a b" and "Some LEGACY_BLOCK_NUMBER < bn"
    and "tx_preimage K a c off bn = Some p" "tx_preimage K b c' off bn = Some q"
    and "inj_on (compute_hash_on_elements H) {p, q}"
  shows "compute_hash L K H a c off bn = compute_hash L K H b c' off bn \<longleftrightarrow>
    c = c' \<and> erased off a = erased off b"
  using preimage_binds [OF assms(2-5)] assms(4-6)
  by (simp add: compute_hash_value [OF assms(1)] inj_on_def) metis

lemma sample_no_collisions: "no_collisions ref_crypto (sample_invoke 1) (sample_invoke 0)"
  by (simp add: no_collisions_def sample_invoke_def)

lemma sample_hash_differs:
  "inj_on (compute_hash_on_elements (PedersenHasher ref_felt_lib ref_crypto))
     {the (tx_preimage ref_crypto (sample_invoke 1) 0 False (Some 2000)),
      the (tx_preimage ref_crypto (sample_invoke 0) 0 False (Some 2000))}"
  by (simp add: sample_invoke_def PedersenHasher_def ref_crypto_def toy_hash_def version_felt_def
      short_felt_def INVOKE_PREFIX_def ascii_def be_nat_def one_felt_def zero_felt_def
      STARK_PRIME_def)

theorem compute_hash_binding_witness:
  "compute_hash ref_felt_lib ref_crypto (PedersenHasher ref_felt_lib ref_crypto)
      (sample_invoke 1) 0 False (Some 2000)
    \<noteq> compute_hash ref_felt_lib ref_crypto (PedersenHasher ref_felt_lib ref_crypto)
      (sample_invoke 0) 0 False (Some 2000)"
proof -
  have "erased False (sample_invoke 1) \<noteq> erased False (sample_invoke 0)"
    by (simp add: sample_invoke_def one_felt_def zero_felt_def)
  moreover have "Some LEGACY_BLOCK_NUMBER < Some 2000" by (simp add: LEGACY_BLOCK_NUMBER_def)
  ultimately show ?thesis
    using compute_hash_binding [OF ref_felt_codec sample_no_collisions _ _ _ sample_hash_differs]
    by (simp add: sample_invoke_def)
qed

text \<open>A declare transaction of version 1 is hashed as one of version 0: its nonce does not
  enter the hash, and neither does the version.\<close>

theorem declare_v1_hash_ignores_nonce:
  "compute_hash L K H (Declare (DeclareV1 (tx\<lparr>dc1_nonce := n\<rparr>))) chain False bn
    = compute_hash L K H (Declare (DeclareV0 tx)) chain False bn"
  by (simp add: declare_v0v1_compute_hash_def Let_def)

text \<open>Without a block number an invoke transaction of version 0 is hashed in the format of
  the blocks up to 1470, where neither the maximal fee nor the offset version counts, while an
  L1 handler transaction is hashed in the format after 1470.\<close>

theorem hash_without_block_number:
  assumes "n \<le> LEGACY_BLOCK_NUMBER" and "LEGACY_BLOCK_NUMBER \<le> m"
  shows "compute_hash L K H (Invoke (InvokeV0 (tx\<lparr>iv0_max_fee := fee\<rparr>))) chain off None
      = compute_hash L K H (Invoke (InvokeV0 tx)) chain off' (Some n)
    \<and> compute_hash L K H (L1Handler l1) chain off None
      = compute_hash L K H (L1Handler l1) chain off (Some m)"
proof -
  have "LEGACY_L1_HANDLER_BLOCK < LEGACY_BLOCK_NUMBER"
    by (simp add: LEGACY_L1_HANDLER_BLOCK_def LEGACY_BLOCK_NUMBER_def)
  then have "\<not> m < LEGACY_L1_HANDLER_BLOCK" "\<not> m < LEGACY_BLOCK_NUMBER" "\<not> LEGACY_BLOCK_NUMBER < n"
    using assms by order+
  then show ?thesis
    by (simp add: invoke_v0_compute_hash_def l1_handler_compute_hash_def Let_def)
qed

definition sample_invoke_v0 :: "128 word \<Rightarrow> invoke_v0" where
  "sample_invoke_v0 fee = \<lparr> iv0_max_fee = fee, iv0_signature = [], iv0_contract_address = 1,
     iv0_entry_point_selector = 0, iv0_calldata = [] \<rparr>"

theorem hash_without_block_number_witness:
  "compute_hash ref_felt_lib ref_crypto (PedersenHasher ref_felt_lib ref_crypto)
      (Invoke (InvokeV0 (sample_invoke_v0 9))) 0 True None
    = compute_hash ref_felt_lib ref_crypto (PedersenHasher ref_felt_lib ref_crypto)
      (Invoke (InvokeV0 (sample_invoke_v0 3))) 0 False (Some 7)"
  using hash_without_block_number [of 7 LEGACY_BLOCK_NUMBER ref_felt_lib ref_crypto
      "PedersenHasher ref_felt_lib ref_crypto" 9 "sample_invoke_v0 3" 0 True False]
  by (simp add: LEGACY_BLOCK_NUMBER_def sample_invoke_v0_def)

end
