(* ===== verification/Block.thy ===== *)
theory Block
  imports Transactions
begin

text \<open>
  Blocks and what travels with them: \<open>crates/primitives/block\<close> (header, block, ordered events, state
  updates), \<open>crates/primitives/digest-log\<close> (finding the Starknet block in a Substrate digest),
  \<open>crates/primitives/chain-id\<close>, \<open>crates/primitives/program-hash\<close> and
  \<open>crates/primitives/sequencer-address\<close>.
  The derived SCALE codecs and \<open>DigestItem::try_to\<close> of Substrate are fields of \<open>scale_lib\<close>.
\<close>

section \<open>Header and block\<close>

datatype block_status = Pending | AcceptedOnL2 | AcceptedOnL1 | Rejected

definition default_block_status :: block_status where
  "default_block_status = AcceptedOnL2"

datatype core_block_status = CorePending | CoreAcceptedOnL2 | CoreAcceptedOnL1 | CoreRejected

primrec core_of_block_status :: "block_status \<Rightarrow> core_block_status" where
  "core_of_block_status Pending = CorePending"
| "core_of_block_status AcceptedOnL2 = CoreAcceptedOnL2"
| "core_of_block_status AcceptedOnL1 = CoreAcceptedOnL1"
| "core_of_block_status Rejected = CoreRejected"

text \<open>Gas prices are non-zero \<open>u128\<close> values.\<close>

record gas_prices =
  eth_l1_gas_price :: "128 word"
  strk_l1_gas_price :: "128 word"
  eth_l1_data_gas_price :: "128 word"
  strk_l1_data_gas_price :: "128 word"

datatype l1_da_mode = Calldata | Blob

record header =
  h_parent_block_hash :: felt
  h_block_number :: "64 word"
  h_global_state_root :: felt
  h_sequencer_address :: felt
  h_block_timestamp :: "64 word"
  h_transaction_count :: "128 word"
  h_transaction_commitment :: felt
  h_event_count :: "128 word"
  h_event_commitment :: felt
  h_protocol_version :: felt
  h_l1_gas_price :: "gas_prices option"
  h_l1_da_mode :: l1_da_mode
  h_extra_data :: "256 word option"

definition header_new :: "felt \<Rightarrow> 64 word \<Rightarrow> felt \<Rightarrow> felt \<Rightarrow> 64 word \<Rightarrow> 128 word \<Rightarrow> felt \<Rightarrow> 128 word \<Rightarrow> felt
    \<Rightarrow> felt \<Rightarrow> gas_prices option \<Rightarrow> l1_da_mode \<Rightarrow> 256 word option \<Rightarrow> header" where
  "header_new parent_block_hash block_number global_state_root sequencer_address block_timestamp
      transaction_count transaction_commitment event_count event_commitment protocol_version
      gas_prices l1_da_mode extra_data =
    \<lparr> h_parent_block_hash = parent_block_hash,
      h_block_number = block_number,
      h_global_state_root = global_state_root,
      h_sequencer_address = sequencer_address,
      h_block_timestamp = block_timestamp,
      h_transaction_count = transaction_count,
      h_transaction_commitment = transaction_commitment,
      h_event_count = event_count,
      h_event_commitment = event_commitment,
      h_protocol_version = protocol_version,
      h_l1_gas_price = gas_prices,
      h_l1_da_mode = l1_da_mode,
      h_extra_data = extra_data \<rparr>"

text \<open>The block context of the execution engine: block info and chain info.\<close>

record fee_token_addresses =
  strk_fee_token_address :: felt
  eth_fee_token_address :: felt

record block_context =
  bc_block_number :: "64 word"
  bc_block_timestamp :: "64 word"
  bc_sequencer_address :: felt
  bc_gas_prices :: gas_prices
  bc_use_kzg_da :: bool
  bc_chain_id :: bytes
  bc_fee_token_addresses :: fee_token_addresses

definition unit_gas_prices :: gas_prices where
  "unit_gas_prices = \<lparr> eth_l1_gas_price = 1, strk_l1_gas_price = 1, eth_l1_data_gas_price = 1,
     strk_l1_data_gas_price = 1 \<rparr>"

definition into_block_context :: "header \<Rightarrow> fee_token_addresses \<Rightarrow> bytes \<Rightarrow> block_context" where
  "into_block_context h fee_tokens chain_id =
    \<lparr> bc_block_number = h_block_number h,
      bc_block_timestamp = h_block_timestamp h,
      bc_sequencer_address = h_sequencer_address h,
      bc_gas_prices = (case h_l1_gas_price h of Some g \<Rightarrow> g | None \<Rightarrow> unit_gas_prices),
      bc_use_kzg_da = False,
      bc_chain_id = chain_id,
      bc_fee_token_addresses = fee_tokens \<rparr>"

definition header_hash :: "felt_lib \<Rightarrow> hasher_t \<Rightarrow> header \<Rightarrow> felt panicking" where
  "header_hash L H h =
    (if h_block_number h \<ge> 833 then
       res_bind (from_u128 L (h_transaction_count h)) (\<lambda>tx_count.
       res_bind (from_u128 L (h_event_count h)) (\<lambda>ev_count.
       let data =
         [from_u64 L (h_block_number h),
          h_global_state_root h,
          h_sequencer_address h,
          from_u64 L (h_block_timestamp h),
          tx_count,
          h_transaction_commitment h,
          ev_count,
          h_event_commitment h,
          ZERO,
          ZERO,
          h_parent_block_hash h]
       in Ok (compute_hash_on_wrappers H data)))
     else
       res_bind (from_u128 L (h_transaction_count h)) (\<lambda>tx_count.
       res_bind (prefix_felt L (ascii ''SN_MAIN'')) (\<lambda>sn_main.
       let data =
         [from_u64 L (h_block_number h),
          h_global_state_root h,
          ZERO,
          ZERO,
          tx_count,
          h_transaction_commitment h,
          ZERO,
          ZERO,
          ZERO,
          ZERO,
          sn_main,
          h_parent_block_hash h]
       in Ok (compute_hash_on_wrappers H data))))"

record event =
  ev_from_address :: felt
  ev_keys :: "felt list"
  ev_data :: "felt list"

record ordered_events =
  oe_index :: "128 word"
  oe_events :: "event list"

definition ordered_events_new :: "128 word \<Rightarrow> event list \<Rightarrow> ordered_events" where
  "ordered_events_new index events = \<lparr> oe_index = index, oe_events = events \<rparr>"

datatype block_tag = Latest | PendingTag

datatype block_id = BlockHash felt | BlockNumber "64 word" | BlockTag block_tag

record deoxys_block =
  blk_header :: header
  blk_transactions :: "transaction list"
  blk_events :: "ordered_events list"

definition deoxys_block_new :: "header \<Rightarrow> transaction list \<Rightarrow> ordered_events list \<Rightarrow> deoxys_block" where
  "deoxys_block_new header transactions events =
    \<lparr> blk_header = header, blk_transactions = transactions, blk_events = events \<rparr>"

definition transactions_hashes :: "felt_lib \<Rightarrow> crypto_lib \<Rightarrow> hasher_t \<Rightarrow> deoxys_block \<Rightarrow> felt
    \<Rightarrow> 64 word option \<Rightarrow> felt list panicking" where
  "transactions_hashes L K H b chain_id block_number =
    try_map (\<lambda>tx. compute_hash L K H tx chain_id False block_number) (blk_transactions b)"

section \<open>State updates\<close>

record storage_diff =
  sd_key :: felt
  sd_value :: felt

record deployed_contract =
  dep_address :: felt
  dep_class_hash :: felt

record declared_contract =
  dec_class_hash :: felt
  dec_compiled_class_hash :: felt

record state_diff =
  storage_diffs :: "(felt \<times> storage_diff list) list"
  deployed_contracts :: "deployed_contract list"
  old_declared_contracts :: "felt list"
  declared_classes :: "declared_contract list"
  nonces :: "(felt \<times> felt) list"
  replaced_classes :: "deployed_contract list"

record state_update =
  su_block_hash :: "felt option"
  su_new_root :: "felt option"
  su_old_root :: felt
  su_state_diff :: state_diff

section \<open>Digest logs\<close>

type_synonym engine_id = bytes

definition MADARA_ENGINE_ID :: engine_id where "MADARA_ENGINE_ID = ascii ''mada''"
definition BLOCK_ENGINE_ID :: engine_id where "BLOCK_ENGINE_ID = ascii ''bloc''"
definition STATE_ENGINE_ID :: engine_id where "STATE_ENGINE_ID = ascii ''stat''"
definition CLASS_ENGINE_ID :: engine_id where "CLASS_ENGINE_ID = ascii ''claz''"

datatype digest_item =
  PreRuntime engine_id bytes
| Consensus engine_id bytes
| Seal engine_id bytes
| Other bytes
| RuntimeEnvironmentUpdated

datatype log = LogBlock deoxys_block

datatype find_log_error = NotLog | MultipleLogs

definition find_log_error_message :: "find_log_error \<Rightarrow> string" where
  "find_log_error_message e =
    (case e of NotLog \<Rightarrow> ''Madara log not found'' | MultipleLogs \<Rightarrow> ''Multiple Madara logs found'')"

text \<open>The derived codecs, and the reading of a digest item as a consensus log of an engine.\<close>

record ('cu) scale_lib =
  log_encode :: "log \<Rightarrow> bytes"
  log_decode :: "bytes \<Rightarrow> log option"
  block_decode :: "bytes \<Rightarrow> deoxys_block option"
  block_encode :: "deoxys_block \<Rightarrow> bytes"
  state_update_decode :: "bytes \<Rightarrow> state_update option"
  class_update_decode :: "bytes \<Rightarrow> 'cu option"
  try_to_consensus :: "digest_item \<Rightarrow> engine_id \<Rightarrow> log option"

text \<open>The loop of \<open>_find_log\<close>, with its early return.\<close>

definition find_log_step :: "('a \<Rightarrow> 'l option) \<Rightarrow> 'l option \<Rightarrow> 'a \<Rightarrow> (find_log_error, 'l option) res" where
  "find_log_step try_to found item =
    (case (try_to item, found \<noteq> None) of
       (Some _, True) \<Rightarrow> Err MultipleLogs
     | (Some l, False) \<Rightarrow> Ok (Some l)
     | (None, _) \<Rightarrow> Ok found)"

definition find_log_in :: "('a \<Rightarrow> 'l option) \<Rightarrow> 'a list \<Rightarrow> (find_log_error, 'l) res" where
  "find_log_in try_to logs =
    res_bind (try_fold (find_log_step try_to) None logs) (\<lambda>found. ok_or NotLog found)"

definition find_log :: "'cu scale_lib \<Rightarrow> digest_item list \<Rightarrow> (find_log_error, log) res" where
  "find_log S digest = find_log_in (\<lambda>item. try_to_consensus S item MADARA_ENGINE_ID) digest"

definition find_starknet_block :: "'cu scale_lib \<Rightarrow> digest_item list \<Rightarrow> (find_log_error, deoxys_block) res" where
  "find_starknet_block S digest = map_ok (\<lambda>l. case l of LogBlock b \<Rightarrow> b) (find_log S digest)"

definition ensure_log :: "'cu scale_lib \<Rightarrow> digest_item list \<Rightarrow> (find_log_error, unit) res" where
  "ensure_log S digest = map_ok (\<lambda>_. ()) (find_log S digest)"

section \<open>Chain ids and the program hash\<close>

definition SN_GOERLI_CHAIN_ID :: "felt_lib \<Rightarrow> felt" where
  "SN_GOERLI_CHAIN_ID L = fe_from_mont L
    [3753493103916128178, 18446744073709548950, 18446744073709551615, 398700013197595345]"

definition SN_SEPOLIA_CHAIN_ID :: "felt_lib \<Rightarrow> felt" where
  "SN_SEPOLIA_CHAIN_ID L = fe_from_mont L
    [1555806712078248243, 18446744073708869172, 18446744073709551615, 507980251676163170]"

definition SN_MAIN_CHAIN_ID :: "felt_lib \<Rightarrow> felt" where
  "SN_MAIN_CHAIN_ID L = fe_from_mont L
    [17696389056366564951, 18446744073709551615, 18446744073709551615, 502562008147966918]"

definition MADARA_CHAIN_ID :: "felt_lib \<Rightarrow> felt" where
  "MADARA_CHAIN_ID L = fe_from_mont L
    [18444025906882525153, 18446744073709551615, 18446744073709551615, 530251916243973616]"

definition SN_OS_PROGRAM_HASH :: "felt_lib \<Rightarrow> felt" where
  "SN_OS_PROGRAM_HASH L = fe_from_mont L
    [6431315658044554931, 6518314672963632076, 7993178465604693533, 95212460539797968]"

section \<open>The sequencer address inherent\<close>

definition INHERENT_IDENTIFIER :: bytes where "INHERENT_IDENTIFIER = ascii ''seqaddr0''"

definition DEFAULT_SEQUENCER_ADDRESS :: bytes where
  "DEFAULT_SEQUENCER_ADDRESS = replicate 30 0 @ [222, 173]"

datatype inherent_error = WrongAddressFormat

definition is_fatal_error :: "inherent_error \<Rightarrow> bool" where
  "is_fatal_error e = (case e of WrongAddressFormat \<Rightarrow> True)"

record inherent_data_provider =
  idp_sequencer_address :: bytes

definition slice_to_arr :: "bytes \<Rightarrow> bytes option" where
  "slice_to_arr sl = (if length sl = 32 then Some sl else None)"

definition provider_new :: "bytes \<Rightarrow> inherent_data_provider" where
  "provider_new addr = \<lparr> idp_sequencer_address = addr \<rparr>"

definition provider_default :: inherent_data_provider where
  "provider_default = \<lparr> idp_sequencer_address = DEFAULT_SEQUENCER_ADDRESS \<rparr>"

definition provider_try_from :: "bytes \<Rightarrow> (inherent_error, inherent_data_provider) res" where
  "provider_try_from storage_val =
    (case slice_to_arr storage_val of
       Some addr \<Rightarrow> Ok \<lparr> idp_sequencer_address = addr \<rparr>
     | None \<Rightarrow> Err WrongAddressFormat)"

text \<open>\<open>InherentData::put_data\<close> of Substrate is the argument \<open>put_data\<close>.\<close>

definition provide_inherent_data :: "('d \<Rightarrow> bytes \<Rightarrow> bytes \<Rightarrow> ('e, 'd) res) \<Rightarrow> inherent_data_provider \<Rightarrow> 'd
    \<Rightarrow> ('e, 'd) res" where
  "provide_inherent_data put_data p inherent_data =
    put_data inherent_data INHERENT_IDENTIFIER (idp_sequencer_address p)"

section \<open>Finding the log\<close>

locale digest_codec =
  fixes S :: "'cu scale_lib"
  assumes try_to_consensus_item:
      "try_to_consensus S (Consensus e d) e' = (if e = e' then log_decode S d else None)"
    and try_to_consensus_other:
      "(\<And>e d. item \<noteq> Consensus e d) \<Longrightarrow> try_to_consensus S item e' = None"

text \<open>The codecs read back the block \<open>b\<close>.\<close>

definition codec_reads :: "'cu scale_lib \<Rightarrow> deoxys_block \<Rightarrow> bool" where
  "codec_reads S b \<longleftrightarrow> log_decode S (log_encode S (LogBlock b)) = Some (LogBlock b)
     \<and> block_decode S (block_encode S b) = Some b"

lemma find_log_found:
  "try_fold (find_log_step f) (Some l) logs =
    (if List.map_filter f logs = [] then Ok (Some l) else Err MultipleLogs)"
  by (induction logs) (auto simp: find_log_step_def map_filter_simps split: option.splits)

lemma find_log_in_spec:
  "find_log_in f logs =
    (case List.map_filter f logs of [] \<Rightarrow> Err NotLog | [l] \<Rightarrow> Ok l | _ \<Rightarrow> Err MultipleLogs)"
proof (induction logs)
  case Nil
  then show ?case by (simp add: find_log_in_def map_filter_simps)
next
  case (Cons x logs)
  show ?case
  proof (cases "f x")
    case None
    with Cons show ?thesis by (simp add: find_log_in_def find_log_step_def map_filter_simps)
  next
    case (Some l)
    then show ?thesis
      by (simp add: find_log_in_def find_log_step_def find_log_found map_filter_simps
          split: list.split)
  qed
qed

context digest_codec
begin

definition madara_logs :: "digest_item list \<Rightarrow> log list" where
  "madara_logs digest = List.map_filter (\<lambda>item. try_to_consensus S item MADARA_ENGINE_ID) digest"

lemma madara_logs_append: "madara_logs (xs @ ys) = madara_logs xs @ madara_logs ys"
  by (induction xs) (simp_all add: madara_logs_def map_filter_simps split: option.split)

lemma madara_logs_pre_runtime:
  "(\<And>item. item \<in> set digest \<Longrightarrow> \<exists>e d. item = PreRuntime e d) \<Longrightarrow> madara_logs digest = []"
  by (induction digest) (fastforce simp: madara_logs_def map_filter_simps try_to_consensus_other)+

lemma find_starknet_block_pushed:
  assumes "madara_logs digest = []" and "codec_reads S b"
  shows "find_starknet_block S (digest @ [Consensus MADARA_ENGINE_ID (log_encode S (LogBlock b))]) = Ok b"
proof -
  have "madara_logs [Consensus MADARA_ENGINE_ID (log_encode S (LogBlock b))] = [LogBlock b]"
    using assms(2)
    by (simp add: madara_logs_def map_filter_simps try_to_consensus_item codec_reads_def)
  then have "madara_logs (digest @ [Consensus MADARA_ENGINE_ID (log_encode S (LogBlock b))]) = [LogBlock b]"
    using assms(1) by (simp add: madara_logs_append)
  then show ?thesis
    by (simp add: find_starknet_block_def find_log_def find_log_in_spec madara_logs_def)
qed

end

text \<open>Codecs that know one block, encoded by the empty string.\<close>

definition one_block_lib :: "deoxys_block \<Rightarrow> 'cu scale_lib" where
  "one_block_lib b =
    \<lparr> log_encode = (\<lambda>_. []),
      log_decode = (\<lambda>bs. if bs = [] then Some (LogBlock b) else None),
      block_decode = (\<lambda>bs. if bs = [] then Some b else None),
      block_encode = (\<lambda>_. []),
      state_update_decode = (\<lambda>_. None),
      class_update_decode = (\<lambda>_. None),
      try_to_consensus = (\<lambda>item e. case item of
        Consensus e' d \<Rightarrow> if e' = e \<and> d = [] then Some (LogBlock b) else None
      | _ \<Rightarrow> None) \<rparr>"

interpretation one_block: digest_codec "one_block_lib b" for b
  by unfold_locales (auto simp: one_block_lib_def split: digest_item.split)

lemma one_block_codec: "digest_codec (one_block_lib b)"
  by (rule one_block.digest_codec_axioms)

lemma one_block_reads: "codec_reads (one_block_lib b) b"
  by (simp add: codec_reads_def one_block_lib_def)

section \<open>The header hash\<close>

text \<open>The hashed list: eleven elements from block 833 on, twelve before.\<close>

definition header_preimage :: "header \<Rightarrow> felt list" where
  "header_preimage h =
    (if 833 \<le> h_block_number h then
       [felt_of_nat (unat (h_block_number h)), h_global_state_root h, h_sequencer_address h,
        felt_of_nat (unat (h_block_timestamp h)), felt_of_nat (unat (h_transaction_count h)),
        h_transaction_commitment h, felt_of_nat (unat (h_event_count h)), h_event_commitment h, 0, 0,
        h_parent_block_hash h]
     else
       [felt_of_nat (unat (h_block_number h)), h_global_state_root h, 0, 0,
        felt_of_nat (unat (h_transaction_count h)), h_transaction_commitment h, 0, 0, 0, 0,
        short_felt (ascii ''SN_MAIN''), h_parent_block_hash h])"

lemma header_hash_value:
  "felt_codec L \<Longrightarrow> header_hash L H h = Ok (compute_hash_on_wrappers H (header_preimage h))"
  by (simp add: header_hash_def header_preimage_def felt_codec.u128_embeds prefix_felt_value
      from_u64_def felt_codec.fe_from_u64 ZERO_def)

text \<open>The fields a header hash is meant to bind, before and after block 833.\<close>

definition bound_fields :: "header \<Rightarrow> 64 word \<times> felt \<times> felt \<times> felt \<times> 128 word" where
  "bound_fields h = (h_block_number h, h_parent_block_hash h, h_global_state_root h,
     h_transaction_commitment h, h_transaction_count h)"

definition late_fields :: "header \<Rightarrow> felt \<times> 64 word \<times> 128 word \<times> felt" where
  "late_fields h = (h_sequencer_address h, h_block_timestamp h, h_event_count h, h_event_commitment h)"

lemma header_preimage_eq_iff:
  "header_preimage h = header_preimage h' \<longleftrightarrow>
    bound_fields h = bound_fields h' \<and> (833 \<le> h_block_number h \<longrightarrow> late_fields h = late_fields h')"
  by (auto simp: header_preimage_def bound_fields_def late_fields_def split: if_splits)

section \<open>Properties\<close>

text \<open>The search for the Starknet block succeeds iff the digest holds exactly one consensus
  log of the engine that decodes; it reports \<open>NotLog\<close> when there is none and \<open>MultipleLogs\<close> when
  there are several, whatever else the digest holds.\<close>

theorem find_log_exactly_one:
  "find_log S digest =
    (case List.map_filter (\<lambda>item. try_to_consensus S item MADARA_ENGINE_ID) digest of
       [] \<Rightarrow> Err NotLog | [l] \<Rightarrow> Ok l | _ \<Rightarrow> Err MultipleLogs)
   \<and> (is_ok (ensure_log S digest) \<longleftrightarrow> is_ok (find_starknet_block S digest))"
  by (simp add: find_log_def find_log_in_spec ensure_log_def find_starknet_block_def
      split: list.split)

text \<open>C34: the header hash never panics and binds the header: if the hash function has no
  collision on the two lists, equal hashes mean the same number, parent, state root, transaction
  commitment and count, and from block 833 on the same sequencer, timestamp and events.\<close>

theorem header_hash_binding:
  assumes "felt_codec L"
    and "inj_on (compute_hash_on_wrappers H) {header_preimage h, header_preimage h'}"
  shows "is_ok (header_hash L H h)
    \<and> (header_hash L H h = header_hash L H h' \<longleftrightarrow>
        bound_fields h = bound_fields h' \<and> (833 \<le> h_block_number h \<longrightarrow> late_fields h = late_fields h'))"
  using assms(2) header_preimage_eq_iff [of h h']
  by (simp add: header_hash_value [OF assms(1)] inj_on_def) metis

definition sample_header :: "64 word \<Rightarrow> 64 word \<Rightarrow> header" where
  "sample_header n t = header_new 1 n 0 1 t 0 0 0 0 0 None Calldata None"

lemma sample_headers_inj:
  "inj_on (compute_hash_on_wrappers (PedersenHasher ref_felt_lib ref_crypto))
     {header_preimage (sample_header 900 1), header_preimage (sample_header 900 2)}"
  by (simp add: header_preimage_def sample_header_def header_new_def PedersenHasher_def
      ref_crypto_def toy_hash_def one_felt_def zero_felt_def STARK_PRIME_def)

theorem header_hash_binding_witness:
  "header_hash ref_felt_lib (PedersenHasher ref_felt_lib ref_crypto) (sample_header 900 1)
    \<noteq> header_hash ref_felt_lib (PedersenHasher ref_felt_lib ref_crypto) (sample_header 900 2)"
  using header_hash_binding [OF ref_felt_codec sample_headers_inj]
  by (simp add: sample_header_def header_new_def late_fields_def)

text \<open>The Montgomery literals of the chain ids are the ASCII names of the chains, so
  \<open>from_utf8\<close> prints the name; they are pairwise distinct; the version offset is \<open>2 ^ 128\<close> and the
  program hash is the documented hexadecimal value.\<close>

theorem constants_are_documented:
  assumes "felt_codec L"
  shows "SN_MAIN_CHAIN_ID L = felt_of_nat (be_nat (ascii ''SN_MAIN''))
    \<and> SN_GOERLI_CHAIN_ID L = felt_of_nat (be_nat (ascii ''SN_GOERLI''))
    \<and> SN_SEPOLIA_CHAIN_ID L = felt_of_nat (be_nat (ascii ''SN_SEPOLIA''))
    \<and> MADARA_CHAIN_ID L = felt_of_nat (be_nat (ascii ''MADARA''))
    \<and> distinct [SN_MAIN_CHAIN_ID L, SN_GOERLI_CHAIN_ID L, SN_SEPOLIA_CHAIN_ID L, MADARA_CHAIN_ID L]
    \<and> SIMULATE_TX_VERSION_OFFSET L = felt_of_nat (2 ^ 128)
    \<and> parse_digits 16 ''41fc2a467ef8649580631912517edcab7674173f1dbfa2e9b64fbcd82bc4d79''
        = Some (felt_nat (SN_OS_PROGRAM_HASH L))"
proof -
  note mont = felt_codec.mont_value [OF assms]
  have ids: "SN_MAIN_CHAIN_ID L = felt_of_nat (be_nat (ascii ''SN_MAIN''))"
    "SN_GOERLI_CHAIN_ID L = felt_of_nat (be_nat (ascii ''SN_GOERLI''))"
    "SN_SEPOLIA_CHAIN_ID L = felt_of_nat (be_nat (ascii ''SN_SEPOLIA''))"
    "MADARA_CHAIN_ID L = felt_of_nat (be_nat (ascii ''MADARA''))"
    unfolding SN_MAIN_CHAIN_ID_def SN_GOERLI_CHAIN_ID_def SN_SEPOLIA_CHAIN_ID_def
      MADARA_CHAIN_ID_def
    by (rule mont; simp add: STARK_PRIME_def MONT_R_INV_def be_nat_def ascii_def)+
  have ph: "SN_OS_PROGRAM_HASH L = felt_of_nat
      1865367024509426979036104162713508294334262484507712987283009063059134893433"
    unfolding SN_OS_PROGRAM_HASH_def by (rule mont) (simp_all add: STARK_PRIME_def MONT_R_INV_def)
  show ?thesis
    using ids simulate_offset_value [OF assms]
    by (simp add: ph query_offset_def be_nat_def ascii_def STARK_PRIME_def parse_digits_def
        digit_of_def ascii_digit_def)
qed

theorem constants_are_documented_witness:
  "SN_MAIN_CHAIN_ID ref_felt_lib = felt_of_nat (be_nat (ascii ''SN_MAIN''))"
  using constants_are_documented [OF ref_felt_codec] by blast

text \<open>The sequencer address stored off-chain is accepted iff it has 32 bytes, and the default
  address is a valid field element.\<close>

theorem sequencer_address_format:
  assumes "felt_codec L"
  shows "provider_try_from v = (if length v = 32 then Ok (provider_new v) else Err WrongAddressFormat)
    \<and> provider_try_from (idp_sequencer_address provider_default) = Ok provider_default
    \<and> stark_new L DEFAULT_SEQUENCER_ADDRESS = Some (felt_of_nat 0xDEAD)"
proof -
  have "be_nat DEFAULT_SEQUENCER_ADDRESS = 0xDEAD"
    using be_nat_zeros [of 30 "[222, 173]"] by (simp add: DEFAULT_SEQUENCER_ADDRESS_def be_nat_Cons)
  then show ?thesis
    using felt_codec.stark_new [OF assms, of DEFAULT_SEQUENCER_ADDRESS]
    by (simp add: provider_try_from_def slice_to_arr_def provider_new_def provider_default_def
        DEFAULT_SEQUENCER_ADDRESS_def STARK_PRIME_def)
qed

theorem sequencer_address_format_witness:
  "stark_new ref_felt_lib DEFAULT_SEQUENCER_ADDRESS = Some (felt_of_nat 0xDEAD)"
  using sequencer_address_format [OF ref_felt_codec] by blast

end
