(* ===== verification/CallTree.thy ===== *)
theory CallTree
  imports Block "HOL-Library.Multiset"
begin

text \<open>
  The call tree of an executed transaction and the two ways the node reads it: the pallet walks it
  in the order of execution to emit events and to collect the messages to L1
  (\<open>crates/pallets/starknet/src/lib.rs\<close>), and the RPC server flattens it to build traces
  (\<open>crates/client/rpc/src/utils.rs\<close>).
\<close>

section \<open>Call trees\<close>

record ordered_event =
  oev_order :: nat
  oev_keys :: "felt list"
  oev_data :: "felt list"

record ordered_message =
  omsg_order :: nat
  omsg_to_address :: bytes
  omsg_payload :: "felt list"

datatype call_type = CallKind | DelegateKind

record call_entry_point =
  ce_class_hash :: "felt option"
  ce_entry_point_type :: entry_point_type
  ce_entry_point_selector :: felt
  ce_calldata :: "felt list"
  ce_storage_address :: felt
  ce_caller_address :: felt
  ce_call_type :: call_type

record vm_resources =
  n_steps :: "64 word"
  n_memory_holes :: "64 word"
  builtin_instance_counter :: "string \<rightharpoonup> 64 word"

datatype call_info = CallInfo
  (ci_call: call_entry_point) (ci_retdata: "felt list") (ci_events: "ordered_event list")
  (ci_messages: "ordered_message list") (ci_gas_consumed: "64 word") (ci_resources: vm_resources)
  (ci_inner_calls: "call_info list")

abbreviation ci_storage_address :: "call_info \<Rightarrow> felt" where
  "ci_storage_address ci \<equiv> ce_storage_address (ci_call ci)"

text \<open>A call of a contract of which only the address, the events, the messages and the inner calls matter.\<close>

abbreviation plain_entry :: "felt \<Rightarrow> call_entry_point" where
  "plain_entry address \<equiv> \<lparr> ce_class_hash = None, ce_entry_point_type = External, ce_entry_point_selector = 0,
     ce_calldata = [], ce_storage_address = address, ce_caller_address = 0, ce_call_type = CallKind \<rparr>"

abbreviation plain_call :: "felt \<Rightarrow> ordered_event list \<Rightarrow> ordered_message list \<Rightarrow> call_info list \<Rightarrow> call_info" where
  "plain_call address events messages inner_calls \<equiv> CallInfo (plain_entry address) [] events messages 0
     \<lparr> n_steps = 0, n_memory_holes = 0, builtin_instance_counter = Map.empty \<rparr> inner_calls"

record message_to_l1 =
  msg_from_address :: felt
  msg_to_address :: bytes
  msg_payload :: "felt list"

definition event_of :: "felt \<Rightarrow> ordered_event \<Rightarrow> event" where
  "event_of address e = \<lparr> ev_from_address = address, ev_keys = oev_keys e, ev_data = oev_data e \<rparr>"

definition message_of :: "felt \<Rightarrow> ordered_message \<Rightarrow> message_to_l1" where
  "message_of address m = \<lparr> msg_from_address = address, msg_to_address = omsg_to_address m,
     msg_payload = omsg_payload m \<rparr>"

section \<open>The walk of the pallet\<close>

lemma inner_calls_smaller: "size_list size (ci_inner_calls ci) < size ci"
  by (cases ci) simp

text \<open>The loop of \<open>emit_events_in_call_info\<close> and of \<open>aggregate_messages_in_call_info\<close>, which differ
  only in the list they read and in what they do with an item. The arguments of \<open>walk_loop\<close> are the
  items and inner calls still to visit: the lists from \<open>event_idx\<close> and \<open>inner_call_idx\<close> on.\<close>

function walk :: "(call_info \<Rightarrow> 'i list) \<Rightarrow> ('i \<Rightarrow> nat) \<Rightarrow> (felt \<Rightarrow> 'i \<Rightarrow> 's \<Rightarrow> 's) \<Rightarrow> call_info \<Rightarrow> nat \<Rightarrow> 's
      \<Rightarrow> nat \<times> 's"
  and walk_loop :: "(call_info \<Rightarrow> 'i list) \<Rightarrow> ('i \<Rightarrow> nat) \<Rightarrow> (felt \<Rightarrow> 'i \<Rightarrow> 's \<Rightarrow> 's) \<Rightarrow> felt \<Rightarrow> 'i list
      \<Rightarrow> call_info list \<Rightarrow> nat \<Rightarrow> 's \<Rightarrow> nat \<times> 's" where
  "walk items order push ci next_order s =
     walk_loop items order push (ci_storage_address ci) (items ci) (ci_inner_calls ci) next_order s"
| "walk_loop items order push addr [] [] next_order s = (next_order, s)"
| "walk_loop items order push addr [] (c # cs) next_order s =
    (case walk items order push c next_order s of (next_order', s') \<Rightarrow>
       walk_loop items order push addr [] cs next_order' s')"
| "walk_loop items order push addr (x # xs) [] next_order s =
    (if order x = next_order
     then walk_loop items order push addr xs [] (next_order + 1) (push addr x s)
     else (next_order, s))"
| "walk_loop items order push addr (x # xs) (c # cs) next_order s =
    (if order x = next_order
     then walk_loop items order push addr xs (c # cs) (next_order + 1) (push addr x s)
     else case walk items order push c next_order s of (next_order', s') \<Rightarrow>
       walk_loop items order push addr (x # xs) cs next_order' s')"
  by pat_completeness auto

termination
  by (relation "measures
        [\<lambda>x. case x of Inl (_, _, _, ci, _, _) \<Rightarrow> 2 * size ci
             | Inr (_, _, _, _, _, cs, _, _) \<Rightarrow> 2 * size_list size cs,
         \<lambda>x. case x of Inl _ \<Rightarrow> 0 | Inr (_, _, _, _, xs, _, _, _) \<Rightarrow> length xs]")
    (auto simp: inner_calls_smaller)

section \<open>The flattening of the RPC server\<close>

text \<open>The reading of every element through 32 bytes is an identity on field elements.\<close>

fun extract_events_from_call_info :: "call_info \<Rightarrow> event list" where
  "extract_events_from_call_info (CallInfo call retdata events messages gas resources inner_calls) =
    map (event_of (ce_storage_address call)) events @ concat (map extract_events_from_call_info inner_calls)"

fun extract_messages_from_call_info :: "call_info \<Rightarrow> message_to_l1 list" where
  "extract_messages_from_call_info (CallInfo call retdata events messages gas resources inner_calls) =
    map (message_of (ce_storage_address call)) messages @ concat (map extract_messages_from_call_info inner_calls)"

section \<open>Execution order\<close>

text \<open>\<open>trace items order ci n zs\<close>: the items of the tree carry, in the order of execution, the
  consecutive numbers from \<open>n\<close> on, and \<open>zs\<close> lists them with the address that issued them. In
  a call, items and inner calls may alternate in any way.\<close>

inductive trace :: "(call_info \<Rightarrow> 'i list) \<Rightarrow> ('i \<Rightarrow> nat) \<Rightarrow> call_info \<Rightarrow> nat \<Rightarrow> (felt \<times> 'i) list \<Rightarrow> bool"
  and trace_loop :: "(call_info \<Rightarrow> 'i list) \<Rightarrow> ('i \<Rightarrow> nat) \<Rightarrow> felt \<Rightarrow> 'i list \<Rightarrow> call_info list \<Rightarrow> nat
      \<Rightarrow> (felt \<times> 'i) list \<Rightarrow> bool"
  for items order where
  trace_call: "trace_loop items order (ci_storage_address ci) (items ci) (ci_inner_calls ci) n zs \<Longrightarrow>
    trace items order ci n zs"
| trace_end: "trace_loop items order addr [] [] n []"
| trace_own: "order x = n \<Longrightarrow> trace_loop items order addr xs cs (n + 1) zs \<Longrightarrow>
    trace_loop items order addr (x # xs) cs n ((addr, x) # zs)"
| trace_inner: "trace items order c n ys \<Longrightarrow> trace_loop items order addr xs cs (n + length ys) zs \<Longrightarrow>
    trace_loop items order addr xs (c # cs) n (ys @ zs)"

inductive_cases trace_callE [elim]: "trace items order ci n zs"

text \<open>A tree without items.\<close>

fun no_items :: "(call_info \<Rightarrow> 'i list) \<Rightarrow> call_info \<Rightarrow> bool" where
  "no_items items (CallInfo c rs es ms g r cs) \<longleftrightarrow>
    items (CallInfo c rs es ms g r cs) = [] \<and> list_all (no_items items) cs"

lemma no_items_iff: "no_items items ci \<longleftrightarrow> items ci = [] \<and> list_all (no_items items) (ci_inner_calls ci)"
  by (cases ci) simp

lemma trace_no_items:
  "trace items order ci n zs \<Longrightarrow> zs = [] \<Longrightarrow> no_items items ci"
  "trace_loop items order addr xs cs n zs \<Longrightarrow> zs = [] \<Longrightarrow> xs = [] \<and> list_all (no_items items) cs"
  by (induction rule: trace_trace_loop.inducts) (auto simp: no_items_iff)

lemma walk_no_items:
  "no_items items ci \<Longrightarrow> walk items order push ci n s = (n, s)"
  "xs = [] \<Longrightarrow> list_all (no_items items) cs \<Longrightarrow> walk_loop items order push addr xs cs n s = (n, s)"
  by (induction items order push ci n s and items order push addr xs cs n s
      rule: walk_walk_loop.induct) (auto simp: no_items_iff)

lemma walk_loop_skip:
  "no_items items c \<Longrightarrow>
   walk_loop items order push addr xs (c # cs) n s = walk_loop items order push addr xs cs n s"
proof (induction xs arbitrary: n s)
  case Nil
  then show ?case by (simp add: walk_no_items del: walk.simps)
next
  case (Cons x xs)
  then show ?case by (cases cs) (simp_all add: walk_no_items del: walk.simps)
qed

lemma trace_loop_bound: "trace_loop items order addr xs cs n zs \<Longrightarrow> xs \<noteq> [] \<Longrightarrow> n \<le> order (hd xs)"
  by (induction xs cs n zs rule: trace_trace_loop.inducts(2) [where ?P1.0 = "\<lambda>_ _ _. True"]) auto

lemma walk_loop_descend:
  assumes "xs = [] \<or> order (hd xs) \<noteq> n"
  shows "walk_loop items order push addr xs (c # cs) n s =
    (case walk items order push c n s of (n', s') \<Rightarrow> walk_loop items order push addr xs cs n' s')"
  using assms by (cases xs) auto

text \<open>On a tree numbered in the order of execution the walk issues exactly its items, in order.\<close>

lemma walk_trace:
  "trace items order ci n zs \<Longrightarrow>
     walk items order push ci n s = (n + length zs, fold (\<lambda>(a, x). push a x) zs s)"
  "trace_loop items order addr xs cs n zs \<Longrightarrow>
     walk_loop items order push addr xs cs n s = (n + length zs, fold (\<lambda>(a, x). push a x) zs s)"
proof (induction arbitrary: s and s rule: trace_trace_loop.inducts)
  case (trace_call ci n zs)
  then show ?case by simp
next
  case (trace_end addr n)
  then show ?case by simp
next
  case (trace_own x n addr xs cs zs)
  then show ?case by (cases cs) simp_all
next
  case (trace_inner c n ys addr xs cs zs)
  show ?case
  proof (cases "ys = []")
    case True
    then have "no_items items c" using trace_no_items(1) [OF trace_inner(1)] by simp
    then show ?thesis using trace_inner(4) [of s] True by (simp add: walk_loop_skip)
  next
    case False
    then have "xs = [] \<or> order (hd xs) \<noteq> n"
      using trace_loop_bound [OF trace_inner(3)] by (cases xs) auto
    then show ?thesis
      using trace_inner(2) [of s] trace_inner(4)
      by (simp add: walk_loop_descend del: walk.simps)
  qed
qed

text \<open>On any tree at all, what the walk issues is numbered consecutively.\<close>

fun tree_items :: "(call_info \<Rightarrow> 'i list) \<Rightarrow> call_info \<Rightarrow> (felt \<times> 'i) list" where
  "tree_items items (CallInfo c rs es ms g r cs) =
    map (Pair (ce_storage_address c)) (items (CallInfo c rs es ms g r cs)) @ concat (map (tree_items items) cs)"

lemma tree_items_eq: "tree_items items ci =
    map (Pair (ci_storage_address ci)) (items ci) @ concat (map (tree_items items) (ci_inner_calls ci))"
  by (cases ci) simp

primrec consecutive :: "('i \<Rightarrow> nat) \<Rightarrow> nat \<Rightarrow> (felt \<times> 'i) list \<Rightarrow> bool" where
  "consecutive order n [] \<longleftrightarrow> True"
| "consecutive order n (z # zs) \<longleftrightarrow> order (snd z) = n \<and> consecutive order (Suc n) zs"

lemma consecutive_nth: "consecutive order n zs \<Longrightarrow> i < length zs \<Longrightarrow> order (snd (zs ! i)) = n + i"
proof (induction zs arbitrary: n i)
  case (Cons z zs)
  then show ?case by (cases i) auto
qed simp

lemma consecutive_append:
  "consecutive order n (ys @ zs) \<longleftrightarrow> consecutive order n ys \<and> consecutive order (n + length ys) zs"
  by (induction ys arbitrary: n) auto

lemma walk_consecutive:
  "\<exists>zs. walk items order push ci n s = (n + length zs, fold (\<lambda>(a, x). push a x) zs s)
     \<and> consecutive order n zs \<and> set zs \<subseteq> set (tree_items items ci)"
  "\<exists>zs. walk_loop items order push addr xs cs n s = (n + length zs, fold (\<lambda>(a, x). push a x) zs s)
     \<and> consecutive order n zs
     \<and> set zs \<subseteq> Pair addr ` set xs \<union> (\<Union>c\<in>set cs. set (tree_items items c))"
proof (induction items order push ci n s and items order push addr xs cs n s
    rule: walk_walk_loop.induct)
  case (1 items order push ci n s)
  then show ?case by (auto simp: tree_items_eq [of items ci])
next
  case (2 items order push addr n s)
  show ?case by (rule exI [of _ "[]"]) simp
next
  case (3 items order push addr c cs n s)
  then obtain ys where ys: "walk items order push c n s = (n + length ys, fold (\<lambda>(a, x). push a x) ys s)"
    "consecutive order n ys" "set ys \<subseteq> set (tree_items items c)" by blast
  from 3(2) [OF ys(1) [symmetric]] obtain zs where
    "walk_loop items order push addr [] cs (n + length ys) (fold (\<lambda>(a, x). push a x) ys s)
       = (n + length ys + length zs, fold (\<lambda>(a, x). push a x) zs (fold (\<lambda>(a, x). push a x) ys s))"
    "consecutive order (n + length ys) zs" "set zs \<subseteq> (\<Union>c\<in>set cs. set (tree_items items c))" by auto
  with ys show ?case
    by (intro exI [of _ "ys @ zs"]) (auto simp: consecutive_append simp del: walk.simps)
next
  case (4 items order push addr x xs n s)
  show ?case
  proof (cases "order x = n")
    case True
    with 4 obtain zs where "walk_loop items order push addr xs [] (n + 1) (push addr x s)
        = (n + 1 + length zs, fold (\<lambda>(a, x). push a x) zs (push addr x s))"
      "consecutive order (n + 1) zs" "set zs \<subseteq> Pair addr ` set xs" by auto
    with True show ?thesis by (intro exI [of _ "(addr, x) # zs"]) auto
  next
    case False
    then show ?thesis by (intro exI [of _ "[]"]) simp
  qed
next
  case (5 items order push addr x xs c cs n s)
  show ?case
  proof (cases "order x = n")
    case True
    with 5(1) obtain zs where "walk_loop items order push addr xs (c # cs) (n + 1) (push addr x s)
        = (n + 1 + length zs, fold (\<lambda>(a, x). push a x) zs (push addr x s))"
      "consecutive order (n + 1) zs"
      "set zs \<subseteq> Pair addr ` set xs \<union> (\<Union>c\<in>set (c # cs). set (tree_items items c))" by blast
    with True show ?thesis by (intro exI [of _ "(addr, x) # zs"]) auto
  next
    case False
    with 5(2) obtain ys where ys: "walk items order push c n s = (n + length ys, fold (\<lambda>(a, x). push a x) ys s)"
      "consecutive order n ys" "set ys \<subseteq> set (tree_items items c)" by blast
    from 5(3) [OF False ys(1) [symmetric]] obtain zs where
      "walk_loop items order push addr (x # xs) cs (n + length ys) (fold (\<lambda>(a, x). push a x) ys s)
         = (n + length ys + length zs, fold (\<lambda>(a, x). push a x) zs (fold (\<lambda>(a, x). push a x) ys s))"
      "consecutive order (n + length ys) zs"
      "set zs \<subseteq> Pair addr ` set (x # xs) \<union> (\<Union>c\<in>set cs. set (tree_items items c))" by blast
    with ys False show ?thesis
      by (intro exI [of _ "ys @ zs"]) (auto simp: consecutive_append simp del: walk.simps)
  qed
qed

section \<open>Execution order and flattening\<close>

lemma trace_mset:
  "trace items order ci n zs \<Longrightarrow> mset zs = mset (tree_items items ci)"
  "trace_loop items order addr xs cs n zs \<Longrightarrow>
     mset zs = mset (map (Pair addr) xs) + mset (concat (map (tree_items items) cs))"
proof (induction rule: trace_trace_loop.inducts)
  case (trace_call ci n zs)
  then show ?case by (simp add: tree_items_eq [of items ci] del: tree_items.simps)
qed (simp_all add: ac_simps)

lemma extract_events_flat:
  "extract_events_from_call_info ci = map (\<lambda>(a, e). event_of a e) (tree_items ci_events ci)"
  by (induction ci) (simp add: map_concat comp_def cong: map_cong)

lemma extract_messages_flat:
  "extract_messages_from_call_info ci = map (\<lambda>(a, m). message_of a m) (tree_items ci_messages ci)"
  by (induction ci) (simp add: map_concat comp_def cong: map_cong)

end
