(* ===== verification/Pallet.thy ===== *)
theory Pallet
  imports CallTree
begin

text \<open>
  The Starknet pallet, \<open>crates/pallets/starknet/src/lib.rs\<close>: its storage, the genesis build, the
  hooks of the block life cycle, the sequencer address inherent, and the storing of events and
  messages. Storage items are maps (a \<open>StorageMap\<close>) or optional values (a \<open>StorageValue\<close>), updated
  by the primitives of FRAME; the parts of \<open>frame_system\<close> the pallet reads are the last three fields
  of the state. The types \<open>'c\<close> and \<open>'a\<close> are the compiled class and the ABI of a contract.
\<close>

section \<open>Storage\<close>

datatype schema_version = Undefined | V1

record ('c, 'a) pallet_state =
  ps_schema :: schema_version
  ps_pending :: "transaction list"
  ps_pending_hashes :: "felt list"
  ps_tx_events :: "felt \<rightharpoonup> event list"
  ps_tx_messages :: "felt \<rightharpoonup> message_to_l1 list"
  ps_tx_revert_error :: "felt \<rightharpoonup> string"
  ps_contracts_state_roots :: "felt \<rightharpoonup> felt"
  ps_pending_storage_changes :: "felt \<rightharpoonup> (felt \<times> felt) list"
  ps_block_hash :: "64 word \<rightharpoonup> felt"
  ps_contract_class_hashes :: "felt \<rightharpoonup> felt"
  ps_contract_classes :: "felt \<rightharpoonup> 'c"
  ps_contract_abis :: "felt \<rightharpoonup> 'a"
  ps_compiled_class_hashes :: "felt \<rightharpoonup> felt"
  ps_nonces :: "felt \<rightharpoonup> felt"
  ps_last_known_eth_block :: "64 word option"
  ps_fee_tokens :: fee_token_addresses
  ps_sequencer_address :: felt
  ps_seq_addr_update :: "bool option"
  ps_l1_messages :: "felt set"
  sys_block_number :: "64 word"
  sys_digest :: "digest_item list"
  sys_events :: "event list"

datatype pallet_error =
  AccountNotDeployed | TransactionExecutionFailed | ClassHashAlreadyDeclared
| ContractClassHashUnknown | ContractClassAlreadyAssociated | ContractClassMustBeSpecified
| AccountAlreadyDeployed | ContractAddressAlreadyAssociated | InvalidContractClass
| TooManyEmittedStarknetEvents | StateReaderError | EmitEventError | StateDiffError
| ContractNotFound | TransactionConversionError | SequencerAddressNotValid
| InvalidContractClassForThisDeclareVersion | Unimplemented | MissingRevertReason
| MissingCallInfo | FailedToCreateATransactionalStorageExecution | L1MessageAlreadyExecuted
| MissingL1GasUsage | BadOrigin

record ('c, 'a) contract_class_data =
  ccd_hash :: felt
  ccd_contract :: 'c
  ccd_abi :: 'a

type_synonym ('c, 'a) class_update = "('c, 'a) contract_class_data list"
type_synonym ('c, 'a) codecs = "('c, 'a) class_update scale_lib"

section \<open>Genesis\<close>

record genesis_config =
  gc_contracts :: "(felt \<times> felt) list"
  gc_sierra_to_casm_class_hash :: "(felt \<times> felt) list"
  gc_storage :: "(felt \<times> (felt \<times> felt) list) list"
  gc_strk_fee_token_address :: felt
  gc_eth_fee_token_address :: felt

definition genesis_config_default :: genesis_config where
  "genesis_config_default =
    \<lparr> gc_contracts = [], gc_sierra_to_casm_class_hash = [], gc_storage = [],
      gc_strk_fee_token_address = 0, gc_eth_fee_token_address = 0 \<rparr>"

definition genesis_build :: "genesis_config \<Rightarrow> ('c, 'a) pallet_state \<Rightarrow> ('c, 'a) pallet_state" where
  "genesis_build self st =
    (let st = st\<lparr>ps_schema := V1\<rparr>;
         st = st\<lparr>ps_contract_class_hashes :=
                insert_all (ps_contract_class_hashes st) (gc_contracts self)\<rparr>;
         st = st\<lparr>ps_compiled_class_hashes :=
                insert_all (ps_compiled_class_hashes st) (gc_sierra_to_casm_class_hash self)\<rparr>;
         st = st\<lparr>ps_last_known_eth_block := None\<rparr>;
         st = st\<lparr>ps_fee_tokens := \<lparr> strk_fee_token_address = gc_strk_fee_token_address self,
                                   eth_fee_token_address = gc_eth_fee_token_address self \<rparr>\<rparr>
     in st\<lparr>ps_seq_addr_update := Some True\<rparr>)"

text \<open>Storage before genesis: nothing written, the default values of the value queries.\<close>

definition empty_storage :: "('c, 'a) pallet_state" where
  "empty_storage =
    \<lparr> ps_schema = Undefined, ps_pending = [], ps_pending_hashes = [], ps_tx_events = Map.empty,
      ps_tx_messages = Map.empty, ps_tx_revert_error = Map.empty,
      ps_contracts_state_roots = Map.empty, ps_pending_storage_changes = Map.empty, ps_block_hash = Map.empty, ps_contract_class_hashes = Map.empty,
      ps_contract_classes = Map.empty, ps_contract_abis = Map.empty,
      ps_compiled_class_hashes = Map.empty, ps_nonces = Map.empty, ps_last_known_eth_block = None,
      ps_fee_tokens = \<lparr> strk_fee_token_address = 0, eth_fee_token_address = 0 \<rparr>,
      ps_sequencer_address = 0, ps_seq_addr_update = None, ps_l1_messages = {}, sys_block_number = 0, sys_digest = [],
      sys_events = [] \<rparr>"

section \<open>Hooks\<close>

definition store_state_update :: "('c, 'a) codecs \<Rightarrow> bytes \<Rightarrow> ('c, 'a) pallet_state \<Rightarrow> ('c, 'a) pallet_state" where
  "store_state_update S encoded_data st =
    (case state_update_decode S encoded_data of
       Some state_update \<Rightarrow>
         (let diff = su_state_diff state_update;
              st = st\<lparr>ps_nonces := insert_all (ps_nonces st) (nonces diff)\<rparr>;
              st = st\<lparr>ps_contract_class_hashes :=
                     insert_all (ps_contract_class_hashes st)
                       (map (\<lambda>contract. (dep_address contract, dep_class_hash contract))
                         (deployed_contracts diff @ replaced_classes diff))\<rparr>
          in st\<lparr>ps_compiled_class_hashes :=
               insert_all (ps_compiled_class_hashes st)
                 (map (\<lambda>declared. (dec_class_hash declared, dec_compiled_class_hash declared))
                   (declared_classes diff))\<rparr>)
     | None \<Rightarrow> st)"

definition store_class_update :: "('c, 'a) codecs \<Rightarrow> bytes \<Rightarrow> ('c, 'a) pallet_state \<Rightarrow> ('c, 'a) pallet_state" where
  "store_class_update S encoded_data st =
    (case class_update_decode S encoded_data of
       Some class_update \<Rightarrow>
         fold (\<lambda>d st. st\<lparr>ps_contract_classes := (ps_contract_classes st)(ccd_hash d \<mapsto> ccd_contract d),
                        ps_contract_abis := (ps_contract_abis st)(ccd_hash d \<mapsto> ccd_abi d)\<rparr>)
           class_update st
     | None \<Rightarrow> st)"

definition on_initialize :: "('c, 'a) codecs \<Rightarrow> ('c, 'a) pallet_state \<Rightarrow> ('c, 'a) pallet_state" where
  "on_initialize S st =
    fold (\<lambda>log_entry st.
      case log_entry of
        PreRuntime engine_id encoded_data \<Rightarrow>
          if engine_id = STATE_ENGINE_ID then store_state_update S encoded_data st
          else if engine_id = CLASS_ENGINE_ID then store_class_update S encoded_data st
          else st
      | _ \<Rightarrow> st) (sys_digest st) st"

definition store_block :: "felt_lib \<Rightarrow> ('c, 'a) codecs \<Rightarrow> 64 word \<Rightarrow> ('c, 'a) pallet_state
    \<Rightarrow> ('c, 'a) pallet_state panicking" where
  "store_block L S block_number st =
    (case sys_digest st of
       [] \<Rightarrow> Panic
     | PreRuntime engine_id encoded_data # _ \<Rightarrow>
         if engine_id = MADARA_ENGINE_ID then
           (case block_decode S encoded_data of
              None \<Rightarrow> Ok st
            | Some block \<Rightarrow>
                res_bind (unwrap_opt (h_extra_data (blk_header block))) (\<lambda>extra_data.
                res_bind (unwrap (try_from_u256 L extra_data)) (\<lambda>blockhash.
                Ok (st\<lparr>ps_block_hash := (ps_block_hash st)(block_number \<mapsto> blockhash),
                       ps_pending := [],
                       sys_digest := sys_digest st @
                         [Consensus MADARA_ENGINE_ID (log_encode S (LogBlock block))]\<rparr>))))
         else Ok st
     | _ # _ \<Rightarrow> Ok st)"

definition on_finalize :: "felt_lib \<Rightarrow> ('c, 'a) codecs \<Rightarrow> ('c, 'a) pallet_state
    \<Rightarrow> ('c, 'a) pallet_state panicking" where
  "on_finalize L S st =
    (let taken = (case ps_seq_addr_update st of Some b \<Rightarrow> b | None \<Rightarrow> False);
         st = st\<lparr>ps_seq_addr_update := None\<rparr>
     in if \<not> taken then Panic else store_block L S (sys_block_number st) st)"

section \<open>The sequencer address inherent\<close>

text \<open>\<open>origin_none\<close>: the origin passes \<open>ensure_none\<close>.\<close>

definition set_sequencer_address :: "felt_lib \<Rightarrow> bool \<Rightarrow> bytes \<Rightarrow> ('c, 'a) pallet_state
    \<Rightarrow> (pallet_error, ('c, 'a) pallet_state) res" where
  "set_sequencer_address L origin_none addr st =
    (if \<not> origin_none then Err BadOrigin
     else if sys_block_number st > 1 \<and> ps_seq_addr_update st \<noteq> None then Panic
     else
       res_bind (ok_or SequencerAddressNotValid (stark_new L addr)) (\<lambda>addr.
       res_bind (ok_or SequencerAddressNotValid (patricia_try_from L addr)) (\<lambda>addr.
       Ok (st\<lparr>ps_sequencer_address := addr, ps_seq_addr_update := Some True\<rparr>))))"

datatype call = SetSequencerAddress bytes

text \<open>\<open>inherent_data\<close>: what \<open>InherentData::get_data\<close> answers; an error is a decoding failure.\<close>

definition create_inherent :: "('e, bytes option) res \<Rightarrow> call option panicking" where
  "create_inherent inherent_data =
    res_bind (unwrap inherent_data) (\<lambda>data.
      Ok (Some (SetSequencerAddress
        (case data of Some a \<Rightarrow> a | None \<Rightarrow> DEFAULT_SEQUENCER_ADDRESS))))"

definition is_inherent :: "call \<Rightarrow> bool" where
  "is_inherent c = (case c of SetSequencerAddress _ \<Rightarrow> True)"

section \<open>Queries\<close>

record pallet_config =
  cfg_l1_gas_prices :: gas_prices
  cfg_chain_id :: felt
  cfg_program_hash :: felt
  cfg_system_hash :: hasher_t
  cfg_now :: "64 word"
  cfg_unsigned_priority :: "64 word"
  cfg_transaction_longevity :: "64 word"
  cfg_disable_transaction_fee :: bool
  cfg_disable_nonce_validation :: bool
  cfg_invoke_tx_max_n_steps :: "32 word"
  cfg_validate_max_n_steps :: "32 word"
  cfg_protocol_version :: felt
  cfg_max_recursion_depth :: "32 word"

definition parent_block_hash :: "('c, 'a) pallet_state \<Rightarrow> 64 word \<Rightarrow> felt" where
  "parent_block_hash st current_block_number =
    (if current_block_number = 0 then 0
     else case ps_block_hash st (current_block_number - 1) of Some h \<Rightarrow> h | None \<Rightarrow> 0)"

definition block_timestamp :: "pallet_config \<Rightarrow> 64 word" where
  "block_timestamp cfg = cfg_now cfg div 1000"

definition chain_id_str :: "felt_lib \<Rightarrow> pallet_config \<Rightarrow> bytes" where
  "chain_id_str L cfg = fe_to_bytes_be L (cfg_chain_id cfg)"

definition get_block_context :: "felt_lib \<Rightarrow> pallet_config \<Rightarrow> ('c, 'a) pallet_state \<Rightarrow> block_context" where
  "get_block_context L cfg st =
    \<lparr> bc_block_number = sys_block_number st,
      bc_block_timestamp = block_timestamp cfg,
      bc_sequencer_address = ps_sequencer_address st,
      bc_gas_prices = cfg_l1_gas_prices cfg,
      bc_use_kzg_da = False,
      bc_chain_id = chain_id_str L cfg,
      bc_fee_token_addresses = ps_fee_tokens st \<rparr>"

definition transaction_count :: "('c, 'a) pallet_state \<Rightarrow> nat" where
  "transaction_count st = length (ps_pending st)"

definition event_count :: "('c, 'a) pallet_state \<Rightarrow> nat" where
  "event_count st = (\<Sum>h \<in> dom (ps_tx_events st). length (the (ps_tx_events st h)))"

definition SN_OS_CONFIG_HASH_VERSION :: bytes where
  "SN_OS_CONFIG_HASH_VERSION = ascii ''StarknetOsConfig1''"

definition config_hash :: "felt_lib \<Rightarrow> pallet_config \<Rightarrow> ('c, 'a) pallet_state \<Rightarrow> felt panicking" where
  "config_hash L cfg st =
    res_bind (prefix_felt L SN_OS_CONFIG_HASH_VERSION) (\<lambda>version.
      Ok (compute_hash_on_elements (cfg_system_hash cfg)
        [version, cfg_chain_id cfg, eth_fee_token_address (ps_fee_tokens st)]))"

text \<open>The execution engine is the argument \<open>execute\<close>: the block context, the class hash and the
  call give the returned data or an error; \<open>new_invoke_ok\<close>: an execution context could be built.\<close>

definition call_contract :: "felt_lib \<Rightarrow> pallet_config \<Rightarrow> bool
    \<Rightarrow> (block_context \<Rightarrow> felt \<Rightarrow> felt \<Rightarrow> felt \<Rightarrow> felt list \<Rightarrow> ('x, felt list) res)
    \<Rightarrow> ('c, 'a) pallet_state \<Rightarrow> felt \<Rightarrow> felt \<Rightarrow> felt list \<Rightarrow> (pallet_error, felt list) res" where
  "call_contract L cfg new_invoke_ok execute st address function_selector calldata =
    (let block_context = get_block_context L cfg st in
     res_bind (ok_or ContractNotFound (ps_contract_class_hashes st address)) (\<lambda>class_hash.
     if \<not> new_invoke_ok then Err TransactionExecutionFailed
     else case execute block_context class_hash address function_selector calldata of
            Ok retdata \<Rightarrow> Ok retdata
          | Err e \<Rightarrow> Err TransactionExecutionFailed
          | Panic \<Rightarrow> Panic))"

section \<open>Events and messages\<close>

definition append_to :: "('k \<rightharpoonup> 'v list) \<Rightarrow> 'k \<Rightarrow> 'v \<Rightarrow> ('k \<rightharpoonup> 'v list)" where
  "append_to m k v = m(k \<mapsto> (case m k of Some vs \<Rightarrow> vs | None \<Rightarrow> []) @ [v])"

definition push_message :: "felt \<Rightarrow> felt \<Rightarrow> ordered_message \<Rightarrow> ('c, 'a) pallet_state \<Rightarrow> ('c, 'a) pallet_state" where
  "push_message tx_hash address m st =
    st\<lparr>ps_tx_messages := append_to (ps_tx_messages st) tx_hash (message_of address m)\<rparr>"

definition aggregate_messages_in_call_info :: "felt \<Rightarrow> call_info \<Rightarrow> nat \<Rightarrow> ('c, 'a) pallet_state
    \<Rightarrow> nat \<times> ('c, 'a) pallet_state" where
  "aggregate_messages_in_call_info tx_hash call_info next_order st =
    walk ci_messages omsg_order (push_message tx_hash) call_info next_order st"

text \<open>FRAME drops the events of block 0; a block under construction has a greater number, and only there are
  events emitted.\<close>

definition push_event :: "felt \<Rightarrow> felt \<Rightarrow> ordered_event \<Rightarrow> ('c, 'a) pallet_state \<Rightarrow> ('c, 'a) pallet_state" where
  "push_event tx_hash address e st =
    (let event = event_of address e;
         st = st\<lparr>sys_events := sys_events st @ [event]\<rparr>
     in st\<lparr>ps_tx_events := append_to (ps_tx_events st) tx_hash event\<rparr>)"

definition emit_events_in_call_info :: "felt \<Rightarrow> call_info \<Rightarrow> nat \<Rightarrow> ('c, 'a) pallet_state
    \<Rightarrow> nat \<times> ('c, 'a) pallet_state" where
  "emit_events_in_call_info tx_hash call_info next_order st =
    walk ci_events oev_order (push_event tx_hash) call_info next_order st"

definition emit_and_store_tx_and_fees_events :: "felt \<Rightarrow> call_info option \<Rightarrow> call_info option
    \<Rightarrow> ('c, 'a) pallet_state \<Rightarrow> ('c, 'a) pallet_state" where
  "emit_and_store_tx_and_fees_events tx_hash execute_call_info fee_transfer_call_info st =
    (let st = (case execute_call_info of
           Some call_info \<Rightarrow>
             snd (aggregate_messages_in_call_info tx_hash call_info 0
               (snd (emit_events_in_call_info tx_hash call_info 0 st)))
         | None \<Rightarrow> st)
     in (case fee_transfer_call_info of
           Some call_info \<Rightarrow>
             snd (aggregate_messages_in_call_info tx_hash call_info 0
               (snd (emit_events_in_call_info tx_hash call_info 0 st)))
         | None \<Rightarrow> st))"

section \<open>State updates refine an overlay\<close>

lemma store_class_update_fold:
  "fold (\<lambda>d st. st\<lparr>ps_contract_classes := (ps_contract_classes st)(ccd_hash d \<mapsto> ccd_contract d),
               ps_contract_abis := (ps_contract_abis st)(ccd_hash d \<mapsto> ccd_abi d)\<rparr>) cu st =
   st\<lparr>ps_contract_classes := insert_all (ps_contract_classes st) (map (\<lambda>d. (ccd_hash d, ccd_contract d)) cu),
      ps_contract_abis := insert_all (ps_contract_abis st) (map (\<lambda>d. (ccd_hash d, ccd_abi d)) cu)\<rparr>"
  by (induction cu arbitrary: st) auto

text \<open>What the hooks leave alone.\<close>

lemma store_updates_frame:
  "ps_seq_addr_update (store_state_update S d st) = ps_seq_addr_update st"
  "sys_block_number (store_state_update S d st) = sys_block_number st"
  "sys_digest (store_state_update S d st) = sys_digest st"
  "ps_seq_addr_update (store_class_update S d st) = ps_seq_addr_update st"
  "sys_block_number (store_class_update S d st) = sys_block_number st"
  "sys_digest (store_class_update S d st) = sys_digest st"
  by (auto simp: store_state_update_def store_class_update_def store_class_update_fold Let_def
      split: option.splits)

lemma on_initialize_frame:
  "ps_seq_addr_update (on_initialize S st) = ps_seq_addr_update st"
  "sys_block_number (on_initialize S st) = sys_block_number st"
  "sys_digest (on_initialize S st) = sys_digest st"
proof -
  let ?f = "\<lambda>log_entry st. case log_entry of
        PreRuntime engine_id encoded_data \<Rightarrow>
          if engine_id = STATE_ENGINE_ID then store_state_update S encoded_data st
          else if engine_id = CLASS_ENGINE_ID then store_class_update S encoded_data st
          else st
      | _ \<Rightarrow> st"
  have step: "ps_seq_addr_update (?f e st) = ps_seq_addr_update st"
    "sys_block_number (?f e st) = sys_block_number st" "sys_digest (?f e st) = sys_digest st" for e st
    by (cases e; simp add: store_updates_frame)+
  have "ps_seq_addr_update (fold ?f es st) = ps_seq_addr_update st
      \<and> sys_block_number (fold ?f es st) = sys_block_number st
      \<and> sys_digest (fold ?f es st) = sys_digest st" for es
    by (induction es arbitrary: st) (simp_all add: step)
  then show "ps_seq_addr_update (on_initialize S st) = ps_seq_addr_update st"
    "sys_block_number (on_initialize S st) = sys_block_number st"
    "sys_digest (on_initialize S st) = sys_digest st"
    by (simp_all add: on_initialize_def)
qed

section \<open>Storing of events and messages\<close>

definition get_list :: "('k \<rightharpoonup> 'v list) \<Rightarrow> 'k \<Rightarrow> 'v list" where
  "get_list m k = (case m k of Some vs \<Rightarrow> vs | None \<Rightarrow> [])"

lemma get_list_append_to [store_simps]:
  "get_list (append_to m k v) k' = (if k' = k then get_list m k @ [v] else get_list m k')"
  by (simp add: get_list_def append_to_def)

text \<open>Two states agree except on the events and messages.\<close>

definition same_but_outputs :: "('c, 'a) pallet_state \<Rightarrow> ('c, 'a) pallet_state \<Rightarrow> bool" where
  "same_but_outputs st st' \<longleftrightarrow>
    st'\<lparr>ps_tx_events := ps_tx_events st, ps_tx_messages := ps_tx_messages st,
        sys_events := sys_events st\<rparr> = st"

lemma same_but_outputs_refl [simp]: "same_but_outputs st st"
  by (simp add: same_but_outputs_def)

lemma same_but_outputs_trans: "same_but_outputs a b \<Longrightarrow> same_but_outputs b c \<Longrightarrow> same_but_outputs a c"
  unfolding same_but_outputs_def by (cases a; cases b; cases c) auto

lemma same_but_outputs_fields:
  "same_but_outputs st st' \<Longrightarrow> ps_seq_addr_update st' = ps_seq_addr_update st
     \<and> sys_block_number st' = sys_block_number st \<and> sys_digest st' = sys_digest st
     \<and> ps_block_hash st' = ps_block_hash st"
  unfolding same_but_outputs_def by (cases st; cases st') auto

lemma fold_push_event:
  "let st' = fold (\<lambda>(a, x). push_event h a x) zs st; evs = map (\<lambda>(a, e). event_of a e) zs in
     sys_events st' = sys_events st @ evs
     \<and> get_list (ps_tx_events st') k = get_list (ps_tx_events st) k @ (if k = h then evs else [])
     \<and> ps_tx_messages st' = ps_tx_messages st \<and> same_but_outputs st st'"
proof (induction zs arbitrary: st)
  case (Cons z zs)
  obtain a x where z: "z = (a, x)" by (cases z)
  have "same_but_outputs st (push_event h a x st)"
    by (simp add: push_event_def same_but_outputs_def Let_def)
  with Cons.IH [of "push_event h a x st"] show ?case
    by (auto simp: z Let_def push_event_def store_simps intro: same_but_outputs_trans)
qed simp

lemma fold_push_message:
  "let st' = fold (\<lambda>(a, x). push_message h a x) zs st; ms = map (\<lambda>(a, m). message_of a m) zs in
     get_list (ps_tx_messages st') k = get_list (ps_tx_messages st) k @ (if k = h then ms else [])
     \<and> ps_tx_events st' = ps_tx_events st \<and> sys_events st' = sys_events st
     \<and> same_but_outputs st st'"
proof (induction zs arbitrary: st)
  case (Cons z zs)
  obtain a x where z: "z = (a, x)" by (cases z)
  have "same_but_outputs st (push_message h a x st)"
    by (simp add: push_message_def same_but_outputs_def)
  with Cons.IH [of "push_message h a x st"] show ?case
    by (auto simp: z Let_def push_message_def store_simps intro: same_but_outputs_trans)
qed simp

lemma emit_events_frame: "same_but_outputs st (snd (emit_events_in_call_info h ci n st))"
proof -
  obtain zs where "walk ci_events oev_order (push_event h) ci n st
      = (n + length zs, fold (\<lambda>(a, x). push_event h a x) zs st)"
    using walk_consecutive(1) [of ci_events oev_order "push_event h" ci n st] by blast
  then show ?thesis
    using fold_push_event [of h zs st] by (simp add: emit_events_in_call_info_def Let_def)
qed

lemma aggregate_messages_frame: "same_but_outputs st (snd (aggregate_messages_in_call_info h ci n st))"
proof -
  obtain zs where "walk ci_messages omsg_order (push_message h) ci n st
      = (n + length zs, fold (\<lambda>(a, x). push_message h a x) zs st)"
    using walk_consecutive(1) [of ci_messages omsg_order "push_message h" ci n st] by blast
  then show ?thesis
    using fold_push_message [of h zs st] by (simp add: aggregate_messages_in_call_info_def Let_def)
qed

lemma emit_and_store_frame:
  "same_but_outputs st (emit_and_store_tx_and_fees_events h ci fee st)"
proof -
  have one: "same_but_outputs st (snd (aggregate_messages_in_call_info h c n
      (snd (emit_events_in_call_info h c m st))))" for c n m and st :: "('a, 'b) pallet_state"
    by (rule same_but_outputs_trans [OF emit_events_frame aggregate_messages_frame])
  show ?thesis
    unfolding emit_and_store_tx_and_fees_events_def Let_def
    by (auto split: option.split intro: one same_but_outputs_trans [OF one one])
qed

section \<open>The life cycle of a block\<close>

text \<open>The executive initialises a block, dispatches the inherent, stores what the transactions
  emitted, and finalises the block. The counter is the number of accepted
  \<open>set_sequencer_address\<close> calls in the block under construction.\<close>

datatype phase = Idle | Building nat

inductive pallet_step :: "felt_lib \<Rightarrow> ('c, 'a) codecs \<Rightarrow> phase \<times> ('c, 'a) pallet_state
    \<Rightarrow> phase \<times> ('c, 'a) pallet_state \<Rightarrow> bool" for L S where
  step_initialize: "unat (sys_block_number st) + 1 < 2 ^ 64 \<Longrightarrow>
    pallet_step L S (Idle, st)
      (Building 0, on_initialize S
         (st\<lparr>sys_block_number := sys_block_number st + 1, sys_digest := digest, sys_events := []\<rparr>))"
| step_inherent: "set_sequencer_address L True addr st = Ok st' \<Longrightarrow>
    pallet_step L S (Building k, st) (Building (k + 1), st')"
| step_emit: "pallet_step L S (Building k, st)
    (Building k, emit_and_store_tx_and_fees_events tx_hash ci fee_ci st)"
| step_finalize: "on_finalize L S st = Ok st' \<Longrightarrow> pallet_step L S (Building k, st) (Idle, st')"

inductive_cases pallet_stepE: "pallet_step L S s s'"

inductive reachable :: "felt_lib \<Rightarrow> ('c, 'a) codecs \<Rightarrow> genesis_config \<Rightarrow> phase \<times> ('c, 'a) pallet_state \<Rightarrow> bool"
  for L S g where
  reachable_genesis: "reachable L S g (Idle, genesis_build g empty_storage)"
| reachable_step: "reachable L S g s \<Longrightarrow> pallet_step L S s s' \<Longrightarrow> reachable L S g s'"

fun seq_invariant :: "phase \<times> ('c, 'a) pallet_state \<Rightarrow> bool" where
  "seq_invariant (Idle, st) \<longleftrightarrow>
    ps_seq_addr_update st = (if sys_block_number st = 0 then Some True else None)"
| "seq_invariant (Building k, st) \<longleftrightarrow>
    0 < unat (sys_block_number st) \<and>
    (if unat (sys_block_number st) = 1 then ps_seq_addr_update st = Some True
     else k \<le> 1 \<and> ps_seq_addr_update st = (if k = 0 then None else Some True))"

lemma store_block_frame:
  "store_block L S n st = Ok st' \<Longrightarrow>
     ps_seq_addr_update st' = ps_seq_addr_update st \<and> sys_block_number st' = sys_block_number st"
  by (auto simp: store_block_def result_simps split: list.splits digest_item.splits if_splits option.splits)

lemma on_finalize_frame:
  "on_finalize L S st = Ok st' \<Longrightarrow>
     ps_seq_addr_update st = Some True \<and> ps_seq_addr_update st' = None
     \<and> sys_block_number st' = sys_block_number st"
  using store_block_frame
  by (fastforce simp: on_finalize_def Let_def split: option.splits if_splits)

lemma set_sequencer_address_Ok:
  "set_sequencer_address L o_none addr st = Ok st' \<Longrightarrow>
     o_none \<and> (1 < sys_block_number st \<longrightarrow> ps_seq_addr_update st = None)
     \<and> ps_seq_addr_update st' = Some True \<and> sys_block_number st' = sys_block_number st"
  by (auto simp: set_sequencer_address_def result_simps split: if_splits)

lemma word_gt_1: "1 < (n :: 64 word) \<longleftrightarrow> 1 < unat n"
  by (simp add: word_less_nat_alt)

lemma seq_invariant_step:
  assumes "pallet_step L S s s'" and "seq_invariant s"
  shows "seq_invariant s'"
  using assms
proof (cases rule: pallet_step.cases)
  case (step_initialize st digest)
  then have "unat (sys_block_number st + 1) = unat (sys_block_number st) + 1"
    by (simp add: unat_word_ariths)
  with step_initialize assms(2) show ?thesis
    by (auto simp: on_initialize_frame unat_eq_0 split: if_splits)
next
  case (step_inherent addr st st' k)
  with assms(2) show ?thesis by (auto dest!: set_sequencer_address_Ok simp: word_gt_1 split: if_splits)
next
  case (step_emit k st h ci fee)
  with assms(2) same_but_outputs_fields [OF emit_and_store_frame [of st h ci fee]]
  show ?thesis by (simp split: if_splits)
next
  case (step_finalize st st' k)
  with assms(2) show ?thesis by (auto dest!: on_finalize_frame split: if_splits)
qed

lemma seq_invariant_reachable: "reachable L S g s \<Longrightarrow> seq_invariant s"
proof (induction rule: reachable.induct)
  case reachable_genesis
  show ?case by (simp add: genesis_build_def empty_storage_def Let_def)
qed (rule seq_invariant_step)

lemma felt_codec_sequencer:
  "felt_codec L \<Longrightarrow> length addr = 32 \<Longrightarrow> be_nat addr < 2 ^ 251 \<Longrightarrow>
     stark_new L addr = Some (felt_of_nat (be_nat addr))
     \<and> patricia_try_from L (felt_of_nat (be_nat addr)) = Some (felt_of_nat (be_nat addr))"
  using felt_codec.stark_new [of L addr] felt_codec.patricia_try_from [of L "felt_of_nat (be_nat addr)"]
  by (simp add: STARK_PRIME_def)

text \<open>C3: in every block after the first, on every reachable state, the sequencer address inherent
  is accepted at most once: with no accepted call the block cannot be finalised and a call with an
  address of the contract space is accepted and recorded; after an accepted call a second one
  panics.\<close>

theorem sequencer_inherent_once:
  assumes "felt_codec L" and "reachable L S g (Building k, st)" and "1 < unat (sys_block_number st)"
    and "length addr = 32" and "be_nat addr < 2 ^ 251"
  shows "k \<le> 1
    \<and> (if k = 0
       then on_finalize L S st = Panic
         \<and> set_sequencer_address L True addr st =
             Ok (st\<lparr>ps_sequencer_address := felt_of_nat (be_nat addr), ps_seq_addr_update := Some True\<rparr>)
       else set_sequencer_address L True addr st = Panic)"
proof -
  have "k \<le> 1" "ps_seq_addr_update st = (if k = 0 then None else Some True)"
    using seq_invariant_reachable [OF assms(2)] assms(3) by auto
  then show ?thesis
    using felt_codec_sequencer [OF assms(1,4,5)] assms(3)
    by (auto simp: on_finalize_def set_sequencer_address_def result_simps word_gt_1)
qed

text \<open>Two blocks run from genesis; the digest of each starts with the sample block.\<close>

definition sample_block :: deoxys_block where
  "sample_block = deoxys_block_new ((sample_header 900 1)\<lparr>h_extra_data := Some 7\<rparr>) [] []"

definition sample_codecs :: "(unit, unit) codecs" where
  "sample_codecs = one_block_lib sample_block"

definition sample_digest :: "digest_item list" where
  "sample_digest = [PreRuntime MADARA_ENGINE_ID []]"

lemma sample_store_block:
  "sys_digest st = sample_digest \<Longrightarrow> \<exists>st'. store_block ref_felt_lib sample_codecs n st = Ok st'"
  using felt_codec.u256_accept [OF ref_felt_codec, of 7]
  by (simp add: store_block_def sample_digest_def sample_codecs_def one_block_lib_def sample_block_def
      deoxys_block_new_def STARK_PRIME_def result_simps)

lemma sample_reachable:
  "\<exists>st. reachable ref_felt_lib sample_codecs genesis_config_default (Building 0, st)
     \<and> unat (sys_block_number st) = 2"
proof -
  let ?R = "reachable ref_felt_lib sample_codecs genesis_config_default"
  let ?g = "genesis_build genesis_config_default empty_storage :: (unit, unit) pallet_state"
  let ?b = "on_initialize sample_codecs
    (?g\<lparr>sys_block_number := sys_block_number ?g + 1, sys_digest := sample_digest, sys_events := []\<rparr>)"
  have num: "sys_block_number ?g = 0" by (simp add: genesis_build_def empty_storage_def Let_def)
  then have b: "?R (Building 0, ?b)"
    by (intro reachable_step [OF reachable_genesis] step_initialize) simp
  have upd: "ps_seq_addr_update ?b = Some True"
    by (simp add: on_initialize_frame genesis_build_def Let_def)
  obtain st1 where st1: "on_finalize ref_felt_lib sample_codecs ?b = Ok st1"
    using sample_store_block [of "?b\<lparr>ps_seq_addr_update := None\<rparr>" "sys_block_number ?b"] upd
    by (auto simp: on_finalize_def on_initialize_frame)
  then have n1: "sys_block_number st1 = 1" using on_finalize_frame [OF st1] num
    by (simp add: on_initialize_frame)
  have "?R (Idle, st1)" using reachable_step [OF b step_finalize [OF st1]] .
  then have "?R (Building 0, on_initialize sample_codecs
      (st1\<lparr>sys_block_number := sys_block_number st1 + 1, sys_digest := sample_digest, sys_events := []\<rparr>))"
    by (rule reachable_step) (rule step_initialize, simp add: n1)
  moreover have "unat (sys_block_number (on_initialize sample_codecs
      (st1\<lparr>sys_block_number := sys_block_number st1 + 1, sys_digest := sample_digest, sys_events := []\<rparr>))) = 2"
    by (simp add: on_initialize_frame n1)
  ultimately show ?thesis by blast
qed

theorem sequencer_inherent_once_witness:
  "\<exists>st. reachable ref_felt_lib sample_codecs genesis_config_default (Building 0, st)
     \<and> on_finalize ref_felt_lib sample_codecs st = Panic
     \<and> set_sequencer_address ref_felt_lib True DEFAULT_SEQUENCER_ADDRESS st
         = Ok (st\<lparr>ps_sequencer_address := felt_of_nat (be_nat DEFAULT_SEQUENCER_ADDRESS),
                  ps_seq_addr_update := Some True\<rparr>)"
proof -
  obtain st where st: "reachable ref_felt_lib sample_codecs genesis_config_default (Building 0, st)"
    "unat (sys_block_number st) = 2" using sample_reachable by blast
  have "length DEFAULT_SEQUENCER_ADDRESS = 32" "be_nat DEFAULT_SEQUENCER_ADDRESS < 2 ^ 251"
    by (simp_all add: DEFAULT_SEQUENCER_ADDRESS_def be_nat_def replicate_numeral_unfold)
  from sequencer_inherent_once [OF ref_felt_codec st(1) _ this] st show ?thesis by auto
qed

definition state_diffs :: "('c, 'a) codecs \<Rightarrow> digest_item list \<Rightarrow> state_diff list" where
  "state_diffs S digest = List.map_filter (\<lambda>item. case item of
     PreRuntime e d \<Rightarrow> if e = STATE_ENGINE_ID then map_option su_state_diff (state_update_decode S d) else None
   | _ \<Rightarrow> None) digest"

definition class_datas :: "('c, 'a) codecs \<Rightarrow> digest_item list \<Rightarrow> ('c, 'a) contract_class_data list" where
  "class_datas S digest = concat (List.map_filter (\<lambda>item. case item of
     PreRuntime e d \<Rightarrow> if e = CLASS_ENGINE_ID then class_update_decode S d else None
   | _ \<Rightarrow> None) digest)"

lemma engine_ids_distinct: "STATE_ENGINE_ID \<noteq> CLASS_ENGINE_ID" "CLASS_ENGINE_ID \<noteq> STATE_ENGINE_ID"
  by (simp_all add: STATE_ENGINE_ID_def CLASS_ENGINE_ID_def ascii_def)

definition class_hash_writes :: "state_diff \<Rightarrow> (felt \<times> felt) list" where
  "class_hash_writes d = map (\<lambda>c. (dep_address c, dep_class_hash c)) (deployed_contracts d @ replaced_classes d)"

definition compiled_hash_writes :: "state_diff \<Rightarrow> (felt \<times> felt) list" where
  "compiled_hash_writes d = map (\<lambda>c. (dec_class_hash c, dec_compiled_class_hash c)) (declared_classes d)"

lemma on_initialize_insert_all:
  "on_initialize S st = st\<lparr>
     ps_nonces := insert_all (ps_nonces st) (concat (map nonces (state_diffs S (sys_digest st)))),
     ps_contract_class_hashes := insert_all (ps_contract_class_hashes st)
       (concat (map class_hash_writes (state_diffs S (sys_digest st)))),
     ps_compiled_class_hashes := insert_all (ps_compiled_class_hashes st)
       (concat (map compiled_hash_writes (state_diffs S (sys_digest st)))),
     ps_contract_classes := insert_all (ps_contract_classes st)
       (map (\<lambda>d. (ccd_hash d, ccd_contract d)) (class_datas S (sys_digest st))),
     ps_contract_abis := insert_all (ps_contract_abis st)
       (map (\<lambda>d. (ccd_hash d, ccd_abi d)) (class_datas S (sys_digest st)))\<rparr>"
proof -
  have "fold (\<lambda>log_entry st.
      case log_entry of
        PreRuntime engine_id encoded_data \<Rightarrow>
          if engine_id = STATE_ENGINE_ID then store_state_update S encoded_data st
          else if engine_id = CLASS_ENGINE_ID then store_class_update S encoded_data st
          else st
      | _ \<Rightarrow> st) dig st = st\<lparr>
     ps_nonces := insert_all (ps_nonces st) (concat (map nonces (state_diffs S dig))),
     ps_contract_class_hashes := insert_all (ps_contract_class_hashes st)
       (concat (map class_hash_writes (state_diffs S dig))),
     ps_compiled_class_hashes := insert_all (ps_compiled_class_hashes st)
       (concat (map compiled_hash_writes (state_diffs S dig))),
     ps_contract_classes := insert_all (ps_contract_classes st)
       (map (\<lambda>d. (ccd_hash d, ccd_contract d)) (class_datas S dig)),
     ps_contract_abis := insert_all (ps_contract_abis st)
       (map (\<lambda>d. (ccd_hash d, ccd_abi d)) (class_datas S dig))\<rparr>" for dig
  proof (induction dig arbitrary: st)
    case Nil
    then show ?case by (simp add: state_diffs_def class_datas_def map_filter_simps)
  next
    case (Cons item dig)
    show ?case
    proof (cases item)
      case (PreRuntime e d)
      consider "e = STATE_ENGINE_ID" "state_update_decode S d = None"
        | u where "e = STATE_ENGINE_ID" "state_update_decode S d = Some u"
        | "e = CLASS_ENGINE_ID" "class_update_decode S d = None"
        | u where "e = CLASS_ENGINE_ID" "class_update_decode S d = Some u"
        | "e \<noteq> STATE_ENGINE_ID" "e \<noteq> CLASS_ENGINE_ID" by fastforce
      then show ?thesis
        by cases (simp_all add: PreRuntime Cons.IH state_diffs_def class_datas_def map_filter_simps
            engine_ids_distinct store_state_update_def store_class_update_def store_class_update_fold
            Let_def class_hash_writes_def compiled_hash_writes_def)
    qed (simp_all add: Cons.IH state_diffs_def class_datas_def map_filter_simps)
  qed
  then show ?thesis by (simp add: on_initialize_def)
qed

text \<open>C6: initialising a block overlays the stored nonces, class hashes, compiled class hashes,
  classes and ABIs with all the state and class updates of its digest, in order: the last write of a
  key wins, and within one update the replaced classes win over the deployed contracts; an item that
  does not decode, another engine's item and every other storage item are left as they were.\<close>

theorem on_initialize_overlay:
  "on_initialize S st = st\<lparr>
     ps_nonces := ps_nonces st ++ map_of (rev (concat (map nonces (state_diffs S (sys_digest st))))),
     ps_contract_class_hashes := ps_contract_class_hashes st
       ++ map_of (rev (concat (map class_hash_writes (state_diffs S (sys_digest st))))),
     ps_compiled_class_hashes := ps_compiled_class_hashes st
       ++ map_of (rev (concat (map compiled_hash_writes (state_diffs S (sys_digest st))))),
     ps_contract_classes := ps_contract_classes st
       ++ map_of (rev (map (\<lambda>d. (ccd_hash d, ccd_contract d)) (class_datas S (sys_digest st)))),
     ps_contract_abis := ps_contract_abis st
       ++ map_of (rev (map (\<lambda>d. (ccd_hash d, ccd_abi d)) (class_datas S (sys_digest st))))\<rparr>"
  unfolding on_initialize_insert_all insert_all_map_of ..

section \<open>Finalisation\<close>

definition block_hash_of :: "deoxys_block \<Rightarrow> felt option" where
  "block_hash_of b = (case h_extra_data (blk_header b) of
     Some u \<Rightarrow> if unat u < STARK_PRIME then Some (felt_of_nat (unat u)) else None
   | None \<Rightarrow> None)"

text \<open>The block the first digest item carries, if it carries one.\<close>

definition announced :: "('c, 'a) codecs \<Rightarrow> ('c, 'a) pallet_state \<Rightarrow> deoxys_block option" where
  "announced S st = (case sys_digest st of
     PreRuntime e d # _ \<Rightarrow> if e = MADARA_ENGINE_ID then block_decode S d else None
   | _ \<Rightarrow> None)"

lemma store_block_eq:
  assumes "felt_codec L"
  shows "store_block L S n st =
    (if sys_digest st = [] then Panic
     else case announced S st of
       None \<Rightarrow> Ok st
     | Some b \<Rightarrow> (case block_hash_of b of
         None \<Rightarrow> Panic
       | Some h \<Rightarrow> Ok (st\<lparr>ps_block_hash := (ps_block_hash st)(n \<mapsto> h), ps_pending := [],
           sys_digest := sys_digest st @ [Consensus MADARA_ENGINE_ID (log_encode S (LogBlock b))]\<rparr>)))"
  unfolding store_block_def announced_def block_hash_of_def
  by (auto simp: felt_codec.u256_accept [OF assms] result_simps
      split: list.split digest_item.split option.split)

text \<open>C5: finalising a block panics exactly when the sequencer address was not set, when the digest
  is empty, or when the announced block has no hash in the field; a digest that announces no block
  leaves the storage as it is but for the inherent's flag.\<close>

theorem on_finalize_outcome:
  assumes "felt_codec L"
  shows "on_finalize L S st =
    (if ps_seq_addr_update st \<noteq> Some True \<or> sys_digest st = []
        \<or> (\<exists>b. announced S st = Some b \<and> block_hash_of b = None) then Panic
     else Ok (case announced S st of
       None \<Rightarrow> st\<lparr>ps_seq_addr_update := None\<rparr>
     | Some b \<Rightarrow> st\<lparr>ps_seq_addr_update := None,
         ps_block_hash := (ps_block_hash st)(sys_block_number st \<mapsto> the (block_hash_of b)),
         ps_pending := [],
         sys_digest := sys_digest st @ [Consensus MADARA_ENGINE_ID (log_encode S (LogBlock b))]\<rparr>))"
proof -
  have "announced S (st\<lparr>ps_seq_addr_update := None\<rparr>) = announced S st" by (simp add: announced_def)
  then show ?thesis
    by (auto simp: on_finalize_def Let_def store_block_eq [OF assms] split: option.splits)
qed

theorem on_finalize_outcome_witness:
  "on_finalize ref_felt_lib sample_codecs (empty_storage\<lparr>ps_seq_addr_update := Some True\<rparr>) = Panic
   \<and> on_finalize ref_felt_lib sample_codecs
       (empty_storage\<lparr>ps_seq_addr_update := Some True, sys_digest := [Other []]\<rparr>)
     = Ok (empty_storage\<lparr>sys_digest := [Other []]\<rparr>)"
  unfolding on_finalize_outcome [OF ref_felt_codec]
  by (simp add: empty_storage_def announced_def)

lemma finalize_announced:
  assumes "felt_codec L" and "digest_codec S" and "codec_reads S b" and "block_hash_of b = Some h"
    and "sys_digest st = PreRuntime MADARA_ENGINE_ID (block_encode S b) # map (\<lambda>(e, d). PreRuntime e d) rest"
    and "ps_seq_addr_update st = Some True" and "unat (sys_block_number st) + 1 < 2 ^ 64"
  shows "\<exists>st'. on_finalize L S st = Ok st'
    \<and> find_starknet_block S (sys_digest st') = Ok b
    \<and> parent_block_hash st' (sys_block_number st' + 1) = h
    \<and> transaction_count st' = 0"
proof -
  have ann: "announced S st = Some b"
    using assms(3,5) by (simp add: announced_def codec_reads_def)
  have "unat (sys_block_number st + 1) \<noteq> 0" using assms(7) by (simp add: unat_word_ariths)
  then have nz: "sys_block_number st + 1 \<noteq> 0" by (metis unat_eq_0)
  have "digest_codec.madara_logs S (sys_digest st) = []"
    using assms(5) by (intro digest_codec.madara_logs_pre_runtime [OF assms(2)]) auto
  note found = digest_codec.find_starknet_block_pushed [OF assms(2) this assms(3)]
  have "announced S (st\<lparr>ps_seq_addr_update := None\<rparr>) = Some b" using ann by (simp add: announced_def)
  then show ?thesis
    using assms(4,5,6) found nz
    by (simp add: on_finalize_def store_block_eq [OF assms(1)] parent_block_hash_def transaction_count_def)
qed

text \<open>C4: a finalised block can be read back: when the digest announces a block of which the
  codecs are faithful, finalising records the block's hash under the current number, where the next
  block finds it as its parent hash, and deposits exactly one log, from which \<open>find_starknet_block\<close>
  recovers the announced block.\<close>

theorem finalized_block_found:
  assumes "felt_codec L" and "digest_codec S" and "codec_reads S b" and "block_hash_of b = Some h"
    and "sys_digest st = PreRuntime MADARA_ENGINE_ID (block_encode S b) # map (\<lambda>(e, d). PreRuntime e d) rest"
    and "ps_seq_addr_update st = Some True" and "unat (sys_block_number st) + 1 < 2 ^ 64"
  shows "\<exists>st'. on_finalize L S st = Ok st'
    \<and> find_starknet_block S (sys_digest st') = Ok b
    \<and> parent_block_hash st' (sys_block_number st' + 1) = h
    \<and> transaction_count st' = 0"
  by (rule finalize_announced [OF assms])

theorem finalized_block_found_witness:
  "\<exists>st'. on_finalize ref_felt_lib sample_codecs
       (empty_storage\<lparr>ps_seq_addr_update := Some True, sys_digest := sample_digest\<rparr>) = Ok st'
    \<and> find_starknet_block sample_codecs (sys_digest st') = Ok sample_block
    \<and> parent_block_hash st' (sys_block_number st' + 1) = 7
    \<and> transaction_count st' = 0"
proof -
  let ?st = "empty_storage\<lparr>ps_seq_addr_update := Some True, sys_digest := sample_digest\<rparr>
    :: (unit, unit) pallet_state"
  have "block_hash_of sample_block = Some 7"
    by (simp add: block_hash_of_def sample_block_def deoxys_block_new_def STARK_PRIME_def felt_of_nat_numeral)
  moreover have "sys_digest ?st = PreRuntime MADARA_ENGINE_ID (block_encode sample_codecs sample_block)
      # map (\<lambda>(e, d). PreRuntime e d) []"
    by (simp add: sample_digest_def sample_codecs_def one_block_lib_def)
  ultimately show ?thesis
    using finalized_block_found [OF ref_felt_codec one_block_codec one_block_reads,
        of sample_block 7 ?st "[]"]
    by (simp add: sample_codecs_def empty_storage_def)
qed

section \<open>The events and messages of a transaction\<close>

lemma emit_events_trace:
  assumes "trace ci_events oev_order ci 0 es"
  shows "snd (emit_events_in_call_info h ci 0 st) = fold (\<lambda>(a, x). push_event h a x) es st"
  using walk_trace(1) [OF assms, where push = "push_event h" and s = st]
  by (simp add: emit_events_in_call_info_def del: walk.simps)

lemma aggregate_messages_trace:
  assumes "trace ci_messages omsg_order ci 0 ms"
  shows "snd (aggregate_messages_in_call_info h ci 0 st) = fold (\<lambda>(a, x). push_message h a x) ms st"
  using walk_trace(1) [OF assms, where push = "push_message h" and s = st]
  by (simp add: aggregate_messages_in_call_info_def del: walk.simps)

definition event_list :: "(felt \<times> ordered_event) list \<Rightarrow> event list" where
  "event_list es = map (\<lambda>(a, e). event_of a e) es"

definition message_list :: "(felt \<times> ordered_message) list \<Rightarrow> message_to_l1 list" where
  "message_list ms = map (\<lambda>(a, m). message_of a m) ms"

lemma emit_one_call:
  assumes "trace ci_events oev_order ci 0 es" and "trace ci_messages omsg_order ci 0 ms"
  shows "let st' = snd (aggregate_messages_in_call_info h ci 0 (snd (emit_events_in_call_info h ci 0 st))) in
     sys_events st' = sys_events st @ event_list es
     \<and> get_list (ps_tx_events st') k = get_list (ps_tx_events st) k @ (if k = h then event_list es else [])
     \<and> get_list (ps_tx_messages st') k = get_list (ps_tx_messages st) k @ (if k = h then message_list ms else [])"
proof -
  let ?st1 = "fold (\<lambda>(a, x). push_event h a x) es st"
  have "let st' = fold (\<lambda>(a, x). push_message h a x) ms ?st1 in
     get_list (ps_tx_messages st') k = get_list (ps_tx_messages ?st1) k @ (if k = h then message_list ms else [])
     \<and> ps_tx_events st' = ps_tx_events ?st1 \<and> sys_events st' = sys_events ?st1"
    using fold_push_message [of h ms ?st1 k] by (simp add: Let_def message_list_def)
  moreover have "sys_events ?st1 = sys_events st @ event_list es
     \<and> get_list (ps_tx_events ?st1) k = get_list (ps_tx_events st) k @ (if k = h then event_list es else [])
     \<and> ps_tx_messages ?st1 = ps_tx_messages st"
    using fold_push_event [of h es st k] by (simp add: Let_def event_list_def)
  ultimately show ?thesis
    by (simp add: emit_events_trace [OF assms(1)] aggregate_messages_trace [OF assms(2)] Let_def)
qed

text \<open>C33: when the events and messages of the two call trees of a transaction (execution and fee
  transfer) are numbered in the order of execution, the pallet deposits and stores all events and
  stores all messages of the transaction in that order, those of the execution first; other
  transactions' events and messages and the rest of the storage are unchanged.\<close>

theorem events_in_execution_order:
  assumes "trace ci_events oev_order ci 0 es" and "trace ci_messages omsg_order ci 0 ms"
    and "trace ci_events oev_order fee 0 es'" and "trace ci_messages omsg_order fee 0 ms'"
  shows "let st' = emit_and_store_tx_and_fees_events h (Some ci) (Some fee) st in
     sys_events st' = sys_events st @ event_list (es @ es')
     \<and> get_list (ps_tx_events st') k
         = get_list (ps_tx_events st) k @ (if k = h then event_list (es @ es') else [])
     \<and> get_list (ps_tx_messages st') k
         = get_list (ps_tx_messages st) k @ (if k = h then message_list (ms @ ms') else [])
     \<and> same_but_outputs st st'"
proof -
  let ?st1 = "snd (aggregate_messages_in_call_info h ci 0 (snd (emit_events_in_call_info h ci 0 st)))"
  have eq: "emit_and_store_tx_and_fees_events h (Some ci) (Some fee) st =
      snd (aggregate_messages_in_call_info h fee 0 (snd (emit_events_in_call_info h fee 0 ?st1)))"
    by (simp add: emit_and_store_tx_and_fees_events_def Let_def)
  show ?thesis
    using emit_one_call [OF assms(1,2), of h st k] emit_one_call [OF assms(3,4), of h ?st1 k]
      emit_and_store_frame [of st h "Some ci" "Some fee"]
    by (simp add: eq Let_def event_list_def message_list_def)
qed

text \<open>An outer call that emits, calls an inner contract that emits, and emits again.\<close>

definition sample_call :: call_info where
  "sample_call = plain_call 1
     [\<lparr>oev_order = 0, oev_keys = [10], oev_data = []\<rparr>, \<lparr>oev_order = 2, oev_keys = [12], oev_data = []\<rparr>] []
     [plain_call 2 [\<lparr>oev_order = 1, oev_keys = [11], oev_data = []\<rparr>]
        [\<lparr>omsg_order = 0, omsg_to_address = [], omsg_payload = [5]\<rparr>] []]"

definition sample_fee_call :: call_info where
  "sample_fee_call = plain_call 3 [\<lparr>oev_order = 0, oev_keys = [13], oev_data = []\<rparr>] [] []"

lemma sample_traces:
  "trace ci_events oev_order sample_call 0
     [(1, \<lparr>oev_order = 0, oev_keys = [10], oev_data = []\<rparr>), (2, \<lparr>oev_order = 1, oev_keys = [11], oev_data = []\<rparr>),
      (1, \<lparr>oev_order = 2, oev_keys = [12], oev_data = []\<rparr>)]"
  "trace ci_messages omsg_order sample_call 0 [(2, \<lparr>omsg_order = 0, omsg_to_address = [], omsg_payload = [5]\<rparr>)]"
  "trace ci_events oev_order sample_fee_call 0 [(3, \<lparr>oev_order = 0, oev_keys = [13], oev_data = []\<rparr>)]"
  "trace ci_messages omsg_order sample_fee_call 0 []"
proof -
  let ?e = "\<lambda>n k. \<lparr>oev_order = n, oev_keys = [k], oev_data = []\<rparr>"
  let ?m = "\<lparr>omsg_order = 0, omsg_to_address = [], omsg_payload = [5]\<rparr>"
  have own: "trace_loop items order a (x # xs) cs n ((a, x) # zs)"
    if "order x = n" "trace_loop items order a xs cs (Suc n) zs"
    for items and order :: "'i \<Rightarrow> nat" and a x xs cs n zs
    using trace_own [of order x n items a xs cs zs] that by simp
  have inner: "trace_loop items order a xs (c # cs) n (y # zs)"
    if "trace items order c n [y]" "trace_loop items order a xs cs (Suc n) zs"
    for items and order :: "'i \<Rightarrow> nat" and a xs c cs n y zs
    using trace_inner [OF that(1), of a xs cs zs] that(2) by simp
  show "trace ci_events oev_order sample_call 0 [(1, ?e 0 10), (2, ?e 1 11), (1, ?e 2 12)]"
    unfolding sample_call_def
    by (rule trace_call, simp, rule own, simp, rule inner, rule trace_call, simp)
      (auto intro!: own trace_end)
  show "trace ci_messages omsg_order sample_call 0 [(2, ?m)]"
    unfolding sample_call_def
    by (rule trace_call, simp, rule inner, rule trace_call, simp) (auto intro!: own trace_end)
  show "trace ci_events oev_order sample_fee_call 0 [(3, ?e 0 13)]"
    "trace ci_messages omsg_order sample_fee_call 0 []"
    unfolding sample_fee_call_def by (rule trace_call, auto intro!: own trace_end)+
qed

theorem events_in_execution_order_witness:
  "map ev_keys (sys_events (emit_and_store_tx_and_fees_events 9 (Some sample_call) (Some sample_fee_call)
     (empty_storage :: (unit, unit) pallet_state))) = [[10], [11], [12], [13]]"
proof -
  have "sys_events (empty_storage :: (unit, unit) pallet_state) = []" by (simp add: empty_storage_def)
  then show ?thesis
    using events_in_execution_order [OF sample_traces, of 9 "empty_storage :: (unit, unit) pallet_state" 9]
    by (simp add: event_list_def event_of_def Let_def)
qed

text \<open>The events and messages the RPC server extracts from the call tree of a transaction are,
  with their multiplicities, exactly those the pallet stores for it; the RPC server lists a call's
  own items before those of its inner calls, which is not always the order of execution.\<close>

theorem rpc_extraction_permutes:
  assumes "trace ci_events oev_order ci 0 es" and "trace ci_messages omsg_order ci 0 ms"
  shows "mset (extract_events_from_call_info ci) = mset (event_list es)
    \<and> mset (extract_messages_from_call_info ci) = mset (message_list ms)"
proof -
  have "mset es = mset (tree_items ci_events ci)" "mset ms = mset (tree_items ci_messages ci)"
    using trace_mset(1) [OF assms(1)] trace_mset(1) [OF assms(2)] by simp_all
  then show ?thesis
    by (simp add: extract_events_flat extract_messages_flat event_list_def message_list_def)
qed

theorem rpc_extraction_permutes_witness:
  "mset (extract_events_from_call_info sample_call) =
     mset (sys_events (emit_and_store_tx_and_fees_events 9 (Some sample_call) None
       (empty_storage :: (unit, unit) pallet_state)))
   \<and> map ev_keys (extract_events_from_call_info sample_call) = [[10], [12], [11]]"
proof -
  have "sys_events (empty_storage :: (unit, unit) pallet_state) = []" by (simp add: empty_storage_def)
  then show ?thesis
    using rpc_extraction_permutes [OF sample_traces(1,2)]
      emit_one_call [OF sample_traces(1,2), of 9 "empty_storage :: (unit, unit) pallet_state" 9]
    by (simp add: emit_and_store_tx_and_fees_events_def Let_def)
      (simp add: sample_call_def event_of_def)
qed

end
