(* ===== verification/KvStore.thy ===== *)
theory KvStore
  imports Felt "HOL-Library.List_Lexorder" "HOL-Library.Sublist"
begin

text \<open>
  The key-value store below the client database, \<open>crates/client/db/src/lib.rs\<close>: the columns, and the
  interface of RocksDB the databases of the client use. RocksDB is not part of the repository: its
  operations are the fields of a record, its documented behaviour the locale \<open>kv_store\<close>; a store of
  association lists satisfies it.
\<close>

section \<open>Columns\<close>

datatype column =
  Meta | BlockMapping | TransactionMapping | SyncedMapping | Da | StarknetTransactionHashesCache
| StarknetBlockHashesCache | L1HandlerPaidFee | BonsaiContractsTrie | BonsaiContractsFlat
| BonsaiContractsLog | BonsaiContractsStorageTrie | BonsaiContractsStorageFlat
| BonsaiContractsStorageLog | BonsaiClassesTrie | BonsaiClassesFlat | BonsaiClassesLog

definition Column_ALL :: "column list" where
  "Column_ALL =
    [Meta, BlockMapping, TransactionMapping, SyncedMapping, Da, StarknetTransactionHashesCache,
     StarknetBlockHashesCache, L1HandlerPaidFee, BonsaiContractsTrie, BonsaiContractsFlat,
     BonsaiContractsLog, BonsaiContractsStorageTrie, BonsaiContractsStorageFlat,
     BonsaiContractsStorageLog, BonsaiClassesTrie, BonsaiClassesFlat, BonsaiClassesLog]"

definition NUM_COLUMNS :: nat where
  "NUM_COLUMNS = length Column_ALL"

fun rocksdb_name :: "column \<Rightarrow> string" where
  "rocksdb_name Meta = ''meta''"
| "rocksdb_name BlockMapping = ''block_mapping''"
| "rocksdb_name TransactionMapping = ''transaction_mapping''"
| "rocksdb_name SyncedMapping = ''synced_mapping''"
| "rocksdb_name Da = ''da''"
| "rocksdb_name StarknetTransactionHashesCache = ''starknet_transaction_hashes_cache''"
| "rocksdb_name StarknetBlockHashesCache = ''starnet_block_hashes_cache''"
| "rocksdb_name L1HandlerPaidFee = ''l1_handler_paid_fee''"
| "rocksdb_name BonsaiContractsTrie = ''bonsai_contracts_trie''"
| "rocksdb_name BonsaiContractsFlat = ''bonsai_contracts_flat''"
| "rocksdb_name BonsaiContractsLog = ''bonsai_contracts_log''"
| "rocksdb_name BonsaiContractsStorageTrie = ''bonsai_contracts_storage_trie''"
| "rocksdb_name BonsaiContractsStorageFlat = ''bonsai_contracts_storage_flat''"
| "rocksdb_name BonsaiContractsStorageLog = ''bonsai_contracts_storage_log''"
| "rocksdb_name BonsaiClassesTrie = ''bonsai_classes_trie''"
| "rocksdb_name BonsaiClassesFlat = ''bonsai_classes_flat''"
| "rocksdb_name BonsaiClassesLog = ''bonsai_classes_log''"

definition CURRENT_SYNCING_TIPS :: bytes where
  "CURRENT_SYNCING_TIPS = ascii ''CURRENT_SYNCING_TIPS''"
definition LAST_PROVED_BLOCK :: bytes where
  "LAST_PROVED_BLOCK = ascii ''LAST_PROVED_BLOCK''"
definition LAST_SYNCED_L1_EVENT_BLOCK :: bytes where
  "LAST_SYNCED_L1_EVENT_BLOCK = ascii ''LAST_SYNCED_L1_EVENT_BLOCK''"

section \<open>The store\<close>

text \<open>An operation that fails leaves the store as it was. Column families are addressed by name; a
  write batch is a list of operations.\<close>

datatype rocks_error = RocksError string

datatype batch_op = PutCf string bytes bytes | DeleteCf string bytes

record 'db rocks =
  has_cf :: "'db \<Rightarrow> string \<Rightarrow> bool"
  get_cf :: "'db \<Rightarrow> string \<Rightarrow> bytes \<Rightarrow> (rocks_error, bytes option) res"
  put_cf :: "'db \<Rightarrow> string \<Rightarrow> bytes \<Rightarrow> bytes \<Rightarrow> (rocks_error, 'db) res"
  delete_cf :: "'db \<Rightarrow> string \<Rightarrow> bytes \<Rightarrow> (rocks_error, 'db) res"
  write_batch_of :: "'db \<Rightarrow> batch_op list \<Rightarrow> (rocks_error, 'db) res"
  iterator_from :: "'db \<Rightarrow> string \<Rightarrow> bytes \<Rightarrow> (rocks_error, bytes \<times> bytes) res list"

definition get_column :: "'db rocks \<Rightarrow> 'db \<Rightarrow> column \<Rightarrow> ('e, string) res" where
  "get_column R db col =
    (if has_cf R db (rocksdb_name col) then Ok (rocksdb_name col) else Panic)"

text \<open>The content after a batch: the operations take effect in order.\<close>

fun batch_step :: "batch_op \<Rightarrow> (string \<Rightarrow> bytes \<rightharpoonup> bytes) \<Rightarrow> (string \<Rightarrow> bytes \<rightharpoonup> bytes)" where
  "batch_step (PutCf c k v) m = m(c := (m c)(k \<mapsto> v))"
| "batch_step (DeleteCf c k) m = m(c := (m c)(k := None))"

definition batch_apply :: "batch_op list \<Rightarrow> (string \<Rightarrow> bytes \<rightharpoonup> bytes) \<Rightarrow> (string \<Rightarrow> bytes \<rightharpoonup> bytes)" where
  "batch_apply ops m = fold batch_step ops m"

section \<open>The contract of the store\<close>

text \<open>\<open>view\<close> is the content of a store that can be read. A store that answers is one without I/O
  errors; what is relied on: reads return the content, writes that succeed update it, the columns of
  the store stay, and an iterator lists the entries from a key on in the order of the keys.\<close>

locale kv_store =
  fixes R :: "'db rocks" and view :: "'db \<Rightarrow> string \<Rightarrow> bytes \<rightharpoonup> bytes"
  assumes has_cf_put: "put_cf R db c k v = Ok db' \<Longrightarrow> has_cf R db' = has_cf R db"
    and has_cf_delete: "delete_cf R db c k = Ok db' \<Longrightarrow> has_cf R db' = has_cf R db"
    and has_cf_write: "write_batch_of R db ops = Ok db' \<Longrightarrow> has_cf R db' = has_cf R db"
    and get_cf_Ok: "get_cf R db c k = Ok r \<Longrightarrow> r = view db c k"
    and put_cf_Ok: "put_cf R db c k v = Ok db' \<Longrightarrow> view db' = batch_step (PutCf c k v) (view db)"
    and delete_cf_Ok: "delete_cf R db c k = Ok db' \<Longrightarrow> view db' = batch_step (DeleteCf c k) (view db)"
    and write_Ok: "write_batch_of R db ops = Ok db' \<Longrightarrow> view db' = batch_apply ops (view db)"
    and iterator_Ok: "iterator_from R db c p = map Ok kvs \<Longrightarrow>
      sorted (map fst kvs) \<and> distinct (map fst kvs) \<and> set kvs = {(k, v). view db c k = Some v \<and> p \<le> k}"
    and no_panic: "get_cf R db c k \<noteq> Panic" "put_cf R db c k v \<noteq> Panic" "delete_cf R db c k \<noteq> Panic"
      "write_batch_of R db ops \<noteq> Panic"

text \<open>A store on which no operation fails.\<close>

locale healthy_store = kv_store +
  assumes all_columns: "has_cf R db (rocksdb_name col)"
    and get_total: "\<exists>r. get_cf R db c k = Ok r"
    and put_total: "\<exists>db'. put_cf R db c k v = Ok db'"
    and delete_total: "\<exists>db'. delete_cf R db c k = Ok db'"
    and write_total: "\<exists>db'. write_batch_of R db ops = Ok db'"
    and iterator_total: "\<exists>kvs. iterator_from R db c p = map Ok kvs"
begin

lemma get_is_view: "get_cf R db c k = Ok (view db c k)"
  using get_total get_cf_Ok by metis

lemma column_found [simp]: "get_column R db col = Ok (rocksdb_name col)"
  by (simp add: get_column_def all_columns)

end

section \<open>A store of association lists\<close>

type_synonym alist_db = "((string \<times> bytes) \<times> bytes) list"

definition alist_view :: "alist_db \<Rightarrow> string \<Rightarrow> bytes \<rightharpoonup> bytes" where
  "alist_view db c k = map_of db (c, k)"

fun alist_op :: "batch_op \<Rightarrow> alist_db \<Rightarrow> alist_db" where
  "alist_op (PutCf c k v) db = ((c, k), v) # db"
| "alist_op (DeleteCf c k) db = filter (\<lambda>e. fst e \<noteq> (c, k)) db"

definition alist_keys :: "alist_db \<Rightarrow> string \<Rightarrow> bytes \<Rightarrow> bytes list" where
  "alist_keys db c p = sort (remdups (filter (\<lambda>k. p \<le> k) (map (snd \<circ> fst) (filter (\<lambda>e. fst (fst e) = c) db))))"

definition alist_rocks :: "alist_db rocks" where
  "alist_rocks =
    \<lparr> has_cf = (\<lambda>db c. c \<in> rocksdb_name ` set Column_ALL),
      get_cf = (\<lambda>db c k. Ok (alist_view db c k)),
      put_cf = (\<lambda>db c k v. Ok (alist_op (PutCf c k v) db)),
      delete_cf = (\<lambda>db c k. Ok (alist_op (DeleteCf c k) db)),
      write_batch_of = (\<lambda>db ops. Ok (fold alist_op ops db)),
      iterator_from = (\<lambda>db c p. map (\<lambda>k. Ok (k, the (alist_view db c k))) (alist_keys db c p)) \<rparr>"

lemma alist_view_op: "alist_view (alist_op op db) = batch_step op (alist_view db)"
proof (cases op)
  case (DeleteCf c k)
  have "map_of (filter (\<lambda>e. fst e \<noteq> (c, k)) db) x = (if x = (c, k) then None else map_of db x)" for x
    by (induction db) auto
  with DeleteCf show ?thesis by (auto simp: alist_view_def fun_eq_iff)
qed (auto simp: alist_view_def fun_eq_iff)

lemma alist_view_batch: "alist_view (fold alist_op ops db) = batch_apply ops (alist_view db)"
  by (induction ops arbitrary: db) (simp_all add: batch_apply_def alist_view_op)

lemma set_alist_keys: "set (alist_keys db c p) = {k. alist_view db c k \<noteq> None \<and> p \<le> k}"
  by (force simp: alist_keys_def alist_view_def map_of_eq_None_iff)

lemma column_in_ALL: "col \<in> set Column_ALL"
  by (cases col) (simp_all add: Column_ALL_def)

lemma alist_iterator:
  "map (\<lambda>k. Ok (k, the (alist_view db c k)) :: (rocks_error, bytes \<times> bytes) res) (alist_keys db c p)
     = map Ok kvs \<Longrightarrow>
   sorted (map fst kvs) \<and> distinct (map fst kvs) \<and> set kvs = {(k, v). alist_view db c k = Some v \<and> p \<le> k}"
proof -
  let ?ok = "Ok :: bytes \<times> bytes \<Rightarrow> (rocks_error, bytes \<times> bytes) res"
  assume "map (\<lambda>k. ?ok (k, the (alist_view db c k))) (alist_keys db c p) = map ?ok kvs"
  then have "map ?ok (map (\<lambda>k. (k, the (alist_view db c k))) (alist_keys db c p)) = map ?ok kvs"
    by (simp add: comp_def)
  then have kvs: "kvs = map (\<lambda>k. (k, the (alist_view db c k))) (alist_keys db c p)"
    by (simp add: inj_map_eq_map inj_def del: map_map)
  have "map fst kvs = alist_keys db c p" by (simp add: kvs comp_def)
  moreover have "sorted (alist_keys db c p)" "distinct (alist_keys db c p)"
    by (simp_all add: alist_keys_def)
  moreover have "set kvs = {(k, v). alist_view db c k = Some v \<and> p \<le> k}"
    by (auto simp: kvs set_alist_keys)
  ultimately show ?thesis by simp
qed

interpretation alist_store: healthy_store alist_rocks alist_view
proof unfold_locales
  fix db :: alist_db and c p
  show "\<exists>kvs. iterator_from alist_rocks db c p = map Ok kvs"
    by (rule exI [of _ "map (\<lambda>k. (k, the (alist_view db c k))) (alist_keys db c p)"])
      (simp add: alist_rocks_def comp_def)
qed (auto simp: alist_rocks_def alist_view_op alist_view_batch column_in_ALL dest!: alist_iterator
      simp del: alist_op.simps batch_step.simps)

lemma alist_healthy: "healthy_store alist_rocks alist_view"
  by (rule alist_store.healthy_store_axioms)

section \<open>Prefix scans\<close>

text \<open>The keys that start with a prefix are contiguous in the order of the keys, and the first of
  them is the first key at or after the prefix.\<close>

lemma prefix_le: "prefix p (k :: bytes) \<Longrightarrow> p \<le> k"
proof (induction p arbitrary: k)
  case (Cons b p)
  then obtain k' where "k = b # k'" "prefix p k'" by (cases k) auto
  with Cons.IH show ?case by simp
qed simp

lemma prefix_between: "p \<le> a \<Longrightarrow> a \<le> b \<Longrightarrow> prefix p (b :: bytes) \<Longrightarrow> prefix p a"
proof (induction p arbitrary: a b)
  case (Cons x p)
  then obtain b' where b: "b = x # b'" "prefix p b'" by (cases b) auto
  with Cons.prems(1,2) obtain a' where "a = x # a'" "p \<le> a'" "a' \<le> b'" by (cases a) auto
  with Cons.IH b show ?case by auto
qed simp

lemma takeWhile_prefix:
  "sorted (map fst kvs) \<Longrightarrow> (\<And>k v. (k, v) \<in> set kvs \<Longrightarrow> p \<le> k) \<Longrightarrow>
   takeWhile (\<lambda>(k, v). prefix p k) kvs = filter (\<lambda>(k, v). prefix p (k :: bytes)) kvs"
proof (induction kvs)
  case (Cons kv kvs)
  obtain k v where kv: "kv = (k, v)" by (cases kv)
  show ?case
  proof (cases "prefix p k")
    case True
    with Cons kv show ?thesis by auto
  next
    case False
    have "\<not> prefix p k'" if "(k', v') \<in> set kvs" for k' v'
      using prefix_between [of p k k'] False Cons.prems kv that by (force simp: image_iff)
    then have "filter (\<lambda>(k, v). prefix p k) kvs = []" by (auto simp: filter_empty_conv)
    with False kv show ?thesis by simp
  qed
qed simp

section \<open>The columns are separate\<close>

lemma rocksdb_names_distinct: "distinct (map rocksdb_name Column_ALL)"
  by (simp add: Column_ALL_def)

lemma rocksdb_name_eq [simp]: "rocksdb_name col = rocksdb_name col' \<longleftrightarrow> col = col'"
  using rocksdb_names_distinct column_in_ALL [of col] column_in_ALL [of col']
  by (auto simp: distinct_map inj_on_def)

text \<open>Every column is opened, under a name of its own: the list of columns is complete and
  without repetition, and no two columns share a column family.\<close>

theorem columns_distinct:
  "col \<in> set Column_ALL \<and> distinct Column_ALL \<and> NUM_COLUMNS = 17
    \<and> (rocksdb_name col = rocksdb_name col' \<longleftrightarrow> col = col')"
  using column_in_ALL rocksdb_names_distinct by (simp add: NUM_COLUMNS_def distinct_map Column_ALL_def)

declare rocksdb_name.simps [simp del]

end
