(* ===== verification/MappingDb.thy ===== *)
theory MappingDb
  imports KvStore
begin

text \<open>
  The small databases of the client: the mapping from Starknet to Substrate blocks
  (\<open>crates/client/db/src/mapping_db.rs\<close>), the tips of the synced chain (\<open>meta_db.rs\<close>), the data
  availability facts (\<open>da_db.rs\<close>) and the fees of L1 handlers (\<open>l1_handler_tx_fee.rs\<close>), over the store
  of theory KvStore. A \<open>DHashT\<close> is a \<open>256 word\<close>, a \<open>StarkHash\<close> a field element; the SCALE codecs and
  the \<open>uuid\<close> crate are the fields of a record.
\<close>

section \<open>Codecs and errors\<close>

type_synonym dhash = "256 word"
type_synonym uuid = "128 word"

datatype db_error = RocksDB rocks_error | DeserializeError | UuidError | ValueNotInitialized column string

record 'd db_codecs =
  enc_bool :: "bool \<Rightarrow> bytes"
  dec_bool :: "bytes \<Rightarrow> bool option"
  enc_hash :: "dhash \<Rightarrow> bytes"
  dec_hash :: "bytes \<Rightarrow> dhash option"
  enc_hashes :: "dhash list \<Rightarrow> bytes"
  dec_hashes :: "bytes \<Rightarrow> dhash list option"
  enc_stark :: "felt \<Rightarrow> bytes"
  dec_stark :: "bytes \<Rightarrow> felt option"
  enc_starks :: "felt list \<Rightarrow> bytes"
  dec_starks :: "bytes \<Rightarrow> felt list option"
  enc_u64 :: "64 word \<Rightarrow> bytes"
  enc_diff :: "'d \<Rightarrow> bytes"
  dec_diff :: "bytes \<Rightarrow> 'd option"
  stark_bytes_of :: "felt \<Rightarrow> bytes"
  stark_string :: "felt \<Rightarrow> string"
  uuid_into_bytes :: "uuid \<Rightarrow> bytes"
  uuid_from_slice :: "bytes \<Rightarrow> uuid option"

text \<open>Reading a key of a column: the two fallible calls every getter starts with.\<close>

definition read_key :: "'db rocks \<Rightarrow> 'db \<Rightarrow> column \<Rightarrow> bytes \<Rightarrow> (db_error, bytes option) res" where
  "read_key R db col key =
    res_bind (get_column R db col) (\<lambda>cf. map_err RocksDB (get_cf R db cf key))"

definition write_key :: "'db rocks \<Rightarrow> 'db \<Rightarrow> column \<Rightarrow> bytes \<Rightarrow> bytes \<Rightarrow> (db_error, 'db) res" where
  "write_key R db col key val =
    res_bind (get_column R db col) (\<lambda>cf. map_err RocksDB (put_cf R db cf key val))"

section \<open>The mapping database\<close>

record mapping_commitment =
  mc_block_number :: "64 word"
  mc_block_hash :: dhash
  mc_starknet_block_hash :: felt
  mc_starknet_transaction_hashes :: "felt list"

definition is_synced :: "'db rocks \<Rightarrow> 'd db_codecs \<Rightarrow> 'db \<Rightarrow> dhash \<Rightarrow> (db_error, bool) res" where
  "is_synced R C db block_hash =
    res_bind (read_key R db SyncedMapping (enc_hash C block_hash)) (\<lambda>r.
      case r of Some raw \<Rightarrow> ok_or DeserializeError (dec_bool C raw) | None \<Rightarrow> Ok False)"

definition mapped_block_hash :: "'db rocks \<Rightarrow> 'd db_codecs \<Rightarrow> 'db \<Rightarrow> felt \<Rightarrow> (db_error, dhash list option) res" where
  "mapped_block_hash R C db starknet_block_hash =
    res_bind (read_key R db BlockMapping (enc_stark C starknet_block_hash)) (\<lambda>r.
      case r of Some raw \<Rightarrow> map_ok Some (ok_or DeserializeError (dec_hashes C raw)) | None \<Rightarrow> Ok None)"

definition write_none :: "'db rocks \<Rightarrow> 'd db_codecs \<Rightarrow> 'db \<Rightarrow> dhash \<Rightarrow> (db_error, 'db) res" where
  "write_none R C db block_hash =
    write_key R db SyncedMapping (enc_hash C block_hash) (enc_bool C True)"

text \<open>An error of the look-up starts a new list, as an absent entry does.\<close>

definition substrate_hashes :: "'db rocks \<Rightarrow> 'd db_codecs \<Rightarrow> 'db \<Rightarrow> mapping_commitment \<Rightarrow> (db_error, dhash list) res" where
  "substrate_hashes R C db commitment =
    (case mapped_block_hash R C db (mc_starknet_block_hash commitment) of
       Ok (Some data) \<Rightarrow> Ok (data @ [mc_block_hash commitment])
     | Panic \<Rightarrow> Panic
     | _ \<Rightarrow> Ok [mc_block_hash commitment])"

definition hashes_batch :: "'d db_codecs \<Rightarrow> bool \<Rightarrow> mapping_commitment \<Rightarrow> dhash list \<Rightarrow> string \<Rightarrow> string \<Rightarrow> string
    \<Rightarrow> string \<Rightarrow> string \<Rightarrow> batch_op list" where
  "hashes_batch C cache_more_things commitment hashes synced_mapping_col block_mapping_col
      transaction_mapping_col starknet_tx_hashes_col starknet_block_hashes_col =
    [PutCf block_mapping_col (enc_stark C (mc_starknet_block_hash commitment)) (enc_hashes C hashes),
     PutCf synced_mapping_col (enc_hash C (mc_block_hash commitment)) (enc_bool C True)]
    @ map (\<lambda>transaction_hash. PutCf transaction_mapping_col (enc_stark C transaction_hash)
            (enc_hash C (mc_block_hash commitment)))
        (mc_starknet_transaction_hashes commitment)
    @ (if cache_more_things
       then [PutCf starknet_tx_hashes_col (enc_stark C (mc_starknet_block_hash commitment))
               (enc_starks C (mc_starknet_transaction_hashes commitment)),
             PutCf starknet_block_hashes_col (enc_u64 C (mc_block_number commitment))
               (enc_stark C (mc_starknet_block_hash commitment))]
       else [])"

definition write_hashes :: "'db rocks \<Rightarrow> 'd db_codecs \<Rightarrow> bool \<Rightarrow> 'db \<Rightarrow> mapping_commitment \<Rightarrow> (db_error, 'db) res" where
  "write_hashes R C cache_more_things db commitment =
    res_bind (get_column R db SyncedMapping) (\<lambda>synced_mapping_col.
    res_bind (get_column R db BlockMapping) (\<lambda>block_mapping_col.
    res_bind (get_column R db TransactionMapping) (\<lambda>transaction_mapping_col.
    res_bind (get_column R db StarknetTransactionHashesCache) (\<lambda>starknet_tx_hashes_col.
    res_bind (get_column R db StarknetBlockHashesCache) (\<lambda>starknet_block_hashes_col.
    res_bind (substrate_hashes R C db commitment) (\<lambda>hashes.
      map_err RocksDB (write_batch_of R db
        (hashes_batch C cache_more_things commitment hashes synced_mapping_col block_mapping_col
          transaction_mapping_col starknet_tx_hashes_col starknet_block_hashes_col))))))))"

definition block_hash_from_transaction_hash :: "'db rocks \<Rightarrow> 'd db_codecs \<Rightarrow> 'db \<Rightarrow> felt
    \<Rightarrow> (db_error, dhash option) res" where
  "block_hash_from_transaction_hash R C db transaction_hash =
    res_bind (read_key R db TransactionMapping (enc_stark C transaction_hash)) (\<lambda>r.
      case r of Some raw \<Rightarrow> map_ok Some (ok_or DeserializeError (dec_hash C raw)) | None \<Rightarrow> Ok None)"

definition cached_transaction_hashes_from_block_hash :: "'db rocks \<Rightarrow> 'd db_codecs \<Rightarrow> bool \<Rightarrow> 'db \<Rightarrow> felt
    \<Rightarrow> (db_error, felt list option) res" where
  "cached_transaction_hashes_from_block_hash R C cache_more_things db starknet_block_hash =
    res_bind (get_column R db StarknetTransactionHashesCache) (\<lambda>_.
      if \<not> cache_more_things then Ok None
      else res_bind (read_key R db StarknetTransactionHashesCache (enc_stark C starknet_block_hash)) (\<lambda>r.
        case r of Some raw \<Rightarrow> map_ok Some (ok_or DeserializeError (dec_starks C raw)) | None \<Rightarrow> Ok None))"

definition cached_block_hash_from_block_number :: "'db rocks \<Rightarrow> 'd db_codecs \<Rightarrow> bool \<Rightarrow> 'db \<Rightarrow> 64 word
    \<Rightarrow> (db_error, felt option) res" where
  "cached_block_hash_from_block_number R C cache_more_things db starknet_block_number =
    res_bind (get_column R db StarknetBlockHashesCache) (\<lambda>_.
      if \<not> cache_more_things then Ok None
      else res_bind (read_key R db StarknetBlockHashesCache (enc_u64 C starknet_block_number)) (\<lambda>r.
        case r of Some raw \<Rightarrow> map_ok Some (ok_or DeserializeError (dec_stark C raw)) | None \<Rightarrow> Ok None))"

section \<open>The meta database\<close>

definition current_syncing_tips :: "'db rocks \<Rightarrow> 'd db_codecs \<Rightarrow> 'db \<Rightarrow> (db_error, dhash list) res" where
  "current_syncing_tips R C db =
    res_bind (read_key R db Meta CURRENT_SYNCING_TIPS) (\<lambda>r.
      case r of Some raw \<Rightarrow> ok_or DeserializeError (dec_hashes C raw) | None \<Rightarrow> Ok [])"

definition write_current_syncing_tips :: "'db rocks \<Rightarrow> 'd db_codecs \<Rightarrow> 'db \<Rightarrow> dhash list \<Rightarrow> (db_error, 'db) res" where
  "write_current_syncing_tips R C db tips = write_key R db Meta CURRENT_SYNCING_TIPS (enc_hashes C tips)"

section \<open>The data availability database\<close>

definition da_state_diff :: "'db rocks \<Rightarrow> 'd db_codecs \<Rightarrow> 'db \<Rightarrow> felt \<Rightarrow> (db_error, 'd) res" where
  "da_state_diff R C db block_hash =
    res_bind (read_key R db Da (stark_bytes_of C block_hash)) (\<lambda>r.
      case r of Some raw \<Rightarrow> ok_or DeserializeError (dec_diff C raw)
      | None \<Rightarrow> Err (ValueNotInitialized Da (stark_string C block_hash)))"

definition store_state_diff :: "'db rocks \<Rightarrow> 'd db_codecs \<Rightarrow> 'db \<Rightarrow> felt \<Rightarrow> 'd \<Rightarrow> (db_error, 'db) res" where
  "store_state_diff R C db block_hash diff =
    write_key R db Da (stark_bytes_of C block_hash) (enc_diff C diff)"

definition cairo_job :: "'db rocks \<Rightarrow> 'd db_codecs \<Rightarrow> 'db \<Rightarrow> felt \<Rightarrow> (db_error, uuid option) res" where
  "cairo_job R C db block_hash =
    res_bind (read_key R db Da (stark_bytes_of C block_hash)) (\<lambda>r.
      case r of Some raw \<Rightarrow> map_ok Some (ok_or UuidError (uuid_from_slice C raw)) | None \<Rightarrow> Ok None)"

definition update_cairo_job :: "'db rocks \<Rightarrow> 'd db_codecs \<Rightarrow> 'db \<Rightarrow> felt \<Rightarrow> uuid \<Rightarrow> (db_error, 'db) res" where
  "update_cairo_job R C db block_hash job_id =
    write_key R db Da (stark_bytes_of C block_hash) (uuid_into_bytes C job_id)"

definition last_proved_block :: "'db rocks \<Rightarrow> 'd db_codecs \<Rightarrow> 'db \<Rightarrow> (db_error, felt) res" where
  "last_proved_block R C db =
    res_bind (read_key R db Da LAST_PROVED_BLOCK) (\<lambda>r.
      case r of Some raw \<Rightarrow> ok_or DeserializeError (dec_stark C raw)
      | None \<Rightarrow> Err (ValueNotInitialized Da ''LAST_PROVED_BLOCK''))"

definition update_last_proved_block :: "'db rocks \<Rightarrow> 'd db_codecs \<Rightarrow> 'db \<Rightarrow> felt \<Rightarrow> (db_error, 'db) res" where
  "update_last_proved_block R C db block_hash =
    write_key R db Da LAST_PROVED_BLOCK (enc_stark C block_hash)"

section \<open>The fees of L1 handlers\<close>

text \<open>\<open>u128::to_le_bytes\<close> and \<open>u128::from_le_bytes\<close>; \<open>copy_from_slice\<close> panics on another length.\<close>

definition u128_to_le_bytes :: "128 word \<Rightarrow> bytes" where
  "u128_to_le_bytes v = rev (nat_be 16 (unat v))"

definition u128_from_le_bytes :: "bytes \<Rightarrow> 128 word" where
  "u128_from_le_bytes bs = of_nat (be_nat (rev bs))"

definition store_fee_paid_for_l1_handler_tx :: "'db rocks \<Rightarrow> 'd db_codecs \<Rightarrow> 'db \<Rightarrow> felt \<Rightarrow> 128 word
    \<Rightarrow> (db_error, 'db) res" where
  "store_fee_paid_for_l1_handler_tx R C db tx_hash fee =
    write_key R db L1HandlerPaidFee (enc_stark C tx_hash) (u128_to_le_bytes fee)"

definition get_fee_paid_for_l1_handler_tx :: "'db rocks \<Rightarrow> 'd db_codecs \<Rightarrow> 'db \<Rightarrow> felt \<Rightarrow> (db_error, 128 word) res" where
  "get_fee_paid_for_l1_handler_tx R C db tx_hash =
    res_bind (read_key R db L1HandlerPaidFee (enc_stark C tx_hash)) (\<lambda>r.
      case r of
        Some bytes \<Rightarrow> if length bytes = 16 then Ok (u128_from_le_bytes bytes) else Panic
      | None \<Rightarrow> Err (ValueNotInitialized L1HandlerPaidFee (stark_string C tx_hash)))"

section \<open>The contract of the codecs\<close>

locale db_codec =
  fixes C :: "'d db_codecs"
  assumes bool_codec [simp]: "dec_bool C (enc_bool C b) = Some b"
    and hash_codec [simp]: "dec_hash C (enc_hash C h) = Some h"
    and hashes_codec [simp]: "dec_hashes C (enc_hashes C hs) = Some hs"
    and stark_codec [simp]: "dec_stark C (enc_stark C f) = Some f"
    and starks_codec [simp]: "dec_starks C (enc_starks C fs) = Some fs"
    and u64_inj [simp]: "enc_u64 C n = enc_u64 C m \<longleftrightarrow> n = m"
    and diff_codec [simp]: "dec_diff C (enc_diff C d) = Some d"
    and stark_bytes_inj [simp]: "stark_bytes_of C f = stark_bytes_of C g \<longleftrightarrow> f = g"
    and stark_bytes_len [simp]: "length (stark_bytes_of C f) = 32"
    and uuid_codec [simp]: "uuid_from_slice C (uuid_into_bytes C u) = Some u"
begin

lemma hash_inj [simp]: "enc_hash C h = enc_hash C h' \<longleftrightarrow> h = h'"
  by (metis hash_codec option.inject)

lemma stark_inj [simp]: "enc_stark C f = enc_stark C g \<longleftrightarrow> f = g"
  by (metis stark_codec option.inject)

end

locale client_db = healthy_store R view + db_codec C
  for R :: "'db rocks" and view :: "'db \<Rightarrow> string \<Rightarrow> bytes \<rightharpoonup> bytes" and C :: "'d db_codecs"
begin

lemma read_key_view: "read_key R db col key = Ok (view db (rocksdb_name col) key)"
  by (simp add: read_key_def get_is_view)

lemma write_key_view:
  "\<exists>db'. write_key R db col key val = Ok db'
     \<and> view db' = (view db)(rocksdb_name col := (view db (rocksdb_name col))(key \<mapsto> val))"
  using put_total [of db "rocksdb_name col" key val] put_cf_Ok
  by (fastforce simp: write_key_def)

lemmas reads_view =
  read_key_view is_synced_def mapped_block_hash_def block_hash_from_transaction_hash_def
  cached_transaction_hashes_from_block_hash_def cached_block_hash_from_block_number_def

end

lemma batch_put_keys:
  "batch_apply (map (\<lambda>x. PutCf c (f x) v) xs) m c' k =
     (if c' = c \<and> k \<in> f ` set xs then Some v else m c' k)"
  by (induction xs arbitrary: m) (auto simp: batch_apply_def)

lemma batch_apply_append: "batch_apply (xs @ ys) m = batch_apply ys (batch_apply xs m)"
  by (simp add: batch_apply_def)

section \<open>The mapping database as finite maps\<close>

text \<open>What the mapping database promises: a set of Substrate blocks already seen, the Substrate blocks
  of each Starknet block in the order they were written, the Substrate block of each transaction, and
  the two caches.\<close>

record mapping_abs =
  seen :: "dhash set"
  wrapping :: "felt \<rightharpoonup> dhash list"
  tx_block :: "felt \<rightharpoonup> dhash"
  tx_hashes_cache :: "felt \<rightharpoonup> felt list"
  block_hash_cache :: "64 word \<rightharpoonup> felt"

definition mapping_abs_empty :: mapping_abs where
  "mapping_abs_empty = \<lparr> seen = {}, wrapping = Map.empty, tx_block = Map.empty,
     tx_hashes_cache = Map.empty, block_hash_cache = Map.empty \<rparr>"

definition mapping_abs_write :: "bool \<Rightarrow> mapping_commitment \<Rightarrow> mapping_abs \<Rightarrow> mapping_abs" where
  "mapping_abs_write cache c m =
    (let s = mc_starknet_block_hash c; h = mc_block_hash c in
     m\<lparr>seen := insert h (seen m),
       wrapping := (wrapping m)(s \<mapsto> (case wrapping m s of Some hs \<Rightarrow> hs | None \<Rightarrow> []) @ [h]),
       tx_block := (\<lambda>t. if t \<in> set (mc_starknet_transaction_hashes c) then Some h else tx_block m t),
       tx_hashes_cache := (if cache then (tx_hashes_cache m)(s \<mapsto> mc_starknet_transaction_hashes c)
                           else tx_hashes_cache m),
       block_hash_cache := (if cache then (block_hash_cache m)(mc_block_number c \<mapsto> s)
                            else block_hash_cache m)\<rparr>)"

definition mapping_reads :: "'db rocks \<Rightarrow> 'd db_codecs \<Rightarrow> bool \<Rightarrow> 'db \<Rightarrow> mapping_abs \<Rightarrow> bool" where
  "mapping_reads R C cache db m \<longleftrightarrow>
     (\<forall>h. is_synced R C db h = Ok (h \<in> seen m))
   \<and> (\<forall>s. mapped_block_hash R C db s = Ok (wrapping m s))
   \<and> (\<forall>t. block_hash_from_transaction_hash R C db t = Ok (tx_block m t))
   \<and> (\<forall>s. cached_transaction_hashes_from_block_hash R C cache db s = Ok (if cache then tx_hashes_cache m s else None))
   \<and> (\<forall>n. cached_block_hash_from_block_number R C cache db n = Ok (if cache then block_hash_cache m n else None))"

context client_db
begin

abbreviation commit_batch :: "bool \<Rightarrow> mapping_commitment \<Rightarrow> dhash list \<Rightarrow> batch_op list" where
  "commit_batch cache c hashes \<equiv> hashes_batch C cache c hashes (rocksdb_name SyncedMapping)
     (rocksdb_name BlockMapping) (rocksdb_name TransactionMapping)
     (rocksdb_name StarknetTransactionHashesCache) (rocksdb_name StarknetBlockHashesCache)"

lemma write_hashes_view:
  assumes "mapped_block_hash R C db (mc_starknet_block_hash c) = Ok old"
  shows "\<exists>db'. write_hashes R C cache db c = Ok db' \<and> view db' = batch_apply
    (commit_batch cache c ((case old of Some hs \<Rightarrow> hs | None \<Rightarrow> []) @ [mc_block_hash c])) (view db)"
proof -
  have "substrate_hashes R C db c = Ok ((case old of Some hs \<Rightarrow> hs | None \<Rightarrow> []) @ [mc_block_hash c])"
    using assms by (simp add: substrate_hashes_def split: option.split)
  then show ?thesis
    using write_total [of db "commit_batch cache c ((case old of Some hs \<Rightarrow> hs | None \<Rightarrow> []) @ [mc_block_hash c])"]
      write_Ok by (fastforce simp: write_hashes_def)
qed

lemma commit_batch_view:
  "batch_apply (commit_batch cache c hashes) m (rocksdb_name col) k =
     (if col = BlockMapping \<and> k = enc_stark C (mc_starknet_block_hash c) then Some (enc_hashes C hashes)
      else if col = SyncedMapping \<and> k = enc_hash C (mc_block_hash c) then Some (enc_bool C True)
      else if col = TransactionMapping \<and> k \<in> enc_stark C ` set (mc_starknet_transaction_hashes c)
      then Some (enc_hash C (mc_block_hash c))
      else if cache \<and> col = StarknetTransactionHashesCache \<and> k = enc_stark C (mc_starknet_block_hash c)
      then Some (enc_starks C (mc_starknet_transaction_hashes c))
      else if cache \<and> col = StarknetBlockHashesCache \<and> k = enc_u64 C (mc_block_number c)
      then Some (enc_stark C (mc_starknet_block_hash c))
      else m (rocksdb_name col) k)"
proof -
  have two: "batch_apply [PutCf c k v, PutCf c' k' v'] m =
      (let m1 = m(c := (m c)(k \<mapsto> v)) in m1(c' := (m1 c')(k' \<mapsto> v')))" for c k v c' k' v' m
    by (simp add: batch_apply_def Let_def)
  have none: "batch_apply [] n = n" for n by (simp add: batch_apply_def)
  show ?thesis
    unfolding hashes_batch_def batch_apply_append
    by (cases cache) (simp_all only: if_True if_False none two Let_def, auto simp: batch_put_keys two)
qed

lemma write_hashes_refines:
  assumes "mapping_reads R C cache db m"
  shows "\<exists>db'. write_hashes R C cache db c = Ok db'
    \<and> mapping_reads R C cache db' (mapping_abs_write cache c m)"
proof -
  have "mapped_block_hash R C db (mc_starknet_block_hash c) = Ok (wrapping m (mc_starknet_block_hash c))"
    using assms by (simp add: mapping_reads_def)
  from write_hashes_view [OF this, of cache] obtain db' where w: "write_hashes R C cache db c = Ok db'"
    and batch: "view db' = batch_apply (commit_batch cache c
      ((case wrapping m (mc_starknet_block_hash c) of Some hs \<Rightarrow> hs | None \<Rightarrow> []) @ [mc_block_hash c])) (view db)"
    by blast
  note v = batch commit_batch_view
  have in_starks: "enc_stark C t \<in> enc_stark C ` A \<longleftrightarrow> t \<in> A" for t A by auto
  have "is_synced R C db' h = Ok (h \<in> seen (mapping_abs_write cache c m))" for h
  proof -
    have "is_synced R C db h = Ok (h \<in> seen m)" using assms by (simp add: mapping_reads_def)
    then show ?thesis by (simp add: reads_view v mapping_abs_write_def Let_def)
  qed
  moreover have "mapped_block_hash R C db' s = Ok (wrapping (mapping_abs_write cache c m) s)" for s
  proof -
    have "mapped_block_hash R C db s = Ok (wrapping m s)" using assms by (simp add: mapping_reads_def)
    then show ?thesis by (simp add: reads_view v mapping_abs_write_def Let_def)
  qed
  moreover have "block_hash_from_transaction_hash R C db' t = Ok (tx_block (mapping_abs_write cache c m) t)" for t
  proof -
    have "block_hash_from_transaction_hash R C db t = Ok (tx_block m t)"
      using assms by (simp add: mapping_reads_def)
    then show ?thesis by (simp add: reads_view v mapping_abs_write_def Let_def in_starks)
  qed
  moreover have "cached_transaction_hashes_from_block_hash R C cache db' s
      = Ok (if cache then tx_hashes_cache (mapping_abs_write cache c m) s else None)" for s
  proof -
    have "cached_transaction_hashes_from_block_hash R C cache db s
        = Ok (if cache then tx_hashes_cache m s else None)"
      using assms by (simp add: mapping_reads_def)
    then show ?thesis by (simp add: reads_view v mapping_abs_write_def Let_def split: if_splits)
  qed
  moreover have "cached_block_hash_from_block_number R C cache db' n
      = Ok (if cache then block_hash_cache (mapping_abs_write cache c m) n else None)" for n
  proof -
    have "cached_block_hash_from_block_number R C cache db n
        = Ok (if cache then block_hash_cache m n else None)"
      using assms by (simp add: mapping_reads_def)
    then show ?thesis by (simp add: reads_view v mapping_abs_write_def Let_def split: if_splits)
  qed
  ultimately show ?thesis using w by (simp add: mapping_reads_def)
qed

lemma write_none_refines:
  assumes "mapping_reads R C cache db m"
  shows "\<exists>db'. write_none R C db h = Ok db' \<and> mapping_reads R C cache db' (m\<lparr>seen := insert h (seen m)\<rparr>)"
proof -
  obtain db' where w: "write_none R C db h = Ok db'"
    and v: "view db' = (view db)(rocksdb_name SyncedMapping :=
      (view db (rocksdb_name SyncedMapping))(enc_hash C h \<mapsto> enc_bool C True))"
    using write_key_view [of db SyncedMapping "enc_hash C h" "enc_bool C True"] by (auto simp: write_none_def)
  have "is_synced R C db' h' = Ok (h' \<in> insert h (seen m))" for h'
    using assms by (simp add: mapping_reads_def reads_view v)
  moreover have "mapped_block_hash R C db' = mapped_block_hash R C db"
    "block_hash_from_transaction_hash R C db' = block_hash_from_transaction_hash R C db"
    "cached_transaction_hashes_from_block_hash R C cache db' = cached_transaction_hashes_from_block_hash R C cache db"
    "cached_block_hash_from_block_number R C cache db' = cached_block_hash_from_block_number R C cache db"
    by (simp_all add: fun_eq_iff reads_view v)
  ultimately have "mapping_reads R C cache db' (m\<lparr>seen := insert h (seen m)\<rparr>)"
    using assms by (simp add: mapping_reads_def)
  with w show ?thesis by blast
qed

end

section \<open>Reference codecs\<close>

definition cat_hashes :: "dhash list \<Rightarrow> bytes" where
  "cat_hashes hs = concat (map (\<lambda>h. nat_be 32 (unat h)) hs)"

definition split_hashes :: "bytes \<Rightarrow> dhash list" where
  "split_hashes bs = map (\<lambda>c. of_nat (be_nat c)) (chunks 32 bs)"

definition ref_db_codecs :: "bytes db_codecs" where
  "ref_db_codecs =
    \<lparr> enc_bool = (\<lambda>b. [if b then 1 else 0]),
      dec_bool = (\<lambda>bs. if bs = [1] then Some True else if bs = [0] then Some False else None),
      enc_hash = (\<lambda>h. nat_be 32 (unat h)),
      dec_hash = (\<lambda>bs. if length bs = 32 then Some (of_nat (be_nat bs)) else None),
      enc_hashes = cat_hashes,
      dec_hashes = (\<lambda>bs. Some (split_hashes bs)),
      enc_stark = (\<lambda>f. nat_be 32 (felt_nat f)),
      dec_stark = (\<lambda>bs. if length bs = 32 then Some (felt_of_nat (be_nat bs)) else None),
      enc_starks = (\<lambda>fs. cat_hashes (map (\<lambda>f. of_nat (felt_nat f)) fs)),
      dec_starks = (\<lambda>bs. Some (map (\<lambda>h. felt_of_nat (unat h)) (split_hashes bs))),
      enc_u64 = (\<lambda>n. rev (nat_be 8 (unat n))),
      enc_diff = (\<lambda>d. d),
      dec_diff = Some,
      stark_bytes_of = (\<lambda>f. nat_be 32 (felt_nat f)),
      stark_string = (\<lambda>f. show_dec (felt_nat f)),
      uuid_into_bytes = (\<lambda>u. nat_be 16 (unat u)),
      uuid_from_slice = (\<lambda>bs. if length bs = 16 then Some (of_nat (be_nat bs)) else None) \<rparr>"

lemma be_dhash: "be_nat (nat_be 32 (unat (h :: dhash))) = unat h"
proof -
  have "unat h < 256 ^ 32" using unsigned_less [of h] by simp
  then show ?thesis by (simp add: be_nat_nat_be del: power_numeral)
qed

lemma be_uuid: "be_nat (nat_be 16 (unat (h :: uuid))) = unat h"
proof -
  have "unat h < 256 ^ 16" using unsigned_less [of h] by simp
  then show ?thesis by (simp add: be_nat_nat_be del: power_numeral)
qed

lemma be_u64: "be_nat (nat_be 8 (unat (h :: 64 word))) = unat h"
proof -
  have "unat h < 256 ^ 8" using unsigned_less [of h] by simp
  then show ?thesis by (simp add: be_nat_nat_be del: power_numeral)
qed

lemma chunks_concat: "0 < n \<Longrightarrow> (\<And>c. c \<in> set cs \<Longrightarrow> length c = n) \<Longrightarrow> chunks n (concat cs) = cs"
proof (induction cs)
  case (Cons c cs)
  then have "c @ concat cs \<noteq> []" by auto
  with Cons show ?case by (simp add: chunks.simps [of n "c @ concat cs"])
qed simp

lemma split_cat_hashes: "split_hashes (cat_hashes hs) = hs"
proof -
  have "chunks 32 (cat_hashes hs) = map (\<lambda>h. nat_be 32 (unat h)) hs"
    unfolding cat_hashes_def by (rule chunks_concat) auto
  then show ?thesis by (simp add: split_hashes_def comp_def be_dhash del: nat_be.simps)
qed

lemma unat_felt_word: "unat (of_nat (felt_nat f) :: dhash) = felt_nat f"
proof -
  have "felt_nat f < 2 ^ 256" using felt_nat_lt [of f] by (simp add: STARK_PRIME_def)
  then show ?thesis by (simp add: unat_of_nat del: power_numeral)
qed

interpretation ref_db: client_db alist_rocks alist_view ref_db_codecs
proof -
  have u64: "nat_be 8 (unat n) = nat_be 8 (unat m) \<longleftrightarrow> n = m" for n m :: "64 word"
    using be_u64 by (metis word_unat_eq_iff)
  have felt: "nat_be 32 (felt_nat f) = nat_be 32 (felt_nat g) \<longleftrightarrow> f = g" for f g
    using be_felt by (metis felt_eq_iff)
  show "client_db alist_rocks alist_view ref_db_codecs"
    by (intro client_db.intro alist_healthy db_codec.intro)
      (simp_all add: ref_db_codecs_def be_dhash be_uuid be_felt u64 felt split_cat_hashes
        comp_def unat_felt_word del: nat_be.simps)
qed

lemma ref_client_db: "client_db alist_rocks alist_view ref_db_codecs"
  by (rule ref_db.client_db_axioms)

section \<open>Properties\<close>

lemma empty_mapping_reads: "mapping_reads alist_rocks ref_db_codecs cache [] mapping_abs_empty"
  by (simp add: mapping_reads_def ref_db.reads_view mapping_abs_empty_def alist_view_def)

text \<open>C36: the mapping database implements its specification: on a store whose reads answer as the maps
  \<open>m\<close>, registering a Starknet block succeeds and every read then answers as the updated maps (the new
  Substrate block appended to those already known for the Starknet block, the transactions mapped to
  it, the two caches written exactly when they are enabled), and registering a block without a
  Starknet block marks it as seen and nothing else.\<close>

theorem mapping_db_refines:
  assumes "client_db R view C" and "mapping_reads R C cache db m"
  shows "(\<exists>db'. write_hashes R C cache db c = Ok db'
      \<and> mapping_reads R C cache db' (mapping_abs_write cache c m))
    \<and> (\<exists>db'. write_none R C db h = Ok db' \<and> mapping_reads R C cache db' (m\<lparr>seen := insert h (seen m)\<rparr>))"
  using client_db.write_hashes_refines [OF assms] client_db.write_none_refines [OF assms] by blast

theorem mapping_db_refines_witness:
  "\<exists>db'. write_hashes alist_rocks ref_db_codecs True []
      \<lparr>mc_block_number = 3, mc_block_hash = 7, mc_starknet_block_hash = 5, mc_starknet_transaction_hashes = [8, 9]\<rparr>
      = Ok db'
    \<and> mapped_block_hash alist_rocks ref_db_codecs db' 5 = Ok (Some [7])
    \<and> block_hash_from_transaction_hash alist_rocks ref_db_codecs db' 9 = Ok (Some 7)
    \<and> cached_block_hash_from_block_number alist_rocks ref_db_codecs True db' 3 = Ok (Some 5)"
proof -
  let ?c = "\<lparr>mc_block_number = 3, mc_block_hash = 7, mc_starknet_block_hash = 5,
    mc_starknet_transaction_hashes = [8, 9]\<rparr>"
  obtain db' where "write_hashes alist_rocks ref_db_codecs True [] ?c = Ok db'"
    "mapping_reads alist_rocks ref_db_codecs True db' (mapping_abs_write True ?c mapping_abs_empty)"
    using mapping_db_refines [OF ref_client_db empty_mapping_reads, of True ?c 0] by blast
  then show ?thesis
    by (intro exI [of _ db']) (simp add: mapping_reads_def mapping_abs_write_def mapping_abs_empty_def Let_def)
qed

lemma u128_le_roundtrip: "u128_from_le_bytes (u128_to_le_bytes v) = v \<and> length (u128_to_le_bytes v) = 16"
  by (simp add: u128_from_le_bytes_def u128_to_le_bytes_def be_uuid del: nat_be.simps)

text \<open>The other client databases return what was written: the tips of the synced chain, the last
  proved block, and the fee of an L1 handler, whose 16 little-endian bytes are read back exactly; a
  fee that was never stored is reported as not initialised.\<close>

theorem client_db_reads_back:
  assumes "client_db R view C"
  shows "(\<exists>db'. write_current_syncing_tips R C db tips = Ok db' \<and> current_syncing_tips R C db' = Ok tips)
    \<and> (\<exists>db'. update_last_proved_block R C db f = Ok db' \<and> last_proved_block R C db' = Ok f)
    \<and> (\<exists>db'. store_fee_paid_for_l1_handler_tx R C db t fee = Ok db'
        \<and> get_fee_paid_for_l1_handler_tx R C db' t' =
            (if t' = t then Ok fee else get_fee_paid_for_l1_handler_tx R C db t'))
    \<and> (view db (rocksdb_name L1HandlerPaidFee) (enc_stark C t) = None \<longrightarrow>
        get_fee_paid_for_l1_handler_tx R C db t = Err (ValueNotInitialized L1HandlerPaidFee (stark_string C t)))"
proof -
  note read = client_db.read_key_view [OF assms] and codec = client_db.axioms(2) [OF assms]
  note laws = db_codec.hashes_codec [OF codec] db_codec.stark_codec [OF codec]
    db_codec.stark_inj [OF codec]
  have "\<exists>db'. write_current_syncing_tips R C db tips = Ok db' \<and> current_syncing_tips R C db' = Ok tips"
    using client_db.write_key_view [OF assms, of db Meta CURRENT_SYNCING_TIPS "enc_hashes C tips"]
    by (auto simp: write_current_syncing_tips_def current_syncing_tips_def read laws)
  moreover have "\<exists>db'. update_last_proved_block R C db f = Ok db' \<and> last_proved_block R C db' = Ok f"
    using client_db.write_key_view [OF assms, of db Da LAST_PROVED_BLOCK "enc_stark C f"]
    by (auto simp: update_last_proved_block_def last_proved_block_def read laws)
  moreover have "\<exists>db'. store_fee_paid_for_l1_handler_tx R C db t fee = Ok db'
        \<and> get_fee_paid_for_l1_handler_tx R C db' t' =
            (if t' = t then Ok fee else get_fee_paid_for_l1_handler_tx R C db t')"
    using client_db.write_key_view [OF assms, of db L1HandlerPaidFee "enc_stark C t" "u128_to_le_bytes fee"]
    by (auto simp: store_fee_paid_for_l1_handler_tx_def get_fee_paid_for_l1_handler_tx_def read laws
        u128_le_roundtrip)
  ultimately show ?thesis
    by (simp add: get_fee_paid_for_l1_handler_tx_def read)
qed

theorem client_db_reads_back_witness:
  "\<exists>db'. store_fee_paid_for_l1_handler_tx alist_rocks ref_db_codecs [] 4 1000 = Ok db'
    \<and> get_fee_paid_for_l1_handler_tx alist_rocks ref_db_codecs db' 4 = Ok 1000"
  using client_db_reads_back [OF ref_client_db, of "[]" "[]" 0 4 1000 4] by simp

text \<open>The DA database keeps the state diff and the Cairo job of a block under the same key: each
  of the two writes succeeds and is read back, but writing the job makes the stored state diff
  unreadable (the diff is then decoded from the bytes of the job identifier) and conversely.\<close>

theorem da_db_shared_key:
  assumes "client_db R view C"
  shows "\<exists>db1 db2 db3. store_state_diff R C db h d = Ok db1 \<and> da_state_diff R C db1 h = Ok d
    \<and> cairo_job R C db1 h = map_ok Some (ok_or UuidError (uuid_from_slice C (enc_diff C d)))
    \<and> update_cairo_job R C db1 h job = Ok db2 \<and> cairo_job R C db2 h = Ok (Some job)
    \<and> da_state_diff R C db2 h = ok_or DeserializeError (dec_diff C (uuid_into_bytes C job))
    \<and> store_state_diff R C db2 h d = Ok db3 \<and> da_state_diff R C db3 h = Ok d"
proof -
  note read = client_db.read_key_view [OF assms] and codec = client_db.axioms(2) [OF assms]
  note laws = db_codec.diff_codec [OF codec] db_codec.uuid_codec [OF codec]
  note wr = client_db.write_key_view [OF assms, of _ Da "stark_bytes_of C h"]
  obtain db1 where 1: "store_state_diff R C db h d = Ok db1"
    "view db1 (rocksdb_name Da) (stark_bytes_of C h) = Some (enc_diff C d)"
    using wr [of db "enc_diff C d"] by (auto simp: store_state_diff_def)
  obtain db2 where 2: "update_cairo_job R C db1 h job = Ok db2"
    "view db2 (rocksdb_name Da) (stark_bytes_of C h) = Some (uuid_into_bytes C job)"
    using wr [of db1 "uuid_into_bytes C job"] by (auto simp: update_cairo_job_def)
  obtain db3 where 3: "store_state_diff R C db2 h d = Ok db3"
    "view db3 (rocksdb_name Da) (stark_bytes_of C h) = Some (enc_diff C d)"
    using wr [of db2 "enc_diff C d"] by (auto simp: store_state_diff_def)
  from 1 2 3 show ?thesis
    by (simp add: da_state_diff_def cairo_job_def read laws)
qed

theorem da_db_shared_key_witness:
  "\<exists>db1 db2. store_state_diff alist_rocks ref_db_codecs [] 5 [1, 2, 3] = Ok db1
    \<and> update_cairo_job alist_rocks ref_db_codecs db1 5 9 = Ok db2
    \<and> da_state_diff alist_rocks ref_db_codecs db1 5 = Ok [1, 2, 3]
    \<and> cairo_job alist_rocks ref_db_codecs db1 5 = Err UuidError
    \<and> da_state_diff alist_rocks ref_db_codecs db2 5 = Ok (nat_be 16 9)"
proof -
  obtain db1 db2 where "store_state_diff alist_rocks ref_db_codecs [] 5 [1, 2, 3] = Ok db1"
    "da_state_diff alist_rocks ref_db_codecs db1 5 = Ok [1, 2, 3]"
    "cairo_job alist_rocks ref_db_codecs db1 5
       = map_ok Some (ok_or UuidError (uuid_from_slice ref_db_codecs (enc_diff ref_db_codecs [1, 2, 3])))"
    "update_cairo_job alist_rocks ref_db_codecs db1 5 9 = Ok db2"
    "da_state_diff alist_rocks ref_db_codecs db2 5
       = ok_or DeserializeError (dec_diff ref_db_codecs (uuid_into_bytes ref_db_codecs 9))"
    using da_db_shared_key [OF ref_client_db, of "[]" 5 "[1, 2, 3]" 9] by blast
  then show ?thesis by (intro exI [of _ db1] exI [of _ db2]) (simp add: ref_db_codecs_def del: nat_be.simps)
qed

end
