(* ===== verification/BonsaiStore.thy ===== *)
theory BonsaiStore
  imports MappingDb Block
begin

text \<open>
  The storage tries of the client. The first part is the database the Bonsai tries write to,
  \<open>crates/client/db/src/bonsai_db.rs\<close>, over the store of theory KvStore and the transactions of
  RocksDB; the second part is the typed access to the three tries, \<open>crates/client/db/src/storage.rs\<close>.
  The Bonsai trie itself (the \<open>bonsai_trie\<close> crate) is not part of the repository: its operations are
  the fields of a record.
\<close>

section \<open>Keys and columns of a trie\<close>

datatype database_key = Trie bytes | Flat bytes | TrieLog bytes

fun key_as_slice :: "database_key \<Rightarrow> bytes" where
  "key_as_slice (Trie k) = k"
| "key_as_slice (Flat k) = k"
| "key_as_slice (TrieLog k) = k"

record database_key_mapping =
  km_flat :: column
  km_trie :: column
  km_trie_log :: column

fun key_map :: "database_key_mapping \<Rightarrow> database_key \<Rightarrow> column" where
  "key_map self (Trie _) = km_trie self"
| "key_map self (Flat _) = km_flat self"
| "key_map self (TrieLog _) = km_trie_log self"

datatype bonsai_db_error = BonsaiRocksDB rocks_error

section \<open>The database of a trie\<close>

text \<open>\<open>snapshots\<close>: the identifiers for which a snapshot was taken, with the content at that time.\<close>

record 'db bonsai_db =
  bd_db :: 'db
  bd_mapping :: database_key_mapping
  bd_snapshots :: "64 word \<rightharpoonup> 'db"

definition bonsai_db_new :: "'db \<Rightarrow> database_key_mapping \<Rightarrow> 'db bonsai_db" where
  "bonsai_db_new db column_mapping = \<lparr> bd_db = db, bd_mapping = column_mapping, bd_snapshots = Map.empty \<rparr>"

definition create_batch :: "batch_op list" where
  "create_batch = []"

definition bonsai_get :: "'db rocks \<Rightarrow> 'db bonsai_db \<Rightarrow> database_key \<Rightarrow> (bonsai_db_error, bytes option) res" where
  "bonsai_get R self key =
    res_bind (get_column R (bd_db self) (key_map (bd_mapping self) key)) (\<lambda>handle.
      map_err BonsaiRocksDB (get_cf R (bd_db self) handle (key_as_slice key)))"

text \<open>\<open>map_while\<close>: the entries until the first error or the first key without the prefix.\<close>

fun entries_while :: "bytes \<Rightarrow> (rocks_error, bytes \<times> bytes) res list \<Rightarrow> (bytes \<times> bytes) list" where
  "entries_while p [] = []"
| "entries_while p (Ok (key, val) # kvs) =
    (if prefix p key then (key, val) # entries_while p kvs else [])"
| "entries_while p (_ # kvs) = []"

definition bonsai_get_by_prefix :: "'db rocks \<Rightarrow> 'db bonsai_db \<Rightarrow> database_key
    \<Rightarrow> (bonsai_db_error, (bytes \<times> bytes) list) res" where
  "bonsai_get_by_prefix R self pre =
    res_bind (get_column R (bd_db self) (key_map (bd_mapping self) pre)) (\<lambda>handle.
      Ok (entries_while (key_as_slice pre) (iterator_from R (bd_db self) handle (key_as_slice pre))))"

definition bonsai_contains :: "'db rocks \<Rightarrow> 'db bonsai_db \<Rightarrow> database_key \<Rightarrow> (bonsai_db_error, bool) res" where
  "bonsai_contains R self key =
    res_bind (get_column R (bd_db self) (key_map (bd_mapping self) key)) (\<lambda>handle.
      map_err BonsaiRocksDB (map_ok (\<lambda>val. val \<noteq> None) (get_cf R (bd_db self) handle (key_as_slice key))))"

text \<open>With a batch, the write is only recorded in the batch; the old value is returned.\<close>

definition bonsai_insert :: "'db rocks \<Rightarrow> 'db bonsai_db \<Rightarrow> database_key \<Rightarrow> bytes \<Rightarrow> batch_op list option
    \<Rightarrow> (bonsai_db_error, bytes option \<times> 'db bonsai_db \<times> batch_op list option) res" where
  "bonsai_insert R self key val batch =
    res_bind (get_column R (bd_db self) (key_map (bd_mapping self) key)) (\<lambda>handle.
    res_bind (map_err BonsaiRocksDB (get_cf R (bd_db self) handle (key_as_slice key))) (\<lambda>old_value.
      case batch of
        Some ops \<Rightarrow> Ok (old_value, self, Some (ops @ [PutCf handle (key_as_slice key) val]))
      | None \<Rightarrow> map_ok (\<lambda>db. (old_value, self\<lparr>bd_db := db\<rparr>, None))
          (map_err BonsaiRocksDB (put_cf R (bd_db self) handle (key_as_slice key) val))))"

definition bonsai_remove :: "'db rocks \<Rightarrow> 'db bonsai_db \<Rightarrow> database_key \<Rightarrow> batch_op list option
    \<Rightarrow> (bonsai_db_error, bytes option \<times> 'db bonsai_db \<times> batch_op list option) res" where
  "bonsai_remove R self key batch =
    res_bind (get_column R (bd_db self) (key_map (bd_mapping self) key)) (\<lambda>handle.
    res_bind (map_err BonsaiRocksDB (get_cf R (bd_db self) handle (key_as_slice key))) (\<lambda>old_value.
      case batch of
        Some ops \<Rightarrow> Ok (old_value, self, Some (ops @ [DeleteCf handle (key_as_slice key)]))
      | None \<Rightarrow> map_ok (\<lambda>db. (old_value, self\<lparr>bd_db := db\<rparr>, None))
          (map_err BonsaiRocksDB (delete_cf R (bd_db self) handle (key_as_slice key)))))"

definition bonsai_write_batch :: "'db rocks \<Rightarrow> 'db bonsai_db \<Rightarrow> batch_op list \<Rightarrow> (bonsai_db_error, 'db bonsai_db) res" where
  "bonsai_write_batch R self batch =
    map_ok (\<lambda>db. self\<lparr>bd_db := db\<rparr>) (map_err BonsaiRocksDB (write_batch_of R (bd_db self) batch))"

definition bonsai_remove_by_prefix :: "'db rocks \<Rightarrow> 'db bonsai_db \<Rightarrow> database_key \<Rightarrow> (bonsai_db_error, 'db bonsai_db) res" where
  "bonsai_remove_by_prefix R self pre =
    res_bind (get_column R (bd_db self) (key_map (bd_mapping self) pre)) (\<lambda>handle.
      bonsai_write_batch R self
        (create_batch @ map (\<lambda>(key, _). DeleteCf handle key)
          (entries_while (key_as_slice pre) (iterator_from R (bd_db self) handle (key_as_slice pre)))))"

section \<open>Snapshots and transactions\<close>

text \<open>A transaction of RocksDB has the operations of a store of its own; the column handles come from
  the database. \<open>rebuild\<close> replays a batch in the transaction, \<open>get_writebatch\<close> is the batch of its
  pending writes, \<open>transaction_opt\<close> opens a transaction on the database as it is, \<open>commit_txn\<close> writes
  it back.\<close>

record ('db, 't) rocks_txn =
  txn_rocks :: "'t rocks"
  rebuild_from_writebatch :: "'t \<Rightarrow> batch_op list \<Rightarrow> (rocks_error, 't) res"
  get_writebatch :: "'t \<Rightarrow> batch_op list"
  transaction_opt :: "'db \<Rightarrow> 't"
  commit_txn :: "'db \<Rightarrow> 't \<Rightarrow> (rocks_error, 'db) res"

record ('db, 't) bonsai_transaction =
  bt_txn :: 't
  bt_db :: 'db
  bt_mapping :: database_key_mapping

definition txn_create_batch :: "('db, 't) rocks_txn \<Rightarrow> ('db, 't) bonsai_transaction \<Rightarrow> batch_op list" where
  "txn_create_batch X self = get_writebatch X (bt_txn self)"

definition txn_get :: "'db rocks \<Rightarrow> ('db, 't) rocks_txn \<Rightarrow> ('db, 't) bonsai_transaction \<Rightarrow> database_key
    \<Rightarrow> (bonsai_db_error, bytes option) res" where
  "txn_get R X self key =
    res_bind (get_column R (bt_db self) (key_map (bt_mapping self) key)) (\<lambda>handle.
      map_err BonsaiRocksDB (get_cf (txn_rocks X) (bt_txn self) handle (key_as_slice key)))"

definition txn_get_by_prefix :: "'db rocks \<Rightarrow> ('db, 't) rocks_txn \<Rightarrow> ('db, 't) bonsai_transaction \<Rightarrow> database_key
    \<Rightarrow> (bonsai_db_error, (bytes \<times> bytes) list) res" where
  "txn_get_by_prefix R X self pre =
    res_bind (get_column R (bt_db self) (key_map (bt_mapping self) pre)) (\<lambda>handle.
      Ok (entries_while (key_as_slice pre)
        (iterator_from (txn_rocks X) (bt_txn self) handle (key_as_slice pre))))"

definition txn_contains :: "'db rocks \<Rightarrow> ('db, 't) rocks_txn \<Rightarrow> ('db, 't) bonsai_transaction \<Rightarrow> database_key
    \<Rightarrow> (bonsai_db_error, bool) res" where
  "txn_contains R X self key =
    res_bind (get_column R (bt_db self) (key_map (bt_mapping self) key)) (\<lambda>handle.
      map_err BonsaiRocksDB
        (map_ok (\<lambda>val. val \<noteq> None) (get_cf (txn_rocks X) (bt_txn self) handle (key_as_slice key))))"

definition txn_insert :: "'db rocks \<Rightarrow> ('db, 't) rocks_txn \<Rightarrow> ('db, 't) bonsai_transaction \<Rightarrow> database_key \<Rightarrow> bytes
    \<Rightarrow> batch_op list option
    \<Rightarrow> (bonsai_db_error, bytes option \<times> ('db, 't) bonsai_transaction \<times> batch_op list option) res" where
  "txn_insert R X self key val batch =
    res_bind (get_column R (bt_db self) (key_map (bt_mapping self) key)) (\<lambda>handle.
    res_bind (map_err BonsaiRocksDB (get_cf (txn_rocks X) (bt_txn self) handle (key_as_slice key))) (\<lambda>old_value.
      case batch of
        Some ops \<Rightarrow> Ok (old_value, self, Some (ops @ [PutCf handle (key_as_slice key) val]))
      | None \<Rightarrow> map_ok (\<lambda>t. (old_value, self\<lparr>bt_txn := t\<rparr>, None))
          (map_err BonsaiRocksDB (put_cf (txn_rocks X) (bt_txn self) handle (key_as_slice key) val))))"

definition txn_remove :: "'db rocks \<Rightarrow> ('db, 't) rocks_txn \<Rightarrow> ('db, 't) bonsai_transaction \<Rightarrow> database_key
    \<Rightarrow> batch_op list option
    \<Rightarrow> (bonsai_db_error, bytes option \<times> ('db, 't) bonsai_transaction \<times> batch_op list option) res" where
  "txn_remove R X self key batch =
    res_bind (get_column R (bt_db self) (key_map (bt_mapping self) key)) (\<lambda>handle.
    res_bind (map_err BonsaiRocksDB (get_cf (txn_rocks X) (bt_txn self) handle (key_as_slice key))) (\<lambda>old_value.
      case batch of
        Some ops \<Rightarrow> Ok (old_value, self, Some (ops @ [DeleteCf handle (key_as_slice key)]))
      | None \<Rightarrow> map_ok (\<lambda>t. (old_value, self\<lparr>bt_txn := t\<rparr>, None))
          (map_err BonsaiRocksDB (delete_cf (txn_rocks X) (bt_txn self) handle (key_as_slice key)))))"

definition txn_write_batch :: "('db, 't) rocks_txn \<Rightarrow> ('db, 't) bonsai_transaction \<Rightarrow> batch_op list
    \<Rightarrow> (bonsai_db_error, ('db, 't) bonsai_transaction) res" where
  "txn_write_batch X self batch =
    map_ok (\<lambda>t. self\<lparr>bt_txn := t\<rparr>)
      (map_err BonsaiRocksDB (rebuild_from_writebatch X (bt_txn self) batch))"

definition txn_remove_by_prefix :: "'db rocks \<Rightarrow> ('db, 't) rocks_txn \<Rightarrow> ('db, 't) bonsai_transaction \<Rightarrow> database_key
    \<Rightarrow> (bonsai_db_error, ('db, 't) bonsai_transaction) res" where
  "txn_remove_by_prefix R X self pre =
    res_bind (get_column R (bt_db self) (key_map (bt_mapping self) pre)) (\<lambda>handle.
      txn_write_batch X self
        (txn_create_batch X self @ map (\<lambda>(key, _). DeleteCf handle key)
          (entries_while (key_as_slice pre)
            (iterator_from (txn_rocks X) (bt_txn self) handle (key_as_slice pre)))))"

definition bonsai_snapshot :: "'db bonsai_db \<Rightarrow> 64 word \<Rightarrow> 'db bonsai_db" where
  "bonsai_snapshot self i = self\<lparr>bd_snapshots := (bd_snapshots self)(i \<mapsto> bd_db self)\<rparr>"

text \<open>The read options that carry the snapshot are built and dropped: the transaction is opened on
  the database as it is.\<close>

definition bonsai_transaction_of :: "('db, 't) rocks_txn \<Rightarrow> 'db bonsai_db \<Rightarrow> 64 word
    \<Rightarrow> ('db, 't) bonsai_transaction option" where
  "bonsai_transaction_of X self i =
    (case bd_snapshots self i of
       Some snapshot \<Rightarrow>
         Some \<lparr> bt_txn = transaction_opt X (bd_db self), bt_db = bd_db self, bt_mapping = bd_mapping self \<rparr>
     | None \<Rightarrow> None)"

definition bonsai_merge :: "('db, 't) rocks_txn \<Rightarrow> 'db bonsai_db \<Rightarrow> ('db, 't) bonsai_transaction
    \<Rightarrow> (bonsai_db_error, 'db bonsai_db) res" where
  "bonsai_merge X self transaction =
    map_ok (\<lambda>db. self\<lparr>bd_db := db\<rparr>) (map_err BonsaiRocksDB (commit_txn X (bd_db self) (bt_txn transaction)))"

section \<open>The typed tries: definitions\<close>

text \<open>A Bonsai trie holds one tree per identifier; keys are bit strings. A zero value stands for an
  absent leaf.\<close>

record ('b, 'tr) bonsai_lib =
  bonsai_ins :: "'b \<Rightarrow> bytes \<Rightarrow> bool list \<Rightarrow> felt \<Rightarrow> (unit, 'b) res"
  bonsai_lookup :: "'b \<Rightarrow> bytes \<Rightarrow> bool list \<Rightarrow> (unit, felt option) res"
  bonsai_commit :: "'b \<Rightarrow> 64 word \<Rightarrow> (unit, 'b) res"
  bonsai_init_tree :: "'b \<Rightarrow> bytes \<Rightarrow> (unit, 'b) res"
  bonsai_root_hash :: "'b \<Rightarrow> bytes \<Rightarrow> (unit, felt) res"
  bonsai_key_value_pairs :: "'b \<Rightarrow> bytes \<Rightarrow> (unit, (bytes \<times> bytes) list) res"
  bonsai_latest_id :: "'b \<Rightarrow> 64 word option"
  bonsai_transactional_state :: "'b \<Rightarrow> 64 word \<Rightarrow> (unit, 'tr option) res"

datatype storage_type = Contract | ContractStorage | Class

primrec storage_type_display :: "storage_type \<Rightarrow> string" where
  "storage_type_display Contract = ''contract trie''"
| "storage_type_display ContractStorage = ''contract storage trie''"
| "storage_type_display Class = ''class trie''"

datatype deoxys_storage_error =
  StoraveViewError storage_type | StorageInsertionError storage_type | StorageRetrievalError storage_type
| TrieInitError storage_type | TrieRootError storage_type | TrieCommitError storage_type
| TrieMergeError storage_type | TrieIdError storage_type

primrec deoxys_storage_error_display :: "deoxys_storage_error \<Rightarrow> string" where
  "deoxys_storage_error_display (StoraveViewError t) = ''failed to retrieve storage view for '' @ storage_type_display t"
| "deoxys_storage_error_display (StorageInsertionError t) = ''failed to insert data into '' @ storage_type_display t"
| "deoxys_storage_error_display (StorageRetrievalError t) = ''failed to retrive data from '' @ storage_type_display t"
| "deoxys_storage_error_display (TrieInitError t) = ''failed to initialize trie for '' @ storage_type_display t"
| "deoxys_storage_error_display (TrieRootError t) = ''failed to compute trie root for '' @ storage_type_display t"
| "deoxys_storage_error_display (TrieCommitError t) = ''failed to commit to '' @ storage_type_display t"
| "deoxys_storage_error_display (TrieMergeError t) =
    ''failed to merge transactional state back into '' @ storage_type_display t"
| "deoxys_storage_error_display (TrieIdError t) = ''failed to retrieve latest id for '' @ storage_type_display t"

definition IDENT_CONTRACT :: bytes where "IDENT_CONTRACT = ascii ''0xcontract''"
definition IDENT_CLASS :: bytes where "IDENT_CLASS = ascii ''0xclass''"
definition IDENT_TRANSACTION :: bytes where "IDENT_TRANSACTION = ascii ''0xtransaction''"
definition IDENT_EVENT :: bytes where "IDENT_EVENT = ascii ''0xevent''"

text \<open>The backend: the three tries, each behind a lock that a panicking writer poisons.\<close>

record 'b deoxys_backend =
  dbk_contract :: 'b
  dbk_storage :: 'b
  dbk_class :: 'b
  dbk_poisoned :: "storage_type \<Rightarrow> bool"

fun trie_of :: "'b deoxys_backend \<Rightarrow> storage_type \<Rightarrow> 'b" where
  "trie_of bk Contract = dbk_contract bk"
| "trie_of bk ContractStorage = dbk_storage bk"
| "trie_of bk Class = dbk_class bk"

fun set_trie :: "'b deoxys_backend \<Rightarrow> storage_type \<Rightarrow> 'b \<Rightarrow> 'b deoxys_backend" where
  "set_trie bk Contract b = bk\<lparr>dbk_contract := b\<rparr>"
| "set_trie bk ContractStorage b = bk\<lparr>dbk_storage := b\<rparr>"
| "set_trie bk Class b = bk\<lparr>dbk_class := b\<rparr>"

subsection \<open>Keys\<close>

definition byte_bits :: "8 word \<Rightarrow> bool list" where
  "byte_bits b = map (\<lambda>i. bit b (7 - i)) [0..<8]"

definition as_bits :: "bytes \<Rightarrow> bool list" where
  "as_bits bs = concat (map byte_bits bs)"

definition conv_contract_identifier :: "felt_lib \<Rightarrow> felt \<Rightarrow> bytes" where
  "conv_contract_identifier L identifier = stark_bytes L identifier"

definition conv_contract_key :: "felt_lib \<Rightarrow> felt \<Rightarrow> bool list" where
  "conv_contract_key L key = drop 5 (as_bits (stark_bytes L key))"

definition conv_contract_storage_key :: "felt_lib \<Rightarrow> felt \<Rightarrow> bool list" where
  "conv_contract_storage_key L key = drop 5 (as_bits (stark_bytes L key))"

definition conv_contract_value :: "felt_lib \<Rightarrow> felt \<Rightarrow> felt" where
  "conv_contract_value L value = core_from_bytes_be L (stark_bytes L value)"

definition conv_class_key :: "felt_lib \<Rightarrow> felt \<Rightarrow> bool list" where
  "conv_class_key L key = drop 5 (as_bits (stark_bytes L key))"

definition conv_block_id :: "('b, 'tr) bonsai_lib \<Rightarrow> 'b \<Rightarrow> block_id \<Rightarrow> storage_type
    \<Rightarrow> (deoxys_storage_error, 64 word) res" where
  "conv_block_id B bonsai block_id storage_type =
    (case block_id of
       BlockNumber block_number \<Rightarrow> Ok block_number
     | _ \<Rightarrow> ok_or (TrieIdError storage_type) (bonsai_latest_id B bonsai))"

subsection \<open>The storage handler\<close>

text \<open>A mutable handle keeps the transactional state it was opened with; a view keeps the lock.\<close>

datatype 'tr trie_mut = TrieMut 'tr

definition trie_handle :: "('b, 'tr) bonsai_lib \<Rightarrow> 'b deoxys_backend \<Rightarrow> storage_type \<Rightarrow> block_id
    \<Rightarrow> (deoxys_storage_error, 'tr trie_mut) res" where
  "trie_handle B bk t block_id =
    (if dbk_poisoned bk t then Panic
     else res_bind (conv_block_id B (trie_of bk t) block_id t) (\<lambda>bonsai_id.
       case bonsai_transactional_state B (trie_of bk t) bonsai_id of
         Ok (Some transactional_storage) \<Rightarrow> Ok (TrieMut transactional_storage)
       | Panic \<Rightarrow> Panic
       | _ \<Rightarrow> Err (StoraveViewError t)))"

definition contract_mut :: "('b, 'tr) bonsai_lib \<Rightarrow> 'b deoxys_backend \<Rightarrow> block_id
    \<Rightarrow> (deoxys_storage_error, 'tr trie_mut) res" where
  "contract_mut B bk block_id = trie_handle B bk Contract block_id"

definition contract_storage_mut :: "('b, 'tr) bonsai_lib \<Rightarrow> 'b deoxys_backend \<Rightarrow> block_id
    \<Rightarrow> (deoxys_storage_error, 'tr trie_mut) res" where
  "contract_storage_mut B bk block_id = trie_handle B bk ContractStorage block_id"

definition class_mut :: "('b, 'tr) bonsai_lib \<Rightarrow> 'b deoxys_backend \<Rightarrow> block_id
    \<Rightarrow> (deoxys_storage_error, 'tr trie_mut) res" where
  "class_mut B bk block_id = trie_handle B bk Class block_id"

definition trie_read :: "'b deoxys_backend \<Rightarrow> storage_type \<Rightarrow> (deoxys_storage_error, 'b) res" where
  "trie_read bk t = (if dbk_poisoned bk t then Err (StoraveViewError t) else Ok (trie_of bk t))"

definition contract_view :: "'b deoxys_backend \<Rightarrow> (deoxys_storage_error, 'b) res" where
  "contract_view bk = trie_read bk Contract"

definition contract_storage_view :: "'b deoxys_backend \<Rightarrow> (deoxys_storage_error, 'b) res" where
  "contract_storage_view bk = trie_read bk ContractStorage"

definition class_view :: "'b deoxys_backend \<Rightarrow> (deoxys_storage_error, 'b) res" where
  "class_view bk = trie_read bk Class"

subsection \<open>Operations of the mutable handles\<close>

text \<open>\<open>lock().unwrap()\<close> followed by one fallible call on the trie; the backend is returned with the
  result, since an error does not undo earlier writes.\<close>

definition locked_update :: "'b deoxys_backend \<Rightarrow> storage_type \<Rightarrow> (storage_type \<Rightarrow> deoxys_storage_error)
    \<Rightarrow> ('b \<Rightarrow> (unit, 'b) res) \<Rightarrow> (deoxys_storage_error, unit) res \<times> 'b deoxys_backend" where
  "locked_update bk t err f =
    (if dbk_poisoned bk t then (Panic, bk)
     else case f (trie_of bk t) of
       Ok b \<Rightarrow> (Ok (), set_trie bk t b)
     | Err _ \<Rightarrow> (Err (err t), bk)
     | Panic \<Rightarrow> (Panic, bk))"

definition locked_query :: "'b deoxys_backend \<Rightarrow> storage_type \<Rightarrow> (storage_type \<Rightarrow> deoxys_storage_error)
    \<Rightarrow> ('b \<Rightarrow> (unit, 'v) res) \<Rightarrow> (deoxys_storage_error, 'v) res" where
  "locked_query bk t err f =
    (if dbk_poisoned bk t then Panic else map_err (\<lambda>_. err t) (f (trie_of bk t)))"

text \<open>The loop of the two \<open>update\<close> functions stops at the first failing insertion.\<close>

fun insert_loop :: "('b, 'tr) bonsai_lib \<Rightarrow> storage_type \<Rightarrow> bytes \<Rightarrow> 'b deoxys_backend \<Rightarrow> (bool list \<times> felt) list
    \<Rightarrow> (deoxys_storage_error, unit) res \<times> 'b deoxys_backend" where
  "insert_loop B t ident bk [] = (if dbk_poisoned bk t then Panic else Ok (), bk)"
| "insert_loop B t ident bk ((key, val) # updates) =
    (case locked_update bk t StorageInsertionError (\<lambda>b. bonsai_ins B b ident key val) of
       (Ok _, bk') \<Rightarrow> insert_loop B t ident bk' updates
     | (r, bk') \<Rightarrow> (r, bk'))"

definition contract_update :: "felt_lib \<Rightarrow> ('b, 'tr) bonsai_lib \<Rightarrow> 'tr trie_mut \<Rightarrow> 'b deoxys_backend \<Rightarrow> (felt \<times> felt) list
    \<Rightarrow> (deoxys_storage_error, unit) res \<times> 'b deoxys_backend" where
  "contract_update L B self bk updates =
    insert_loop B Contract IDENT_CONTRACT bk (map (\<lambda>(key, val). (conv_contract_key L key, val)) updates)"

definition contract_commit :: "('b, 'tr) bonsai_lib \<Rightarrow> 'tr trie_mut \<Rightarrow> 'b deoxys_backend \<Rightarrow> 64 word
    \<Rightarrow> (deoxys_storage_error, unit) res \<times> 'b deoxys_backend" where
  "contract_commit B self bk block_number =
    locked_update bk Contract TrieCommitError (\<lambda>b. bonsai_commit B b block_number)"

definition contract_init :: "('b, 'tr) bonsai_lib \<Rightarrow> 'tr trie_mut \<Rightarrow> 'b deoxys_backend
    \<Rightarrow> (deoxys_storage_error, unit) res \<times> 'b deoxys_backend" where
  "contract_init B self bk = locked_update bk Contract TrieInitError (\<lambda>b. bonsai_init_tree B b IDENT_CONTRACT)"

definition apply_changes :: "'tr trie_mut \<Rightarrow> (deoxys_storage_error, unit) res" where
  "apply_changes self = Ok ()"

definition contract_get :: "felt_lib \<Rightarrow> ('b, 'tr) bonsai_lib \<Rightarrow> 'tr trie_mut \<Rightarrow> 'b deoxys_backend \<Rightarrow> felt
    \<Rightarrow> (deoxys_storage_error, felt option) res" where
  "contract_get L B self bk key =
    locked_query bk Contract StorageRetrievalError (\<lambda>b. bonsai_lookup B b IDENT_CONTRACT (conv_contract_key L key))"

definition contract_storage_insert :: "felt_lib \<Rightarrow> ('b, 'tr) bonsai_lib \<Rightarrow> 'tr trie_mut \<Rightarrow> 'b deoxys_backend
    \<Rightarrow> felt \<Rightarrow> felt \<Rightarrow> felt \<Rightarrow> (deoxys_storage_error, unit) res \<times> 'b deoxys_backend" where
  "contract_storage_insert L B self bk identifier key value =
    locked_update bk ContractStorage StorageInsertionError
      (\<lambda>b. bonsai_ins B b (conv_contract_identifier L identifier) (conv_contract_storage_key L key)
        (conv_contract_value L value))"

definition contract_storage_commit :: "('b, 'tr) bonsai_lib \<Rightarrow> 'tr trie_mut \<Rightarrow> 'b deoxys_backend \<Rightarrow> 64 word
    \<Rightarrow> (deoxys_storage_error, unit) res \<times> 'b deoxys_backend" where
  "contract_storage_commit B self bk block_number =
    locked_update bk ContractStorage TrieCommitError (\<lambda>b. bonsai_commit B b block_number)"

definition contract_storage_init :: "felt_lib \<Rightarrow> ('b, 'tr) bonsai_lib \<Rightarrow> 'tr trie_mut \<Rightarrow> 'b deoxys_backend \<Rightarrow> felt
    \<Rightarrow> (deoxys_storage_error, unit) res \<times> 'b deoxys_backend" where
  "contract_storage_init L B self bk identifier =
    locked_update bk ContractStorage TrieInitError
      (\<lambda>b. bonsai_init_tree B b (conv_contract_identifier L identifier))"

definition contract_storage_get :: "felt_lib \<Rightarrow> ('b, 'tr) bonsai_lib \<Rightarrow> 'tr trie_mut \<Rightarrow> 'b deoxys_backend
    \<Rightarrow> felt \<Rightarrow> felt \<Rightarrow> (deoxys_storage_error, felt option) res" where
  "contract_storage_get L B self bk identifier key =
    locked_query bk ContractStorage StorageRetrievalError
      (\<lambda>b. bonsai_lookup B b (conv_contract_identifier L identifier) (conv_contract_storage_key L key))"

text \<open>\<open>Felt::from_bytes_be_slice\<close> reduces the big-endian value.\<close>

definition felt_from_slice :: "bytes \<Rightarrow> felt" where
  "felt_from_slice bs = felt_of_nat (be_nat bs)"

definition contract_storage_get_storage :: "felt_lib \<Rightarrow> ('b, 'tr) bonsai_lib \<Rightarrow> 'tr trie_mut \<Rightarrow> 'b deoxys_backend
    \<Rightarrow> felt \<Rightarrow> (deoxys_storage_error, (felt \<times> felt) list) res" where
  "contract_storage_get_storage L B self bk identifier =
    map_ok (map (\<lambda>(k, v). (felt_from_slice k, felt_from_slice v)))
      (locked_query bk ContractStorage StorageRetrievalError
        (\<lambda>b. bonsai_key_value_pairs B b (conv_contract_identifier L identifier)))"

definition class_update :: "felt_lib \<Rightarrow> ('b, 'tr) bonsai_lib \<Rightarrow> 'tr trie_mut \<Rightarrow> 'b deoxys_backend \<Rightarrow> (felt \<times> felt) list
    \<Rightarrow> (deoxys_storage_error, unit) res \<times> 'b deoxys_backend" where
  "class_update L B self bk updates =
    insert_loop B Class IDENT_CLASS bk
      (map (\<lambda>(key, val). (conv_class_key L key, core_from_bytes_be L (fe_to_bytes_be L val))) updates)"

definition class_commit :: "('b, 'tr) bonsai_lib \<Rightarrow> 'tr trie_mut \<Rightarrow> 'b deoxys_backend \<Rightarrow> 64 word
    \<Rightarrow> (deoxys_storage_error, unit) res \<times> 'b deoxys_backend" where
  "class_commit B self bk block_number =
    locked_update bk Class TrieCommitError (\<lambda>b. bonsai_commit B b block_number)"

definition class_init :: "('b, 'tr) bonsai_lib \<Rightarrow> 'tr trie_mut \<Rightarrow> 'b deoxys_backend
    \<Rightarrow> (deoxys_storage_error, unit) res \<times> 'b deoxys_backend" where
  "class_init B self bk = locked_update bk Class TrieInitError (\<lambda>b. bonsai_init_tree B b IDENT_CLASS)"

definition class_get :: "felt_lib \<Rightarrow> ('b, 'tr) bonsai_lib \<Rightarrow> 'tr trie_mut \<Rightarrow> 'b deoxys_backend \<Rightarrow> felt
    \<Rightarrow> (deoxys_storage_error, felt option) res" where
  "class_get L B self bk key =
    locked_query bk Class StorageRetrievalError (\<lambda>b. bonsai_lookup B b IDENT_CLASS (conv_class_key L key))"

subsection \<open>Operations of the views\<close>

definition contract_view_get :: "felt_lib \<Rightarrow> ('b, 'tr) bonsai_lib \<Rightarrow> 'b \<Rightarrow> felt \<Rightarrow> (deoxys_storage_error, felt option) res" where
  "contract_view_get L B self key =
    map_err (\<lambda>_. StorageRetrievalError Contract) (bonsai_lookup B self IDENT_CONTRACT (conv_contract_key L key))"

definition contract_view_root :: "('b, 'tr) bonsai_lib \<Rightarrow> 'b \<Rightarrow> (deoxys_storage_error, felt) res" where
  "contract_view_root B self = map_err (\<lambda>_. TrieRootError Contract) (bonsai_root_hash B self IDENT_CONTRACT)"

definition contract_storage_view_get :: "felt_lib \<Rightarrow> ('b, 'tr) bonsai_lib \<Rightarrow> 'b \<Rightarrow> felt \<Rightarrow> felt
    \<Rightarrow> (deoxys_storage_error, felt option) res" where
  "contract_storage_view_get L B self identifier key =
    map_err (\<lambda>_. StorageRetrievalError ContractStorage)
      (bonsai_lookup B self (conv_contract_identifier L identifier) (conv_contract_storage_key L key))"

definition contract_storage_view_get_storage :: "felt_lib \<Rightarrow> ('b, 'tr) bonsai_lib \<Rightarrow> 'b \<Rightarrow> felt
    \<Rightarrow> (deoxys_storage_error, (felt \<times> felt) list) res" where
  "contract_storage_view_get_storage L B self identifier =
    map_ok (map (\<lambda>(k, v). (felt_from_slice k, felt_from_slice v)))
      (map_err (\<lambda>_. StorageRetrievalError ContractStorage)
        (bonsai_key_value_pairs B self (conv_contract_identifier L identifier)))"

definition contract_storage_view_root :: "felt_lib \<Rightarrow> ('b, 'tr) bonsai_lib \<Rightarrow> 'b \<Rightarrow> felt \<Rightarrow> (deoxys_storage_error, felt) res" where
  "contract_storage_view_root L B self identifier =
    map_err (\<lambda>_. TrieRootError ContractStorage) (bonsai_root_hash B self (conv_contract_identifier L identifier))"

definition class_view_get :: "felt_lib \<Rightarrow> ('b, 'tr) bonsai_lib \<Rightarrow> 'b \<Rightarrow> felt \<Rightarrow> (deoxys_storage_error, felt option) res" where
  "class_view_get L B self key =
    map_err (\<lambda>_. StorageRetrievalError Class) (bonsai_lookup B self IDENT_CLASS (conv_class_key L key))"

definition class_view_root :: "('b, 'tr) bonsai_lib \<Rightarrow> 'b \<Rightarrow> (deoxys_storage_error, felt) res" where
  "class_view_root B self = map_err (\<lambda>_. TrieRootError Class) (bonsai_root_hash B self IDENT_CLASS)"

section \<open>Prefix scans are exact\<close>

lemma entries_while_Ok: "entries_while p (map Ok kvs) = takeWhile (\<lambda>(k, v). prefix p k) kvs"
  by (induction kvs) auto

text \<open>The store of a trie: what \<open>BonsaiDatabase\<close> promises to the trie.\<close>

definition trie_view :: "('db \<Rightarrow> string \<Rightarrow> bytes \<rightharpoonup> bytes) \<Rightarrow> 'db bonsai_db \<Rightarrow> database_key \<Rightarrow> bytes option" where
  "trie_view view self key = view (bd_db self) (rocksdb_name (key_map (bd_mapping self) key)) (key_as_slice key)"

context healthy_store
begin

lemma scan_exact:
  "\<exists>kvs. entries_while p (iterator_from R db c p) = kvs \<and> sorted (map fst kvs) \<and> distinct (map fst kvs)
     \<and> set kvs = {(k, v). view db c k = Some v \<and> prefix p k}"
proof -
  obtain kvs where kvs: "iterator_from R db c p = map Ok kvs" using iterator_total by blast
  have it: "sorted (map fst kvs)" "distinct (map fst kvs)" "set kvs = {(k, v). view db c k = Some v \<and> p \<le> k}"
    using iterator_Ok [OF kvs] by auto
  have "entries_while p (iterator_from R db c p) = filter (\<lambda>(k, v). prefix p k) kvs"
    unfolding kvs entries_while_Ok by (rule takeWhile_prefix) (use it in auto)
  moreover have "sorted (map fst (filter (\<lambda>(k, v). prefix p k) kvs))"
    "distinct (map fst (filter (\<lambda>(k, v). prefix p k) kvs))"
    using it by (auto intro: sorted_filter simp: distinct_map inj_on_def)
  ultimately show ?thesis using it(3) prefix_le by fastforce
qed

end

lemma batch_delete_keys:
  "batch_apply (map (\<lambda>(k, _). DeleteCf c k) kvs) m c' k =
     (if c' = c \<and> k \<in> fst ` set kvs then None else m c' k)"
  by (induction kvs arbitrary: m) (auto simp: batch_apply_def)

text \<open>The scans of a trie's database are exact: reading by prefix returns, each once and in the
  order of the keys, the entries of the column whose key starts with the prefix, although the scan
  stops at the first other key; removing by prefix deletes exactly these entries.\<close>

theorem bonsai_prefix_exact:
  assumes "healthy_store R view"
  shows "(\<exists>kvs. bonsai_get_by_prefix R self pre = Ok kvs \<and> sorted (map fst kvs) \<and> distinct (map fst kvs)
      \<and> set kvs = {(k, v). view (bd_db self) (rocksdb_name (key_map (bd_mapping self) pre)) k = Some v
            \<and> prefix (key_as_slice pre) k})
    \<and> (\<exists>self'. bonsai_remove_by_prefix R self pre = Ok self'
        \<and> view (bd_db self') c k =
          (if c = rocksdb_name (key_map (bd_mapping self) pre) \<and> prefix (key_as_slice pre) k then None
           else view (bd_db self) c k))"
proof -
  let ?col = "rocksdb_name (key_map (bd_mapping self) pre)" and ?p = "key_as_slice pre"
  obtain kvs where kvs: "entries_while ?p (iterator_from R (bd_db self) ?col ?p) = kvs"
    "sorted (map fst kvs)" "distinct (map fst kvs)"
    "set kvs = {(k, v). view (bd_db self) ?col k = Some v \<and> prefix ?p k}"
    using healthy_store.scan_exact [OF assms] by blast
  note col = healthy_store.column_found [OF assms]
  obtain db' where db': "write_batch_of R (bd_db self) (map (\<lambda>(k, _). DeleteCf ?col k) kvs) = Ok db'"
    using healthy_store.write_total [OF assms] by blast
  have "view db' = batch_apply (map (\<lambda>(k, _). DeleteCf ?col k) kvs) (view (bd_db self))"
    using kv_store.write_Ok [OF _ db'] assms by (simp add: healthy_store_def)
  moreover have "k \<in> fst ` set kvs \<longleftrightarrow> view (bd_db self) ?col k \<noteq> None \<and> prefix ?p k"
    by (force simp: kvs(4))
  ultimately have "view db' c k = (if c = ?col \<and> prefix ?p k then None else view (bd_db self) c k)"
    by (auto simp: batch_delete_keys)
  then show ?thesis
    using kvs db' by (simp add: bonsai_get_by_prefix_def bonsai_remove_by_prefix_def bonsai_write_batch_def
        create_batch_def col)
qed

definition sample_mapping :: database_key_mapping where
  "sample_mapping = \<lparr> km_flat = BonsaiContractsFlat, km_trie = BonsaiContractsTrie, km_trie_log = BonsaiContractsLog \<rparr>"

definition sample_trie_db :: "alist_db bonsai_db" where
  "sample_trie_db = bonsai_db_new
     [((rocksdb_name BonsaiContractsFlat, [2]), [20]), ((rocksdb_name BonsaiContractsFlat, [1, 7]), [17])] sample_mapping"

theorem bonsai_prefix_exact_witness:
  "\<exists>kvs. bonsai_get_by_prefix alist_rocks sample_trie_db (Flat [1]) = Ok kvs \<and> set kvs = {([1, 7], [17])}"
proof -
  have "{(k, v). alist_view (bd_db sample_trie_db) (rocksdb_name (key_map (bd_mapping sample_trie_db) (Flat [1]))) k = Some v
      \<and> prefix (key_as_slice (Flat [1])) k} = {([1, 7], [17])}"
    by (auto simp: sample_trie_db_def bonsai_db_new_def sample_mapping_def alist_view_def split: if_splits)
  then show ?thesis
    using bonsai_prefix_exact [OF alist_healthy, of sample_trie_db "Flat [1]" "[]" "[]"] by auto
qed

text \<open>An insertion or removal with a batch does not touch the database, and writing the batch later
  has the effect of the direct operation on the database the batch would have produced before it.\<close>

theorem bonsai_batch_defers:
  assumes "healthy_store R view"
  shows "\<exists>old. bonsai_insert R self key val (Some ops) = Ok (old, self, Some
        (ops @ [PutCf (rocksdb_name (key_map (bd_mapping self) key)) (key_as_slice key) val]))
    \<and> old = trie_view view self key
    \<and> (\<exists>self1 self2 self3 old2. bonsai_write_batch R self ops = Ok self1
        \<and> bonsai_insert R self1 key val None = Ok (old2, self2, None)
        \<and> bonsai_write_batch R self
            (ops @ [PutCf (rocksdb_name (key_map (bd_mapping self) key)) (key_as_slice key) val]) = Ok self3
        \<and> view (bd_db self2) = view (bd_db self3)
        \<and> trie_view view self2 key = Some val)"
proof -
  let ?col = "rocksdb_name (key_map (bd_mapping self) key)" and ?k = "key_as_slice key"
  note kv = healthy_store.axioms(1) [OF assms]
  note simps = healthy_store.column_found [OF assms] healthy_store.get_is_view [OF assms]
  obtain db1 where 1: "write_batch_of R (bd_db self) ops = Ok db1" "view db1 = batch_apply ops (view (bd_db self))"
    using healthy_store.write_total [OF assms] kv_store.write_Ok [OF kv] by metis
  obtain db2 where 2: "put_cf R db1 ?col ?k val = Ok db2" "view db2 = batch_step (PutCf ?col ?k val) (view db1)"
    using healthy_store.put_total [OF assms] kv_store.put_cf_Ok [OF kv] by metis
  obtain db3 where 3: "write_batch_of R (bd_db self) (ops @ [PutCf ?col ?k val]) = Ok db3"
    "view db3 = batch_apply (ops @ [PutCf ?col ?k val]) (view (bd_db self))"
    using healthy_store.write_total [OF assms] kv_store.write_Ok [OF kv] by metis
  from 1 2 3 show ?thesis
    by (simp add: bonsai_insert_def bonsai_write_batch_def simps trie_view_def batch_apply_append)
      (simp add: batch_apply_def)
qed

theorem bonsai_batch_defers_witness:
  "\<exists>old. bonsai_insert alist_rocks sample_trie_db (Flat [9]) [1] (Some []) = Ok (old, sample_trie_db,
      Some [PutCf (rocksdb_name BonsaiContractsFlat) [9] [1]]) \<and> old = None"
proof -
  have "trie_view alist_view sample_trie_db (Flat [9]) = None"
    by (simp add: trie_view_def sample_trie_db_def bonsai_db_new_def alist_view_def)
  moreover have "key_map (bd_mapping sample_trie_db) (Flat [9]) = BonsaiContractsFlat"
    by (simp add: sample_trie_db_def bonsai_db_new_def sample_mapping_def)
  ultimately show ?thesis
    using bonsai_batch_defers [OF alist_healthy, of sample_trie_db "Flat [9]" "[1]" "[]"] by auto
qed

text \<open>A transaction asked for the snapshot of an identifier exists exactly when the snapshot was
  taken, but reads the database as it is when the transaction is opened, not as it was when the
  snapshot was taken.\<close>

theorem transaction_ignores_snapshot:
  assumes "healthy_store R view"
    and "\<And>db c k. get_cf (txn_rocks X) (transaction_opt X db) c k = get_cf R db c k"
  shows "(bonsai_transaction_of X self i = None \<longleftrightarrow> bd_snapshots self i = None)
    \<and> (\<exists>old self' t. bonsai_insert R (bonsai_snapshot self i) key val None = Ok (old, self', None)
        \<and> bonsai_transaction_of X self' i = Some t \<and> txn_get R X t key = Ok (Some val))"
proof -
  let ?col = "rocksdb_name (key_map (bd_mapping self) key)" and ?k = "key_as_slice key"
  note simps = healthy_store.column_found [OF assms(1)] healthy_store.get_is_view [OF assms(1)]
  obtain db where db: "put_cf R (bd_db self) ?col ?k val = Ok db"
    "view db = batch_step (PutCf ?col ?k val) (view (bd_db self))"
    using healthy_store.put_total [OF assms(1)] kv_store.put_cf_Ok [OF healthy_store.axioms(1) [OF assms(1)]]
    by metis
  then show ?thesis
    by (simp add: bonsai_insert_def bonsai_snapshot_def bonsai_transaction_of_def txn_get_def assms(2) simps
        split: option.split)
qed

definition alist_txn :: "(alist_db, alist_db) rocks_txn" where
  "alist_txn = \<lparr> txn_rocks = alist_rocks, rebuild_from_writebatch = (\<lambda>t ops. Ok (fold alist_op ops t)),
     get_writebatch = (\<lambda>t. map (\<lambda>((c, k), v). PutCf c k v) t), transaction_opt = (\<lambda>db. db),
     commit_txn = (\<lambda>db t. Ok t) \<rparr>"

theorem transaction_ignores_snapshot_witness:
  "\<exists>old self' t. bonsai_insert alist_rocks (bonsai_snapshot sample_trie_db 4) (Flat [2]) [99] None = Ok (old, self', None)
     \<and> bonsai_transaction_of alist_txn self' 4 = Some t
     \<and> txn_get alist_rocks alist_txn t (Flat [2]) = Ok (Some [99])"
  using transaction_ignores_snapshot [OF alist_healthy, of alist_txn sample_trie_db 4 "Flat [2]" "[99]"]
  by (simp add: alist_txn_def)

section \<open>Trie keys\<close>

definition bits_val :: "bool list \<Rightarrow> nat" where
  "bits_val bs = foldl (\<lambda>acc b. 2 * acc + of_bool b) 0 bs"

lemma bits_acc: "foldl (\<lambda>acc b. 2 * acc + of_bool b) n bs = n * 2 ^ length bs + bits_val bs"
proof (induction bs arbitrary: n)
  case (Cons b bs)
  have "bits_val (b # bs) = foldl (\<lambda>acc b. 2 * acc + of_bool b) (of_bool b) bs"
    by (simp add: bits_val_def)
  also have "\<dots> = of_bool b * 2 ^ length bs + bits_val bs" by (rule Cons)
  finally have "bits_val (b # bs) = of_bool b * 2 ^ length bs + bits_val bs" .
  moreover have "foldl (\<lambda>acc b. 2 * acc + of_bool b) n (b # bs) = (2 * n + of_bool b) * 2 ^ length bs + bits_val bs"
    using Cons [of "2 * n + of_bool b"] by simp
  ultimately show ?case by (simp add: algebra_simps)
qed (simp add: bits_val_def)

lemma bits_val_append: "bits_val (xs @ ys) = bits_val xs * 2 ^ length ys + bits_val ys"
proof -
  have "bits_val (xs @ ys) = foldl (\<lambda>acc b. 2 * acc + of_bool b) (bits_val xs) ys"
    by (simp add: bits_val_def)
  then show ?thesis by (simp only: bits_acc)
qed

lemma bits_val_inj: "length xs = length ys \<Longrightarrow> bits_val xs = bits_val ys \<Longrightarrow> xs = ys"
proof (induction xs arbitrary: ys rule: rev_induct)
  case (snoc x xs)
  then obtain y ys' where ys: "ys = ys' @ [y]" by (metis append_butlast_last_id length_0_conv snoc_eq_iff_butlast)
  have one: "bits_val [b] = of_bool b" for b by (simp add: bits_val_def)
  from snoc.prems ys have eq: "2 * bits_val xs + of_bool x = 2 * bits_val ys' + of_bool y"
    by (simp add: bits_val_append one)
  then have "x = y" by (cases x; cases y; simp; presburger)
  with eq snoc ys show ?case by simp
qed simp

lemma bits_val_horner: "bits_val bs = horner_sum of_bool 2 (rev bs)"
proof (induction bs rule: rev_induct)
  case (snoc b bs)
  have "bits_val [b] = of_bool b" by (simp add: bits_val_def)
  with snoc show ?case by (simp add: bits_val_append)
qed (simp add: bits_val_def)

lemma byte_bits_val: "bits_val (byte_bits b) = unat b \<and> length (byte_bits b) = 8"
proof -
  have u: "[0..<8] = [0, 1, 2, 3, 4, 5, 6, 7]" by (simp add: upt_rec)
  have "rev (byte_bits b) = map (bit (unat b)) [0..<8]"
    by (simp add: byte_bits_def u bit_unsigned_iff)
  then have "bits_val (byte_bits b) = take_bit 8 (unat b)"
    unfolding bits_val_horner by (simp only: horner_sum_bit_eq_take_bit)
  also have "\<dots> = unat b"
    using unsigned_less [of b] by (intro take_bit_nat_eq_self) simp
  finally show ?thesis by (simp add: byte_bits_def)
qed

lemma as_bits_val: "bits_val (as_bits bs) = be_nat bs \<and> length (as_bits bs) = 8 * length bs"
proof (induction bs rule: rev_induct)
  case (snoc b bs)
  then show ?case
    by (simp add: as_bits_def bits_val_append byte_bits_val be_nat_append be_nat_Cons)
qed (simp add: as_bits_def bits_val_def)

lemma bits_val_bound: "bits_val bs < 2 ^ length bs"
proof (induction bs rule: rev_induct)
  case (snoc b bs)
  have "bits_val [b] = of_bool b" by (simp add: bits_val_def)
  with snoc show ?case by (cases b) (simp_all add: bits_val_append)
qed (simp add: bits_val_def)

lemma bits_val_drop: "bits_val (drop n bs) = bits_val bs mod 2 ^ (length bs - n)"
proof -
  have "bits_val bs = bits_val (take n bs) * 2 ^ (length bs - n) + bits_val (drop n bs)"
    using bits_val_append [of "take n bs" "drop n bs"] by simp
  then show ?thesis using bits_val_bound [of "drop n bs"] by simp
qed

lemma trie_key_value:
  assumes "felt_codec L"
  shows "bits_val (drop 5 (as_bits (stark_bytes L f))) = felt_nat f mod 2 ^ 251
    \<and> length (drop 5 (as_bits (stark_bytes L f))) = 251"
proof -
  have "be_nat (stark_bytes L f) = felt_nat f"
    by (simp add: felt_codec.stark_bytes [OF assms] be_felt del: nat_be.simps)
  moreover have "length (stark_bytes L f) = 32" by (simp add: felt_codec.stark_bytes [OF assms])
  ultimately show ?thesis by (simp add: bits_val_drop as_bits_val del: power_numeral)
qed

lemmas conv_keys = conv_contract_key_def conv_contract_storage_key_def conv_class_key_def

lemma trie_key_eq:
  assumes "felt_codec L"
  shows "drop 5 (as_bits (stark_bytes L f)) = drop 5 (as_bits (stark_bytes L g))
    \<longleftrightarrow> felt_nat f mod 2 ^ 251 = felt_nat g mod 2 ^ 251"
  using trie_key_value [OF assms, of f] trie_key_value [OF assms, of g] bits_val_inj by metis

lemma trie_key_inj:
  assumes "felt_codec L" and "felt_nat f < 2 ^ 251" and "felt_nat g < 2 ^ 251"
  shows "drop 5 (as_bits (stark_bytes L f)) = drop 5 (as_bits (stark_bytes L g)) \<longleftrightarrow> f = g"
  using assms(2,3) by (simp add: trie_key_eq [OF assms(1)] felt_eq_iff del: power_numeral)

text \<open>The keys of the three tries are the low 251 bits of the element, most significant bit first:
  they separate the elements of the \<open>2 ^ 251\<close> key space, and they do not separate an element of the
  key space from the one \<open>2 ^ 251\<close> above it.\<close>

theorem trie_keys_separate:
  assumes "felt_codec L"
  shows "length (conv_contract_key L f) = 251
    \<and> (conv_contract_key L f = conv_contract_key L g \<longleftrightarrow> felt_nat f mod 2 ^ 251 = felt_nat g mod 2 ^ 251)
    \<and> (conv_contract_storage_key L f = conv_contract_storage_key L g
        \<longleftrightarrow> felt_nat f mod 2 ^ 251 = felt_nat g mod 2 ^ 251)
    \<and> (conv_class_key L f = conv_class_key L g \<longleftrightarrow> felt_nat f mod 2 ^ 251 = felt_nat g mod 2 ^ 251)
    \<and> (conv_contract_identifier L f = conv_contract_identifier L g \<longleftrightarrow> f = g)
    \<and> conv_contract_value L f = f"
proof -
  have "nat_be 32 (felt_nat f) = nat_be 32 (felt_nat g) \<longleftrightarrow> f = g"
    using be_felt by (metis felt_eq_iff)
  then show ?thesis
    using trie_key_eq [OF assms] trie_key_value [OF assms]
    by (simp add: conv_keys conv_contract_identifier_def conv_contract_value_def be_felt
        felt_codec.stark_bytes [OF assms] felt_codec.core_from_bytes_be [OF assms]
        del: power_numeral nat_be.simps)
qed

theorem trie_keys_separate_witness:
  "conv_contract_key ref_felt_lib 3 = conv_contract_key ref_felt_lib (felt_of_nat (2 ^ 251 + 3))
    \<and> conv_contract_key ref_felt_lib 3 \<noteq> conv_contract_key ref_felt_lib 4"
proof -
  have "felt_nat 3 mod 2 ^ 251 = felt_nat (felt_of_nat (2 ^ 251 + 3)) mod 2 ^ 251"
    "felt_nat 3 mod 2 ^ 251 \<noteq> felt_nat 4 mod 2 ^ 251"
    by (simp_all add: felt_nat_numeral STARK_PRIME_def)
  then show ?thesis
    using trie_keys_separate [OF ref_felt_codec, of 3 "felt_of_nat (2 ^ 251 + 3)"]
      trie_keys_separate [OF ref_felt_codec, of 3 4] by metis
qed

section \<open>Reads and writes of the tries\<close>

definition leaf :: "felt \<Rightarrow> felt option" where
  "leaf v = (if v = 0 then None else Some v)"

locale bonsai_trie =
  fixes B :: "('b, 'tr) bonsai_lib"
  assumes lookup_ins: "bonsai_ins B b i k v = Ok b' \<Longrightarrow>
      bonsai_lookup B b' i' k' = (if i' = i \<and> k' = k then Ok (leaf v) else bonsai_lookup B b i' k')"

lemma set_trie_of [simp]: "trie_of (set_trie bk t b) t' = (if t' = t then b else trie_of bk t')"
  by (cases t; cases t') simp_all

lemma set_trie_poisoned [simp]: "dbk_poisoned (set_trie bk t b) = dbk_poisoned bk"
  by (cases t) simp_all

context bonsai_trie
begin

lemma locked_insert_Ok:
  assumes "locked_update bk t err (\<lambda>b. bonsai_ins B b i k v) = (Ok u, bk')"
  shows "\<not> dbk_poisoned bk t \<and> dbk_poisoned bk' = dbk_poisoned bk
    \<and> (\<forall>t'. t' \<noteq> t \<longrightarrow> trie_of bk' t' = trie_of bk t')
    \<and> bonsai_lookup B (trie_of bk' t) i' k'
      = (if i' = i \<and> k' = k then Ok (leaf v) else bonsai_lookup B (trie_of bk t) i' k')"
  using assms by (auto simp: locked_update_def lookup_ins split: if_splits res.splits)

lemma insert_loop_prefix:
  "insert_loop B t i bk us = (r, bk') \<Longrightarrow>
   \<exists>n\<le>length us. (r = Ok () \<longrightarrow> n = length us) \<and> dbk_poisoned bk' = dbk_poisoned bk
     \<and> (\<forall>t'. t' \<noteq> t \<longrightarrow> trie_of bk' t' = trie_of bk t')
     \<and> (\<forall>i' k'. bonsai_lookup B (trie_of bk' t) i' k' =
         (case (if i' = i then map_of (rev (take n us)) k' else None) of
            Some v \<Rightarrow> Ok (leaf v) | None \<Rightarrow> bonsai_lookup B (trie_of bk t) i' k'))"
proof (induction us arbitrary: bk)
  case (Cons u us)
  obtain k v where u: "u = (k, v)" by (cases u)
  obtain q bk1 where step: "locked_update bk t StorageInsertionError (\<lambda>b. bonsai_ins B b i k v) = (q, bk1)"
    by (cases "locked_update bk t StorageInsertionError (\<lambda>b. bonsai_ins B b i k v)")
  show ?case
  proof (cases q)
    case (Ok x)
    with Cons.prems u step have "insert_loop B t i bk1 us = (r, bk')" by simp
    from Cons.IH [OF this] obtain n where n: "n \<le> length us" "r = Ok () \<longrightarrow> n = length us"
      "dbk_poisoned bk' = dbk_poisoned bk1" "\<forall>t'. t' \<noteq> t \<longrightarrow> trie_of bk' t' = trie_of bk1 t'"
      "\<forall>i' k'. bonsai_lookup B (trie_of bk' t) i' k' =
         (case (if i' = i then map_of (rev (take n us)) k' else None) of
            Some v \<Rightarrow> Ok (leaf v) | None \<Rightarrow> bonsai_lookup B (trie_of bk1 t) i' k')" by blast
    from n locked_insert_Ok [OF step [unfolded Ok]] show ?thesis
      by (intro exI [of _ "Suc n"]) (auto simp: u map_add_def split: option.split)
  next
    case (Err e)
    with Cons.prems u step show ?thesis
      by (intro exI [of _ 0]) (auto simp: locked_update_def split: if_splits res.splits)
  next
    case Panic
    with Cons.prems u step show ?thesis
      by (intro exI [of _ 0]) (auto simp: locked_update_def split: if_splits res.splits)
  qed
qed auto

end

section \<open>Map tries\<close>

type_synonym map_trie = "bytes \<times> bool list \<rightharpoonup> felt"

definition map_bonsai :: "(map_trie, unit) bonsai_lib" where
  "map_bonsai =
    \<lparr> bonsai_ins = (\<lambda>b i k v. Ok (b((i, k) := leaf v))),
      bonsai_lookup = (\<lambda>b i k. Ok (b (i, k))),
      bonsai_commit = (\<lambda>b n. Ok b),
      bonsai_init_tree = (\<lambda>b i. Ok b),
      bonsai_root_hash = (\<lambda>b i. Ok 0),
      bonsai_key_value_pairs = (\<lambda>b i. Ok []),
      bonsai_latest_id = (\<lambda>b. Some 0),
      bonsai_transactional_state = (\<lambda>b n. Ok (Some ())) \<rparr>"

interpretation map_trie: bonsai_trie map_bonsai
  by unfold_locales (auto simp: map_bonsai_def)

lemma map_bonsai_trie: "bonsai_trie map_bonsai"
  by (rule map_trie.bonsai_trie_axioms)

definition empty_backend :: "map_trie deoxys_backend" where
  "empty_backend = \<lparr> dbk_contract = Map.empty, dbk_storage = Map.empty, dbk_class = Map.empty,
     dbk_poisoned = (\<lambda>_. False) \<rparr>"

section \<open>Properties of the tries\<close>

text \<open>A value written to the contract storage is read back by every handle, whatever block the
  writing and the reading handle were opened for: a write with one handle is seen by all handles and
  by the view, the writes of other slots and the other two tries are unchanged, and a zero value
  reads as absent. Contract addresses are told apart in full, storage keys within the key space.\<close>

theorem contract_storage_reads_writes:
  assumes "felt_codec L" and "bonsai_trie B" and "felt_nat k < 2 ^ 251" and "felt_nat k' < 2 ^ 251"
    and "contract_storage_insert L B h bk a k v = (Ok (), bk')"
  shows "contract_storage_get L B h' bk' a' k' =
      (if a' = a \<and> k' = k then Ok (leaf v) else contract_storage_get L B h' bk a' k')
    \<and> contract_storage_get L B h' bk' a' k' = contract_storage_view_get L B (dbk_storage bk') a' k'
    \<and> dbk_contract bk' = dbk_contract bk \<and> dbk_class bk' = dbk_class bk"
proof -
  have v: "conv_contract_value L v = v"
    by (simp add: conv_contract_value_def felt_codec.stark_bytes [OF assms(1)]
        felt_codec.core_from_bytes_be [OF assms(1)] be_felt del: nat_be.simps)
  have "stark_bytes L a' = stark_bytes L a \<longleftrightarrow> a' = a"
    using be_felt by (metis felt_codec.stark_bytes [OF assms(1)] felt_eq_iff)
  then have i: "conv_contract_identifier L a' = conv_contract_identifier L a \<longleftrightarrow> a' = a"
    by (simp add: conv_contract_identifier_def)
  have k: "conv_contract_storage_key L k' = conv_contract_storage_key L k \<longleftrightarrow> k' = k"
    using trie_key_inj [OF assms(1,4,3)] by (simp add: conv_keys)
  note ok = bonsai_trie.locked_insert_Ok [OF assms(2) assms(5) [unfolded contract_storage_insert_def v]]
  then have "\<not> dbk_poisoned bk ContractStorage" "dbk_poisoned bk' = dbk_poisoned bk"
    "trie_of bk' Contract = trie_of bk Contract" "trie_of bk' Class = trie_of bk Class" by blast+
  moreover have "bonsai_lookup B (trie_of bk' ContractStorage) (conv_contract_identifier L a')
        (conv_contract_storage_key L k') =
      (if a' = a \<and> k' = k then Ok (leaf v)
       else bonsai_lookup B (trie_of bk ContractStorage) (conv_contract_identifier L a')
         (conv_contract_storage_key L k'))"
    using ok i k by simp
  ultimately show ?thesis
    by (simp add: contract_storage_get_def contract_storage_view_get_def locked_query_def)
qed

theorem contract_storage_reads_writes_witness:
  "\<exists>bk'. contract_storage_insert ref_felt_lib map_bonsai (TrieMut ()) empty_backend 1 2 30 = (Ok (), bk')
    \<and> contract_storage_get ref_felt_lib map_bonsai (TrieMut ()) bk' 1 2 = Ok (Some 30)
    \<and> contract_storage_get ref_felt_lib map_bonsai (TrieMut ()) bk' 1 3 = Ok None"
proof -
  obtain bk' where bk': "contract_storage_insert ref_felt_lib map_bonsai (TrieMut ()) empty_backend 1 2 30 = (Ok (), bk')"
    by (simp add: contract_storage_insert_def locked_update_def empty_backend_def map_bonsai_def)
  have n: "felt_nat 2 < 2 ^ 251" "felt_nat 3 < 2 ^ 251"
    by (simp_all add: felt_nat_numeral STARK_PRIME_def)
  have "leaf 30 = Some 30" "(3 :: felt) \<noteq> 2"
    by (simp_all add: leaf_def felt_eq_iff felt_nat_numeral STARK_PRIME_def)
  moreover have "contract_storage_get ref_felt_lib map_bonsai (TrieMut ()) empty_backend 1 3 = Ok None"
    by (simp add: contract_storage_get_def locked_query_def empty_backend_def map_bonsai_def)
  ultimately show ?thesis
    using bk' contract_storage_reads_writes [OF ref_felt_codec map_bonsai_trie n(1) n(1) bk', of "TrieMut ()" 1]
      contract_storage_reads_writes [OF ref_felt_codec map_bonsai_trie n(1) n(2) bk', of "TrieMut ()" 1]
    by auto
qed

lemma map_of_conv:
  "inj_on f (insert k (fst ` set us)) \<Longrightarrow> map_of (map (\<lambda>(k, v). (f k, v)) us) (f k) = map_of us k"
proof (induction us)
  case (Cons u us)
  obtain k' v where u: "u = (k', v)" by (cases u)
  have "f k = f k' \<longleftrightarrow> k = k'" using Cons.prems u by (auto simp: inj_on_def)
  moreover have "inj_on f (insert k (fst ` set us))"
    using Cons.prems by (auto intro: inj_on_subset)
  ultimately show ?case using Cons.IH u by simp
qed simp

text \<open>Updating the contract trie writes a prefix of the list of updates, all of it when the update
  succeeds: then every contract of the list has its last value, every other contract the old
  one, and the other tries are unchanged; a failing update leaves the earlier writes in place.\<close>

theorem contract_update_writes:
  assumes "felt_codec L" and "bonsai_trie B" and "contract_update L B h bk us = (r, bk')"
    and "felt_nat k < 2 ^ 251" and "list_all (\<lambda>u. felt_nat (fst u) < 2 ^ 251) us" and "\<not> dbk_poisoned bk Contract"
  shows "\<exists>n\<le>length us. (r = Ok () \<longrightarrow> n = length us)
    \<and> contract_get L B h' bk' k =
        (case map_of (rev (take n us)) k of Some v \<Rightarrow> Ok (leaf v) | None \<Rightarrow> contract_get L B h' bk k)
    \<and> dbk_storage bk' = dbk_storage bk \<and> dbk_class bk' = dbk_class bk"
proof -
  let ?c = "conv_contract_key L"
  obtain n where n: "n \<le> length us" "r = Ok () \<longrightarrow> n = length us" "dbk_poisoned bk' = dbk_poisoned bk"
    "\<forall>t'. t' \<noteq> Contract \<longrightarrow> trie_of bk' t' = trie_of bk t'"
    "\<forall>i' k'. bonsai_lookup B (trie_of bk' Contract) i' k' =
         (case (if i' = IDENT_CONTRACT then map_of (rev (take n (map (\<lambda>(k, v). (?c k, v)) us))) k' else None) of
            Some v \<Rightarrow> Ok (leaf v) | None \<Rightarrow> bonsai_lookup B (trie_of bk Contract) i' k')"
    using bonsai_trie.insert_loop_prefix [OF assms(2) assms(3) [unfolded contract_update_def]] by auto
  have key: "?c f = ?c g \<longleftrightarrow> f = g" if "felt_nat f < 2 ^ 251" "felt_nat g < 2 ^ 251" for f g
    using trie_key_inj [OF assms(1) that] by (simp add: conv_keys)
  have small: "felt_nat (fst u) < 2 ^ 251" if "u \<in> set (rev (take n us))" for u
    using assms(5) that by (auto simp: list_all_iff dest: in_set_takeD)
  have "inj_on ?c (insert k (fst ` set (rev (take n us))))"
    using key assms(4) small by (auto simp: inj_on_def)
  then have "map_of (rev (take n (map (\<lambda>(k, v). (?c k, v)) us))) (?c k) = map_of (rev (take n us)) k"
    using map_of_conv [of ?c k "rev (take n us)"] by (simp add: take_map rev_map)
  with n have "contract_get L B h' bk' k =
        (case map_of (rev (take n us)) k of Some v \<Rightarrow> Ok (leaf v) | None \<Rightarrow> contract_get L B h' bk k)"
    using assms(6) by (simp add: contract_get_def locked_query_def split: option.split)
  moreover have "trie_of bk' ContractStorage = trie_of bk ContractStorage" "trie_of bk' Class = trie_of bk Class"
    using n(4) by blast+
  ultimately show ?thesis using n(1,2) by auto
qed

theorem contract_update_writes_witness:
  "\<exists>bk'. contract_update ref_felt_lib map_bonsai (TrieMut ()) empty_backend [(1, 5), (1, 6)] = (Ok (), bk')
    \<and> contract_get ref_felt_lib map_bonsai (TrieMut ()) bk' 1 = Ok (Some 6)"
proof -
  obtain bk' where bk': "contract_update ref_felt_lib map_bonsai (TrieMut ()) empty_backend [(1, 5), (1, 6)] = (Ok (), bk')"
    by (simp add: contract_update_def locked_update_def empty_backend_def map_bonsai_def)
  have "felt_nat 1 < 2 ^ 251" by simp
  moreover have "list_all (\<lambda>u. felt_nat (fst u) < 2 ^ 251) [(1, 5), (1, 6 :: felt)]" by simp
  moreover have "\<not> dbk_poisoned empty_backend Contract" by (simp add: empty_backend_def)
  ultimately obtain n where "n = 2" "contract_get ref_felt_lib map_bonsai (TrieMut ()) bk' 1 =
      (case map_of (rev (take n [(1, 5), (1, 6)])) 1 of Some v \<Rightarrow> Ok (leaf v)
       | None \<Rightarrow> contract_get ref_felt_lib map_bonsai (TrieMut ()) empty_backend 1)"
    using contract_update_writes [OF ref_felt_codec map_bonsai_trie bk', of 1 "TrieMut ()"] by fastforce
  moreover have "leaf 6 = Some 6" by (simp add: leaf_def felt_eq_iff felt_nat_numeral STARK_PRIME_def)
  ultimately show ?thesis using bk' by auto
qed

end
