(* ===== verification/Adapter.thy ===== *)
theory Adapter
  imports Pallet BonsaiStore
begin

text \<open>
  The state a simulated or re-executed transaction runs on, \<open>crates/pallets/starknet/src/
  blockifier_state_adapter.rs\<close>: temporary updates over the pallet's storage and the contract storage
  of the client database. The increment of a nonce belongs to \<open>starknet_api\<close> and is the argument
  \<open>try_increment\<close>.
\<close>

section \<open>The adapter\<close>

record 'c blockifier_state_adapter =
  storage_update :: "felt \<times> felt \<rightharpoonup> felt"
  nonce_update :: "felt \<rightharpoonup> felt"
  class_hash_update :: "felt \<rightharpoonup> felt"
  compiled_class_hash_update :: "felt \<rightharpoonup> felt"
  contract_class_update :: "felt \<rightharpoonup> 'c"
  visited_pcs :: "felt \<rightharpoonup> nat set"

definition adapter_default :: "'c blockifier_state_adapter" where
  "adapter_default =
    \<lparr> storage_update = Map.empty, nonce_update = Map.empty, class_hash_update = Map.empty,
      compiled_class_hash_update = Map.empty, contract_class_update = Map.empty,
      visited_pcs = Map.empty \<rparr>"

datatype state_error = StateReadError felt felt | UndeclaredClassHash felt | StarknetApiError

definition get_storage_at :: "felt_lib \<Rightarrow> ('b, 'tr) bonsai_lib \<Rightarrow> 'b deoxys_backend \<Rightarrow> ('c, 'a) pallet_state
    \<Rightarrow> 'c blockifier_state_adapter \<Rightarrow> felt \<Rightarrow> felt \<Rightarrow> (state_error, felt) res" where
  "get_storage_at L B bk st self contract_address key =
    (case storage_update self (contract_address, key) of
       Some value \<Rightarrow> Ok value
     | None \<Rightarrow>
         res_bind (unwrap (contract_storage_mut B bk (BlockNumber (sys_block_number st)))) (\<lambda>handle.
         case contract_storage_get L B handle bk contract_address key of
           Ok (Some value) \<Rightarrow> Ok value
         | Ok None \<Rightarrow> Ok 0
         | Err _ \<Rightarrow> Err (StateReadError contract_address key)
         | Panic \<Rightarrow> Panic))"

text \<open>\<open>Nonces\<close> and \<open>ContractClassHashes\<close> are value queries: an absent entry reads as the default.\<close>

definition get_nonce_at :: "('c, 'a) pallet_state \<Rightarrow> 'c blockifier_state_adapter \<Rightarrow> felt \<Rightarrow> (state_error, felt) res" where
  "get_nonce_at st self contract_address =
    Ok (case nonce_update self contract_address of
          Some n \<Rightarrow> n
        | None \<Rightarrow> (case ps_nonces st contract_address of Some n \<Rightarrow> n | None \<Rightarrow> 0))"

definition get_class_hash_at :: "('c, 'a) pallet_state \<Rightarrow> 'c blockifier_state_adapter \<Rightarrow> felt \<Rightarrow> (state_error, felt) res" where
  "get_class_hash_at st self contract_address =
    Ok (case class_hash_update self contract_address of
          Some h \<Rightarrow> h
        | None \<Rightarrow> (case ps_contract_class_hashes st contract_address of Some h \<Rightarrow> h | None \<Rightarrow> 0))"

definition get_compiled_contract_class :: "('c, 'a) pallet_state \<Rightarrow> 'c blockifier_state_adapter \<Rightarrow> felt
    \<Rightarrow> (state_error, 'c) res" where
  "get_compiled_contract_class st self class_hash =
    (case contract_class_update self class_hash of
       Some c \<Rightarrow> Ok c
     | None \<Rightarrow> ok_or (UndeclaredClassHash class_hash) (ps_contract_classes st class_hash))"

definition get_compiled_class_hash :: "('c, 'a) pallet_state \<Rightarrow> 'c blockifier_state_adapter \<Rightarrow> felt
    \<Rightarrow> (state_error, felt) res" where
  "get_compiled_class_hash st self class_hash =
    (case compiled_class_hash_update self class_hash of
       Some h \<Rightarrow> Ok h
     | None \<Rightarrow> ok_or (UndeclaredClassHash class_hash) (ps_compiled_class_hashes st class_hash))"

definition set_storage_at :: "'c blockifier_state_adapter \<Rightarrow> felt \<Rightarrow> felt \<Rightarrow> felt
    \<Rightarrow> (state_error, 'c blockifier_state_adapter) res" where
  "set_storage_at self contract_address key value =
    Ok (self\<lparr>storage_update := (storage_update self)((contract_address, key) \<mapsto> value)\<rparr>)"

definition increment_nonce :: "(felt \<Rightarrow> felt option) \<Rightarrow> ('c, 'a) pallet_state \<Rightarrow> 'c blockifier_state_adapter \<Rightarrow> felt
    \<Rightarrow> (state_error, 'c blockifier_state_adapter) res" where
  "increment_nonce try_increment st self contract_address =
    res_bind (get_nonce_at st self contract_address) (\<lambda>current.
    res_bind (ok_or StarknetApiError (try_increment current)) (\<lambda>nonce.
      Ok (self\<lparr>nonce_update := (nonce_update self)(contract_address \<mapsto> nonce)\<rparr>)))"

definition set_class_hash_at :: "'c blockifier_state_adapter \<Rightarrow> felt \<Rightarrow> felt
    \<Rightarrow> (state_error, 'c blockifier_state_adapter) res" where
  "set_class_hash_at self contract_address class_hash =
    Ok (self\<lparr>class_hash_update := (class_hash_update self)(contract_address \<mapsto> class_hash)\<rparr>)"

definition set_contract_class :: "'c blockifier_state_adapter \<Rightarrow> felt \<Rightarrow> 'c
    \<Rightarrow> (state_error, 'c blockifier_state_adapter) res" where
  "set_contract_class self class_hash contract_class =
    Ok (self\<lparr>contract_class_update := (contract_class_update self)(class_hash \<mapsto> contract_class)\<rparr>)"

definition set_compiled_class_hash :: "'c blockifier_state_adapter \<Rightarrow> felt \<Rightarrow> felt
    \<Rightarrow> (state_error, 'c blockifier_state_adapter) res" where
  "set_compiled_class_hash self class_hash compiled_class_hash =
    Ok (self\<lparr>compiled_class_hash_update := (compiled_class_hash_update self)(class_hash \<mapsto> compiled_class_hash)\<rparr>)"

definition add_visited_pcs :: "'c blockifier_state_adapter \<Rightarrow> felt \<Rightarrow> nat set \<Rightarrow> 'c blockifier_state_adapter" where
  "add_visited_pcs self class_hash pcs =
    self\<lparr>visited_pcs := (visited_pcs self)(class_hash \<mapsto>
      (case visited_pcs self class_hash of Some s \<Rightarrow> s | None \<Rightarrow> {}) \<union> pcs)\<rparr>"

section \<open>The adapter as a program state\<close>

text \<open>The writes a transaction makes, applied one after the other; a failing one stops.\<close>

datatype 'c state_write =
  SetStorage felt felt felt | IncrementNonce felt | SetClassHash felt felt | SetClass felt 'c
| SetCompiledClassHash felt felt | VisitPcs felt "nat set"

fun apply_write :: "(felt \<Rightarrow> felt option) \<Rightarrow> ('c, 'a) pallet_state \<Rightarrow> 'c blockifier_state_adapter \<Rightarrow> 'c state_write
    \<Rightarrow> (state_error, 'c blockifier_state_adapter) res" where
  "apply_write inc st ad (SetStorage a k v) = set_storage_at ad a k v"
| "apply_write inc st ad (IncrementNonce a) = increment_nonce inc st ad a"
| "apply_write inc st ad (SetClassHash a h) = set_class_hash_at ad a h"
| "apply_write inc st ad (SetClass h c) = set_contract_class ad h c"
| "apply_write inc st ad (SetCompiledClassHash h ch) = set_compiled_class_hash ad h ch"
| "apply_write inc st ad (VisitPcs h p) = Ok (add_visited_pcs ad h p)"

text \<open>The specification: five total functions, as the transaction sees them.\<close>

record 'c program_state =
  pg_storage :: "felt \<times> felt \<Rightarrow> (state_error, felt) res"
  pg_nonce :: "felt \<Rightarrow> felt"
  pg_class_hash :: "felt \<Rightarrow> felt"
  pg_class :: "felt \<rightharpoonup> 'c"
  pg_compiled :: "felt \<rightharpoonup> felt"

definition program_state_of :: "felt_lib \<Rightarrow> ('b, 'tr) bonsai_lib \<Rightarrow> 'b deoxys_backend \<Rightarrow> ('c, 'a) pallet_state
    \<Rightarrow> 'c blockifier_state_adapter \<Rightarrow> 'c program_state" where
  "program_state_of L B bk st ad =
    \<lparr> pg_storage = (\<lambda>(a, k). get_storage_at L B bk st ad a k),
      pg_nonce = (\<lambda>a. case get_nonce_at st ad a of Ok n \<Rightarrow> n | _ \<Rightarrow> 0),
      pg_class_hash = (\<lambda>a. case get_class_hash_at st ad a of Ok h \<Rightarrow> h | _ \<Rightarrow> 0),
      pg_class = (\<lambda>h. case get_compiled_contract_class st ad h of Ok c \<Rightarrow> Some c | _ \<Rightarrow> None),
      pg_compiled = (\<lambda>h. case get_compiled_class_hash st ad h of Ok c \<Rightarrow> Some c | _ \<Rightarrow> None) \<rparr>"

fun spec_write :: "(felt \<Rightarrow> felt option) \<Rightarrow> 'c program_state \<Rightarrow> 'c state_write \<Rightarrow> 'c program_state option" where
  "spec_write inc s (SetStorage a k v) = Some (s\<lparr>pg_storage := (pg_storage s)((a, k) := Ok v)\<rparr>)"
| "spec_write inc s (IncrementNonce a) =
    map_option (\<lambda>n. s\<lparr>pg_nonce := (pg_nonce s)(a := n)\<rparr>) (inc (pg_nonce s a))"
| "spec_write inc s (SetClassHash a h) = Some (s\<lparr>pg_class_hash := (pg_class_hash s)(a := h)\<rparr>)"
| "spec_write inc s (SetClass h c) = Some (s\<lparr>pg_class := (pg_class s)(h \<mapsto> c)\<rparr>)"
| "spec_write inc s (SetCompiledClassHash h ch) = Some (s\<lparr>pg_compiled := (pg_compiled s)(h \<mapsto> ch)\<rparr>)"
| "spec_write inc s (VisitPcs h p) = Some s"

lemmas adapter_defs = get_storage_at_def get_nonce_at_def get_class_hash_at_def
  get_compiled_contract_class_def get_compiled_class_hash_def set_storage_at_def increment_nonce_def
  set_class_hash_at_def set_contract_class_def set_compiled_class_hash_def add_visited_pcs_def

lemma apply_write_refines:
  "case apply_write inc st ad w of
     Ok ad' \<Rightarrow> spec_write inc (program_state_of L B bk st ad) w = Some (program_state_of L B bk st ad')
   | Err e \<Rightarrow> e = StarknetApiError \<and> spec_write inc (program_state_of L B bk st ad) w = None
   | Panic \<Rightarrow> False"
proof (cases w)
  case (IncrementNonce a)
  then show ?thesis
    by (cases "inc (case nonce_update ad a of Some n \<Rightarrow> n
          | None \<Rightarrow> (case ps_nonces st a of Some n \<Rightarrow> n | None \<Rightarrow> 0))")
      (auto simp: program_state_of_def adapter_defs fun_eq_iff)
qed (auto simp: program_state_of_def adapter_defs fun_eq_iff)

text \<open>C35: a transaction running on the adapter sees its own writes over the state of the chain: any
  sequence of writes is simulated by updates of the five functions that make up the program state
  (storage, nonces, class hashes, classes, compiled class hashes), it fails only where the increment
  of a nonce fails, and it never panics; the chain's state is not an output of any of the writes.\<close>

theorem adapter_overlay:
  "case try_fold (apply_write inc st) ad ws of
     Ok ad' \<Rightarrow> try_fold (\<lambda>s w. case spec_write inc s w of Some s' \<Rightarrow> Ok s' | None \<Rightarrow> Err StarknetApiError)
        (program_state_of L B bk st ad) ws = Ok (program_state_of L B bk st ad')
   | Err e \<Rightarrow> try_fold (\<lambda>s w. case spec_write inc s w of Some s' \<Rightarrow> Ok s' | None \<Rightarrow> Err StarknetApiError)
        (program_state_of L B bk st ad) ws = Err e
   | Panic \<Rightarrow> False"
proof (induction ws arbitrary: ad)
  case (Cons w ws)
  show ?case
  proof (cases "apply_write inc st ad w")
    case (Ok ad')
    then show ?thesis
      using apply_write_refines [where inc = inc and st = st and ad = ad and w = w and L = L and B = B and bk = bk] Cons [of ad']
      by (cases "try_fold (apply_write inc st) ad' ws") simp_all
  qed (use apply_write_refines [where inc = inc and st = st and ad = ad and w = w and L = L and B = B and bk = bk] in auto)
qed simp

end
