(* ===== verification/Simulations.thy ===== *)
theory Simulations
  imports Adapter
begin

text \<open>
  Simulation, fee estimation and re-execution, \<open>crates/pallets/starknet/src/simulations.rs\<close>, the types of
  \<open>types.rs\<close> they return and the flags of \<open>crates/primitives/simulations/src/lib.rs\<close>. The execution
  engine (\<open>blockifier\<close>) is the argument \<open>E\<close>; whether FRAME can open a storage layer is \<open>layer\<close>. None
  of these functions writes to the pallet's storage, and the layer they run in is rolled back, so
  they are functions of the state that return a value only.
\<close>

section \<open>Flags\<close>

datatype simulation_flag = SkipValidate | SkipFeeCharge

record simulation_flags =
  validate :: bool
  charge_fee :: bool

definition simulation_flags_default :: simulation_flags where
  "simulation_flags_default = \<lparr> validate = True, charge_fee = True \<rparr>"

fun flags_loop :: "simulation_flags \<Rightarrow> simulation_flag list \<Rightarrow> simulation_flags" where
  "flags_loop out [] = out"
| "flags_loop out (flag # flags) =
    (let out = (case flag of
           SkipValidate \<Rightarrow> out\<lparr>validate := False\<rparr>
         | SkipFeeCharge \<Rightarrow> out\<lparr>charge_fee := False\<rparr>)
     in if \<not> validate out \<and> \<not> charge_fee out then out else flags_loop out flags)"

definition simulation_flags_from :: "simulation_flag list \<Rightarrow> simulation_flags" where
  "simulation_flags_from flags = flags_loop simulation_flags_default flags"

datatype estimate_fee_flag = EstimateSkipValidate

record simulation_flag_for_estimate_fee =
  skip_validate :: bool

definition convert_flags :: "estimate_fee_flag list \<Rightarrow> simulation_flag_for_estimate_fee list" where
  "convert_flags flags = map (\<lambda>flag. case flag of EstimateSkipValidate \<Rightarrow> \<lparr> skip_validate = False \<rparr>) flags"

definition estimate_flag_default :: simulation_flag_for_estimate_fee where
  "estimate_flag_default = \<lparr> skip_validate = True \<rparr>"

section \<open>Types\<close>

datatype price_unit = Wei | Fri

datatype rpc_price_unit = RpcWei | RpcFri

primrec price_unit_into :: "price_unit \<Rightarrow> rpc_price_unit" where
  "price_unit_into Wei = RpcWei"
| "price_unit_into Fri = RpcFri"

record fee_estimate =
  fe_gas_consumed :: felt
  fe_gas_price :: felt
  fe_data_gas_consumed :: felt
  fe_data_gas_price :: felt
  fe_overall_fee :: felt
  fe_unit :: price_unit

text \<open>Of the execution engine: fee types, gas vectors and what an execution returns.\<close>

datatype fee_type_t = Strk | Eth

record gas_vector =
  l1_gas :: "128 word"
  l1_data_gas :: "128 word"

record tx_execution_info =
  tei_validate_call_info :: "call_info option"
  tei_execute_call_info :: "call_info option"
  tei_fee_transfer_call_info :: "call_info option"
  tei_actual_fee :: "128 word"
  tei_da_gas :: gas_vector
  tei_actual_resources :: "string \<rightharpoonup> 64 word"
  tei_revert_error :: "string option"

datatype ('x, 'm) exec_transaction = AccountTransaction 'x | L1HandlerTransaction 'm

record ('c, 's, 'x, 'm, 'e) engine =
  eng_new :: "'c blockifier_state_adapter \<Rightarrow> 's"
  eng_execute_account :: "'x \<Rightarrow> 's \<Rightarrow> block_context \<Rightarrow> bool \<Rightarrow> bool \<Rightarrow> ('e, tx_execution_info \<times> 's) res"
  eng_execute_message :: "'m \<Rightarrow> 's \<Rightarrow> block_context \<Rightarrow> bool \<Rightarrow> bool \<Rightarrow> ('e, tx_execution_info \<times> 's) res"
  eng_account_fee_type :: "'x \<Rightarrow> fee_type_t"
  eng_message_fee_type :: "'m \<Rightarrow> fee_type_t"
  eng_minimal_gas :: "block_context \<Rightarrow> 'x \<Rightarrow> ('e, gas_vector) res"
  eng_calculate_tx_fee :: "(string \<rightharpoonup> 64 word) \<Rightarrow> block_context \<Rightarrow> fee_type_t \<Rightarrow> ('e, 128 word) res"

primrec fee_type :: "('c, 's, 'x, 'm, 'e) engine \<Rightarrow> ('x, 'm) exec_transaction \<Rightarrow> fee_type_t" where
  "fee_type E (AccountTransaction tx) = eng_account_fee_type E tx"
| "fee_type E (L1HandlerTransaction tx) = eng_message_fee_type E tx"

primrec eng_execute :: "('c, 's, 'x, 'm, 'e) engine \<Rightarrow> ('x, 'm) exec_transaction \<Rightarrow> 's \<Rightarrow> block_context \<Rightarrow> bool
    \<Rightarrow> bool \<Rightarrow> ('e, tx_execution_info \<times> 's) res" where
  "eng_execute E (AccountTransaction tx) = eng_execute_account E tx"
| "eng_execute E (L1HandlerTransaction tx) = eng_execute_message E tx"

definition gas_price_by_fee_type :: "gas_prices \<Rightarrow> fee_type_t \<Rightarrow> 128 word" where
  "gas_price_by_fee_type p t = (case t of Strk \<Rightarrow> strk_l1_gas_price p | Eth \<Rightarrow> eth_l1_gas_price p)"

definition data_gas_price_by_fee_type :: "gas_prices \<Rightarrow> fee_type_t \<Rightarrow> 128 word" where
  "data_gas_price_by_fee_type p t = (case t of Strk \<Rightarrow> strk_l1_data_gas_price p | Eth \<Rightarrow> eth_l1_data_gas_price p)"

definition price_unit_of :: "fee_type_t \<Rightarrow> price_unit" where
  "price_unit_of t = (case t of Strk \<Rightarrow> Fri | Eth \<Rightarrow> Wei)"

definition init_cached_state :: "('c, 's, 'x, 'm, 'e) engine \<Rightarrow> 's" where
  "init_cached_state E = eng_new E adapter_default"

section \<open>Fee estimation\<close>

definition from_tx_info_and_gas_price :: "felt_lib \<Rightarrow> tx_execution_info \<Rightarrow> 128 word \<Rightarrow> 128 word \<Rightarrow> price_unit
    \<Rightarrow> gas_vector \<Rightarrow> ('e, fee_estimate) res" where
  "from_tx_info_and_gas_price L tx_info gas_price data_gas_price unit minimal_l1_gas_amount_vector =
    (let data_gas_consumed = l1_data_gas (tei_da_gas tx_info);
         data_gas_fee = saturating_mul data_gas_consumed data_gas_price;
         gas_consumed = saturating_sub (tei_actual_fee tx_info) data_gas_fee div max gas_price 1;
         minimal_gas_consumed = l1_gas minimal_l1_gas_amount_vector;
         minimal_data_gas_consumed = l1_data_gas minimal_l1_gas_amount_vector;
         gas_consumed = max gas_consumed minimal_gas_consumed;
         data_gas_consumed = max data_gas_consumed minimal_data_gas_consumed;
         overall_fee = saturating_add (saturating_mul gas_consumed gas_price)
           (saturating_mul data_gas_consumed data_gas_price)
     in res_bind (from_u128 L gas_consumed) (\<lambda>gas_consumed.
        res_bind (from_u128 L gas_price) (\<lambda>gas_price.
        res_bind (from_u128 L data_gas_consumed) (\<lambda>data_gas_consumed.
        res_bind (from_u128 L data_gas_price) (\<lambda>data_gas_price.
        res_bind (from_u128 L overall_fee) (\<lambda>overall_fee.
          Ok \<lparr> fe_gas_consumed = gas_consumed, fe_gas_price = gas_price,
               fe_data_gas_consumed = data_gas_consumed, fe_data_gas_price = data_gas_price,
               fe_overall_fee = overall_fee, fe_unit = unit \<rparr>))))))"

datatype execution_error = ExecutionError string

definition execute_fee_transaction :: "felt_lib \<Rightarrow> ('c, 's, 'x, 'm, 'e) engine \<Rightarrow> 'x \<Rightarrow> block_context
    \<Rightarrow> simulation_flag_for_estimate_fee \<Rightarrow> (execution_error, fee_estimate) res" where
  "execute_fee_transaction L E transaction block_context simulation_flags =
    (let cached_state = init_cached_state E;
         fee_type = eng_account_fee_type E transaction;
         gas_price = gas_price_by_fee_type (bc_gas_prices block_context) fee_type;
         data_gas_price = data_gas_price_by_fee_type (bc_gas_prices block_context) fee_type;
         unit = price_unit_of fee_type;
         minimal_l1_gas_amount_vector = eng_minimal_gas E block_context transaction;
         tx_info = res_bind
           (eng_execute_account E transaction cached_state block_context False (skip_validate simulation_flags))
           (\<lambda>(tx_info, _).
              if tei_actual_fee tx_info = 0
              then res_bind (eng_calculate_tx_fee E (tei_actual_resources tx_info) block_context fee_type)
                (\<lambda>fee. Ok (tx_info\<lparr>tei_actual_fee := fee\<rparr>))
              else Ok tx_info)
     in case tx_info of
          Ok tx_info \<Rightarrow>
            (case tei_revert_error tx_info of
               Some revert_error \<Rightarrow> Err (ExecutionError ''Transaction reverted'')
             | None \<Rightarrow> res_bind (unwrap minimal_l1_gas_amount_vector) (\<lambda>minimal.
                 from_tx_info_and_gas_price L tx_info gas_price data_gas_price unit minimal))
        | Err _ \<Rightarrow> Err (ExecutionError ''Execution error'')
        | Panic \<Rightarrow> Panic)"

definition estimate_fee_inner :: "felt_lib \<Rightarrow> ('c, 's, 'x, 'm, 'e) engine \<Rightarrow> pallet_config \<Rightarrow> ('c, 'a) pallet_state
    \<Rightarrow> 'x list \<Rightarrow> simulation_flag_for_estimate_fee list \<Rightarrow> (pallet_error, fee_estimate list) res" where
  "estimate_fee_inner L E cfg st transactions simulation_flags =
    (let block_context = get_block_context L cfg st
     in try_fold (\<lambda>fees tx.
          try_fold (\<lambda>fees flag.
            case execute_fee_transaction L E tx block_context flag of
              Ok execution_info \<Rightarrow> Ok (fees @ [execution_info])
            | Err _ \<Rightarrow> Err TransactionExecutionFailed
            | Panic \<Rightarrow> Panic) fees simulation_flags) [] transactions)"

text \<open>Running in a storage layer that is rolled back: it fails when no layer can be opened.\<close>

definition with_rollback :: "bool \<Rightarrow> (pallet_error, 'r) res \<Rightarrow> (pallet_error, 'r) res" where
  "with_rollback layer inner =
    (if layer then inner else Err FailedToCreateATransactionalStorageExecution)"

definition estimate_fee :: "bool \<Rightarrow> felt_lib \<Rightarrow> ('c, 's, 'x, 'm, 'e) engine \<Rightarrow> pallet_config \<Rightarrow> ('c, 'a) pallet_state
    \<Rightarrow> 'x list \<Rightarrow> simulation_flag_for_estimate_fee list \<Rightarrow> (pallet_error, fee_estimate list) res" where
  "estimate_fee layer L E cfg st transactions simulation_flags =
    with_rollback layer (estimate_fee_inner L E cfg st transactions simulation_flags)"

definition estimate_message_fee_inner :: "felt_lib \<Rightarrow> ('c, 's, 'x, 'm, 'e) engine \<Rightarrow> pallet_config
    \<Rightarrow> ('c, 'a) pallet_state \<Rightarrow> 'm \<Rightarrow> (pallet_error, fee_estimate) res" where
  "estimate_message_fee_inner L E cfg st message =
    res_bind
      (case eng_execute_message E message (init_cached_state E) (get_block_context L cfg st) True True of
         Ok (execution_info, _) \<Rightarrow>
           (case tei_revert_error execution_info of
              None \<Rightarrow> Ok execution_info
            | Some _ \<Rightarrow> Err TransactionExecutionFailed)
       | Err _ \<Rightarrow> Err TransactionExecutionFailed
       | Panic \<Rightarrow> Panic) (\<lambda>info.
    res_bind (unwrap_opt (tei_actual_resources info ''l1_gas_usage'')) (\<lambda>usage.
    res_bind (from_u128 L (eth_l1_gas_price (cfg_l1_gas_prices cfg))) (\<lambda>gas_price.
    res_bind (from_u128 L (l1_data_gas (tei_da_gas info))) (\<lambda>data_gas_consumed.
    res_bind (from_u128 L (eth_l1_data_gas_price (cfg_l1_gas_prices cfg))) (\<lambda>data_gas_price.
    res_bind (from_u128 L (tei_actual_fee info)) (\<lambda>overall_fee.
      Ok \<lparr> fe_gas_consumed = from_u64 L usage, fe_gas_price = gas_price,
           fe_data_gas_consumed = data_gas_consumed, fe_data_gas_price = data_gas_price,
           fe_overall_fee = overall_fee, fe_unit = price_unit_of (eng_message_fee_type E message) \<rparr>))))))"

definition estimate_message_fee :: "bool \<Rightarrow> felt_lib \<Rightarrow> ('c, 's, 'x, 'm, 'e) engine \<Rightarrow> pallet_config
    \<Rightarrow> ('c, 'a) pallet_state \<Rightarrow> 'm \<Rightarrow> (pallet_error, fee_estimate) res" where
  "estimate_message_fee layer L E cfg st message =
    with_rollback layer (estimate_message_fee_inner L E cfg st message)"

section \<open>Simulation and re-execution\<close>

datatype place_holder_error = PlaceHolderErrorTypeForFailedStarknetExecution

text \<open>The outer result is the pallet's, the inner one per transaction the simulation's; a panic is of
  the whole call.\<close>

primrec settle :: "('e, 'r) res \<Rightarrow> ('f, ('e, 'r) res) res" where
  "settle (Ok r) = Ok (Ok r)"
| "settle (Err e) = Ok (Err e)"
| "settle Panic = Panic"

definition simulate_transactions_inner :: "felt_lib \<Rightarrow> ('c, 's, 'x, 'm, 'e) engine \<Rightarrow> pallet_config
    \<Rightarrow> ('c, 'a) pallet_state \<Rightarrow> 'x list \<Rightarrow> simulation_flags
    \<Rightarrow> (pallet_error, (place_holder_error, tx_execution_info) res list) res" where
  "simulate_transactions_inner L E cfg st transactions simulation_flags =
    (let block_context = get_block_context L cfg st
     in try_map (\<lambda>tx. settle (map_err (\<lambda>_. PlaceHolderErrorTypeForFailedStarknetExecution)
              (map_ok fst (eng_execute_account E tx (init_cached_state E) block_context
                (charge_fee simulation_flags) (validate simulation_flags))))) transactions)"

definition simulate_transactions :: "bool \<Rightarrow> felt_lib \<Rightarrow> ('c, 's, 'x, 'm, 'e) engine \<Rightarrow> pallet_config
    \<Rightarrow> ('c, 'a) pallet_state \<Rightarrow> 'x list \<Rightarrow> simulation_flags
    \<Rightarrow> (pallet_error, (place_holder_error, tx_execution_info) res list) res" where
  "simulate_transactions layer L E cfg st transactions simulation_flags =
    with_rollback layer (simulate_transactions_inner L E cfg st transactions simulation_flags)"

definition execute_message :: "('c, 's, 'x, 'm, 'e) engine \<Rightarrow> 'm \<Rightarrow> block_context \<Rightarrow> simulation_flags
    \<Rightarrow> ('e, tx_execution_info) res" where
  "execute_message E transaction block_context simulation_flags =
    map_ok fst (eng_execute_message E transaction (init_cached_state E) block_context
      (charge_fee simulation_flags) (validate simulation_flags))"

definition simulate_message_inner :: "felt_lib \<Rightarrow> ('c, 's, 'x, 'm, 'e) engine \<Rightarrow> pallet_config
    \<Rightarrow> ('c, 'a) pallet_state \<Rightarrow> 'm \<Rightarrow> simulation_flags
    \<Rightarrow> (pallet_error, (place_holder_error, tx_execution_info) res) res" where
  "simulate_message_inner L E cfg st message simulation_flags =
    settle (map_err (\<lambda>_. PlaceHolderErrorTypeForFailedStarknetExecution)
      (execute_message E message (get_block_context L cfg st) simulation_flags))"

definition simulate_message :: "bool \<Rightarrow> felt_lib \<Rightarrow> ('c, 's, 'x, 'm, 'e) engine \<Rightarrow> pallet_config
    \<Rightarrow> ('c, 'a) pallet_state \<Rightarrow> 'm \<Rightarrow> simulation_flags
    \<Rightarrow> (pallet_error, (place_holder_error, tx_execution_info) res) res" where
  "simulate_message layer L E cfg st message simulation_flags =
    with_rollback layer (simulate_message_inner L E cfg st message simulation_flags)"

text \<open>Executing one transaction after the other on one cached state; the first failure ends it.\<close>

primrec execute_all :: "('c, 's, 'x, 'm, 'e) engine \<Rightarrow> block_context \<Rightarrow> bool \<Rightarrow> 's \<Rightarrow> ('x, 'm) exec_transaction list
    \<Rightarrow> ('e, tx_execution_info list \<times> 's) res" where
  "execute_all E block_context charge s [] = Ok ([], s)"
| "execute_all E block_context charge s (tx # txs) =
    res_bind (eng_execute E tx s block_context charge False) (\<lambda>(info, s).
    res_bind (execute_all E block_context charge s txs) (\<lambda>(infos, s). Ok (info # infos, s)))"

definition re_execute_transactions :: "('c, 's, 'x, 'm, 'e) engine \<Rightarrow> ('x, 'm) exec_transaction list
    \<Rightarrow> ('x, 'm) exec_transaction list \<Rightarrow> block_context \<Rightarrow> (place_holder_error, tx_execution_info list) res" where
  "re_execute_transactions E transactions_before transactions_to_trace block_context =
    (let charge_fee = (eth_l1_gas_price (bc_gas_prices block_context) \<noteq> 1);
         cached_state = init_cached_state E
     in res_bind (map_err (\<lambda>_. PlaceHolderErrorTypeForFailedStarknetExecution)
          (execute_all E block_context charge_fee cached_state transactions_before)) (\<lambda>(_, cached_state).
        res_bind (map_err (\<lambda>_. PlaceHolderErrorTypeForFailedStarknetExecution)
          (execute_all E block_context charge_fee cached_state transactions_to_trace)) (\<lambda>(infos, _).
          Ok infos)))"

section \<open>Flags and simulation\<close>

lemma flags_loop_spec:
  "flags_loop out flags = \<lparr> validate = (validate out \<and> SkipValidate \<notin> set flags),
     charge_fee = (charge_fee out \<and> SkipFeeCharge \<notin> set flags) \<rparr>"
proof (induction flags arbitrary: out)
  case (Cons flag flags)
  show ?case by (cases flag; cases out) (simp_all add: Cons Let_def)
qed simp

lemma settle_try_map:
  "try_map (\<lambda>x. settle (f x)) xs = Ok rs \<longleftrightarrow> rs = map f xs \<and> Panic \<notin> f ` set xs"
proof (induction xs arbitrary: rs)
  case (Cons x xs)
  show ?case by (cases "f x") (auto simp: result_simps Cons)
qed auto

text \<open>Simulating transactions runs each of them on a fresh copy of the chain's state, so the result
  of one does not depend on the others; validation and fee charging are skipped exactly when the
  list of flags asks for it, in any order, and unless the engine panics the call returns one result
  per transaction, a failing execution being a result of its own.\<close>

theorem simulate_independent:
  "simulate_transactions layer L E cfg st txs (simulation_flags_from flags) = Ok rs \<longleftrightarrow>
    layer \<and> rs = map (\<lambda>tx. map_err (\<lambda>_. PlaceHolderErrorTypeForFailedStarknetExecution) (map_ok fst
        (eng_execute_account E tx (init_cached_state E) (get_block_context L cfg st)
          (SkipFeeCharge \<notin> set flags) (SkipValidate \<notin> set flags)))) txs
      \<and> Panic \<notin> set rs"
  by (auto simp: simulate_transactions_def simulate_transactions_inner_def with_rollback_def Let_def
    settle_try_map simulation_flags_from_def flags_loop_spec simulation_flags_default_def)

section \<open>Fee estimation\<close>

lemma try_fold_snoc:
  "try_fold (\<lambda>acc x. case f x of Ok y \<Rightarrow> Ok (acc @ [y]) | Err e \<Rightarrow> Err (g e) | Panic \<Rightarrow> Panic) acc xs =
   map_ok ((@) acc) (map_err g (try_map f xs))"
proof (induction xs arbitrary: acc)
  case (Cons x xs)
  show ?case by (cases "f x"; cases "try_map f xs") (simp_all add: Cons)
qed simp

lemma try_map_append:
  "try_map f (xs @ ys) = res_bind (try_map f xs) (\<lambda>as. res_bind (try_map f ys) (\<lambda>bs. Ok (as @ bs)))"
  by (induction xs) (auto simp: res_bind_assoc)

lemma try_fold_product:
  "try_fold (\<lambda>acc x. map_ok ((@) acc) (map_err g (try_map (\<lambda>y. f (x, y)) ys))) acc xs =
   map_ok ((@) acc) (map_err g (try_map f (List.product xs ys)))"
proof (induction xs arbitrary: acc)
  case (Cons x xs)
  have "try_map f (map (Pair x) ys) = try_map (\<lambda>y. f (x, y)) ys" by (induction ys) auto
  then show ?case
    by (cases "try_map (\<lambda>y. f (x, y)) ys"; cases "try_map f (List.product xs ys)")
      (simp_all add: Cons try_map_append)
qed simp

lemma estimate_fee_inner_product:
  "estimate_fee_inner L E cfg st txs flags =
    map_err (\<lambda>_. TransactionExecutionFailed) (try_map
      (\<lambda>(tx, flag). execute_fee_transaction L E tx (get_block_context L cfg st) flag) (List.product txs flags))"
  using try_fold_product [where g = "\<lambda>_. TransactionExecutionFailed" and acc = "[]" and xs = txs and ys = flags
      and f = "\<lambda>(tx, flag). execute_fee_transaction L E tx (get_block_context L cfg st) flag"]
  by (cases "try_map (\<lambda>(tx, flag). execute_fee_transaction L E tx (get_block_context L cfg st) flag)
        (List.product txs flags)")
    (simp_all add: estimate_fee_inner_def Let_def try_fold_snoc)

text \<open>Fee estimation returns one estimate for every pair of a transaction and a flag, in order, and
  fails as a whole when one of them fails; hence with no flag it returns no estimate at all, whatever
  the transactions and without running any of them.\<close>

theorem estimate_fee_pairs:
  "estimate_fee layer L E cfg st txs flags =
      (if \<not> layer then Err FailedToCreateATransactionalStorageExecution
       else map_err (\<lambda>_. TransactionExecutionFailed) (try_map
         (\<lambda>(tx, flag). execute_fee_transaction L E tx (get_block_context L cfg st) flag)
         (List.product txs flags)))
    \<and> estimate_fee True L E cfg st txs [] = Ok []"
proof -
  have "List.product txs [] = ([] :: ('c \<times> simulation_flag_for_estimate_fee) list)" by (induction txs) auto
  then show ?thesis
    by (simp add: estimate_fee_def with_rollback_def estimate_fee_inner_product)
qed

lemma unat_max: "unat (max a b :: 'w::len word) = max (unat a) (unat b)"
  by (simp add: max_def word_le_nat_alt)

definition fee_cap :: nat where "fee_cap = 2 ^ 128 - 1"

text \<open>The arithmetic of the estimate over natural numbers, saturation written out.\<close>

definition estimated_gas :: "tx_execution_info \<Rightarrow> 128 word \<Rightarrow> 128 word \<Rightarrow> gas_vector \<Rightarrow> nat" where
  "estimated_gas info p dp m =
    max ((unat (tei_actual_fee info) - min (unat (l1_data_gas (tei_da_gas info)) * unat dp) fee_cap) div max (unat p) 1)
      (unat (l1_gas m))"

definition estimated_data_gas :: "tx_execution_info \<Rightarrow> gas_vector \<Rightarrow> nat" where
  "estimated_data_gas info m = max (unat (l1_data_gas (tei_da_gas info))) (unat (l1_data_gas m))"

lemma from_tx_info_spec:
  assumes "felt_codec L"
  shows "from_tx_info_and_gas_price L info p dp u m = Ok
    \<lparr> fe_gas_consumed = felt_of_nat (estimated_gas info p dp m), fe_gas_price = felt_of_nat (unat p),
      fe_data_gas_consumed = felt_of_nat (estimated_data_gas info m), fe_data_gas_price = felt_of_nat (unat dp),
      fe_overall_fee = felt_of_nat (min (min (estimated_gas info p dp m * unat p) fee_cap
          + min (estimated_data_gas info m * unat dp) fee_cap) fee_cap),
      fe_unit = u \<rparr>"
  by (simp add: from_tx_info_and_gas_price_def Let_def felt_codec.u128_embeds [OF assms] unat_saturating_add
    unat_saturating_mul unat_saturating_sub unat_max unat_div estimated_gas_def estimated_data_gas_def fee_cap_def)

lemma saturated_cover:
  fixes fee :: nat
  assumes "0 < p" and "fee \<le> c" and "(fee - min (d * dp) c) div p \<le> g" and "d \<le> d'"
  shows "fee < min (min (g * p) c + min (d' * dp) c) c + p"
proof -
  have "(fee - min (d * dp) c) < ((fee - min (d * dp) c) div p) * p + p"
    using assms(1) by (metis div_mult_mod_eq add_less_cancel_left mod_less_divisor)
  also have "\<dots> \<le> g * p + p" using assms(3) by simp
  finally have "fee - min (d * dp) c < g * p + p" .
  moreover have "min (d * dp) c \<le> min (d' * dp) c"
    by (intro min.mono mult_le_mono1 assms(4)) simp
  ultimately show ?thesis using assms(1,2) by linarith
qed

text \<open>C37: a fee estimate never panics or overflows: its fee is the consumed gas and data gas at their
  prices, capped at the largest \<open>u128\<close>; neither consumption is below the transaction's minimum; and
  with a positive gas price the estimate is short of the fee the execution computed by less than the
  price of one unit of gas, even where the arithmetic saturates.\<close>

theorem fee_estimate_covers:
  assumes "felt_codec L" and "0 < p"
  shows "\<exists>est. from_tx_info_and_gas_price L info p dp u m = Ok est
    \<and> unat (l1_gas m) \<le> felt_nat (fe_gas_consumed est)
    \<and> unat (l1_data_gas m) \<le> felt_nat (fe_data_gas_consumed est)
    \<and> felt_nat (fe_overall_fee est) =
        min (min (felt_nat (fe_gas_consumed est) * unat p) (2 ^ 128 - 1)
          + min (felt_nat (fe_data_gas_consumed est) * unat dp) (2 ^ 128 - 1)) (2 ^ 128 - 1)
    \<and> unat (tei_actual_fee info) < felt_nat (fe_overall_fee est) + unat p"
proof -
  have p: "0 < unat p" using assms(2) by (simp add: unat_gt_0)
  have u128: "unat (w :: 128 word) \<le> fee_cap" for w
    using unsigned_less [where ?'a = nat and w = w] by (simp add: fee_cap_def)
  have cap: "n mod STARK_PRIME = n" if "n \<le> fee_cap" for n
    using that by (simp add: fee_cap_def STARK_PRIME_def)
  have g: "estimated_gas info p dp m \<le> fee_cap"
    unfolding estimated_gas_def
    by (intro max.boundedI u128 le_trans [OF div_le_dividend le_trans [OF diff_le_self u128]])
  have d: "estimated_data_gas info m \<le> fee_cap" unfolding estimated_data_gas_def using u128 by simp
  have p1: "max (unat p) 1 = unat p" using p by simp
  let ?g = "estimated_gas info p dp m" and ?d = "estimated_data_gas info m"
  let ?o = "min (min (?g * unat p) fee_cap + min (?d * unat dp) fee_cap) fee_cap"
  have cover: "unat (tei_actual_fee info) < ?o + unat p"
    using p by (intro saturated_cover [where d = "unat (l1_data_gas (tei_da_gas info))"])
      (simp_all add: u128 estimated_gas_def estimated_data_gas_def p1)
  have o: "felt_nat (felt_of_nat ?o) = ?o" and gn: "felt_nat (felt_of_nat ?g) = ?g"
    and dn: "felt_nat (felt_of_nat ?d) = ?d"
    using cap [OF g] cap [OF d] cap [of ?o] by simp_all
  have min: "unat (l1_gas m) \<le> ?g" "unat (l1_data_gas m) \<le> ?d"
    by (simp_all add: estimated_gas_def estimated_data_gas_def)
  show ?thesis
    unfolding from_tx_info_spec [OF assms(1)] fee_cap_def [symmetric]
    by (rule exI, rule conjI, rule refl) (simp only: fee_estimate.simps o gn dn min cover simp_thms)
qed

definition sample_info :: tx_execution_info where
  "sample_info = \<lparr> tei_validate_call_info = None, tei_execute_call_info = None,
     tei_fee_transfer_call_info = None, tei_actual_fee = 1000,
     tei_da_gas = \<lparr> l1_gas = 0, l1_data_gas = 3 \<rparr>, tei_actual_resources = Map.empty,
     tei_revert_error = None \<rparr>"

theorem fee_estimate_covers_witness:
  "\<exists>est. from_tx_info_and_gas_price ref_felt_lib sample_info 7 11 Wei \<lparr> l1_gas = 20, l1_data_gas = 1 \<rparr> = Ok est
    \<and> 1000 < felt_nat (fe_overall_fee est) + 7"
  using fee_estimate_covers [OF ref_felt_codec, of "7 :: 128 word" sample_info "11 :: 128 word" Wei
      "\<lparr> l1_gas = 20, l1_data_gas = 1 \<rparr>"]
  by (auto simp: sample_info_def)

section \<open>Re-execution\<close>

lemma execute_all_append:
  "execute_all E ctx charge s (xs @ ys) =
    res_bind (execute_all E ctx charge s xs) (\<lambda>(as, s).
      res_bind (execute_all E ctx charge s ys) (\<lambda>(bs, s). Ok (as @ bs, s)))"
proof (induction xs arbitrary: s)
  case Nil
  show ?case by (cases "execute_all E ctx charge s ys") auto
next
  case (Cons x xs)
  show ?case
    by (cases "eng_execute E x s ctx charge False") (auto simp: Cons res_bind_assoc split_def)
qed

lemma execute_all_length: "execute_all E ctx charge s xs = Ok (infos, s') \<Longrightarrow> length infos = length xs"
  by (induction xs arbitrary: s infos) (auto simp: result_simps)

lemma re_execute_run:
  "re_execute_transactions E before traced ctx =
    map_err (\<lambda>_. PlaceHolderErrorTypeForFailedStarknetExecution) (map_ok (\<lambda>(infos, _). drop (length before) infos)
      (execute_all E ctx (eth_l1_gas_price (bc_gas_prices ctx) \<noteq> 1) (init_cached_state E) (before @ traced)))"
proof (cases "execute_all E ctx (eth_l1_gas_price (bc_gas_prices ctx) \<noteq> 1) (init_cached_state E) before")
  case (Ok r)
  obtain as s where r: "r = (as, s)" by (cases r)
  then have len: "length as = length before" using execute_all_length [of E ctx _ _ before as s] Ok by metis
  show ?thesis
    by (cases "execute_all E ctx (eth_l1_gas_price (bc_gas_prices ctx) \<noteq> 1) s traced")
      (simp_all add: re_execute_transactions_def execute_all_append Ok r len split_def)
qed (simp_all add: re_execute_transactions_def execute_all_append)

text \<open>C38: re-executing transactions to trace them runs the transactions before them and then the traced
  ones in order on one state, starting from the chain's, without validation and charging fees unless
  the block's gas price is 1; the result is what that one run reports for the traced transactions, so
  the trace of a transaction does not depend on which of its predecessors are traced with it.\<close>

theorem re_execute_sequential:
  "re_execute_transactions E before (xs @ ys) ctx =
      map_err (\<lambda>_. PlaceHolderErrorTypeForFailedStarknetExecution) (map_ok (\<lambda>(infos, _). drop (length before) infos)
        (execute_all E ctx (eth_l1_gas_price (bc_gas_prices ctx) \<noteq> 1) (init_cached_state E) (before @ xs @ ys)))
    \<and> re_execute_transactions E (before @ xs) ys ctx =
      map_ok (drop (length xs)) (re_execute_transactions E before (xs @ ys) ctx)"
  unfolding re_execute_run
  by (cases "execute_all E ctx (eth_l1_gas_price (bc_gas_prices ctx) \<noteq> 1) (init_cached_state E) (before @ xs @ ys)")
    (auto simp: add.commute)

end
