(* ===== verification/Genesis.thy ===== *)
theory Genesis
  imports Pallet StarkTypes
begin

text \<open>
  Genesis: the data of \<open>crates/primitives/genesis-config/src/lib.rs\<close>, built from the state diff of the
  genesis block, and its conversions to the pallet's genesis configuration in
  \<open>crates/pallets/starknet/src/genesis_loader.rs\<close>. JSON parsing belongs to \<open>serde\<close> and
  \<open>cairo_lang_starknet_classes\<close> and is an argument.
\<close>

section \<open>Genesis data\<close>

record genesis_data =
  gd_contracts :: "(felt \<times> felt) list"
  gd_sierra_class_hash_to_casm_class_hash :: "(felt \<times> felt) list"
  gd_storage :: "(felt \<times> (felt \<times> felt) list) list"
  gd_strk_fee_token_address :: felt
  gd_eth_fee_token_address :: felt

definition ETH_TOKEN_ADDR :: felt where
  "ETH_TOKEN_ADDR = felt_of_nat 0x49d36570d4e46f48e99674bd3fcc84644ddd6b96f7c741b1562b82f9e004dc7"

definition STRK_TOKEN_ADDR :: felt where
  "STRK_TOKEN_ADDR = felt_of_nat 0x04718f5a0fc34cc1af16a1cdee98ffb20c31f5cd61d6ab07201858f4287c938d"

definition convert_contract :: "state_diff \<Rightarrow> (felt \<times> felt) list" where
  "convert_contract genesis_diff = map (\<lambda>c. (dep_address c, dep_class_hash c)) (deployed_contracts genesis_diff)"

definition convert_sierra_class_hash :: "state_diff \<Rightarrow> (felt \<times> felt) list" where
  "convert_sierra_class_hash genesis_diff =
    map (\<lambda>c. (dec_class_hash c, dec_compiled_class_hash c)) (declared_classes genesis_diff)"

definition convert_storage :: "state_diff \<Rightarrow> (felt \<times> (felt \<times> felt) list) list" where
  "convert_storage genesis_diff =
    map (\<lambda>(address, storage). (address, map (\<lambda>d. (sd_key d, sd_value d)) storage)) (storage_diffs genesis_diff)"

definition genesis_data_from :: "state_diff \<Rightarrow> genesis_data" where
  "genesis_data_from genesis_diff =
    \<lparr> gd_contracts = convert_contract genesis_diff,
      gd_sierra_class_hash_to_casm_class_hash = convert_sierra_class_hash genesis_diff,
      gd_storage = convert_storage genesis_diff,
      gd_strk_fee_token_address = STRK_TOKEN_ADDR,
      gd_eth_fee_token_address = ETH_TOKEN_ADDR \<rparr>"

section \<open>The pallet's configuration\<close>

definition address_of :: "felt_lib \<Rightarrow> felt \<Rightarrow> ('e, felt) res" where
  "address_of L a = map_ok (\<lambda>c. patricia_key_0 (contract_address_0 c)) (into_contract_address L a)"

definition class_of :: "felt_lib \<Rightarrow> felt \<Rightarrow> ('e, felt) res" where
  "class_of L h = map_ok class_hash_0 (into_class_hash L h)"

definition compiled_of :: "felt_lib \<Rightarrow> felt \<Rightarrow> ('e, felt) res" where
  "compiled_of L h = map_ok compiled_class_hash_0 (into_compiled_class_hash L h)"

text \<open>The storage entries are built from the bytes directly, without the check of the constructor.\<close>

definition raw_stark_felt :: "felt_lib \<Rightarrow> felt \<Rightarrow> felt" where
  "raw_stark_felt L f = felt_of_nat (be_nat (fe_to_bytes_be L f))"

definition pair_of :: "(felt \<Rightarrow> ('e, felt) res) \<Rightarrow> (felt \<Rightarrow> ('e, felt) res) \<Rightarrow> felt \<times> felt \<Rightarrow> ('e, felt \<times> felt) res" where
  "pair_of f g p = res_bind (f (fst p)) (\<lambda>a. res_bind (g (snd p)) (\<lambda>b. Ok (a, b)))"

definition config_storage :: "felt_lib \<Rightarrow> genesis_data \<Rightarrow> (felt \<times> (felt \<times> felt) list) list" where
  "config_storage L data =
    map (\<lambda>(address, storage). (raw_stark_felt L address,
      map (\<lambda>(key, value). (raw_stark_felt L key, raw_stark_felt L value)) storage)) (gd_storage data)"

definition genesis_config_from_loader :: "felt_lib \<Rightarrow> genesis_data \<Rightarrow> ('e, genesis_config) res" where
  "genesis_config_from_loader L data =
    res_bind (try_map (pair_of (class_of L) (compiled_of L)) (gd_sierra_class_hash_to_casm_class_hash data))
      (\<lambda>sierra_to_casm_class_hash.
    res_bind (try_map (pair_of (address_of L) (class_of L)) (gd_contracts data)) (\<lambda>contracts.
    res_bind (address_of L (gd_strk_fee_token_address data)) (\<lambda>strk.
    res_bind (address_of L (gd_eth_fee_token_address data)) (\<lambda>eth.
      Ok \<lparr> gc_contracts = contracts, gc_sierra_to_casm_class_hash = sierra_to_casm_class_hash,
           gc_storage = config_storage L data, gc_strk_fee_token_address = strk,
           gc_eth_fee_token_address = eth \<rparr>))))"

definition genesis_config_from_data :: "felt_lib \<Rightarrow> genesis_data \<Rightarrow> ('e, genesis_config) res" where
  "genesis_config_from_data L data =
    res_bind (try_map (pair_of (address_of L) (class_of L)) (gd_contracts data)) (\<lambda>contracts.
    res_bind (try_map (pair_of (class_of L) (compiled_of L)) (gd_sierra_class_hash_to_casm_class_hash data))
      (\<lambda>sierra_to_casm_class_hash.
      Ok (genesis_config_default\<lparr> gc_contracts := contracts,
           gc_sierra_to_casm_class_hash := sierra_to_casm_class_hash,
           gc_storage := config_storage L data \<rparr>)))"

datatype ('v0, 'v1) contract_class = ClassV0 'v0 | ClassV1 'v1

definition read_contract_class_from_json :: "(string \<Rightarrow> 'v0 option) \<Rightarrow> (string \<Rightarrow> 'casm option) \<Rightarrow> ('casm \<Rightarrow> 'v1 option)
    \<Rightarrow> string \<Rightarrow> 8 word \<Rightarrow> ('v0, 'v1) contract_class panicking" where
  "read_contract_class_from_json json_v0 json_casm try_into json_str version =
    (if version = 0 then res_bind (unwrap_opt (json_v0 json_str)) (\<lambda>c. Ok (ClassV0 c))
     else if version = 1 then
       res_bind (unwrap_opt (json_casm json_str)) (\<lambda>casm.
       res_bind (unwrap_opt (try_into casm)) (\<lambda>c. Ok (ClassV1 c)))
     else Panic)"

section \<open>Genesis of a node\<close>

lemma genesis_conversions:
  assumes "felt_codec L"
  shows "address_of L f = Ok f" and "class_of L f = Ok f" and "compiled_of L f = Ok f"
    and "raw_stark_felt L f = f"
  by (simp_all add: address_of_def class_of_def compiled_of_def into_defs stark_into_ok [OF assms]
    raw_stark_felt_def felt_codec.fe_to_bytes_be [OF assms] be_nat_nat_be del: power_numeral)

lemma pairs_kept:
  assumes "\<And>x. f x = Ok x" and "\<And>x. g x = Ok x"
  shows "try_map (pair_of f g) ps = Ok ps"
  by (induction ps) (simp_all add: pair_of_def assms)

lemma genesis_config_of_data:
  assumes "felt_codec L"
  shows "genesis_config_from_loader L data = Ok
      \<lparr> gc_contracts = gd_contracts data,
        gc_sierra_to_casm_class_hash = gd_sierra_class_hash_to_casm_class_hash data,
        gc_storage = gd_storage data, gc_strk_fee_token_address = gd_strk_fee_token_address data,
        gc_eth_fee_token_address = gd_eth_fee_token_address data \<rparr>"
    and "genesis_config_from_data L data = Ok
      \<lparr> gc_contracts = gd_contracts data,
        gc_sierra_to_casm_class_hash = gd_sierra_class_hash_to_casm_class_hash data,
        gc_storage = gd_storage data, gc_strk_fee_token_address = 0, gc_eth_fee_token_address = 0 \<rparr>"
  by (simp_all add: genesis_config_from_loader_def genesis_config_from_data_def genesis_config_default_def
    config_storage_def genesis_conversions [OF assms] pairs_kept split_def)

text \<open>C39: the chain built from the state diff of the genesis block is exactly this: every deployed contract
  has its class hash and every declared class its compiled class hash (the last entry of the diff counts), the
  storage version is set, the fee tokens are the two known addresses when the configuration comes from
  the loader, and everything else is as it was. So no contract storage, no nonce and no class is stored:
  the storage diffs stay in the configuration, and the classes declared in the old format, the nonces and the
  replaced classes of the diff have no effect at all. The conversion from bare genesis data builds the same chain
  except that both fee token addresses are zero.\<close>

theorem genesis_from_state_diff:
  assumes "felt_codec L"
  shows "\<exists>cfg cfg'. genesis_config_from_loader L (genesis_data_from d) = (Ok cfg :: genesis_config panicking)
    \<and> genesis_config_from_data L (genesis_data_from d) = (Ok cfg' :: genesis_config panicking)
    \<and> genesis_build cfg st = st
        \<lparr>ps_schema := V1,
         ps_contract_class_hashes := ps_contract_class_hashes st
           ++ map_of (rev (map (\<lambda>c. (dep_address c, dep_class_hash c)) (deployed_contracts d))),
         ps_compiled_class_hashes := ps_compiled_class_hashes st
           ++ map_of (rev (map (\<lambda>c. (dec_class_hash c, dec_compiled_class_hash c)) (declared_classes d))),
         ps_last_known_eth_block := None,
         ps_fee_tokens := \<lparr> strk_fee_token_address = STRK_TOKEN_ADDR, eth_fee_token_address = ETH_TOKEN_ADDR \<rparr>,
         ps_seq_addr_update := Some True\<rparr>
    \<and> gc_storage cfg = convert_storage d
    \<and> genesis_build cfg' st = (genesis_build cfg st)
        \<lparr>ps_fee_tokens := \<lparr> strk_fee_token_address = 0, eth_fee_token_address = 0 \<rparr>\<rparr>
    \<and> genesis_data_from (d\<lparr>old_declared_contracts := old, nonces := n, replaced_classes := r\<rparr>) = genesis_data_from d"
  by (simp add: genesis_config_of_data [OF assms] genesis_data_from_def genesis_build_def Let_def insert_all_map_of
    convert_contract_def convert_sierra_class_hash_def convert_storage_def)

definition sample_diff :: state_diff where
  "sample_diff = \<lparr> storage_diffs = [], deployed_contracts =
      [\<lparr> dep_address = felt_of_nat 5, dep_class_hash = felt_of_nat 6 \<rparr>],
     old_declared_contracts = [], declared_classes = [], nonces = [], replaced_classes = [] \<rparr>"

theorem genesis_from_state_diff_witness:
  "\<exists>cfg cfg'. genesis_config_from_loader ref_felt_lib (genesis_data_from sample_diff) = (Ok cfg :: genesis_config panicking)
    \<and> genesis_config_from_data ref_felt_lib (genesis_data_from sample_diff) = (Ok cfg' :: genesis_config panicking)
    \<and> ps_contract_class_hashes (genesis_build cfg (empty_storage :: (unit, unit) pallet_state)) (felt_of_nat 5) = Some (felt_of_nat 6)
    \<and> eth_fee_token_address (ps_fee_tokens (genesis_build cfg' (empty_storage :: (unit, unit) pallet_state))) = 0"
proof -
  let ?st = "empty_storage :: (unit, unit) pallet_state"
  obtain cfg cfg' where c: "genesis_config_from_loader ref_felt_lib (genesis_data_from sample_diff) = (Ok cfg :: genesis_config panicking)"
      "genesis_config_from_data ref_felt_lib (genesis_data_from sample_diff) = (Ok cfg' :: genesis_config panicking)"
    and h: "ps_contract_class_hashes (genesis_build cfg ?st) = ps_contract_class_hashes ?st
        ++ map_of (rev (map (\<lambda>c. (dep_address c, dep_class_hash c)) (deployed_contracts sample_diff)))"
    and e: "genesis_build cfg' ?st = (genesis_build cfg ?st)
        \<lparr>ps_fee_tokens := \<lparr> strk_fee_token_address = 0, eth_fee_token_address = 0 \<rparr>\<rparr>"
    using genesis_from_state_diff [OF ref_felt_codec, where d = sample_diff and st = ?st and old = "[]" and n = "[]" and r = "[]"]
    by auto
  show ?thesis by (intro exI conjI, rule c(1), rule c(2)) (simp_all add: h e sample_diff_def)
qed

end
