(* ===== verification/StorageOverride.thy ===== *)
theory StorageOverride
  imports Pallet
begin

text \<open>
  How the client reads the pallet's data, \<open>crates/client/storage/src\<close>: directly from the raw storage of
  a block (\<open>SchemaV1Override\<close>), or through the runtime API (\<open>RuntimeApiStorageOverride\<close>), chosen by the
  schema version found on chain. The storage backend, the runtime API call and the SCALE codecs are
  arguments; a runtime API call runs the pallet's getter on the state of the block.
\<close>

section \<open>Storage names, \<open>crates/primitives/storage/src/lib.rs\<close>\<close>

definition PALLET_STARKNET_SCHEMA :: bytes where "PALLET_STARKNET_SCHEMA = ascii '':starknet_schema''"
definition PALLET_STARKNET :: bytes where "PALLET_STARKNET = ascii ''Starknet''"
definition STARKNET_CONTRACT_CLASS_HASH :: bytes where "STARKNET_CONTRACT_CLASS_HASH = ascii ''ContractClassHashes''"
definition STARKNET_CONTRACT_CLASS :: bytes where "STARKNET_CONTRACT_CLASS = ascii ''ContractClasses''"
definition STARKNET_CONTRACT_ABI :: bytes where "STARKNET_CONTRACT_ABI = ascii ''ContractAbis''"
definition STARKNET_NONCE :: bytes where "STARKNET_NONCE = ascii ''Nonces''"

section \<open>The trait and its two implementations\<close>

record ('h, 'c, 'a) storage_override =
  contract_class_hash_by_address :: "'h \<Rightarrow> felt \<Rightarrow> felt option"
  contract_class_by_address :: "'h \<Rightarrow> felt \<Rightarrow> 'c option"
  contract_class_by_class_hash :: "'h \<Rightarrow> felt \<Rightarrow> 'c option"
  contract_abi_by_address :: "'h \<Rightarrow> felt \<Rightarrow> 'a option"
  contract_abi_by_class_hash :: "'h \<Rightarrow> felt \<Rightarrow> 'a option"
  override_nonce :: "'h \<Rightarrow> felt \<Rightarrow> felt option"

text \<open>Of Substrate: the hash of storage prefixes and the SCALE codecs of keys and values.\<close>

record ('c, 'a) frame_codecs =
  twox_128 :: "bytes \<Rightarrow> bytes"
  fr_enc_felt :: "felt \<Rightarrow> bytes"
  fr_dec_felt :: "bytes \<Rightarrow> felt option"
  fr_enc_class :: "'c \<Rightarrow> bytes"
  fr_dec_class :: "bytes \<Rightarrow> 'c option"
  fr_enc_abi :: "'a \<Rightarrow> bytes"
  fr_dec_abi :: "bytes \<Rightarrow> 'a option"
  fr_enc_schema :: "schema_version \<Rightarrow> bytes"
  fr_dec_schema :: "bytes \<Rightarrow> schema_version option"

type_synonym 'h raw_storage = "'h \<Rightarrow> bytes \<Rightarrow> (unit, bytes option) res"
type_synonym ('h, 'c, 'a) runtime_api = "'h \<Rightarrow> (unit, ('c, 'a) pallet_state) res"

definition storage_prefix_build :: "('c, 'a) frame_codecs \<Rightarrow> bytes \<Rightarrow> bytes \<Rightarrow> bytes" where
  "storage_prefix_build F module storage = twox_128 F module @ twox_128 F storage"

text \<open>The \<open>Identity\<close> hasher returns the key.\<close>

definition storage_key_build :: "bytes \<Rightarrow> bytes \<Rightarrow> bytes" where
  "storage_key_build prefix key = prefix @ key"

definition query_storage :: "'h raw_storage \<Rightarrow> (bytes \<Rightarrow> 't option) \<Rightarrow> 'h \<Rightarrow> bytes \<Rightarrow> 't option" where
  "query_storage client dec block_hash key =
    (case client block_hash key of Ok (Some data) \<Rightarrow> dec data | _ \<Rightarrow> None)"

definition v1_class_hash_by_address :: "('c, 'a) frame_codecs \<Rightarrow> 'h raw_storage \<Rightarrow> 'h \<Rightarrow> felt \<Rightarrow> felt option" where
  "v1_class_hash_by_address F client block_hash address =
    query_storage client (fr_dec_felt F) block_hash
      (storage_key_build (storage_prefix_build F PALLET_STARKNET STARKNET_CONTRACT_CLASS_HASH) (fr_enc_felt F address))"

definition v1_class_by_class_hash :: "('c, 'a) frame_codecs \<Rightarrow> 'h raw_storage \<Rightarrow> 'h \<Rightarrow> felt \<Rightarrow> 'c option" where
  "v1_class_by_class_hash F client block_hash contract_class_hash =
    query_storage client (fr_dec_class F) block_hash
      (storage_key_build (storage_prefix_build F PALLET_STARKNET STARKNET_CONTRACT_CLASS)
        (fr_enc_felt F contract_class_hash))"

definition v1_class_by_address :: "('c, 'a) frame_codecs \<Rightarrow> 'h raw_storage \<Rightarrow> 'h \<Rightarrow> felt \<Rightarrow> 'c option" where
  "v1_class_by_address F client block_hash address =
    (case v1_class_hash_by_address F client block_hash address of
       None \<Rightarrow> None
     | Some class_hash \<Rightarrow> v1_class_by_class_hash F client block_hash class_hash)"

definition v1_abi_by_class_hash :: "('c, 'a) frame_codecs \<Rightarrow> 'h raw_storage \<Rightarrow> 'h \<Rightarrow> felt \<Rightarrow> 'a option" where
  "v1_abi_by_class_hash F client block_hash contract_class_hash =
    query_storage client (fr_dec_abi F) block_hash
      (storage_key_build (storage_prefix_build F PALLET_STARKNET STARKNET_CONTRACT_ABI)
        (fr_enc_felt F contract_class_hash))"

definition v1_abi_by_address :: "('c, 'a) frame_codecs \<Rightarrow> 'h raw_storage \<Rightarrow> 'h \<Rightarrow> felt \<Rightarrow> 'a option" where
  "v1_abi_by_address F client block_hash address =
    (case v1_class_hash_by_address F client block_hash address of
       None \<Rightarrow> None
     | Some contract_class_hash \<Rightarrow> v1_abi_by_class_hash F client block_hash contract_class_hash)"

definition v1_nonce :: "('c, 'a) frame_codecs \<Rightarrow> 'h raw_storage \<Rightarrow> 'h \<Rightarrow> felt \<Rightarrow> felt option" where
  "v1_nonce F client block_hash address =
    (case v1_class_hash_by_address F client block_hash address of
       None \<Rightarrow> None
     | Some _ \<Rightarrow>
         (case query_storage client (fr_dec_felt F) block_hash
             (storage_key_build (storage_prefix_build F PALLET_STARKNET STARKNET_NONCE) (fr_enc_felt F address)) of
            Some nonce \<Rightarrow> Some nonce
          | None \<Rightarrow> Some 0))"

definition schema_v1_override :: "('c, 'a) frame_codecs \<Rightarrow> 'h raw_storage \<Rightarrow> ('h, 'c, 'a) storage_override" where
  "schema_v1_override F client =
    \<lparr> contract_class_hash_by_address = v1_class_hash_by_address F client,
      contract_class_by_address = v1_class_by_address F client,
      contract_class_by_class_hash = v1_class_by_class_hash F client,
      contract_abi_by_address = v1_abi_by_address F client,
      contract_abi_by_class_hash = v1_abi_by_class_hash F client,
      override_nonce = v1_nonce F client \<rparr>"

text \<open>The pallet's getters of value queries, which the runtime API calls.\<close>

definition pallet_class_hash :: "('c, 'a) pallet_state \<Rightarrow> felt \<Rightarrow> felt" where
  "pallet_class_hash st address = (case ps_contract_class_hashes st address of Some h \<Rightarrow> h | None \<Rightarrow> 0)"

definition pallet_nonce :: "('c, 'a) pallet_state \<Rightarrow> felt \<Rightarrow> felt" where
  "pallet_nonce st address = (case ps_nonces st address of Some n \<Rightarrow> n | None \<Rightarrow> 0)"

definition api_class_hash_by_address :: "('h, 'c, 'a) runtime_api \<Rightarrow> 'h \<Rightarrow> felt \<Rightarrow> felt option" where
  "api_class_hash_by_address api block_hash address =
    res_option (map_ok (\<lambda>st. pallet_class_hash st address) (api block_hash))"

definition api_class_by_class_hash :: "('h, 'c, 'a) runtime_api \<Rightarrow> 'h \<Rightarrow> felt \<Rightarrow> 'c option" where
  "api_class_by_class_hash api block_hash contract_class_hash =
    (case res_option (map_ok (\<lambda>st. ps_contract_classes st contract_class_hash) (api block_hash)) of
       Some r \<Rightarrow> r | None \<Rightarrow> None)"

definition api_class_by_address :: "('h, 'c, 'a) runtime_api \<Rightarrow> 'h \<Rightarrow> felt \<Rightarrow> 'c option" where
  "api_class_by_address api block_hash address =
    (case api_class_hash_by_address api block_hash address of
       None \<Rightarrow> None
     | Some contract_class_hash \<Rightarrow> api_class_by_class_hash api block_hash contract_class_hash)"

definition api_abi_by_class_hash :: "('h, 'c, 'a) runtime_api \<Rightarrow> 'h \<Rightarrow> felt \<Rightarrow> 'a option" where
  "api_abi_by_class_hash api block_hash contract_class_hash =
    (case res_option (map_ok (\<lambda>st. ps_contract_abis st contract_class_hash) (api block_hash)) of
       Some r \<Rightarrow> r | None \<Rightarrow> None)"

definition api_abi_by_address :: "('h, 'c, 'a) runtime_api \<Rightarrow> 'h \<Rightarrow> felt \<Rightarrow> 'a option" where
  "api_abi_by_address api block_hash address =
    (case api_class_hash_by_address api block_hash address of
       None \<Rightarrow> None
     | Some contract_class_hash \<Rightarrow> api_abi_by_class_hash api block_hash contract_class_hash)"

definition api_nonce :: "('h, 'c, 'a) runtime_api \<Rightarrow> 'h \<Rightarrow> felt \<Rightarrow> felt option" where
  "api_nonce api block_hash contract_address =
    res_option (map_ok (\<lambda>st. pallet_nonce st contract_address) (api block_hash))"

definition runtime_api_override :: "('h, 'c, 'a) runtime_api \<Rightarrow> ('h, 'c, 'a) storage_override" where
  "runtime_api_override api =
    \<lparr> contract_class_hash_by_address = api_class_hash_by_address api,
      contract_class_by_address = api_class_by_address api,
      contract_class_by_class_hash = api_class_by_class_hash api,
      contract_abi_by_address = api_abi_by_address api,
      contract_abi_by_class_hash = api_abi_by_class_hash api,
      override_nonce = api_nonce api \<rparr>"

section \<open>The handle\<close>

record ('h, 'c, 'a) override_handle =
  schemas :: "schema_version \<rightharpoonup> ('h, 'c, 'a) storage_override"
  fallback :: "('h, 'c, 'a) storage_override"

definition overrides_handle :: "('c, 'a) frame_codecs \<Rightarrow> 'h raw_storage \<Rightarrow> ('h, 'c, 'a) runtime_api
    \<Rightarrow> ('h, 'c, 'a) override_handle" where
  "overrides_handle F client api =
    \<lparr> schemas = [V1 \<mapsto> schema_v1_override F client], fallback = runtime_api_override api \<rparr>"

definition for_schema_version :: "('h, 'c, 'a) override_handle \<Rightarrow> schema_version \<Rightarrow> ('h, 'c, 'a) storage_override" where
  "for_schema_version self schema_version =
    (case schemas self schema_version of Some ov \<Rightarrow> ov | None \<Rightarrow> fallback self)"

definition onchain_storage_schema :: "('c, 'a) frame_codecs \<Rightarrow> 'h raw_storage \<Rightarrow> 'h \<Rightarrow> schema_version" where
  "onchain_storage_schema F client hash =
    (case client hash PALLET_STARKNET_SCHEMA of
       Ok (Some data) \<Rightarrow> (case fr_dec_schema F data of Some v \<Rightarrow> v | None \<Rightarrow> Undefined)
     | _ \<Rightarrow> Undefined)"

definition for_block_hash :: "('c, 'a) frame_codecs \<Rightarrow> 'h raw_storage \<Rightarrow> ('h, 'c, 'a) override_handle \<Rightarrow> 'h
    \<Rightarrow> ('h, 'c, 'a) storage_override" where
  "for_block_hash F client self block_hash =
    for_schema_version self (onchain_storage_schema F client block_hash)"

section \<open>Direct reads agree with the runtime API\<close>

text \<open>FRAME's layout: the raw storage of a block holds every entry of a storage map of the pallet
  under the hashed names of pallet and map and the encoded key, and nothing for an absent entry. The names
  are those the runtime and the pallet declare, written out here and not taken from the client's constants.\<close>

definition stored_map :: "('c, 'a) frame_codecs \<Rightarrow> 'h raw_storage \<Rightarrow> 'h \<Rightarrow> bytes \<Rightarrow> ('v \<Rightarrow> bytes) \<Rightarrow> (felt \<rightharpoonup> 'v) \<Rightarrow> bool" where
  "stored_map F client h item enc m \<longleftrightarrow>
    (\<forall>k. client h (twox_128 F (ascii ''Starknet'') @ twox_128 F item @ fr_enc_felt F k) = Ok (map_option enc (m k)))"

lemmas storage_names = PALLET_STARKNET_def STARKNET_CONTRACT_CLASS_HASH_def STARKNET_CONTRACT_CLASS_def
  STARKNET_CONTRACT_ABI_def STARKNET_NONCE_def

locale frame_storage =
  fixes F :: "('c, 'a) frame_codecs" and client :: "'h raw_storage" and h :: 'h and st :: "('c, 'a) pallet_state"
  assumes felt_scale: "fr_dec_felt F (fr_enc_felt F x) = Some x"
    and class_scale: "fr_dec_class F (fr_enc_class F c) = Some c"
    and abi_scale: "fr_dec_abi F (fr_enc_abi F a) = Some a"
    and schema_scale: "fr_dec_schema F (fr_enc_schema F v) = Some v"
    and class_hashes: "stored_map F client h (ascii ''ContractClassHashes'') (fr_enc_felt F) (ps_contract_class_hashes st)"
    and classes: "stored_map F client h (ascii ''ContractClasses'') (fr_enc_class F) (ps_contract_classes st)"
    and abis: "stored_map F client h (ascii ''ContractAbis'') (fr_enc_abi F) (ps_contract_abis st)"
    and nonces: "stored_map F client h (ascii ''Nonces'') (fr_enc_felt F) (ps_nonces st)"
    and schema: "client h (ascii '':starknet_schema'') = Ok (Some (fr_enc_schema F (ps_schema st)))"
begin

lemma query_map:
  assumes "stored_map F client h item enc m" and "\<And>v. dec (enc v) = Some v"
  shows "query_storage client dec h (storage_key_build (storage_prefix_build F (ascii ''Starknet'') item) (fr_enc_felt F k)) = m k"
  using assms
  by (cases "m k") (simp_all add: query_storage_def storage_key_build_def storage_prefix_build_def stored_map_def)

lemma v1_reads:
  "v1_class_hash_by_address F client h a = ps_contract_class_hashes st a"
  "v1_class_by_class_hash F client h k = ps_contract_classes st k"
  "v1_abi_by_class_hash F client h k = ps_contract_abis st k"
  "v1_nonce F client h a = (if ps_contract_class_hashes st a = None then None else Some (pallet_nonce st a))"
  by (auto simp: storage_names v1_class_hash_by_address_def v1_class_by_class_hash_def v1_abi_by_class_hash_def v1_nonce_def
    query_map [OF class_hashes felt_scale] query_map [OF classes class_scale] query_map [OF abis abi_scale]
    query_map [OF nonces felt_scale] pallet_nonce_def split: option.splits)

lemma schema_read: "onchain_storage_schema F client h = ps_schema st"
  by (simp add: onchain_storage_schema_def PALLET_STARKNET_SCHEMA_def schema schema_scale)

end

text \<open>C40: on a block whose raw storage holds the pallet's state, the two ways of reading it agree on
  classes, on ABIs and on everything about a deployed contract, whichever the on-chain schema version
  selects; they differ on an address with no contract, for which the direct reads return nothing
  while the runtime API returns class hash zero and nonce zero.\<close>

theorem overrides_agree:
  assumes "frame_storage F client h st" and "api h = Ok st"
  shows "(case for_block_hash F client (overrides_handle F client api) h of ov \<Rightarrow>
      contract_class_by_class_hash ov h k = ps_contract_classes st k
    \<and> contract_abi_by_class_hash ov h k = ps_contract_abis st k
    \<and> (case ps_contract_class_hashes st a of
         Some c \<Rightarrow> contract_class_hash_by_address ov h a = Some c
           \<and> contract_class_by_address ov h a = ps_contract_classes st c
           \<and> contract_abi_by_address ov h a = ps_contract_abis st c
           \<and> override_nonce ov h a = Some (pallet_nonce st a)
       | None \<Rightarrow> contract_class_hash_by_address ov h a = (if ps_schema st = V1 then None else Some 0)
           \<and> override_nonce ov h a = (if ps_schema st = V1 then None else Some (pallet_nonce st a))))"
  using assms(2) frame_storage.schema_read [OF assms(1)]
  by (cases "ps_schema st"; cases "ps_contract_class_hashes st a")
    (simp_all add: for_block_hash_def for_schema_version_def overrides_handle_def schema_v1_override_def
      runtime_api_override_def frame_storage.v1_reads [OF assms(1)] v1_class_by_address_def v1_abi_by_address_def
      api_class_hash_by_address_def api_class_by_class_hash_def api_class_by_address_def api_abi_by_class_hash_def
      api_abi_by_address_def api_nonce_def pallet_class_hash_def)

section \<open>A reference storage\<close>

definition ref_frame :: "(felt, felt) frame_codecs" where
  "ref_frame = \<lparr> twox_128 = (\<lambda>b. take 16 (b @ replicate 16 0)),
     fr_enc_felt = (\<lambda>f. nat_be 32 (felt_nat f)), fr_dec_felt = (\<lambda>b. Some (felt_of_nat (be_nat b))),
     fr_enc_class = (\<lambda>f. nat_be 32 (felt_nat f)), fr_dec_class = (\<lambda>b. Some (felt_of_nat (be_nat b))),
     fr_enc_abi = (\<lambda>f. nat_be 32 (felt_nat f)), fr_dec_abi = (\<lambda>b. Some (felt_of_nat (be_nat b))),
     fr_enc_schema = (\<lambda>v. case v of Undefined \<Rightarrow> [0] | V1 \<Rightarrow> [1]),
     fr_dec_schema = (\<lambda>b. if b = [0] then Some Undefined else if b = [1] then Some V1 else None) \<rparr>"

definition ref_item :: "(felt, felt) pallet_state \<Rightarrow> bytes \<Rightarrow> (felt \<rightharpoonup> felt)" where
  "ref_item st p =
    (if p = twox_128 ref_frame STARKNET_CONTRACT_CLASS_HASH then ps_contract_class_hashes st
     else if p = twox_128 ref_frame STARKNET_CONTRACT_CLASS then ps_contract_classes st
     else if p = twox_128 ref_frame STARKNET_CONTRACT_ABI then ps_contract_abis st
     else if p = twox_128 ref_frame STARKNET_NONCE then ps_nonces st else Map.empty)"

definition ref_raw :: "(felt, felt) pallet_state \<Rightarrow> unit raw_storage" where
  "ref_raw st h key =
    Ok (if key = PALLET_STARKNET_SCHEMA then Some (fr_enc_schema ref_frame (ps_schema st))
        else map_option (fr_enc_felt ref_frame)
          (ref_item st (take 16 (drop 16 key)) (felt_of_nat (be_nat (drop 32 key)))))"

lemma ref_codec: "felt_of_nat (be_nat (nat_be 32 (felt_nat f))) = f"
  by (simp add: be_nat_nat_be del: power_numeral nat_be.simps)

lemma ref_twox_length: "length (twox_128 ref_frame b) = 16"
  by (simp add: ref_frame_def)

lemma ref_stored:
  "stored_map ref_frame (ref_raw st) h item (fr_enc_felt ref_frame) (ref_item st (twox_128 ref_frame item))"
proof -
  have "length PALLET_STARKNET_SCHEMA = 16" by (simp add: PALLET_STARKNET_SCHEMA_def ascii_def)
  then have "twox_128 ref_frame (ascii ''Starknet'') @ twox_128 ref_frame item @ k \<noteq> PALLET_STARKNET_SCHEMA" for k
    by (auto dest!: arg_cong [where f = length] simp: ref_twox_length)
  moreover have "felt_of_nat (be_nat (fr_enc_felt ref_frame k)) = k" for k
    using ref_codec by (simp add: ref_frame_def)
  ultimately show ?thesis by (simp add: stored_map_def ref_raw_def ref_twox_length)
qed

lemma ref_items:
  "ref_item st (twox_128 ref_frame STARKNET_CONTRACT_CLASS_HASH) = ps_contract_class_hashes st"
  "ref_item st (twox_128 ref_frame STARKNET_CONTRACT_CLASS) = ps_contract_classes st"
  "ref_item st (twox_128 ref_frame STARKNET_CONTRACT_ABI) = ps_contract_abis st"
  "ref_item st (twox_128 ref_frame STARKNET_NONCE) = ps_nonces st"
  by (simp_all add: ref_item_def ref_frame_def STARKNET_CONTRACT_CLASS_HASH_def STARKNET_CONTRACT_CLASS_def
    STARKNET_CONTRACT_ABI_def STARKNET_NONCE_def ascii_def of_char_def)

interpretation ref_storage: frame_storage ref_frame "ref_raw st" h st for st h
proof
  have enc: "fr_enc_class ref_frame = fr_enc_felt ref_frame" "fr_enc_abi ref_frame = fr_enc_felt ref_frame"
    by (simp_all add: ref_frame_def)
  show "stored_map ref_frame (ref_raw st) h (ascii ''ContractClassHashes'') (fr_enc_felt ref_frame) (ps_contract_class_hashes st)"
    "stored_map ref_frame (ref_raw st) h (ascii ''ContractClasses'') (fr_enc_class ref_frame) (ps_contract_classes st)"
    "stored_map ref_frame (ref_raw st) h (ascii ''ContractAbis'') (fr_enc_abi ref_frame) (ps_contract_abis st)"
    "stored_map ref_frame (ref_raw st) h (ascii ''Nonces'') (fr_enc_felt ref_frame) (ps_nonces st)"
    using ref_stored [of st h STARKNET_CONTRACT_CLASS_HASH] ref_stored [of st h STARKNET_CONTRACT_CLASS]
      ref_stored [of st h STARKNET_CONTRACT_ABI] ref_stored [of st h STARKNET_NONCE]
    by (simp_all add: ref_items enc) (simp_all add: storage_names)
qed (simp_all add: ref_frame_def ref_codec ref_raw_def PALLET_STARKNET_SCHEMA_def split: schema_version.splits del: nat_be.simps)

theorem overrides_agree_witness:
  "override_nonce (for_block_hash ref_frame (ref_raw (empty_storage\<lparr>ps_schema := V1\<rparr>))
      (overrides_handle ref_frame (ref_raw (empty_storage\<lparr>ps_schema := V1\<rparr>)) (\<lambda>_. Ok (empty_storage\<lparr>ps_schema := V1\<rparr>))) ())
      () 7 = None
    \<and> override_nonce (for_block_hash ref_frame (ref_raw empty_storage)
      (overrides_handle ref_frame (ref_raw empty_storage) (\<lambda>_. Ok empty_storage)) ()) () 7 = Some 0"
proof -
  have none: "ps_contract_class_hashes (empty_storage :: (felt, felt) pallet_state) 7 = None"
    "ps_schema (empty_storage :: (felt, felt) pallet_state) = Undefined"
    "pallet_nonce (empty_storage :: (felt, felt) pallet_state) 7 = 0"
    by (simp_all add: empty_storage_def pallet_nonce_def)
  show ?thesis
    using overrides_agree [OF ref_storage.frame_storage_axioms [of "empty_storage\<lparr>ps_schema := V1\<rparr>" "()"],
        of "\<lambda>_. Ok (empty_storage\<lparr>ps_schema := V1\<rparr>)" 7 7]
      overrides_agree [OF ref_storage.frame_storage_axioms [of empty_storage "()"], of "\<lambda>_. Ok empty_storage" 7 7]
    by (simp add: none)
qed

end
