(* ===== verification/Commitments.thy ===== *)
theory Commitments
  imports BonsaiStore Genesis StorageOverride "HOL-Library.AList" "HOL-Library.Multiset"
begin

text \<open>
  Block and state commitments, \<open>crates/client/sync/src/commitments\<close>: the commitment of the transactions
  and of the events of a block (\<open>transactions.rs\<close>, \<open>events.rs\<close>), and the state root after a block
  (\<open>lib.rs\<close>, \<open>contracts.rs\<close>), computed by updating the three tries. Work handed to \<open>rayon\<close> is collected
  by \<open>par_bridge\<close> in an order of its own: the argument \<open>schedule\<close>.
\<close>

section \<open>State diffs\<close>

text \<open>An \<open>IndexMap\<close> keeps its keys in the order of their first insertion.\<close>

record commitment_state_diff =
  csd_address_to_class_hash :: "(felt \<times> felt) list"
  csd_address_to_nonce :: "(felt \<times> felt) list"
  csd_storage_updates :: "(felt \<times> (felt \<times> felt) list) list"
  csd_class_hash_to_compiled_class_hash :: "(felt \<times> felt) list"

definition nonce_of :: "felt_lib \<Rightarrow> felt \<Rightarrow> ('e, felt) res" where
  "nonce_of L n = map_ok nonce_0 (into_nonce L n)"

definition storage_key_of :: "felt_lib \<Rightarrow> felt \<Rightarrow> ('e, felt) res" where
  "storage_key_of L k = map_ok (\<lambda>s. patricia_key_0 (storage_key_0 s)) (into_storage_key L k)"

definition add_deployed :: "felt_lib \<Rightarrow> commitment_state_diff \<Rightarrow> deployed_contract \<Rightarrow> ('e, commitment_state_diff) res" where
  "add_deployed L csd deployed_contract =
    res_bind (address_of L (dep_address deployed_contract)) (\<lambda>address.
    res_bind (address_of L ONE) (\<lambda>one.
    res_bind (if address = one then class_of L ZERO else class_of L (dep_class_hash deployed_contract)) (\<lambda>class_hash.
      Ok (csd\<lparr>csd_address_to_class_hash := AList.update address class_hash (csd_address_to_class_hash csd)\<rparr>))))"

definition add_nonce :: "felt_lib \<Rightarrow> commitment_state_diff \<Rightarrow> felt \<times> felt \<Rightarrow> ('e, commitment_state_diff) res" where
  "add_nonce L csd entry =
    res_bind (address_of L (fst entry)) (\<lambda>contract_address.
    res_bind (nonce_of L (snd entry)) (\<lambda>nonce_value.
      Ok (csd\<lparr>csd_address_to_nonce := AList.update contract_address nonce_value (csd_address_to_nonce csd)\<rparr>)))"

definition add_storage :: "felt_lib \<Rightarrow> commitment_state_diff \<Rightarrow> felt \<times> storage_diff list \<Rightarrow> ('e, commitment_state_diff) res" where
  "add_storage L csd entry =
    res_bind (address_of L (fst entry)) (\<lambda>contract_address.
    res_bind (try_fold (\<lambda>storage_map storage_diff.
        res_bind (storage_key_of L (sd_key storage_diff)) (\<lambda>key.
        res_bind (into_stark_felt L (sd_value storage_diff)) (\<lambda>value.
          Ok (AList.update key value storage_map)))) [] (snd entry)) (\<lambda>storage_map.
      Ok (csd\<lparr>csd_storage_updates := AList.update contract_address storage_map (csd_storage_updates csd)\<rparr>)))"

definition add_declared :: "felt_lib \<Rightarrow> commitment_state_diff \<Rightarrow> declared_contract \<Rightarrow> ('e, commitment_state_diff) res" where
  "add_declared L csd declared_class =
    res_bind (class_of L (dec_class_hash declared_class)) (\<lambda>class_hash.
    res_bind (compiled_of L (dec_compiled_class_hash declared_class)) (\<lambda>compiled_class_hash.
      Ok (csd\<lparr>csd_class_hash_to_compiled_class_hash :=
        AList.update class_hash compiled_class_hash (csd_class_hash_to_compiled_class_hash csd)\<rparr>)))"

definition build_commitment_state_diff :: "felt_lib \<Rightarrow> state_update \<Rightarrow> commitment_state_diff panicking" where
  "build_commitment_state_diff L state_update_wrapper =
    (let diff = su_state_diff state_update_wrapper;
         csd = \<lparr> csd_address_to_class_hash = [], csd_address_to_nonce = [], csd_storage_updates = [],
                 csd_class_hash_to_compiled_class_hash = [] \<rparr>
     in res_bind (try_fold (add_deployed L) csd (deployed_contracts diff)) (\<lambda>csd.
        res_bind (try_fold (add_nonce L) csd (nonces diff)) (\<lambda>csd.
        res_bind (try_fold (add_storage L) csd (storage_diffs diff)) (\<lambda>csd.
        try_fold (add_declared L) csd (declared_classes diff)))))"

section \<open>Transaction and event commitments\<close>

definition calculate_event_hash :: "felt_lib \<Rightarrow> hasher_t \<Rightarrow> event \<Rightarrow> felt panicking" where
  "calculate_event_hash L H event =
    res_bind (try_map (from_stark_felt L) (ev_keys event)) (\<lambda>keys.
    res_bind (try_map (from_stark_felt L) (ev_data event)) (\<lambda>data.
    res_bind (from_stark_felt L (ev_from_address event)) (\<lambda>from_address.
      Ok (compute_hash_on_elements H
        [from_address, compute_hash_on_elements H keys, compute_hash_on_elements H data]))))"

definition invoke_signature :: "invoke_transaction \<Rightarrow> felt list" where
  "invoke_signature tx = (case tx of InvokeV0 t \<Rightarrow> iv0_signature t | InvokeV1 t \<Rightarrow> iv1_signature t
    | InvokeV3 t \<Rightarrow> iv3_signature t)"

definition declare_signature :: "declare_transaction \<Rightarrow> felt list" where
  "declare_signature tx = (case tx of DeclareV0 t \<Rightarrow> dc1_signature t | DeclareV1 t \<Rightarrow> dc1_signature t
    | DeclareV2 t \<Rightarrow> dc2_signature t | DeclareV3 t \<Rightarrow> dc3_signature t)"

definition deploy_account_signature :: "deploy_account_transaction \<Rightarrow> felt list" where
  "deploy_account_signature tx = (case tx of DeployAccountV1 t \<Rightarrow> da1_signature t | DeployAccountV3 t \<Rightarrow> da3_signature t)"

definition calculate_transaction_hash_with_signature :: "felt_lib \<Rightarrow> crypto_lib \<Rightarrow> hasher_t \<Rightarrow> transaction \<Rightarrow> felt
    \<Rightarrow> 64 word \<Rightarrow> felt panicking" where
  "calculate_transaction_hash_with_signature L K H transaction chain_id block_number =
    (let include_signature = (61394 \<le> block_number);
         hash_signature = (\<lambda>signature. map_ok (compute_hash_on_elements H) (try_map (from_stark_felt L) signature));
         no_signature = Ok (compute_hash_on_elements H [])
     in res_bind (case transaction of
            Invoke invoke_tx \<Rightarrow> hash_signature (invoke_signature invoke_tx)
          | Declare declare_tx \<Rightarrow>
              if include_signature then hash_signature (declare_signature declare_tx) else no_signature
          | DeployAccount deploy_account_tx \<Rightarrow>
              if include_signature then hash_signature (deploy_account_signature deploy_account_tx) else no_signature
          | L1Handler _ \<Rightarrow> no_signature
          | _ \<Rightarrow> no_signature) (\<lambda>signature_hash.
        res_bind (compute_hash L K H transaction chain_id False (Some block_number)) (\<lambda>tx_hash.
        res_bind (from_stark_felt L tx_hash) (\<lambda>tx_hash.
          Ok (hash_elements H tx_hash signature_hash)))))"

text \<open>A trie in memory: \<open>mem\<close> is what \<open>BonsaiStorage::new\<close> on an empty \<open>HashMapDb\<close> returns and \<open>trie_id\<close> the
  first identifier of a \<open>BasicIdBuilder\<close>. The key of the entry at index \<open>i\<close> is the 64 bits of \<open>i\<close>, most significant first.\<close>

definition index_key :: "nat \<Rightarrow> bool list" where
  "index_key i = as_bits (nat_be 8 i)"

definition memory_root :: "felt_lib \<Rightarrow> ('b, 'tr) bonsai_lib \<Rightarrow> (unit, 'b) res \<Rightarrow> 64 word \<Rightarrow> bytes \<Rightarrow> felt list
    \<Rightarrow> felt panicking" where
  "memory_root L B mem trie_id identifier hashes =
    res_bind (unwrap mem) (\<lambda>bonsai_storage.
    res_bind (try_fold (\<lambda>bonsai_storage (i, hash).
        unwrap (bonsai_ins B bonsai_storage identifier (index_key i) (into_core_felt L hash)))
      bonsai_storage (enumerated hashes)) (\<lambda>bonsai_storage.
    res_bind (unwrap (bonsai_commit B bonsai_storage trie_id)) (\<lambda>bonsai_storage.
    res_bind (unwrap (bonsai_root_hash B bonsai_storage identifier)) (\<lambda>root_hash.
      from_core_felt L root_hash))))"

definition memory_event_commitment :: "felt_lib \<Rightarrow> crypto_lib \<Rightarrow> ('b, 'tr) bonsai_lib \<Rightarrow> (unit, 'b) res \<Rightarrow> 64 word \<Rightarrow> event list
    \<Rightarrow> felt panicking" where
  "memory_event_commitment L K B mem trie_id events =
    (if events = [] then Ok ZERO
     else res_bind (unwrap mem) (\<lambda>bonsai_storage.
          res_bind (try_map (calculate_event_hash L (PedersenHasher L K)) events) (\<lambda>events.
            memory_root L B (Ok bonsai_storage) trie_id IDENT_EVENT events)))"

definition memory_transaction_commitment :: "felt_lib \<Rightarrow> crypto_lib \<Rightarrow> ('b, 'tr) bonsai_lib \<Rightarrow> (unit, 'b) res \<Rightarrow> 64 word
    \<Rightarrow> transaction list \<Rightarrow> felt \<Rightarrow> 64 word \<Rightarrow> felt panicking" where
  "memory_transaction_commitment L K B mem trie_id transactions chain_id block_number =
    res_bind (unwrap mem) (\<lambda>bonsai_storage.
    res_bind (try_map (\<lambda>tx. calculate_transaction_hash_with_signature L K (PedersenHasher L K) tx chain_id block_number)
      transactions) (\<lambda>txs.
      memory_root L B (Ok bonsai_storage) trie_id IDENT_TRANSACTION txs))"

definition calculate_commitments :: "felt_lib \<Rightarrow> crypto_lib \<Rightarrow> ('b, 'tr) bonsai_lib \<Rightarrow> (unit, 'b) res \<Rightarrow> 64 word
    \<Rightarrow> transaction list \<Rightarrow> event list \<Rightarrow> felt \<Rightarrow> 64 word \<Rightarrow> (felt \<times> felt) panicking" where
  "calculate_commitments L K B mem trie_id transactions events chain_id block_number =
    res_bind (memory_transaction_commitment L K B mem trie_id transactions chain_id block_number) (\<lambda>commitment_tx.
    res_bind (memory_event_commitment L K B mem trie_id events) (\<lambda>commitment_event.
      Ok (commitment_tx, commitment_event)))"

section \<open>The state root\<close>

definition calculate_state_root :: "felt_lib \<Rightarrow> hasher_t \<Rightarrow> felt \<Rightarrow> felt \<Rightarrow> ('e, felt) res" where
  "calculate_state_root L H contracts_trie_root classes_trie_root =
    res_bind (unwrap (try_from_slice L (ascii ''STARKNET_STATE_V0''))) (\<lambda>starknet_state_prefix.
      if classes_trie_root = ZERO then Ok contracts_trie_root
      else Ok (compute_hash_on_elements H [starknet_state_prefix, contracts_trie_root, classes_trie_root]))"

definition class_hash :: "felt_lib \<Rightarrow> commitment_state_diff \<Rightarrow> ('h, 'c, 'a) override_handle \<Rightarrow> felt \<Rightarrow> 'h option
    \<Rightarrow> ('e, felt) res" where
  "class_hash L csd overrides contract_address maybe_block_hash =
    res_bind (case map_of (csd_address_to_class_hash csd) contract_address of
         Some class_hash \<Rightarrow> Ok class_hash
       | None \<Rightarrow> (case maybe_block_hash of
             Some block_hash \<Rightarrow> unwrap_opt (contract_class_hash_by_address
               (for_schema_version overrides Undefined) block_hash contract_address)
           | None \<Rightarrow> Panic)) (\<lambda>class_hash.
      unwrap (fe_from_byte_slice_be L (stark_bytes L class_hash)))"

definition contract_state_leaf_hash :: "felt_lib \<Rightarrow> crypto_lib \<Rightarrow> commitment_state_diff \<Rightarrow> ('h, 'c, 'a) override_handle
    \<Rightarrow> felt \<Rightarrow> felt \<Rightarrow> 'h option \<Rightarrow> ('e, felt) res" where
  "contract_state_leaf_hash L K csd overrides contract_address storage_root maybe_block_hash =
    (let H = PedersenHasher L K in
     res_bind (class_hash L csd overrides contract_address maybe_block_hash) (\<lambda>class_hash.
     res_bind (unwrap_opt (fe_from_bytes_be L (core_to_bytes_be L storage_root))) (\<lambda>storage_root.
     let nonce_bytes = stark_bytes L (case map_of (csd_address_to_nonce csd) contract_address of
           Some nonce \<Rightarrow> nonce | None \<Rightarrow> 0)
     in res_bind (unwrap_opt (fe_from_bytes_be L nonce_bytes)) (\<lambda>nonce.
     let contract_state_hash = hash_elements H class_hash storage_root;
         contract_state_hash = hash_elements H contract_state_hash nonce;
         contract_state_hash = hash_elements H contract_state_hash 0
     in Ok (core_from_bytes_be L (fe_to_bytes_be L contract_state_hash))))))"

primrec insert_updates :: "felt_lib \<Rightarrow> ('b, 'tr) bonsai_lib \<Rightarrow> 'tr trie_mut \<Rightarrow> 'b deoxys_backend \<Rightarrow> felt \<Rightarrow> (felt \<times> felt) list
    \<Rightarrow> (deoxys_storage_error, unit) res \<times> 'b deoxys_backend" where
  "insert_updates L B storage_write bk contract_address [] = (Ok (), bk)"
| "insert_updates L B storage_write bk contract_address (kv # updates) =
    st_bind (contract_storage_insert L B storage_write bk contract_address (fst kv) (snd kv)) (\<lambda>_ bk.
      insert_updates L B storage_write bk contract_address updates)"

primrec storage_updates_loop :: "felt_lib \<Rightarrow> ('b, 'tr) bonsai_lib \<Rightarrow> 'tr trie_mut \<Rightarrow> 'b deoxys_backend
    \<Rightarrow> (felt \<times> (felt \<times> felt) list) list \<Rightarrow> (deoxys_storage_error, unit) res \<times> 'b deoxys_backend" where
  "storage_updates_loop L B storage_write bk [] = (Ok (), bk)"
| "storage_updates_loop L B storage_write bk (entry # entries) =
    st_bind (contract_storage_init L B storage_write bk (fst entry)) (\<lambda>_ bk.
    st_bind (insert_updates L B storage_write bk (fst entry) (snd entry)) (\<lambda>_ bk.
      storage_updates_loop L B storage_write bk entries))"

definition contract_trie_root :: "(felt list \<Rightarrow> felt list) \<Rightarrow> felt_lib \<Rightarrow> crypto_lib \<Rightarrow> ('b, 'tr) bonsai_lib
    \<Rightarrow> ('h, 'c, 'a) override_handle \<Rightarrow> 'b deoxys_backend \<Rightarrow> commitment_state_diff \<Rightarrow> 64 word \<Rightarrow> 'h option
    \<Rightarrow> (deoxys_storage_error, felt) res \<times> 'b deoxys_backend" where
  "contract_trie_root schedule L K B overrides bk csd block_number maybe_block_hash =
    st_bind (contract_mut B bk (BlockNumber block_number), bk) (\<lambda>contract_write bk.
    st_bind (contract_storage_mut B bk (BlockNumber block_number), bk) (\<lambda>storage_write bk.
    st_bind (contract_init B contract_write bk) (\<lambda>_ bk.
    st_bind (storage_updates_loop L B storage_write bk (csd_storage_updates csd)) (\<lambda>_ bk.
    st_bind (contract_storage_commit B storage_write bk (block_number + 1)) (\<lambda>_ bk.
    st_bind (apply_changes storage_write, bk) (\<lambda>_ bk.
    st_bind (contract_storage_view bk, bk) (\<lambda>storage_read bk.
    st_bind (try_map (\<lambda>contract_address.
        res_bind (unwrap (contract_storage_view_root L B storage_read contract_address)) (\<lambda>storage_root.
        res_bind (contract_state_leaf_hash L K csd overrides contract_address storage_root maybe_block_hash)
          (\<lambda>leaf_hash. Ok (contract_address, leaf_hash))))
        (schedule (map fst (csd_storage_updates csd))), bk) (\<lambda>updates bk.
    st_bind (contract_update L B contract_write bk updates) (\<lambda>_ bk.
    st_bind (contract_commit B contract_write bk (block_number + 1)) (\<lambda>_ bk.
    st_bind (apply_changes contract_write, bk) (\<lambda>_ bk.
    st_bind (contract_view bk, bk) (\<lambda>contract_read bk.
      (res_bind (contract_view_root B contract_read) (from_core_felt L), bk)))))))))))))"

definition class_trie_root :: "(felt list \<Rightarrow> felt list) \<Rightarrow> felt_lib \<Rightarrow> crypto_lib \<Rightarrow> ('b, 'tr) bonsai_lib
    \<Rightarrow> 'b deoxys_backend \<Rightarrow> commitment_state_diff \<Rightarrow> 64 word
    \<Rightarrow> (deoxys_storage_error, felt) res \<times> 'b deoxys_backend" where
  "class_trie_root schedule L K B bk csd block_number =
    st_bind (class_mut B bk (BlockNumber block_number), bk) (\<lambda>class_write bk.
    st_bind (res_bind (unwrap (fe_from_byte_slice_be L (ascii ''CONTRACT_CLASS_LEAF_V0''))) (\<lambda>version.
        try_map (\<lambda>class_hash.
          res_bind (unwrap_opt (map_of (csd_class_hash_to_compiled_class_hash csd) class_hash)) (\<lambda>compiled_class_hash.
          res_bind (unwrap_opt (fe_from_bytes_be L (stark_bytes L compiled_class_hash))) (\<lambda>compiled_class_hash.
            Ok (class_hash, hash_elements (PoseidonHasher L K) version compiled_class_hash))))
        (schedule (map fst (csd_class_hash_to_compiled_class_hash csd)))), bk) (\<lambda>updates bk.
    st_bind (class_init B class_write bk) (\<lambda>_ bk.
    st_bind (class_update L B class_write bk updates) (\<lambda>_ bk.
    st_bind (class_commit B class_write bk (block_number + 1)) (\<lambda>_ bk.
    st_bind (apply_changes class_write, bk) (\<lambda>_ bk.
    st_bind (class_view bk, bk) (\<lambda>class_read bk.
      (res_bind (class_view_root B class_read) (from_core_felt L), bk))))))))"

text \<open>The two roots are computed by \<open>rayon::join\<close>; they work on different tries.\<close>

definition update_state_root :: "(felt list \<Rightarrow> felt list) \<Rightarrow> felt_lib \<Rightarrow> crypto_lib \<Rightarrow> ('b, 'tr) bonsai_lib
    \<Rightarrow> ('h, 'c, 'a) override_handle \<Rightarrow> 'b deoxys_backend \<Rightarrow> commitment_state_diff \<Rightarrow> 64 word \<Rightarrow> 'h option
    \<Rightarrow> felt panicking \<times> 'b deoxys_backend" where
  "update_state_root schedule L K B overrides bk csd block_number substrate_block_hash =
    (let (contract_root, bk) = contract_trie_root schedule L K B overrides bk csd block_number substrate_block_hash;
         (class_root, bk) = class_trie_root schedule L K B bk csd block_number
     in (res_bind (unwrap contract_root) (\<lambda>contract_root.
         res_bind (unwrap class_root) (\<lambda>class_root.
           calculate_state_root L (PoseidonHasher L K) contract_root class_root)), bk))"

section \<open>\<open>contracts.rs\<close>\<close>

text \<open>The file is beside the others but \<open>mod.rs\<close> does not declare it, so the node is built without it; no property
  depends on this section.\<close>

record contract_leaf_params =
  clp_class_hash :: felt
  clp_storage_root :: felt
  clp_nonce :: felt

definition calculate_contract_state_leaf_hash :: "hasher_t \<Rightarrow> contract_leaf_params \<Rightarrow> felt" where
  "calculate_contract_state_leaf_hash H contract_leaf_params =
    (let contract_state_hash = hash_elements H (clp_class_hash contract_leaf_params) (clp_storage_root contract_leaf_params);
         contract_state_hash = hash_elements H contract_state_hash (clp_nonce contract_leaf_params);
         contract_state_hash = hash_elements H contract_state_hash ZERO
     in contract_state_hash)"

definition contract_identifier :: "felt_lib \<Rightarrow> felt \<Rightarrow> bytes" where
  "contract_identifier L contract_address = stark_bytes L contract_address"

definition trie_storage_entry :: "felt_lib \<Rightarrow> felt \<times> felt \<Rightarrow> ('e, bool list \<times> felt) res" where
  "trie_storage_entry L kv =
    res_bind (from_stark_felt L (fst kv)) (\<lambda>k.
    res_bind (from_stark_felt L (snd kv)) (\<lambda>value.
      Ok (drop 5 (as_bits (fe_to_bytes_be L k)), value)))"

definition update_storage_trie :: "felt_lib \<Rightarrow> ('b, 'tr) bonsai_lib \<Rightarrow> felt \<Rightarrow> (felt \<times> felt) list \<Rightarrow> 'b \<Rightarrow> 'b panicking" where
  "update_storage_trie L B contract_address storage_updates bonsai =
    (let identifier = contract_identifier L contract_address in
     res_bind (unwrap (bonsai_init_tree B bonsai identifier)) (\<lambda>bonsai.
       try_fold (\<lambda>bonsai kv. res_bind (trie_storage_entry L kv) (\<lambda>(key, value).
         unwrap (bonsai_ins B bonsai identifier key (into_core_felt L value)))) bonsai storage_updates))"

section \<open>Tries as maps of leaves\<close>

lemma commitment_conversions:
  assumes "felt_codec L"
  shows "into_core_felt L f = f" and "from_core_felt L f = Ok f" and "from_stark_felt L f = Ok f"
    and "into_stark_felt L f = Ok f" and "core_from_bytes_be L (fe_to_bytes_be L f) = f"
    and "fe_from_bytes_be L (core_to_bytes_be L f) = Some f" and "fe_from_bytes_be L (stark_bytes L f) = Some f"
    and "fe_from_byte_slice_be L (stark_bytes L f) = Ok f" and "nonce_of L f = Ok f" and "storage_key_of L f = Ok f"
  using assms
  by (simp_all add: into_core_felt_def from_core_felt_def felt_codec.core_from_bytes_be felt_codec.core_to_bytes_be
    felt_codec.fe_to_bytes_be felt_codec.stark_bytes felt_codec.bytes32_roundtrip felt_codec.fe_from_bytes_be
    felt_codec.fe_from_byte_slice_be stark_from_ok stark_into_ok nonce_of_def storage_key_of_def into_defs be_felt
    del: nat_be.simps power_numeral)

definition put_all :: "(bool list \<rightharpoonup> felt) \<Rightarrow> (bool list \<times> felt) list \<Rightarrow> (bool list \<rightharpoonup> felt)" where
  "put_all m kvs = fold (\<lambda>(k, v) m. m(k := leaf v)) kvs m"

lemma put_all_simps [simp]:
  "put_all m [] = m" "put_all m (kv # kvs) = put_all (m(fst kv := leaf (snd kv))) kvs"
  "put_all m (xs @ ys) = put_all (put_all m xs) ys"
  by (simp_all add: put_all_def split_def)

lemma put_all_lookup: "put_all m kvs k = (case map_of (rev kvs) k of Some v \<Rightarrow> leaf v | None \<Rightarrow> m k)"
  by (induction kvs arbitrary: m) (auto simp: map_add_def split: option.splits)

lemma map_of_rev_distinct: "distinct (map fst kvs) \<Longrightarrow> map_of (rev kvs) = map_of kvs"
  by (intro map_of_inject_set [THEN iffD2]) (simp_all add: rev_map [symmetric] distinct_rev)

text \<open>What \<open>bonsai-trie\<close> promises: reads see the insertions, committing and initialising keep the leaves,
  and the root of a committed tree is a function of its leaves. The crate refuses a commit whose id is not
  greater than that of the last one; the ids are block numbers, and the law is that of commits in the order of
  the blocks, which are never refused.\<close>

locale merkle_trie =
  fixes B :: "('b, 'tr) bonsai_lib" and tree :: "'b \<Rightarrow> bytes \<Rightarrow> bool list \<Rightarrow> felt option"
    and merkle :: "(bool list \<rightharpoonup> felt) \<Rightarrow> felt"
  assumes lookup_tree: "bonsai_lookup B b i k = Ok (tree b i k)"
    and ins_tree: "\<exists>b'. bonsai_ins B b i k v = Ok b' \<and> tree b' = (tree b)(i := (tree b i)(k := leaf v))"
    and init_tree: "\<exists>b'. bonsai_init_tree B b i = Ok b' \<and> tree b' = tree b"
    and commit_tree: "\<exists>b'. bonsai_commit B b n = Ok b' \<and> tree b' = tree b
      \<and> (\<forall>i. bonsai_root_hash B b' i = Ok (merkle (tree b' i)))"

sublocale merkle_trie \<subseteq> bonsai_trie B
proof
  fix b i k v b' i' k'
  assume "bonsai_ins B b i k v = Ok b'"
  with ins_tree [of b i k v] have "tree b' = (tree b)(i := (tree b i)(k := leaf v))" by auto
  then show "bonsai_lookup B b' i' k' = (if i' = i \<and> k' = k then Ok (leaf v) else bonsai_lookup B b i' k')"
    by (simp add: lookup_tree)
qed

section \<open>Transaction and event commitments\<close>

definition index_leaves :: "felt list \<Rightarrow> (bool list \<rightharpoonup> felt)" where
  "index_leaves hs k = (if length k = 64 \<and> bits_val k < length hs then leaf (hs ! bits_val k) else None)"

lemma index_key_val: "i < 2 ^ 64 \<Longrightarrow> bits_val (index_key i) = i \<and> length (index_key i) = 64"
proof -
  have "(256 :: nat) ^ 8 = 2 ^ 64" by simp
  then show "i < 2 ^ 64 \<Longrightarrow> ?thesis"
    by (simp add: index_key_def as_bits_val be_nat_nat_be del: power_numeral nat_be.simps)
qed

lemma enumerated_snoc: "enumerated (xs @ [x]) = enumerated xs @ [(length xs, x)]"
  by (simp add: enumerated_def)

lemma index_leaves_put:
  assumes "length hs \<le> 2 ^ 64"
  shows "put_all Map.empty (map (\<lambda>(i, h). (index_key i, h)) (enumerated hs)) = index_leaves hs"
  using assms
proof (induction hs rule: rev_induct)
  case Nil
  show ?case by (simp add: enumerated_def index_leaves_def fun_eq_iff)
next
  case (snoc h hs)
  then have n: "length hs < 2 ^ 64" by simp
  have "(index_leaves hs)(index_key (length hs) := leaf h) = index_leaves (hs @ [h])"
  proof
    fix k
    show "((index_leaves hs)(index_key (length hs) := leaf h)) k = index_leaves (hs @ [h]) k"
    proof (cases "k = index_key (length hs)")
      case True
      then show ?thesis using index_key_val [OF n] by (simp add: index_leaves_def)
    next
      case False
      then have "length k = 64 \<Longrightarrow> bits_val k \<noteq> length hs"
        using index_key_val [OF n] bits_val_inj by metis
      with False show ?thesis by (auto simp: index_leaves_def nth_append)
    qed
  qed
  moreover have "length hs \<le> 2 ^ 64" using n by (rule less_imp_le)
  ultimately show ?case using snoc.IH by (simp only: enumerated_snoc map_append put_all_simps list.map prod.case fst_conv snd_conv)
qed

lemma index_leaves_inj:
  assumes "index_leaves hs = index_leaves hs'" and "0 \<notin> set hs" and "0 \<notin> set hs'"
    and "length hs \<le> 2 ^ 64" and "length hs' \<le> 2 ^ 64"
  shows "hs = hs'"
proof -
  have at: "index_leaves xs (index_key i) = (if i < length xs then Some (xs ! i) else None)"
    if "0 \<notin> set xs" "i < 2 ^ 64" for xs i
  proof (cases "i < length xs")
    case True
    then have "xs ! i \<noteq> 0" using that(1) nth_mem by metis
    with True index_key_val [OF that(2)] show ?thesis by (simp add: index_leaves_def leaf_def)
  qed (use index_key_val [OF that(2)] in \<open>simp add: index_leaves_def\<close>)
  have eq: "(if i < length hs then Some (hs ! i) else None) = (if i < length hs' then Some (hs' ! i) else None)"
    if "i < 2 ^ 64" for i
    using at [OF assms(2) that] at [OF assms(3) that] assms(1) by simp
  have "length hs = length hs'"
    using eq [of "length hs"] eq [of "length hs'"] assms(4,5)
    by (cases "length hs" "length hs'" rule: linorder_cases) auto
  moreover have "hs ! i = hs' ! i" if "i < length hs" for i
    using eq [of i] that calculation assms(4) by simp
  ultimately show ?thesis by (rule nth_equalityI)
qed

context merkle_trie
begin

lemma insert_indexed:
  "\<exists>b'. try_fold (\<lambda>b (i, h). unwrap (bonsai_ins B b ident (index_key i) (f h))) b ihs = (Ok b' :: ('e, 'b) res)
    \<and> tree b' = (tree b)(ident := put_all (tree b ident) (map (\<lambda>(i, h). (index_key i, f h)) ihs))"
proof (induction ihs arbitrary: b)
  case (Cons ih ihs)
  obtain i h where ih: "ih = (i, h)" by (cases ih)
  obtain b1 where b1: "bonsai_ins B b ident (index_key i) (f h) = Ok b1"
    "tree b1 = (tree b)(ident := (tree b ident)(index_key i := leaf (f h)))"
    using ins_tree by blast
  obtain b' where "try_fold (\<lambda>b (i, h). unwrap (bonsai_ins B b ident (index_key i) (f h))) b1 ihs = (Ok b' :: ('e, 'b) res)"
    and "tree b' = (tree b1)(ident := put_all (tree b1 ident) (map (\<lambda>(i, h). (index_key i, f h)) ihs))"
    using Cons [of b1] by blast
  then show ?case
    by (intro exI [of _ b'] conjI) (simp_all only: b1 ih try_fold.simps prod.case unwrap.simps res_bind.simps
      fun_upd_same fun_upd_upd list.map put_all_simps fst_conv snd_conv)
qed simp

lemma memory_root_leaves:
  assumes "felt_codec L" and "tree b = (\<lambda>_. Map.empty)" and "length hs \<le> 2 ^ 64"
  shows "memory_root L B (Ok b) n ident hs = Ok (merkle (index_leaves hs))"
proof -
  obtain b' where b': "try_fold (\<lambda>b (i, h). unwrap (bonsai_ins B b ident (index_key i) h)) b (enumerated hs)
      = (Ok b' :: (unit, 'b) res)"
    "tree b' = (tree b)(ident := put_all (tree b ident) (map (\<lambda>(i, h). (index_key i, h)) (enumerated hs)))"
    using insert_indexed [where f = "\<lambda>h. h"] by blast
  obtain b'' where "bonsai_commit B b' n = Ok b''" "tree b'' = tree b'"
    "\<forall>i. bonsai_root_hash B b'' i = Ok (merkle (tree b'' i))"
    using commit_tree by blast
  with b' assms(2,3) show ?thesis by (simp add: memory_root_def commitment_conversions [OF assms(1)] index_leaves_put)
qed

end

text \<open>What the leaves are: the digest of an event, and of a transaction the hash of its hash and of
  the hash of the signature the block number requires.\<close>

definition event_digest :: "crypto_lib \<Rightarrow> event \<Rightarrow> felt" where
  "event_digest K e = hash_on_elements K
    [ev_from_address e, hash_on_elements K (ev_keys e), hash_on_elements K (ev_data e)]"

definition signed_part :: "transaction \<Rightarrow> 64 word \<Rightarrow> felt list" where
  "signed_part tx n =
    (case tx of
       Invoke t \<Rightarrow> invoke_signature t
     | Declare t \<Rightarrow> if 61394 \<le> n then declare_signature t else []
     | DeployAccount t \<Rightarrow> if 61394 \<le> n then deploy_account_signature t else []
     | _ \<Rightarrow> [])"

definition tx_digest :: "crypto_lib \<Rightarrow> felt \<Rightarrow> 64 word \<Rightarrow> transaction \<Rightarrow> felt option" where
  "tx_digest K c n tx = map_option (\<lambda>p. pedersen_hash K (hash_on_elements K p) (hash_on_elements K (signed_part tx n)))
    (tx_preimage K tx c False (Some n))"

lemma event_hash_digest:
  assumes "felt_codec L"
  shows "calculate_event_hash L (PedersenHasher L K) e = Ok (event_digest K e)"
proof -
  have "try_map (from_stark_felt L) xs = (Ok xs :: (unit, felt list) res)" for xs
    by (induction xs) (simp_all add: commitment_conversions [OF assms])
  then show ?thesis
    by (simp add: calculate_event_hash_def commitment_conversions [OF assms] event_digest_def PedersenHasher_def)
qed

lemma transaction_hash_signed:
  assumes "felt_codec L"
  shows "calculate_transaction_hash_with_signature L K H tx c n =
    map_ok (\<lambda>h. hash_elements H h (compute_hash_on_elements H (signed_part tx n))) (compute_hash L K H tx c False (Some n))"
proof -
  have sig: "try_map (from_stark_felt L) xs = (Ok xs :: (unit, felt list) res)" for xs
    by (induction xs) (simp_all add: commitment_conversions [OF assms])
  have "calculate_transaction_hash_with_signature L K H tx c n =
    res_bind (compute_hash L K H tx c False (Some n)) (\<lambda>h. res_bind (from_stark_felt L h) (\<lambda>h.
      Ok (hash_elements H h (compute_hash_on_elements H (signed_part tx n)))))"
    unfolding calculate_transaction_hash_with_signature_def Let_def sig signed_part_def
    by (cases tx) (simp_all del: compute_hash.simps)
  then show ?thesis
    by (cases "compute_hash L K H tx c False (Some n)") (simp_all add: commitment_conversions [OF assms])
qed

lemma transaction_hash_digest:
  assumes "felt_codec L"
  shows "calculate_transaction_hash_with_signature L K (PedersenHasher L K) tx c n =
    (case tx_digest K c n tx of Some d \<Rightarrow> Ok d | None \<Rightarrow> Panic)"
  unfolding transaction_hash_signed [OF assms] compute_hash_value [OF assms] tx_digest_def
  by (cases "tx_preimage K tx c False (Some n)") (simp_all add: PedersenHasher_def)

lemma transaction_digests:
  assumes "felt_codec L" and "those (map (tx_digest K c n) txs) = Some ds"
  shows "try_map (\<lambda>tx. calculate_transaction_hash_with_signature L K (PedersenHasher L K) tx c n) txs = Ok ds"
  using assms(2)
  by (induction txs arbitrary: ds) (auto simp: transaction_hash_digest [OF assms(1)] split: option.splits)

lemma those_length: "those xs = Some ys \<Longrightarrow> length ys = length xs"
  by (induction xs arbitrary: ys) (auto split: option.splits)

lemma commitments_value:
  assumes "felt_codec L" and "merkle_trie B tree merkle" and "tree b = (\<lambda>_. Map.empty)"
    and "those (map (tx_digest K c n) txs) = Some ds" and "length txs \<le> 2 ^ 64" and "length evs \<le> 2 ^ 64"
  shows "calculate_commitments L K B (Ok b) i txs evs c n =
    Ok (merkle (index_leaves ds), if evs = [] then 0 else merkle (index_leaves (map (event_digest K) evs)))"
proof -
  have "try_map (calculate_event_hash L (PedersenHasher L K)) evs = Ok (map (event_digest K) evs)"
    by (rule try_map_all_ok) (rule event_hash_digest [OF assms(1)])
  moreover have "length ds \<le> 2 ^ 64" using those_length [OF assms(4)] assms(5) by simp
  ultimately show ?thesis
    using assms(6) merkle_trie.memory_root_leaves [OF assms(2,1,3)]
    by (simp add: calculate_commitments_def memory_transaction_commitment_def memory_event_commitment_def
      transaction_digests [OF assms(1,4)] ZERO_def)
qed

text \<open>C8: the commitments of a block are the roots of the trees that hold, under the 64 bits of its
  position, the digest of every transaction (its hash and the signature the block number requires)
  and of every event, zero for a block without events; computing them never fails when the
  transactions can be hashed.\<close>

theorem block_commitments:
  assumes "felt_codec L" and "merkle_trie B tree merkle" and "tree b = (\<lambda>_. Map.empty)"
    and "those (map (tx_digest K c n) txs) = Some ds" and "length txs \<le> 2 ^ 64" and "length evs \<le> 2 ^ 64"
  shows "calculate_commitments L K B (Ok b) i txs evs c n =
    Ok (merkle (index_leaves ds), if evs = [] then 0 else merkle (index_leaves (map (event_digest K) evs)))"
  by (rule commitments_value [OF assms])

definition event_leaves :: "crypto_lib \<Rightarrow> event list \<Rightarrow> (bool list \<rightharpoonup> felt)" where
  "event_leaves K evs = index_leaves (map (event_digest K) evs)"

text \<open>C9: the commitment of events binds them up to collisions. Lists with the same digests have the same commitment.
  Conversely, whenever two lists of at most \<open>2^64\<close> events have the same commitment, their digests are the same,
  position by position, or one of these is the case: two different sets of leaves have the same root; some
  digest is zero (a zero leaf is an absent one); or one list is empty, whose commitment is zero without a
  tree, and the root of the other is zero.\<close>

theorem event_commitment_binds:
  assumes "felt_codec L" and "merkle_trie B tree merkle" and "tree b = (\<lambda>_. Map.empty)"
    and "length evs \<le> 2 ^ 64" and "length evs' \<le> 2 ^ 64"
  shows "(map (event_digest K) evs = map (event_digest K) evs' \<longrightarrow>
      memory_event_commitment L K B (Ok b) i evs = memory_event_commitment L K B (Ok b) i evs')
    \<and> (memory_event_commitment L K B (Ok b) i evs = memory_event_commitment L K B (Ok b) i evs' \<longrightarrow>
       map (event_digest K) evs = map (event_digest K) evs'
       \<or> event_leaves K evs \<noteq> event_leaves K evs' \<and> merkle (event_leaves K evs) = merkle (event_leaves K evs')
       \<or> 0 \<in> event_digest K ` (set evs \<union> set evs')
       \<or> evs = [] \<and> merkle (event_leaves K evs') = 0 \<or> evs' = [] \<and> merkle (event_leaves K evs) = 0)"
proof -
  have "try_map (calculate_event_hash L (PedersenHasher L K)) es = Ok (map (event_digest K) es)" for es
    by (rule try_map_all_ok) (rule event_hash_digest [OF assms(1)])
  then have root: "memory_event_commitment L K B (Ok b) i es = Ok (if es = [] then 0 else merkle (event_leaves K es))"
    if "length es \<le> 2 ^ 64" for es
    using that merkle_trie.memory_root_leaves [OF assms(2,1,3)] by (simp add: memory_event_commitment_def event_leaves_def ZERO_def)
  have "event_leaves K evs = event_leaves K evs' \<longleftrightarrow> map (event_digest K) evs = map (event_digest K) evs'"
    if "0 \<notin> event_digest K ` (set evs \<union> set evs')"
  proof -
    from that have "0 \<notin> set (map (event_digest K) evs)" "0 \<notin> set (map (event_digest K) evs')" by auto
    then show ?thesis
      using index_leaves_inj [of "map (event_digest K) evs" "map (event_digest K) evs'"] assms(4,5)
      unfolding length_map event_leaves_def by metis
  qed
  then show ?thesis unfolding root [OF assms(4)] root [OF assms(5)] by (auto simp: event_leaves_def)
qed

section \<open>The state root is the root of the updated tries\<close>

lemma locked_step:
  assumes "\<not> dbk_poisoned bk t" and "f (trie_of bk t) = Ok b"
  shows "locked_update bk t err f = (Ok (), set_trie bk t b)"
  using assms by (simp add: locked_update_def)

lemma set_trie_twice: "set_trie (set_trie bk t b) t b' = set_trie bk t b'"
  by (cases t) simp_all

lemma set_trie_same: "set_trie bk t (trie_of bk t) = bk"
  by (cases t) simp_all

lemma trie_of_set_trie: "trie_of (set_trie bk t b) t = b"
  by (cases t) simp_all

lemma storage_set_trie: "dbk_storage (set_trie bk ContractStorage b) = b"
  by simp

text \<open>The leaves of the three tries of a backend.\<close>

definition skey :: "felt_lib \<Rightarrow> felt \<times> felt \<Rightarrow> bool list \<times> felt" where
  "skey L kv = (conv_contract_storage_key L (fst kv), conv_contract_value L (snd kv))"

lemma skey_pair: "fst (skey L kv) = conv_contract_storage_key L (fst kv)" "snd (skey L kv) = conv_contract_value L (snd kv)"
  by (simp_all add: skey_def)

definition put_storage :: "felt_lib \<Rightarrow> (bytes \<Rightarrow> bool list \<rightharpoonup> felt) \<Rightarrow> (felt \<times> (felt \<times> felt) list) list \<Rightarrow> (bytes \<Rightarrow> bool list \<rightharpoonup> felt)" where
  "put_storage L T entries = fold (\<lambda>(a, kvs) T.
    T(conv_contract_identifier L a := put_all (T (conv_contract_identifier L a)) (map (skey L) kvs))) entries T"

context merkle_trie
begin

lemma insert_updates_tree:
  assumes "\<not> dbk_poisoned bk ContractStorage"
  shows "\<exists>b'. insert_updates L B w bk a kvs = (Ok (), set_trie bk ContractStorage b')
    \<and> tree b' = (tree (dbk_storage bk))(conv_contract_identifier L a :=
        put_all (tree (dbk_storage bk) (conv_contract_identifier L a)) (map (skey L) kvs))"
  using assms
proof (induction kvs arbitrary: bk)
  case (Cons kv kvs)
  obtain b1 where b1: "bonsai_ins B (dbk_storage bk) (conv_contract_identifier L a)
      (conv_contract_storage_key L (fst kv)) (conv_contract_value L (snd kv)) = Ok b1"
    "tree b1 = (tree (dbk_storage bk))(conv_contract_identifier L a :=
      (tree (dbk_storage bk) (conv_contract_identifier L a))(conv_contract_storage_key L (fst kv)
        := leaf (conv_contract_value L (snd kv))))"
    using ins_tree by blast
  have step: "contract_storage_insert L B w bk a (fst kv) (snd kv) = (Ok (), set_trie bk ContractStorage b1)"
    unfolding contract_storage_insert_def using Cons.prems b1(1) by (intro locked_step) simp_all
  have "\<not> dbk_poisoned (set_trie bk ContractStorage b1) ContractStorage" using Cons.prems by simp
  from Cons.IH [OF this] obtain b' where b': "insert_updates L B w (set_trie bk ContractStorage b1) a kvs =
      (Ok (), set_trie (set_trie bk ContractStorage b1) ContractStorage b')"
    "tree b' = (tree b1)(conv_contract_identifier L a :=
      put_all (tree b1 (conv_contract_identifier L a)) (map (skey L) kvs))"
    unfolding storage_set_trie by blast
  show ?case
    by (intro exI [of _ b'] conjI)
      (simp_all only: insert_updates.simps step st_bind_simps b' b1 list.map put_all_simps skey_pair
        fun_upd_same fun_upd_upd set_trie_twice)
next
  case Nil
  show ?case by (intro exI [of _ "dbk_storage bk"]) (simp add: fun_upd_idem)
qed

lemma storage_loop_tree:
  assumes "\<not> dbk_poisoned bk ContractStorage"
  shows "\<exists>b'. storage_updates_loop L B w bk entries = (Ok (), set_trie bk ContractStorage b')
    \<and> tree b' = put_storage L (tree (dbk_storage bk)) entries"
  using assms
proof (induction entries arbitrary: bk)
  case (Cons entry entries)
  obtain b0 where b0: "bonsai_init_tree B (dbk_storage bk) (conv_contract_identifier L (fst entry)) = Ok b0"
    "tree b0 = tree (dbk_storage bk)" using init_tree by blast
  have init: "contract_storage_init L B w bk (fst entry) = (Ok (), set_trie bk ContractStorage b0)"
    unfolding contract_storage_init_def using Cons.prems b0(1) by (intro locked_step) simp_all
  obtain b1 where b1: "insert_updates L B w (set_trie bk ContractStorage b0) (fst entry) (snd entry) =
      (Ok (), set_trie (set_trie bk ContractStorage b0) ContractStorage b1)"
    "tree b1 = (tree b0)(conv_contract_identifier L (fst entry) :=
        put_all (tree b0 (conv_contract_identifier L (fst entry))) (map (skey L) (snd entry)))"
    using insert_updates_tree [of "set_trie bk ContractStorage b0" L w "fst entry" "snd entry"] Cons.prems
    unfolding storage_set_trie set_trie_poisoned by blast
  obtain b' where b': "storage_updates_loop L B w (set_trie bk ContractStorage b1) entries =
      (Ok (), set_trie (set_trie bk ContractStorage b1) ContractStorage b')"
    "tree b' = put_storage L (tree b1) entries"
    using Cons.IH [of "set_trie bk ContractStorage b1"] Cons.prems
    unfolding storage_set_trie set_trie_poisoned by blast
  show ?case
    by (intro exI [of _ b'] conjI)
      (simp_all only: storage_updates_loop.simps init st_bind_simps b1 b' b0 set_trie_twice put_storage_def fold_simps split_def)
next
  case Nil
  show ?case by (intro exI [of _ "dbk_storage bk"]) (simp add: put_storage_def)
qed

lemma insert_loop_tree:
  assumes "\<not> dbk_poisoned bk t"
  shows "\<exists>b'. insert_loop B t ident bk us = (Ok (), set_trie bk t b')
    \<and> tree b' = (tree (trie_of bk t))(ident := put_all (tree (trie_of bk t) ident) us)"
  using assms
proof (induction us arbitrary: bk)
  case (Cons u us)
  obtain k v where u: "u = (k, v)" by (cases u)
  obtain b1 where b1: "bonsai_ins B (trie_of bk t) ident k v = Ok b1"
    "tree b1 = (tree (trie_of bk t))(ident := (tree (trie_of bk t) ident)(k := leaf v))"
    using ins_tree by blast
  have step: "locked_update bk t StorageInsertionError (\<lambda>b. bonsai_ins B b ident k v) = (Ok (), set_trie bk t b1)"
    using Cons.prems b1(1) by (rule locked_step)
  obtain b' where b': "insert_loop B t ident (set_trie bk t b1) us = (Ok (), set_trie (set_trie bk t b1) t b')"
    "tree b' = (tree b1)(ident := put_all (tree b1 ident) us)"
    using Cons.IH [of "set_trie bk t b1"] Cons.prems unfolding set_trie_poisoned trie_of_set_trie by blast
  show ?case
    by (intro exI [of _ b'] conjI)
      (simp_all only: u insert_loop.simps step prod.case res.case set_trie_twice b' b1 put_all_simps fst_conv snd_conv fun_upd_same fun_upd_upd)
next
  case Nil
  then show ?case by (intro exI [of _ "trie_of bk t"]) (simp add: set_trie_same fun_upd_idem)
qed

lemma locked_commit:
  assumes "\<not> dbk_poisoned bk t"
  shows "\<exists>b'. locked_update bk t err (\<lambda>b. bonsai_commit B b n) = (Ok (), set_trie bk t b')
    \<and> tree b' = tree (trie_of bk t) \<and> (\<forall>i. bonsai_root_hash B b' i = Ok (merkle (tree b' i)))"
  using assms commit_tree [of "trie_of bk t" n] by (auto simp: locked_update_def)

lemma locked_init:
  assumes "\<not> dbk_poisoned bk t"
  shows "\<exists>b'. locked_update bk t err (\<lambda>b. bonsai_init_tree B b i) = (Ok (), set_trie bk t b')
    \<and> tree b' = tree (trie_of bk t)"
  using assms init_tree [of "trie_of bk t" i] by (auto simp: locked_update_def)

end

text \<open>The class of a contract, found in the diff or else in the state of the given block, and the leaf
  of a contract.\<close>

definition class_lookup :: "commitment_state_diff \<Rightarrow> ('h, 'c, 'a) override_handle \<Rightarrow> felt \<Rightarrow> 'h option \<Rightarrow> felt option" where
  "class_lookup csd ov a mh =
    (case map_of (csd_address_to_class_hash csd) a of
       Some c \<Rightarrow> Some c
     | None \<Rightarrow> (case mh of Some h \<Rightarrow> contract_class_hash_by_address (fallback ov) h a | None \<Rightarrow> None))"

definition nonce_lookup :: "commitment_state_diff \<Rightarrow> felt \<Rightarrow> felt" where
  "nonce_lookup csd a = (case map_of (csd_address_to_nonce csd) a of Some n \<Rightarrow> n | None \<Rightarrow> 0)"

definition contract_leaf :: "crypto_lib \<Rightarrow> felt \<Rightarrow> felt \<Rightarrow> felt \<Rightarrow> felt" where
  "contract_leaf K c root n = pedersen_hash K (pedersen_hash K (pedersen_hash K c root) n) 0"

lemma class_hash_lookup:
  assumes "felt_codec L" and "schemas ov Undefined = None"
  shows "class_hash L csd ov a mh = unwrap_opt (class_lookup csd ov a mh)"
  by (simp add: class_hash_def class_lookup_def for_schema_version_def assms(2)
    commitment_conversions [OF assms(1)] split: option.splits)

definition class_leaf :: "crypto_lib \<Rightarrow> felt \<Rightarrow> felt" where
  "class_leaf K compiled = poseidon_hash K (short_felt (ascii ''CONTRACT_CLASS_LEAF_V0'')) compiled"

lemma class_leaf_version:
  assumes "felt_codec L"
  shows "fe_from_byte_slice_be L (ascii ''CONTRACT_CLASS_LEAF_V0'') = Ok (short_felt (ascii ''CONTRACT_CLASS_LEAF_V0''))"
  using be_nat_bound [of "ascii ''CONTRACT_CLASS_LEAF_V0''"]
  by (simp add: felt_codec.fe_from_byte_slice_be [OF assms] short_felt_def STARK_PRIME_def)

lemma leaf_hash_spec:
  assumes "felt_codec L" and "schemas ov Undefined = None"
  shows "contract_state_leaf_hash L K csd ov a root mh =
    map_ok (\<lambda>c. contract_leaf K c root (nonce_lookup csd a)) (unwrap_opt (class_lookup csd ov a mh))"
  by (cases "class_lookup csd ov a mh")
    (simp_all add: contract_state_leaf_hash_def Let_def commitment_conversions [OF assms(1)] contract_leaf_def
      nonce_lookup_def PedersenHasher_def class_hash_lookup [OF assms])

lemma contract_leaf_params:
  "calculate_contract_state_leaf_hash (PedersenHasher L K)
     \<lparr> clp_class_hash = c, clp_storage_root = root, clp_nonce = n \<rparr> = contract_leaf K c root n"
  by (simp add: calculate_contract_state_leaf_hash_def contract_leaf_def PedersenHasher_def ZERO_def)

context merkle_trie
begin

lemma contract_root_tree:
  assumes "felt_codec L" and "schemas ov Undefined = None"
    and p: "\<not> dbk_poisoned bk Contract" "\<not> dbk_poisoned bk ContractStorage"
    and t: "bonsai_transactional_state B (dbk_contract bk) n = Ok (Some t1)"
      "bonsai_transactional_state B (dbk_storage bk) n = Ok (Some t2)"
    and c: "\<And>a. a \<in> set addrs \<Longrightarrow> class_lookup csd ov a mh = Some (cls a)"
    and addrs: "addrs = schedule (map fst (csd_storage_updates csd))"
  shows "\<exists>bs bc. contract_trie_root schedule L K B ov bk csd n mh =
      (Ok (merkle (tree bc IDENT_CONTRACT)), bk\<lparr>dbk_storage := bs, dbk_contract := bc\<rparr>)
    \<and> tree bs = put_storage L (tree (dbk_storage bk)) (csd_storage_updates csd)
    \<and> tree bc = (tree (dbk_contract bk))(IDENT_CONTRACT := put_all (tree (dbk_contract bk) IDENT_CONTRACT)
        (map (\<lambda>a. (conv_contract_key L a, contract_leaf K (cls a) (merkle (tree bs (conv_contract_identifier L a)))
          (nonce_lookup csd a))) addrs))"
proof -
  have open1: "contract_mut B bk (BlockNumber n) = Ok (TrieMut t1)"
    and open2: "contract_storage_mut B bk (BlockNumber n) = Ok (TrieMut t2)"
    using p t by (simp_all add: contract_mut_def contract_storage_mut_def trie_handle_def conv_block_id_def)
  obtain b0 where b0: "contract_init B (TrieMut t1) bk = (Ok (), bk\<lparr>dbk_contract := b0\<rparr>)"
    "tree b0 = tree (dbk_contract bk)"
    using locked_init [OF p(1)] by (auto simp: contract_init_def)
  obtain b1 where b1: "storage_updates_loop L B (TrieMut t2) (bk\<lparr>dbk_contract := b0\<rparr>) (csd_storage_updates csd) =
      (Ok (), bk\<lparr>dbk_contract := b0, dbk_storage := b1\<rparr>)"
    "tree b1 = put_storage L (tree (dbk_storage bk)) (csd_storage_updates csd)"
    using storage_loop_tree [of "bk\<lparr>dbk_contract := b0\<rparr>" L "TrieMut t2" "csd_storage_updates csd"] p(2) by auto
  obtain bs where bs: "contract_storage_commit B (TrieMut t2) (bk\<lparr>dbk_contract := b0, dbk_storage := b1\<rparr>) (n + 1) =
      (Ok (), bk\<lparr>dbk_contract := b0, dbk_storage := bs\<rparr>)" "tree bs = tree b1"
    "\<And>i. bonsai_root_hash B bs i = Ok (merkle (tree bs i))"
    using locked_commit [of "bk\<lparr>dbk_contract := b0, dbk_storage := b1\<rparr>" ContractStorage TrieCommitError "n + 1"] p(2)
    by (auto simp: contract_storage_commit_def)
  define leaves where "leaves a = contract_leaf K (cls a) (merkle (tree bs (conv_contract_identifier L a)))
    (nonce_lookup csd a)" for a
  have upd: "try_map (\<lambda>a. res_bind (unwrap (contract_storage_view_root L B bs a)) (\<lambda>root.
      res_bind (contract_state_leaf_hash L K csd ov a root mh) (\<lambda>h. Ok (a, h)))) addrs
    = (Ok (map (\<lambda>a. (a, leaves a)) addrs) :: (deoxys_storage_error, (felt \<times> felt) list) res)"
    by (rule try_map_all_ok) (simp add: contract_storage_view_root_def bs leaf_hash_spec [OF assms(1,2)] c leaves_def)
  obtain b2 where b2: "contract_update L B (TrieMut t1) (bk\<lparr>dbk_contract := b0, dbk_storage := bs\<rparr>)
      (map (\<lambda>a. (a, leaves a)) addrs) = (Ok (), bk\<lparr>dbk_storage := bs, dbk_contract := b2\<rparr>)"
    "tree b2 = (tree b0)(IDENT_CONTRACT := put_all (tree b0 IDENT_CONTRACT) (map (\<lambda>a. (conv_contract_key L a, leaves a)) addrs))"
    using insert_loop_tree [of "bk\<lparr>dbk_contract := b0, dbk_storage := bs\<rparr>" Contract IDENT_CONTRACT
        "map (\<lambda>a. (conv_contract_key L a, leaves a)) addrs"] p(1)
    by (auto simp: contract_update_def comp_def)
  obtain bc where bc: "contract_commit B (TrieMut t1) (bk\<lparr>dbk_storage := bs, dbk_contract := b2\<rparr>) (n + 1) =
      (Ok (), bk\<lparr>dbk_storage := bs, dbk_contract := bc\<rparr>)" "tree bc = tree b2"
    "\<And>i. bonsai_root_hash B bc i = Ok (merkle (tree bc i))"
    using locked_commit [of "bk\<lparr>dbk_storage := bs, dbk_contract := b2\<rparr>" Contract TrieCommitError "n + 1"] p(1)
    by (auto simp: contract_commit_def)
  have "contract_trie_root schedule L K B ov bk csd n mh =
      (Ok (merkle (tree bc IDENT_CONTRACT)), bk\<lparr>dbk_storage := bs, dbk_contract := bc\<rparr>)"
    using p by (simp add: contract_trie_root_def open1 open2 b0(1) b1(1) bs(1) apply_changes_def contract_storage_view_def
      contract_view_def trie_read_def addrs [symmetric] upd b2(1) bc(1) contract_view_root_def bc(3)
      commitment_conversions [OF assms(1)])
  moreover have "tree bc = (tree (dbk_contract bk))(IDENT_CONTRACT := put_all (tree (dbk_contract bk) IDENT_CONTRACT)
      (map (\<lambda>a. (conv_contract_key L a, leaves a)) addrs))"
    by (simp only: bc(2) b2(2) b0(2))
  ultimately show ?thesis using trans [OF bs(2) b1(2)] unfolding leaves_def by blast
qed

lemma class_root_tree:
  assumes "felt_codec L" and p: "\<not> dbk_poisoned bk Class"
    and t: "bonsai_transactional_state B (dbk_class bk) n = Ok (Some t1)"
    and c: "\<And>h. h \<in> set hs \<Longrightarrow> map_of (csd_class_hash_to_compiled_class_hash csd) h = Some (cmp h)"
    and hs: "hs = schedule (map fst (csd_class_hash_to_compiled_class_hash csd))"
  shows "\<exists>bc. class_trie_root schedule L K B bk csd n =
      (Ok (merkle (tree bc IDENT_CLASS)), bk\<lparr>dbk_class := bc\<rparr>)
    \<and> tree bc = (tree (dbk_class bk))(IDENT_CLASS := put_all (tree (dbk_class bk) IDENT_CLASS)
        (map (\<lambda>h. (conv_class_key L h, class_leaf K (cmp h))) hs))"
proof -
  have open1: "class_mut B bk (BlockNumber n) = Ok (TrieMut t1)"
    using p t by (simp add: class_mut_def trie_handle_def conv_block_id_def)
  have version: "fe_from_byte_slice_be L (ascii ''CONTRACT_CLASS_LEAF_V0'') = Ok (short_felt (ascii ''CONTRACT_CLASS_LEAF_V0''))"
    by (rule class_leaf_version [OF assms(1)])
  have upd: "try_map (\<lambda>h. res_bind (unwrap_opt (map_of (csd_class_hash_to_compiled_class_hash csd) h)) (\<lambda>ch.
      res_bind (unwrap_opt (fe_from_bytes_be L (stark_bytes L ch))) (\<lambda>ch.
        Ok (h, hash_elements (PoseidonHasher L K) (short_felt (ascii ''CONTRACT_CLASS_LEAF_V0'')) ch)))) hs
    = (Ok (map (\<lambda>h. (h, class_leaf K (cmp h))) hs) :: (deoxys_storage_error, (felt \<times> felt) list) res)"
    by (rule try_map_all_ok) (simp add: c commitment_conversions [OF assms(1)] class_leaf_def PoseidonHasher_def)
  obtain b0 where b0: "class_init B (TrieMut t1) bk = (Ok (), bk\<lparr>dbk_class := b0\<rparr>)" "tree b0 = tree (dbk_class bk)"
    using locked_init [OF p, of TrieInitError IDENT_CLASS] by (auto simp: class_init_def)
  obtain b2 where b2: "class_update L B (TrieMut t1) (bk\<lparr>dbk_class := b0\<rparr>) (map (\<lambda>h. (h, class_leaf K (cmp h))) hs) =
      (Ok (), bk\<lparr>dbk_class := b2\<rparr>)"
    "tree b2 = (tree b0)(IDENT_CLASS := put_all (tree b0 IDENT_CLASS)
      (map (\<lambda>h. (conv_class_key L h, class_leaf K (cmp h))) hs))"
    using insert_loop_tree [of "bk\<lparr>dbk_class := b0\<rparr>" Class IDENT_CLASS
        "map (\<lambda>h. (conv_class_key L h, class_leaf K (cmp h))) hs"] p
    by (auto simp: BonsaiStore.class_update_def comp_def commitment_conversions [OF assms(1)])
  obtain bc where bc: "class_commit B (TrieMut t1) (bk\<lparr>dbk_class := b2\<rparr>) (n + 1) = (Ok (), bk\<lparr>dbk_class := bc\<rparr>)"
    "tree bc = tree b2" "\<And>i. bonsai_root_hash B bc i = Ok (merkle (tree bc i))"
    using locked_commit [of "bk\<lparr>dbk_class := b2\<rparr>" Class TrieCommitError "n + 1"] p
    by (auto simp: class_commit_def)
  have "class_trie_root schedule L K B bk csd n = (Ok (merkle (tree bc IDENT_CLASS)), bk\<lparr>dbk_class := bc\<rparr>)"
    using p by (simp add: class_trie_root_def open1 version hs [symmetric] upd b0(1) b2(1) bc(1) apply_changes_def
      class_view_def trie_read_def class_view_root_def bc(3) commitment_conversions(2) [OF assms(1)])
  moreover have "tree bc = (tree (dbk_class bk))(IDENT_CLASS := put_all (tree (dbk_class bk) IDENT_CLASS)
      (map (\<lambda>h. (conv_class_key L h, class_leaf K (cmp h))) hs))"
    by (simp only: bc(2) b2(2) b0(2))
  ultimately show ?thesis by blast
qed

end

lemma put_all_keys:
  assumes "inj_on key (insert x (fst ` set kvs))"
  shows "put_all m (map (\<lambda>(k, v). (key k, v)) kvs) (key x) = (case map_of (rev kvs) x of Some v \<Rightarrow> leaf v | None \<Rightarrow> m (key x))"
  using assms
proof (induction kvs arbitrary: m)
  case (Cons kv kvs)
  obtain k v where kv: "kv = (k, v)" by (cases kv)
  have "inj_on key (insert x (fst ` set kvs))" using Cons.prems by (rule inj_on_subset) auto
  moreover have "key x = key k \<longleftrightarrow> x = k" using Cons.prems kv by (auto dest: inj_onD)
  ultimately show ?case using Cons.IH by (auto simp: kv map_add_def split: option.split)
qed simp

lemma put_all_perm:
  assumes "mset ks = mset ks'" and "inj_on key (insert x (set ks))"
  shows "put_all m (map (\<lambda>k. (key k, f k)) ks') (key x) = (if x \<in> set ks then leaf (f x) else m (key x))"
proof -
  have ks': "set ks' = set ks" using assms(1) by (metis mset_eq_setD)
  have "map_of (rev (map (\<lambda>k. (k, f k)) ks')) x = (if x \<in> set ks then Some (f x) else None)"
    unfolding rev_map map_of_map_restrict using ks' by (simp add: restrict_map_def)
  then show ?thesis
    using put_all_keys [of key x "map (\<lambda>k. (k, f k)) ks'" m] assms(2) ks' by (simp add: comp_def image_image)
qed

definition key_space :: "felt \<Rightarrow> bool" where
  "key_space f \<longleftrightarrow> felt_nat f < 2 ^ 251"

lemma trie_keys_inj:
  assumes "felt_codec L" and "\<forall>f \<in> A. key_space f"
  shows "inj_on (conv_contract_key L) A" and "inj_on (conv_contract_storage_key L) A" and "inj_on (conv_class_key L) A"
  using assms(2) trie_key_inj [OF assms(1)] by (auto simp: inj_on_def conv_keys key_space_def)

lemma identifier_eq:
  assumes "felt_codec L"
  shows "conv_contract_identifier L a = conv_contract_identifier L a' \<longleftrightarrow> a = a'"
  using be_felt by (metis conv_contract_identifier_def felt_codec.stark_bytes [OF assms] felt_eq_iff)

lemma conv_value:
  assumes "felt_codec L"
  shows "conv_contract_value L v = v"
  by (simp add: conv_contract_value_def felt_codec.stark_bytes [OF assms] felt_codec.core_from_bytes_be [OF assms] be_felt
    del: nat_be.simps)

lemma put_storage_lookup:
  assumes "felt_codec L" and "distinct (map fst entries)" and "key_space k"
    and "\<forall>(a, kvs) \<in> set entries. \<forall>(k, v) \<in> set kvs. key_space k"
  shows "put_storage L T entries (conv_contract_identifier L a) (conv_contract_storage_key L k) =
    (case map_of entries a of
       Some kvs \<Rightarrow> (case map_of (rev kvs) k of Some v \<Rightarrow> leaf v
         | None \<Rightarrow> T (conv_contract_identifier L a) (conv_contract_storage_key L k))
     | None \<Rightarrow> T (conv_contract_identifier L a) (conv_contract_storage_key L k))"
  using assms(2,4)
proof (induction entries arbitrary: T)
  case (Cons entry entries)
  obtain a' kvs where e: "entry = (a', kvs)" by (cases entry)
  have skeys: "map (skey L) kvs = map (\<lambda>(k, v). (conv_contract_storage_key L k, v)) kvs"
    by (simp add: skey_def conv_value [OF assms(1)] split_def)
  have inj: "inj_on (conv_contract_storage_key L) (insert k (fst ` set kvs))"
    using Cons.prems(2) assms(3) by (intro trie_keys_inj(2) [OF assms(1)]) (auto simp: e)
  have step: "put_storage L T (entry # entries) = put_storage L (T(conv_contract_identifier L a' :=
      put_all (T (conv_contract_identifier L a')) (map (skey L) kvs))) entries"
    by (simp add: put_storage_def e)
  have IH: "put_storage L T' entries (conv_contract_identifier L a) (conv_contract_storage_key L k) =
    (case map_of entries a of
       Some kvs \<Rightarrow> (case map_of (rev kvs) k of Some v \<Rightarrow> leaf v
         | None \<Rightarrow> T' (conv_contract_identifier L a) (conv_contract_storage_key L k))
     | None \<Rightarrow> T' (conv_contract_identifier L a) (conv_contract_storage_key L k))" for T'
    using Cons by simp
  show ?case
  proof (cases "a = a'")
    case True
    then have "map_of entries a = None" using Cons.prems(1) by (simp add: e map_of_eq_None_iff)
    with True show ?thesis unfolding step IH
      by (simp add: e skeys put_all_keys [OF inj] split: option.split)
  next
    case False
    then show ?thesis
      unfolding step IH by (simp add: e identifier_eq [OF assms(1)] split: option.split)
  qed
qed (simp add: put_storage_def)

text \<open>The inputs of an update: the keys of the diff are distinct, as in an \<open>IndexMap\<close>, and in the key
  space; the class of every contract of the diff is known; the three tries can be opened.\<close>

definition diff_ok :: "commitment_state_diff \<Rightarrow> bool" where
  "diff_ok csd \<longleftrightarrow> distinct (map fst (csd_storage_updates csd))
    \<and> distinct (map fst (csd_class_hash_to_compiled_class_hash csd))
    \<and> (\<forall>(a, kvs) \<in> set (csd_storage_updates csd). key_space a \<and> (\<forall>(k, v) \<in> set kvs. key_space k))
    \<and> (\<forall>(h, c) \<in> set (csd_class_hash_to_compiled_class_hash csd). key_space h)"

definition tries_open :: "('b, 'tr) bonsai_lib \<Rightarrow> 'b deoxys_backend \<Rightarrow> 64 word \<Rightarrow> bool" where
  "tries_open B bk n \<longleftrightarrow> (\<forall>t. \<not> dbk_poisoned bk t \<and> (\<exists>tr. bonsai_transactional_state B (trie_of bk t) n = Ok (Some tr)))"

definition state_commitment :: "crypto_lib \<Rightarrow> felt \<Rightarrow> felt \<Rightarrow> felt" where
  "state_commitment K contracts classes =
    (if classes = 0 then contracts else poseidon_hash_many K [short_felt (ascii ''STARKNET_STATE_V0''), contracts, classes])"

lemma state_root_commitment:
  assumes "felt_codec L"
  shows "calculate_state_root L (PoseidonHasher L K) contracts classes = Ok (state_commitment K contracts classes)"
  using be_nat_bound [of "ascii ''STARKNET_STATE_V0''"]
  by (simp add: calculate_state_root_def felt_codec.slice_accept [OF assms] state_commitment_def short_felt_def
    STARK_PRIME_def ZERO_def PoseidonHasher_def)

text \<open>C7: updating the state root writes a block's diff to the tries and returns their commitment.
  Whatever order the parallel workers deliver in, the update succeeds; afterwards the storage tries
  hold the diff's values over the old ones, the contract trie holds for every contract with storage
  updates the hash of its class, its new storage root and its nonce (zero for a contract whose nonce
  is not in the diff) and the old leaf for all others, the class trie holds the hash of every declared
  class, and the result is the Poseidon hash of the two roots, or the contract root alone while there
  are no classes.\<close>

theorem update_state_root_spec:
  assumes "felt_codec L" and "merkle_trie B tree merkle" and "\<And>xs. mset (schedule xs) = mset xs"
    and "tries_open B bk n" and "diff_ok csd" and "schemas ov Undefined = None"
    and "\<And>a. a \<in> fst ` set (csd_storage_updates csd) \<Longrightarrow> class_lookup csd ov a mh = Some (cls a)"
  shows "\<exists>bk'. update_state_root schedule L K B ov bk csd n mh =
      (Ok (state_commitment K (merkle (tree (dbk_contract bk') IDENT_CONTRACT)) (merkle (tree (dbk_class bk') IDENT_CLASS))), bk')
    \<and> (\<forall>a k. key_space k \<longrightarrow> tree (dbk_storage bk') (conv_contract_identifier L a) (conv_contract_storage_key L k) =
        (case Option.bind (map_of (csd_storage_updates csd) a) (\<lambda>kvs. map_of (rev kvs) k) of
           Some v \<Rightarrow> leaf v
         | None \<Rightarrow> tree (dbk_storage bk) (conv_contract_identifier L a) (conv_contract_storage_key L k)))
    \<and> (\<forall>a. key_space a \<longrightarrow> tree (dbk_contract bk') IDENT_CONTRACT (conv_contract_key L a) =
        (if a \<in> fst ` set (csd_storage_updates csd)
         then leaf (contract_leaf K (cls a) (merkle (tree (dbk_storage bk') (conv_contract_identifier L a))) (nonce_lookup csd a))
         else tree (dbk_contract bk) IDENT_CONTRACT (conv_contract_key L a)))
    \<and> (\<forall>h. key_space h \<longrightarrow> tree (dbk_class bk') IDENT_CLASS (conv_class_key L h) =
        (case map_of (csd_class_hash_to_compiled_class_hash csd) h of
           Some c \<Rightarrow> leaf (class_leaf K c)
         | None \<Rightarrow> tree (dbk_class bk) IDENT_CLASS (conv_class_key L h)))"
proof -
  let ?ups = "csd_storage_updates csd" and ?cls = "csd_class_hash_to_compiled_class_hash csd"
  have sets: "set (schedule xs) = set xs" for xs using assms(3) by (metis mset_eq_setD)
  obtain t1 t2 t3 where t: "bonsai_transactional_state B (dbk_contract bk) n = Ok (Some t1)"
    "bonsai_transactional_state B (dbk_storage bk) n = Ok (Some t2)"
    "bonsai_transactional_state B (dbk_class bk) n = Ok (Some t3)"
    using assms(4) unfolding tries_open_def by (metis trie_of.simps)
  have p: "\<not> dbk_poisoned bk t" for t using assms(4) by (simp add: tries_open_def)
  have c: "class_lookup csd ov a mh = Some (cls a)" if "a \<in> set (schedule (map fst ?ups))" for a
    using that assms(7) by (simp add: sets)
  obtain bs bc where con: "contract_trie_root schedule L K B ov bk csd n mh =
      (Ok (merkle (tree bc IDENT_CONTRACT)), bk\<lparr>dbk_storage := bs, dbk_contract := bc\<rparr>)"
    "tree bs = put_storage L (tree (dbk_storage bk)) ?ups"
    "tree bc = (tree (dbk_contract bk))(IDENT_CONTRACT := put_all (tree (dbk_contract bk) IDENT_CONTRACT)
        (map (\<lambda>a. (conv_contract_key L a, contract_leaf K (cls a) (merkle (tree bs (conv_contract_identifier L a)))
          (nonce_lookup csd a))) (schedule (map fst ?ups))))"
    using merkle_trie.contract_root_tree [OF assms(2,1,6) p p t(1,2) c refl] by blast
  let ?bk = "bk\<lparr>dbk_storage := bs, dbk_contract := bc\<rparr>"
  have m: "map_of ?cls h = Some (the (map_of ?cls h))" if "h \<in> set (schedule (map fst ?cls))" for h
    using that by (auto simp: sets dest: weak_map_of_SomeI)
  obtain bl where cla: "class_trie_root schedule L K B ?bk csd n = (Ok (merkle (tree bl IDENT_CLASS)), ?bk\<lparr>dbk_class := bl\<rparr>)"
    "tree bl = (tree (dbk_class bk))(IDENT_CLASS := put_all (tree (dbk_class bk) IDENT_CLASS)
        (map (\<lambda>h. (conv_class_key L h, class_leaf K (the (map_of ?cls h)))) (schedule (map fst ?cls))))"
    using merkle_trie.class_root_tree [OF assms(2,1), of ?bk n t3 "schedule (map fst ?cls)" csd "\<lambda>h. the (map_of ?cls h)" schedule K]
      p t(3) m by auto
  have run: "update_state_root schedule L K B ov bk csd n mh =
      (Ok (state_commitment K (merkle (tree bc IDENT_CONTRACT)) (merkle (tree bl IDENT_CLASS))), ?bk\<lparr>dbk_class := bl\<rparr>)"
    by (simp add: update_state_root_def con(1) cla(1) state_root_commitment [OF assms(1)])
  have spaces: "\<forall>a \<in> fst ` set ?ups. key_space a" "\<forall>h \<in> fst ` set ?cls. key_space h" "distinct (map fst ?ups)"
    "\<forall>(a, kvs) \<in> set ?ups. \<forall>(k, v) \<in> set kvs. key_space k"
    using assms(5) by (fastforce simp: diff_ok_def)+
  have storage: "tree bs (conv_contract_identifier L a) (conv_contract_storage_key L k) =
      (case Option.bind (map_of ?ups a) (\<lambda>kvs. map_of (rev kvs) k) of
         Some v \<Rightarrow> leaf v
       | None \<Rightarrow> tree (dbk_storage bk) (conv_contract_identifier L a) (conv_contract_storage_key L k))"
    if "key_space k" for a k
    unfolding con(2) put_storage_lookup [OF assms(1) spaces(3) that spaces(4)] by (cases "map_of ?ups a") simp_all
  have contract: "tree bc IDENT_CONTRACT (conv_contract_key L a) =
      (if a \<in> fst ` set ?ups
       then leaf (contract_leaf K (cls a) (merkle (tree bs (conv_contract_identifier L a))) (nonce_lookup csd a))
       else tree (dbk_contract bk) IDENT_CONTRACT (conv_contract_key L a))" if "key_space a" for a
    using put_all_perm [OF assms(3) [symmetric], of "conv_contract_key L" a "map fst ?ups"]
      trie_keys_inj(1) [OF assms(1), of "insert a (fst ` set ?ups)"] spaces(1) that
    by (simp add: con(3))
  have "tree bl IDENT_CLASS (conv_class_key L h) =
      (if h \<in> fst ` set ?cls then leaf (class_leaf K (the (map_of ?cls h))) else tree (dbk_class bk) IDENT_CLASS (conv_class_key L h))"
    if "key_space h" for h
    using put_all_perm [OF assms(3) [symmetric], of "conv_class_key L" h "map fst ?cls"]
      trie_keys_inj(3) [OF assms(1), of "insert h (fst ` set ?cls)"] spaces(2) that
    by (simp add: cla(2))
  then have classes: "tree bl IDENT_CLASS (conv_class_key L h) =
      (case map_of ?cls h of Some c \<Rightarrow> leaf (class_leaf K c) | None \<Rightarrow> tree (dbk_class bk) IDENT_CLASS (conv_class_key L h))"
    if "key_space h" for h
    using that map_of_eq_None_iff [of ?cls h] by (cases "map_of ?cls h") simp_all
  have sel: "dbk_storage (?bk\<lparr>dbk_class := bl\<rparr>) = bs" "dbk_contract (?bk\<lparr>dbk_class := bl\<rparr>) = bc"
    "dbk_class (?bk\<lparr>dbk_class := bl\<rparr>) = bl" by simp_all
  show ?thesis
    by (rule exI [of _ "?bk\<lparr>dbk_class := bl\<rparr>"], unfold sel, intro conjI allI impI run storage contract classes)
qed

section \<open>State diffs\<close>

definition index_map :: "('k \<times> 'v) list \<Rightarrow> ('k \<times> 'v) list" where
  "index_map kvs = fold (\<lambda>kv. AList.update (fst kv) (snd kv)) kvs []"

lemma index_map_snoc: "index_map (kvs @ [kv]) = AList.update (fst kv) (snd kv) (index_map kvs)"
  by (simp add: index_map_def)

lemma index_map_lookup: "map_of (index_map kvs) = map_of (rev kvs)"
  by (induction kvs rule: rev_induct) (auto simp: index_map_snoc update_conv' index_map_def)

lemma index_map_distinct: "distinct (map fst (index_map kvs))"
  by (induction kvs rule: rev_induct) (simp_all add: index_map_snoc distinct_update, simp add: index_map_def)

lemma try_fold_Ok_fold: "(\<And>s x. f s x = Ok (g x s)) \<Longrightarrow> try_fold f s xs = Ok (fold g xs s)"
  by (induction xs arbitrary: s) simp_all

definition diff_of :: "state_diff \<Rightarrow> commitment_state_diff" where
  "diff_of d =
    \<lparr> csd_address_to_class_hash = index_map (map (\<lambda>c. (dep_address c,
        if dep_address c = 1 then 0 else dep_class_hash c)) (deployed_contracts d)),
      csd_address_to_nonce = index_map (nonces d),
      csd_storage_updates = index_map (map (\<lambda>(a, ds). (a, index_map (map (\<lambda>s. (sd_key s, sd_value s)) ds)))
        (storage_diffs d)),
      csd_class_hash_to_compiled_class_hash = index_map (map (\<lambda>c. (dec_class_hash c, dec_compiled_class_hash c))
        (declared_classes d)) \<rparr>"

lemma fold_index_map:
  "fold (\<lambda>x. AList.update (k x) (v x)) xs [] = index_map (map (\<lambda>x. (k x, v x)) xs)"
  by (simp add: index_map_def fold_map comp_def)

lemma fold_field:
  assumes "\<And>r f g. upd f (upd g r) = upd (\<lambda>x. f (g x)) r" and "\<And>r. upd (\<lambda>x. x) r = r"
  shows "fold (\<lambda>x. upd (h x)) xs r = upd (\<lambda>y. fold h xs y) r"
  using assms by (induction xs arbitrary: r) (simp_all add: id_def comp_def)

lemma fold_csd:
  "fold (\<lambda>x. csd_address_to_class_hash_update (h x)) xs r = csd_address_to_class_hash_update (fold h xs) r"
  "fold (\<lambda>x. csd_address_to_nonce_update (h x)) xs r = csd_address_to_nonce_update (fold h xs) r"
  "fold (\<lambda>x. csd_storage_updates_update (h' x)) xs r = csd_storage_updates_update (fold h' xs) r"
  "fold (\<lambda>x. csd_class_hash_to_compiled_class_hash_update (h x)) xs r =
    csd_class_hash_to_compiled_class_hash_update (fold h xs) r"
  by (rule fold_field; simp add: comp_def)+

lemma build_diff_value:
  assumes "felt_codec L"
  shows "build_commitment_state_diff L su = Ok (diff_of (su_state_diff su))"
proof -
  note conv = genesis_conversions [OF assms] commitment_conversions [OF assms]
  have deployed: "add_deployed L csd c = Ok (csd_address_to_class_hash_update
      (AList.update (dep_address c) (if dep_address c = 1 then 0 else dep_class_hash c)) csd)" for csd c
    by (simp add: add_deployed_def conv ONE_def ZERO_def)
  have nonce: "add_nonce L csd e = Ok (csd_address_to_nonce_update (AList.update (fst e) (snd e)) csd)" for csd e
    by (simp add: add_nonce_def conv)
  have inner: "try_fold (\<lambda>m d. res_bind (storage_key_of L (sd_key d)) (\<lambda>k. res_bind (into_stark_felt L (sd_value d)) (\<lambda>v.
      Ok (AList.update k v m)))) [] ds = Ok (index_map (map (\<lambda>s. (sd_key s, sd_value s)) ds))" for ds
    unfolding fold_index_map [symmetric] by (rule try_fold_Ok_fold) (simp add: conv)
  have storage: "add_storage L csd e = Ok (csd_storage_updates_update
      (AList.update (fst e) (index_map (map (\<lambda>s. (sd_key s, sd_value s)) (snd e)))) csd)" for csd e
    by (simp add: add_storage_def conv(1) inner)
  have declared: "add_declared L csd c = Ok (csd_class_hash_to_compiled_class_hash_update
      (AList.update (dec_class_hash c) (dec_compiled_class_hash c)) csd)" for csd c
    by (simp add: add_declared_def conv)
  show ?thesis
    by (simp add: build_commitment_state_diff_def Let_def try_fold_Ok_fold [OF deployed] try_fold_Ok_fold [OF nonce]
      try_fold_Ok_fold [OF storage] try_fold_Ok_fold [OF declared] fold_csd diff_of_def split_def fold_index_map)
qed

text \<open>C10: the diff that is committed is the one that was fetched: converting a state update never fails,
  every address, key and class appears once and with the last value the update gives it, the contract
  at address 1 gets class hash zero, and nothing is added; replaced classes and classes declared in
  the old format do not enter it.\<close>

theorem build_state_diff_spec:
  assumes "felt_codec L"
  shows "\<exists>csd. build_commitment_state_diff L su = Ok csd
    \<and> (case su_state_diff su of d \<Rightarrow>
        map_of (csd_address_to_class_hash csd) = map_of (rev (map (\<lambda>c. (dep_address c,
          if dep_address c = 1 then 0 else dep_class_hash c)) (deployed_contracts d)))
      \<and> map_of (csd_address_to_nonce csd) = map_of (rev (nonces d))
      \<and> map_of (csd_class_hash_to_compiled_class_hash csd) =
          map_of (rev (map (\<lambda>c. (dec_class_hash c, dec_compiled_class_hash c)) (declared_classes d)))
      \<and> map_of (csd_storage_updates csd) a =
          map_option (\<lambda>ds. index_map (map (\<lambda>s. (sd_key s, sd_value s)) ds)) (map_of (rev (storage_diffs d)) a)
      \<and> map_of (index_map (map (\<lambda>s. (sd_key s, sd_value s)) ds)) = map_of (rev (map (\<lambda>s. (sd_key s, sd_value s)) ds)))
    \<and> distinct (map fst (csd_address_to_class_hash csd)) \<and> distinct (map fst (csd_address_to_nonce csd))
    \<and> distinct (map fst (csd_storage_updates csd)) \<and> distinct (map fst (csd_class_hash_to_compiled_class_hash csd))
    \<and> build_commitment_state_diff L (su\<lparr>su_state_diff := (su_state_diff su)\<lparr>replaced_classes := r, old_declared_contracts := old\<rparr>\<rparr>) = Ok csd"
proof -
  have "map_of (rev (map (\<lambda>(a, ds). (a, f ds)) xs)) a = map_option f (map_of (rev xs) a)" for f :: "storage_diff list \<Rightarrow> _" and xs
    unfolding rev_map by (simp add: map_of_map)
  then show ?thesis
    by (simp add: build_diff_value [OF assms] diff_of_def index_map_lookup index_map_distinct)
qed

section \<open>A reference trie\<close>

definition count_bonsai :: "(map_trie, unit) bonsai_lib" where
  "count_bonsai = map_bonsai\<lparr>bonsai_root_hash := (\<lambda>b i. Ok (felt_of_nat (card (dom (\<lambda>k. b (i, k))))))\<rparr>"

interpretation count_trie: merkle_trie count_bonsai "\<lambda>b i k. b (i, k)" "\<lambda>m. felt_of_nat (card (dom m))"
proof
  fix b :: map_trie and i k v
  show "\<exists>b'. bonsai_ins count_bonsai b i k v = Ok b' \<and>
      (\<lambda>i k. b' (i, k)) = (\<lambda>i k. b (i, k))(i := (\<lambda>k. b (i, k))(k := leaf v))"
    by (intro exI [of _ "b((i, k) := leaf v)"]) (auto simp: count_bonsai_def map_bonsai_def fun_eq_iff)
qed (simp_all add: count_bonsai_def map_bonsai_def)

lemma count_merkle: "merkle_trie count_bonsai (\<lambda>b i k. b (i, k)) (\<lambda>m. felt_of_nat (card (dom m)))"
  by (rule count_trie.merkle_trie_axioms)

definition sample_update :: state_update where
  "sample_update = \<lparr> su_block_hash = None, su_new_root = None, su_old_root = 0,
     su_state_diff = \<lparr> storage_diffs = [(7, [\<lparr> sd_key = 3, sd_value = 4 \<rparr>, \<lparr> sd_key = 3, sd_value = 5 \<rparr>])],
       deployed_contracts = [\<lparr> dep_address = 7, dep_class_hash = 9 \<rparr>], old_declared_contracts = [],
       declared_classes = [\<lparr> dec_class_hash = 9, dec_compiled_class_hash = 8 \<rparr>], nonces = [],
       replaced_classes = [] \<rparr> \<rparr>"

lemma sample_diff_of: "diff_of (su_state_diff sample_update) =
    \<lparr> csd_address_to_class_hash = [(7, 9)], csd_address_to_nonce = [], csd_storage_updates = [(7, [(3, 5)])],
      csd_class_hash_to_compiled_class_hash = [(9, 8)] \<rparr>"
proof -
  have "(7 :: felt) \<noteq> 1" by (simp add: felt_eq_iff felt_nat_numeral STARK_PRIME_def)
  then show ?thesis by (simp add: diff_of_def sample_update_def index_map_def)
qed

theorem build_state_diff_spec_witness:
  "\<exists>csd. build_commitment_state_diff ref_felt_lib sample_update = Ok csd
    \<and> map_of (csd_storage_updates csd) 7 = Some [(3, 5)]"
  using build_state_diff_spec [OF ref_felt_codec, of sample_update 7 "[]" "[]" "[]"]
  by (auto simp: sample_update_def index_map_def)

definition sample_override :: "(unit, felt, felt) override_handle" where
  "sample_override = overrides_handle ref_frame (ref_raw empty_storage) (\<lambda>_. Ok empty_storage)"

theorem update_state_root_spec_witness:
  "\<exists>bk'. update_state_root rev ref_felt_lib ref_crypto count_bonsai sample_override empty_backend
      (diff_of (su_state_diff sample_update)) 5 None =
    (Ok (state_commitment ref_crypto (felt_of_nat (card (dom (\<lambda>k. dbk_contract bk' (IDENT_CONTRACT, k)))))
      (felt_of_nat (card (dom (\<lambda>k. dbk_class bk' (IDENT_CLASS, k)))))), bk')
    \<and> dbk_storage bk' (conv_contract_identifier ref_felt_lib 7, conv_contract_storage_key ref_felt_lib 3) = Some 5"
proof -
  have small: "key_space 3" "key_space 7" "key_space 9" by (simp_all add: key_space_def felt_nat_numeral STARK_PRIME_def)
  have five: "leaf 5 = Some 5" by (simp add: leaf_def felt_eq_iff felt_nat_numeral STARK_PRIME_def)
  have op: "tries_open count_bonsai empty_backend 5"
    by (simp add: tries_open_def empty_backend_def count_bonsai_def map_bonsai_def)
  have ok: "diff_ok (diff_of (su_state_diff sample_update))" by (simp add: diff_ok_def sample_diff_of small)
  have cls: "class_lookup (diff_of (su_state_diff sample_update)) sample_override a None = Some 9"
    if "a \<in> fst ` set (csd_storage_updates (diff_of (su_state_diff sample_update)))" for a
    using that by (simp add: class_lookup_def sample_diff_of)
  have none: "schemas sample_override Undefined = None" by (simp add: sample_override_def overrides_handle_def)
  obtain bk' where "update_state_root rev ref_felt_lib ref_crypto count_bonsai sample_override empty_backend
      (diff_of (su_state_diff sample_update)) 5 None =
    (Ok (state_commitment ref_crypto (felt_of_nat (card (dom (\<lambda>k. dbk_contract bk' (IDENT_CONTRACT, k)))))
      (felt_of_nat (card (dom (\<lambda>k. dbk_class bk' (IDENT_CLASS, k)))))), bk')"
    and "\<forall>a k. key_space k \<longrightarrow> dbk_storage bk' (conv_contract_identifier ref_felt_lib a, conv_contract_storage_key ref_felt_lib k) =
        (case Option.bind (map_of (csd_storage_updates (diff_of (su_state_diff sample_update))) a) (\<lambda>kvs. map_of (rev kvs) k) of
           Some v \<Rightarrow> leaf v
         | None \<Rightarrow> dbk_storage empty_backend (conv_contract_identifier ref_felt_lib a, conv_contract_storage_key ref_felt_lib k))"
    using update_state_root_spec [where schedule = rev and K = ref_crypto and cls = "\<lambda>_. 9",
        OF ref_felt_codec count_merkle _ op ok none cls] by auto
  then show ?thesis by (auto simp: sample_diff_of small five)
qed

definition sample_event :: "felt \<Rightarrow> event" where
  "sample_event f = \<lparr> ev_from_address = f, ev_keys = [], ev_data = [] \<rparr>"

theorem block_commitments_witness:
  "calculate_commitments ref_felt_lib ref_crypto count_bonsai (Ok Map.empty) 0 [] [sample_event 1] 0 5 =
    Ok (felt_of_nat (card (dom (index_leaves []))),
      felt_of_nat (card (dom (index_leaves [event_digest ref_crypto (sample_event 1)]))))"
  using block_commitments [OF ref_felt_codec count_merkle, of Map.empty ref_crypto 0 5 "[]" "[]" "[sample_event 1]" 0]
  by (simp add: fun_eq_iff)

lemma card_index_leaves:
  assumes "0 \<notin> set hs" and "length hs \<le> 2 ^ 64"
  shows "card (dom (index_leaves hs)) = length hs"
proof -
  have val: "bits_val (index_key i) = i \<and> length (index_key i) = 64" if "i < length hs" for i
    using that assms(2) index_key_val [of i] by (simp del: power_numeral)
  have "dom (index_leaves hs) = index_key ` {..<length hs}"
  proof (intro equalityI subsetI)
    fix k assume "k \<in> dom (index_leaves hs)"
    then have k: "length k = 64" "bits_val k < length hs" by (auto simp: index_leaves_def split: if_splits)
    with val [OF k(2)] have "k = index_key (bits_val k)" using bits_val_inj by metis
    with k(2) show "k \<in> index_key ` {..<length hs}" by blast
  next
    fix k assume "k \<in> index_key ` {..<length hs}"
    then obtain i where i: "i < length hs" "k = index_key i" by blast
    then have "hs ! i \<noteq> 0" using assms(1) nth_mem by metis
    with i val [OF i(1)] show "k \<in> dom (index_leaves hs)" by (simp add: index_leaves_def leaf_def dom_def)
  qed
  moreover have "inj_on index_key {..<length hs}" using val by (metis inj_onI lessThan_iff)
  ultimately show ?thesis by (simp add: card_image)
qed

theorem event_commitment_binds_witness:
  "memory_event_commitment ref_felt_lib ref_crypto count_bonsai (Ok Map.empty) 0 [sample_event 1] \<noteq>
   memory_event_commitment ref_felt_lib ref_crypto count_bonsai (Ok Map.empty) 0 [sample_event 1, sample_event 1]"
proof -
  let ?d = "event_digest ref_crypto (sample_event 1)"
  have d: "?d \<noteq> 0"
    by (simp add: event_digest_def sample_event_def ref_crypto_def toy_hash_def felt_eq_iff STARK_PRIME_def)
  then have c: "card (dom (index_leaves [?d])) = 1" "card (dom (index_leaves [?d, ?d])) = 2"
    using card_index_leaves [of "[?d]"] card_index_leaves [of "[?d, ?d]"] by simp_all
  have "felt_of_nat (card (dom (index_leaves [?d]))) \<noteq> felt_of_nat (card (dom (index_leaves [?d, ?d])))"
    unfolding c by (simp add: felt_eq_iff STARK_PRIME_def)
  with event_commitment_binds [OF ref_felt_codec count_merkle, of Map.empty "[sample_event 1]"
      "[sample_event 1, sample_event 1]" ref_crypto 0] d show ?thesis by (simp add: event_leaves_def eq_commute [of "0 :: felt"])
qed

end
