(* ===== verification/MappingSync.thy ===== *)
theory MappingSync
  imports MappingDb Block
begin

text \<open>
  The worker that keeps the mapping database up to date with the Substrate chain,
  \<open>crates/client/mapping-sync/src/sync_blocks.rs\<close> and \<open>lib.rs\<close>, with \<open>get_block_by_block_hash\<close> of
  \<open>crates/client/rpc/src/utils.rs\<close>. The Substrate client (headers, leaves, the runtime call for the
  chain id) and \<open>f64\<close> are arguments. The worker walks from the tips of the chain towards the genesis:
  the theorems say what one step writes, that a call writes at most one block, and that repeated
  calls reach every block.
\<close>

section \<open>The surroundings of the worker\<close>

record substrate_header =
  sh_number :: "32 word"
  sh_parent_hash :: dhash
  sh_digest :: "digest_item list"

record substrate_client =
  cl_header :: "dhash \<Rightarrow> (unit, substrate_header option) res"
  cl_leaves :: "(unit, dhash list) res"
  cl_hash_of :: "substrate_header \<Rightarrow> dhash"
  cl_chain_id :: "dhash \<Rightarrow> (unit, felt) res"

record 'f f64_ops =
  f64_of_u64 :: "64 word \<Rightarrow> 'f"
  f64_of_u128 :: "128 word \<Rightarrow> 'f option"
  f64_plus :: "'f \<Rightarrow> 'f \<Rightarrow> 'f"
  f64_MIN :: 'f

record 'f block_metrics =
  bm_block_height :: 'f
  bm_transaction_count :: 'f
  bm_event_count :: 'f
  bm_l1_gas_price_wei :: 'f
  bm_l1_gas_price_strk :: 'f

record ('db, 'f) sync_state =
  ss_db :: 'db
  ss_metrics :: "'f block_metrics option"

text \<open>The store, the codecs, the configuration of the caches, the libraries and the client.\<close>

record ('db, 'd, 'cu, 'f) sync_env =
  se_rocks :: "'db rocks"
  se_codecs :: "'d db_codecs"
  se_cache :: bool
  se_felt :: felt_lib
  se_crypto :: crypto_lib
  se_hasher :: hasher_t
  se_scale :: "'cu scale_lib"
  se_f64 :: "'f f64_ops"
  se_client :: substrate_client

datatype sync_error =
  SyncDb db_error | HashMismatch felt felt | MultipleLogsFound | HeaderNotFound | BlockchainError
| RuntimeApiError

datatype block_lookup_error = HeaderMissing | NoBlock find_log_error

text \<open>A write of the client database, as a step of the worker.\<close>

definition db_write :: "('db \<Rightarrow> (db_error, 'db) res) \<Rightarrow> ('db, 'f) sync_state
    \<Rightarrow> (sync_error, unit) res \<times> ('db, 'f) sync_state" where
  "db_write w st =
    (case w (ss_db st) of
       Ok db \<Rightarrow> (Ok (), st\<lparr>ss_db := db\<rparr>)
     | Err e \<Rightarrow> (Err (SyncDb e), st)
     | Panic \<Rightarrow> (Panic, st))"

section \<open>Syncing a block\<close>

definition get_block_by_block_hash :: "'cu scale_lib \<Rightarrow> substrate_client \<Rightarrow> dhash
    \<Rightarrow> (block_lookup_error, deoxys_block) res" where
  "get_block_by_block_hash S X block_hash =
    (case cl_header X block_hash of
       Ok (Some header) \<Rightarrow> map_err NoBlock (find_starknet_block S (sh_digest header))
     | Panic \<Rightarrow> Panic
     | _ \<Rightarrow> Err HeaderMissing)"

definition set_metrics :: "'f f64_ops \<Rightarrow> header \<Rightarrow> 'f block_metrics \<Rightarrow> 'f block_metrics" where
  "set_metrics F h bm =
    (let l1_gas_price = (case h_l1_gas_price h of Some g \<Rightarrow> g | None \<Rightarrow> unit_gas_prices);
         f64 = (\<lambda>n. case f64_of_u128 F n of Some f \<Rightarrow> f | None \<Rightarrow> f64_MIN F)
     in \<lparr> bm_block_height = f64_of_u64 F (h_block_number h),
          bm_transaction_count = f64_plus F (bm_transaction_count bm) (f64 (h_transaction_count h)),
          bm_event_count = f64_plus F (bm_event_count bm) (f64 (h_event_count h)),
          bm_l1_gas_price_wei = f64 (eth_l1_gas_price l1_gas_price),
          bm_l1_gas_price_strk = f64 (strk_l1_gas_price l1_gas_price) \<rparr>)"

definition sync_starknet_block :: "('db, 'd, 'cu, 'f) sync_env \<Rightarrow> dhash \<Rightarrow> deoxys_block \<Rightarrow> deoxys_block
    \<Rightarrow> ('db, 'f) sync_state \<Rightarrow> (sync_error, unit) res \<times> ('db, 'f) sync_state" where
  "sync_starknet_block E substrate_block_hash digest_starknet_block storage_starknet_block st =
    st_bind (unwrap (header_hash (se_felt E) (se_hasher E) (blk_header digest_starknet_block)), st)
      (\<lambda>digest_starknet_block_hash st.
    st_bind (unwrap (header_hash (se_felt E) (se_hasher E) (blk_header storage_starknet_block)), st)
      (\<lambda>storage_starknet_block_hash st.
    if digest_starknet_block_hash \<noteq> storage_starknet_block_hash
    then (Err (HashMismatch digest_starknet_block_hash storage_starknet_block_hash), st)
    else
      st_bind (map_err (\<lambda>_. RuntimeApiError) (cl_chain_id (se_client E) substrate_block_hash), st)
        (\<lambda>chain_id st.
      st_bind (unwrap (try_map (\<lambda>tx. compute_hash (se_felt E) (se_crypto E) (se_hasher E) tx chain_id False
            (Some (h_block_number (blk_header digest_starknet_block))))
          (blk_transactions digest_starknet_block)), st) (\<lambda>tx_hashes st.
      let mapping_commitment =
            \<lparr> mc_block_number = h_block_number (blk_header digest_starknet_block),
              mc_block_hash = substrate_block_hash,
              mc_starknet_block_hash = digest_starknet_block_hash,
              mc_starknet_transaction_hashes = tx_hashes \<rparr>;
          st = st\<lparr>ss_metrics :=
            map_option (set_metrics (se_f64 E) (blk_header digest_starknet_block)) (ss_metrics st)\<rparr>
      in db_write (\<lambda>db. write_hashes (se_rocks E) (se_codecs E) (se_cache E) db mapping_commitment) st))))"

definition sync_block :: "('db, 'd, 'cu, 'f) sync_env \<Rightarrow> substrate_header \<Rightarrow> ('db, 'f) sync_state
    \<Rightarrow> (sync_error, unit) res \<times> ('db, 'f) sync_state" where
  "sync_block E header st =
    (let substrate_block_hash = cl_hash_of (se_client E) header;
         none = db_write (\<lambda>db. write_none (se_rocks E) (se_codecs E) db substrate_block_hash)
     in case find_starknet_block (se_scale E) (sh_digest header) of
       Ok digest_starknet_block \<Rightarrow>
         (case get_block_by_block_hash (se_scale E) (se_client E) substrate_block_hash of
            Ok storage_starknet_block \<Rightarrow>
              sync_starknet_block E substrate_block_hash digest_starknet_block storage_starknet_block st
          | Err _ \<Rightarrow> none st
          | Panic \<Rightarrow> (Panic, st))
     | Err NotLog \<Rightarrow> none st
     | Err MultipleLogs \<Rightarrow> (Err MultipleLogsFound, st)
     | Panic \<Rightarrow> (Panic, st))"

definition sync_genesis_block :: "('db, 'd, 'cu, 'f) sync_env \<Rightarrow> substrate_header \<Rightarrow> ('db, 'f) sync_state
    \<Rightarrow> (sync_error, unit) res \<times> ('db, 'f) sync_state" where
  "sync_genesis_block E header st =
    (let substrate_block_hash = cl_hash_of (se_client E) header
     in case find_starknet_block (se_scale E) (sh_digest header) of
       Ok block \<Rightarrow>
         st_bind (unwrap (header_hash (se_felt E) (se_hasher E) (blk_header block)), st) (\<lambda>block_hash st.
         db_write (\<lambda>db. write_hashes (se_rocks E) (se_codecs E) (se_cache E) db
             \<lparr> mc_block_number = h_block_number (blk_header block),
               mc_block_hash = substrate_block_hash,
               mc_starknet_block_hash = block_hash,
               mc_starknet_transaction_hashes = [] \<rparr>) st)
     | Err NotLog \<Rightarrow> db_write (\<lambda>db. write_none (se_rocks E) (se_codecs E) db substrate_block_hash) st
     | Err MultipleLogs \<Rightarrow> (Err MultipleLogsFound, st)
     | Panic \<Rightarrow> (Panic, st))"

section \<open>Walking the tips\<close>

definition fetch_header :: "('db, 'd, 'cu, 'f) sync_env \<Rightarrow> 'db \<Rightarrow> dhash \<Rightarrow> 32 word
    \<Rightarrow> (sync_error, substrate_header option) res" where
  "fetch_header E db checking_tip sync_from =
    res_bind (map_err SyncDb (is_synced (se_rocks E) (se_codecs E) db checking_tip)) (\<lambda>synced.
      if synced then Ok None
      else case cl_header (se_client E) checking_tip of
          Ok (Some checking_header) \<Rightarrow>
            Ok (if sh_number checking_header \<ge> sync_from then Some checking_header else None)
        | Panic \<Rightarrow> Panic
        | _ \<Rightarrow> Err HeaderNotFound)"

text \<open>The \<open>while let Some(tip) = tips.pop()\<close> loop: the header found, if any, and the tips left.\<close>

function find_operating :: "('db, 'd, 'cu, 'f) sync_env \<Rightarrow> 'db \<Rightarrow> 32 word \<Rightarrow> dhash list
    \<Rightarrow> (sync_error, substrate_header option \<times> dhash list) res" where
  "find_operating E db sync_from tips =
    (if tips = [] then Ok (None, [])
     else res_bind (fetch_header E db (last tips) sync_from) (\<lambda>r.
       case r of
         Some checking_header \<Rightarrow> Ok (Some checking_header, butlast tips)
       | None \<Rightarrow> find_operating E db sync_from (butlast tips)))"
  by pat_completeness auto
termination by (relation "measure (\<lambda>(E, db, sync_from, tips). length tips)") auto

declare find_operating.simps [simp del]

definition write_tips :: "('db, 'd, 'cu, 'f) sync_env \<Rightarrow> dhash list \<Rightarrow> ('db, 'f) sync_state
    \<Rightarrow> (sync_error, unit) res \<times> ('db, 'f) sync_state" where
  "write_tips E tips = db_write (\<lambda>db. write_current_syncing_tips (se_rocks E) (se_codecs E) db tips)"

definition sync_operating :: "('db, 'd, 'cu, 'f) sync_env \<Rightarrow> substrate_header option \<times> dhash list
    \<Rightarrow> ('db, 'f) sync_state \<Rightarrow> (sync_error, bool) res \<times> ('db, 'f) sync_state" where
  "sync_operating E r st =
    (case r of
       (None, tips) \<Rightarrow> st_bind (write_tips E tips st) (\<lambda>_ st. (Ok False, st))
     | (Some operating_header, tips) \<Rightarrow>
         if sh_number operating_header = 0 then
           st_bind (sync_genesis_block E operating_header st) (\<lambda>_ st.
           st_bind (write_tips E tips st) (\<lambda>_ st. (Ok True, st)))
         else
           st_bind (sync_block E operating_header st) (\<lambda>_ st.
           st_bind (write_tips E (tips @ [sh_parent_hash operating_header]) st) (\<lambda>_ st. (Ok True, st))))"

definition sync_one_block :: "('db, 'd, 'cu, 'f) sync_env \<Rightarrow> 32 word \<Rightarrow> ('db, 'f) sync_state
    \<Rightarrow> (sync_error, bool) res \<times> ('db, 'f) sync_state" where
  "sync_one_block E sync_from st =
    st_bind (map_err SyncDb (current_syncing_tips (se_rocks E) (se_codecs E) (ss_db st)), st) (\<lambda>tips st.
    st_bind (if tips = [] then map_err (\<lambda>_. BlockchainError) (cl_leaves (se_client E)) else Ok tips, st)
      (\<lambda>tips st.
    if tips = [] then (Ok False, st)
    else st_bind (find_operating E (ss_db st) sync_from tips, st) (\<lambda>r st. sync_operating E r st)))"

text \<open>The body of the loop is not run once a block was synced: \<open>synced_any || ...\<close>.\<close>

primrec sync_loop :: "nat \<Rightarrow> ('db, 'd, 'cu, 'f) sync_env \<Rightarrow> 32 word \<Rightarrow> bool \<Rightarrow> ('db, 'f) sync_state
    \<Rightarrow> (sync_error, bool) res \<times> ('db, 'f) sync_state" where
  "sync_loop 0 E sync_from synced_any st = (Ok synced_any, st)"
| "sync_loop (Suc n) E sync_from synced_any st =
    (if synced_any then sync_loop n E sync_from True st
     else st_bind (sync_one_block E sync_from st) (\<lambda>r st. sync_loop n E sync_from r st))"

definition sync_blocks :: "('db, 'd, 'cu, 'f) sync_env \<Rightarrow> 64 word \<Rightarrow> 32 word \<Rightarrow> ('db, 'f) sync_state
    \<Rightarrow> (sync_error, bool) res \<times> ('db, 'f) sync_state" where
  "sync_blocks E limit sync_from st = sync_loop (unat limit) E sync_from False st"

section \<open>The worker\<close>

text \<open>A poll is given what the notification stream holds (the number of notifications ready, and
  whether the stream has ended after them) and whether the pending delay has elapsed.\<close>

record ('db, 'f) sync_worker =
  sw_inner_delay :: bool
  sw_have_next :: bool
  sw_retry_times :: "64 word"
  sw_sync_from :: "32 word"
  sw_state :: "('db, 'f) sync_state"

datatype poll = PollPending | PollReady "unit option" | PollPanic

definition worker_new :: "64 word \<Rightarrow> 32 word \<Rightarrow> ('db, 'f) sync_state \<Rightarrow> ('db, 'f) sync_worker" where
  "worker_new retry_times sync_from st =
    \<lparr> sw_inner_delay = False, sw_have_next = True, sw_retry_times = retry_times,
      sw_sync_from = sync_from, sw_state = st \<rparr>"

definition poll_next :: "('db, 'd, 'cu, 'f) sync_env \<Rightarrow> nat \<Rightarrow> bool \<Rightarrow> bool \<Rightarrow> ('db, 'f) sync_worker
    \<Rightarrow> poll \<times> ('db, 'f) sync_worker" where
  "poll_next E notifications stream_ended delay_elapsed w =
    (if stream_ended then (PollReady None, w)
     else
       let w = w\<lparr>sw_inner_delay := True\<rparr>;
           fire = (notifications > 0 \<or> delay_elapsed \<or> sw_have_next w)
       in if fire then
            let r = sync_blocks E (sw_retry_times w) (sw_sync_from w) (sw_state w);
                w = w\<lparr>sw_inner_delay := False, sw_state := snd r\<rparr>
            in case fst r of
                 Ok have_next \<Rightarrow> (PollReady (Some ()), w\<lparr>sw_have_next := have_next\<rparr>)
               | Err e \<Rightarrow> (PollReady (Some ()), w\<lparr>sw_have_next := False\<rparr>)
               | Panic \<Rightarrow> (PollPanic, w)
          else (PollPending, w))"

section \<open>The contract of the chain\<close>

text \<open>The blocks the walk can meet: the leaves and their ancestors down to the genesis.\<close>

inductive ancestor :: "substrate_client \<Rightarrow> dhash \<Rightarrow> bool" for X where
  leaf: "cl_leaves X = Ok ls \<Longrightarrow> h \<in> set ls \<Longrightarrow> ancestor X h"
| parent: "ancestor X h \<Longrightarrow> cl_header X h = Ok (Some hr) \<Longrightarrow> sh_number hr \<noteq> 0 \<Longrightarrow>
    ancestor X (sh_parent_hash hr)"

definition number_of :: "substrate_client \<Rightarrow> dhash \<Rightarrow> nat" where
  "number_of X h = (case cl_header X h of Ok (Some hr) \<Rightarrow> unat (sh_number hr) | _ \<Rightarrow> 0)"

locale substrate_chain =
  fixes X :: substrate_client
  assumes leaves_known: "\<exists>ls. cl_leaves X = Ok ls"
    and headers_known: "ancestor X h \<Longrightarrow> \<exists>hr. cl_header X h = Ok (Some hr) \<and> cl_hash_of X hr = h"
    and parent_number: "ancestor X h \<Longrightarrow> cl_header X h = Ok (Some hr) \<Longrightarrow> sh_number hr \<noteq> 0 \<Longrightarrow>
      number_of X h = Suc (number_of X (sh_parent_hash hr))"
begin

definition par :: "dhash \<Rightarrow> dhash" where
  "par h = (case cl_header X h of Ok (Some hr) \<Rightarrow> sh_parent_hash hr | _ \<Rightarrow> h)"

lemma ancestor_path:
  "ancestor X h \<Longrightarrow> \<exists>l ls k. cl_leaves X = Ok ls \<and> l \<in> set ls \<and> h = (par ^^ k) l
     \<and> number_of X l = number_of X h + k"
proof (induction rule: ancestor.induct)
  case (leaf ls h)
  then show ?case by (intro exI [of _ h] exI [of _ ls] exI [of _ 0]) simp
next
  case (parent h hr)
  then obtain l ls k where l: "cl_leaves X = Ok ls" "l \<in> set ls" "h = (par ^^ k) l"
    "number_of X l = number_of X h + k" by blast
  moreover have "par h = sh_parent_hash hr" by (simp add: par_def parent.hyps)
  ultimately show ?case
    using parent_number [OF parent.hyps] by (intro exI [of _ l] exI [of _ ls] exI [of _ "Suc k"]) simp
qed

lemma finite_ancestors: "finite {h. ancestor X h}"
proof -
  obtain ls where ls: "cl_leaves X = Ok ls" using leaves_known by blast
  have "{h. ancestor X h} \<subseteq> (\<Union>l\<in>set ls. (\<lambda>k. (par ^^ k) l) ` {..number_of X l})"
    using ancestor_path ls by fastforce
  then show ?thesis by (rule finite_subset) simp
qed

end

text \<open>What the worker relies on besides: the client database, at most one Starknet block in a digest,
  and hashes and chain id that can be computed.\<close>

locale sync_setup = substrate_chain "se_client E" + client_db "se_rocks E" view "se_codecs E"
  for E :: "('db, 'd, 'cu, 'f) sync_env" and view :: "'db \<Rightarrow> string \<Rightarrow> bytes \<rightharpoonup> bytes" +
  assumes one_log: "ancestor (se_client E) h \<Longrightarrow> cl_header (se_client E) h = Ok (Some hr) \<Longrightarrow>
      find_starknet_block (se_scale E) (sh_digest hr) = Err NotLog
      \<or> (\<exists>b. find_starknet_block (se_scale E) (sh_digest hr) = Ok b)"
    and hashable: "ancestor (se_client E) h \<Longrightarrow> cl_header (se_client E) h = Ok (Some hr) \<Longrightarrow>
      find_starknet_block (se_scale E) (sh_digest hr) = Ok b \<Longrightarrow>
      \<exists>f c ts. header_hash (se_felt E) (se_hasher E) (blk_header b) = Ok f
        \<and> cl_chain_id (se_client E) h = Ok c
        \<and> transactions_hashes (se_felt E) (se_crypto E) (se_hasher E) b c
            (Some (h_block_number (blk_header b))) = Ok ts"

section \<open>The abstract worker\<close>

text \<open>What the mapping database gains from a block: a block without Starknet block is only marked;
  the transactions of a genesis block are not registered.\<close>

inductive block_entry :: "('db, 'd, 'cu, 'f) sync_env \<Rightarrow> dhash \<Rightarrow> substrate_header \<Rightarrow> mapping_abs \<Rightarrow> mapping_abs
    \<Rightarrow> bool" for E h hr m where
  no_block: "find_starknet_block (se_scale E) (sh_digest hr) = Err NotLog \<Longrightarrow>
    block_entry E h hr m (m\<lparr>seen := insert h (seen m)\<rparr>)"
| genesis: "find_starknet_block (se_scale E) (sh_digest hr) = Ok b \<Longrightarrow> sh_number hr = 0 \<Longrightarrow>
    header_hash (se_felt E) (se_hasher E) (blk_header b) = Ok f \<Longrightarrow>
    block_entry E h hr m (mapping_abs_write (se_cache E)
      \<lparr> mc_block_number = h_block_number (blk_header b), mc_block_hash = h,
        mc_starknet_block_hash = f, mc_starknet_transaction_hashes = [] \<rparr> m)"
| block: "find_starknet_block (se_scale E) (sh_digest hr) = Ok b \<Longrightarrow> sh_number hr \<noteq> 0 \<Longrightarrow>
    header_hash (se_felt E) (se_hasher E) (blk_header b) = Ok f \<Longrightarrow>
    cl_chain_id (se_client E) h = Ok c \<Longrightarrow>
    transactions_hashes (se_felt E) (se_crypto E) (se_hasher E) b c
      (Some (h_block_number (blk_header b))) = Ok ts \<Longrightarrow>
    block_entry E h hr m (mapping_abs_write (se_cache E)
      \<lparr> mc_block_number = h_block_number (blk_header b), mc_block_hash = h,
        mc_starknet_block_hash = f, mc_starknet_transaction_hashes = ts \<rparr> m)"

lemma block_entry_seen: "block_entry E h hr m m' \<Longrightarrow> seen m' = insert h (seen m)"
  by (auto elim!: block_entry.cases simp: mapping_abs_write_def Let_def)

definition due :: "('db, 'd, 'cu, 'f) sync_env \<Rightarrow> 32 word \<Rightarrow> mapping_abs \<Rightarrow> dhash \<Rightarrow> bool" where
  "due E sync_from m h \<longleftrightarrow> h \<notin> seen m \<and> unat sync_from \<le> number_of (se_client E) h"

definition work_tips :: "('db, 'd, 'cu, 'f) sync_env \<Rightarrow> dhash list \<Rightarrow> dhash list" where
  "work_tips E tips =
    (if tips = [] then case cl_leaves (se_client E) of Ok ls \<Rightarrow> ls | _ \<Rightarrow> [] else tips)"

text \<open>One step takes the last tip that is due, registers it and replaces it by its parent; the tips
  after it are dropped. Without such a tip the tips are cleared.\<close>

inductive sync_step :: "('db, 'd, 'cu, 'f) sync_env \<Rightarrow> 32 word \<Rightarrow> mapping_abs \<Rightarrow> dhash list \<Rightarrow> bool
    \<Rightarrow> mapping_abs \<Rightarrow> dhash list \<Rightarrow> bool" for E sync_from m tips where
  idle: "list_all (\<lambda>h. \<not> due E sync_from m h) (work_tips E tips) \<Longrightarrow>
    sync_step E sync_from m tips False m []"
| synced: "work_tips E tips = ts @ h # zs \<Longrightarrow> list_all (\<lambda>z. \<not> due E sync_from m z) zs \<Longrightarrow>
    due E sync_from m h \<Longrightarrow> cl_header (se_client E) h = Ok (Some hr) \<Longrightarrow> block_entry E h hr m m' \<Longrightarrow>
    sync_step E sync_from m tips True m' (ts @ (if sh_number hr = 0 then [] else [sh_parent_hash hr]))"

definition sync_reads :: "('db, 'd, 'cu, 'f) sync_env \<Rightarrow> 'db \<Rightarrow> mapping_abs \<Rightarrow> dhash list \<Rightarrow> bool" where
  "sync_reads E db m tips \<longleftrightarrow> mapping_reads (se_rocks E) (se_codecs E) (se_cache E) db m
     \<and> current_syncing_tips (se_rocks E) (se_codecs E) db = Ok tips"

text \<open>The tips are blocks of the chain, and the walk has no gap: the parent of a block that was
  registered is registered, below the first block of interest, or a tip.\<close>

definition sync_inv :: "('db, 'd, 'cu, 'f) sync_env \<Rightarrow> 32 word \<Rightarrow> mapping_abs \<Rightarrow> dhash list \<Rightarrow> bool" where
  "sync_inv E sync_from m tips \<longleftrightarrow> (\<forall>h\<in>set tips. ancestor (se_client E) h)
     \<and> (\<forall>h hr. ancestor (se_client E) h \<longrightarrow> h \<in> seen m \<longrightarrow> cl_header (se_client E) h = Ok (Some hr) \<longrightarrow>
          sh_number hr \<noteq> 0 \<longrightarrow> due E sync_from m (sh_parent_hash hr) \<longrightarrow> sh_parent_hash hr \<in> set tips)"

definition due_blocks :: "('db, 'd, 'cu, 'f) sync_env \<Rightarrow> 32 word \<Rightarrow> mapping_abs \<Rightarrow> dhash set" where
  "due_blocks E sync_from m = {h. ancestor (se_client E) h \<and> due E sync_from m h}"

text \<open>One more block of the chain in the mapping.\<close>

definition grows :: "('db, 'd, 'cu, 'f) sync_env \<Rightarrow> mapping_abs \<Rightarrow> mapping_abs \<Rightarrow> bool" where
  "grows E m m' \<longleftrightarrow> (\<exists>h hr. ancestor (se_client E) h \<and> cl_header (se_client E) h = Ok (Some hr) \<and> block_entry E h hr m m')"

section \<open>The worker implements the abstract worker\<close>

context sync_setup
begin

abbreviation cl :: substrate_client where "cl \<equiv> se_client E"
abbreviation reads :: "'db \<Rightarrow> mapping_abs \<Rightarrow> dhash list \<Rightarrow> bool" where "reads \<equiv> sync_reads E"

lemma tips_view: "current_syncing_tips (se_rocks E) (se_codecs E) db =
    (case view db (rocksdb_name Meta) CURRENT_SYNCING_TIPS of
       Some raw \<Rightarrow> ok_or DeserializeError (dec_hashes (se_codecs E) raw) | None \<Rightarrow> Ok [])"
  by (simp add: current_syncing_tips_def read_key_view)

lemma write_tips_reads:
  assumes "reads (ss_db st) m tips"
  shows "\<exists>st'. write_tips E tips' st = (Ok (), st') \<and> reads (ss_db st') m tips'"
proof -
  obtain db' where w: "write_current_syncing_tips (se_rocks E) (se_codecs E) (ss_db st) tips' = Ok db'"
    and v: "view db' = (view (ss_db st))(rocksdb_name Meta :=
      (view (ss_db st) (rocksdb_name Meta))(CURRENT_SYNCING_TIPS \<mapsto> enc_hashes (se_codecs E) tips'))"
    using write_key_view [of "ss_db st" Meta CURRENT_SYNCING_TIPS "enc_hashes (se_codecs E) tips'"]
    by (auto simp: write_current_syncing_tips_def)
  let ?R = "se_rocks E" and ?C = "se_codecs E" and ?cache = "se_cache E" and ?db = "ss_db st"
  have "is_synced ?R ?C db' = is_synced ?R ?C ?db"
    "mapped_block_hash ?R ?C db' = mapped_block_hash ?R ?C ?db"
    "block_hash_from_transaction_hash ?R ?C db' = block_hash_from_transaction_hash ?R ?C ?db"
    "cached_transaction_hashes_from_block_hash ?R ?C ?cache db' = cached_transaction_hashes_from_block_hash ?R ?C ?cache ?db"
    "cached_block_hash_from_block_number ?R ?C ?cache db' = cached_block_hash_from_block_number ?R ?C ?cache ?db"
    by (simp_all add: fun_eq_iff reads_view v)
  then have "mapping_reads (se_rocks E) (se_codecs E) (se_cache E) db' m"
    using assms by (simp add: sync_reads_def mapping_reads_def)
  then show ?thesis
    by (intro exI [of _ "st\<lparr>ss_db := db'\<rparr>"])
      (simp add: write_tips_def db_write_def w sync_reads_def tips_view v)
qed

lemma write_none_reads:
  assumes "reads (ss_db st) m tips"
  shows "\<exists>st'. db_write (\<lambda>db. write_none (se_rocks E) (se_codecs E) db h) st = (Ok (), st')
    \<and> reads (ss_db st') (m\<lparr>seen := insert h (seen m)\<rparr>) tips"
proof -
  obtain db' where w: "write_none (se_rocks E) (se_codecs E) (ss_db st) h = Ok db'"
    and r: "mapping_reads (se_rocks E) (se_codecs E) (se_cache E) db' (m\<lparr>seen := insert h (seen m)\<rparr>)"
    using assms write_none_refines [of "se_cache E" "ss_db st" m h] by (auto simp: sync_reads_def)
  obtain db'' where "write_none (se_rocks E) (se_codecs E) (ss_db st) h = Ok db''"
    "view db'' = (view (ss_db st))(rocksdb_name SyncedMapping :=
      (view (ss_db st) (rocksdb_name SyncedMapping))(enc_hash (se_codecs E) h \<mapsto> enc_bool (se_codecs E) True))"
    using write_key_view [of "ss_db st" SyncedMapping "enc_hash (se_codecs E) h" "enc_bool (se_codecs E) True"]
    by (auto simp: write_none_def)
  then have "current_syncing_tips (se_rocks E) (se_codecs E) db' = Ok tips"
    using assms w by (simp add: sync_reads_def tips_view)
  with r w show ?thesis
    by (intro exI [of _ "st\<lparr>ss_db := db'\<rparr>"]) (simp add: db_write_def sync_reads_def)
qed

lemma write_hashes_reads:
  assumes "reads (ss_db st) m tips"
  shows "\<exists>st'. db_write (\<lambda>db. write_hashes (se_rocks E) (se_codecs E) (se_cache E) db c) st = (Ok (), st')
    \<and> reads (ss_db st') (mapping_abs_write (se_cache E) c m) tips"
proof -
  have m: "mapping_reads (se_rocks E) (se_codecs E) (se_cache E) (ss_db st) m"
    using assms by (simp add: sync_reads_def)
  obtain db' where w: "write_hashes (se_rocks E) (se_codecs E) (se_cache E) (ss_db st) c = Ok db'"
    and r: "mapping_reads (se_rocks E) (se_codecs E) (se_cache E) db' (mapping_abs_write (se_cache E) c m)"
    using write_hashes_refines [OF m, of c] by blast
  have "mapped_block_hash (se_rocks E) (se_codecs E) (ss_db st) (mc_starknet_block_hash c)
      = Ok (wrapping m (mc_starknet_block_hash c))" using m by (simp add: mapping_reads_def)
  from write_hashes_view [OF this, of "se_cache E"] w
  have "view db' (rocksdb_name Meta) = view (ss_db st) (rocksdb_name Meta)"
    by (auto simp: commit_batch_view fun_eq_iff)
  then have "current_syncing_tips (se_rocks E) (se_codecs E) db' = Ok tips"
    using assms by (simp add: sync_reads_def tips_view)
  with r w show ?thesis
    by (intro exI [of _ "st\<lparr>ss_db := db'\<rparr>"]) (simp add: db_write_def sync_reads_def)
qed

lemma header_found: "ancestor cl h \<Longrightarrow> \<exists>hr. cl_header cl h = Ok (Some hr) \<and> cl_hash_of cl hr = h"
  by (rule headers_known)

lemma fetch_header_spec:
  assumes "reads db m tips" and "ancestor cl h" and "cl_header cl h = Ok (Some hr)"
  shows "fetch_header E db h sync_from = Ok (if due E sync_from m h then Some hr else None)"
  using assms by (simp add: fetch_header_def sync_reads_def mapping_reads_def due_def number_of_def word_le_nat_alt)

lemma find_operating_skips:
  assumes "reads db m tips" and "\<forall>h\<in>set zs. ancestor cl h" and "list_all (\<lambda>h. \<not> due E sync_from m h) zs"
  shows "find_operating E db sync_from (xs @ zs) = find_operating E db sync_from xs"
  using assms(2,3)
proof (induction zs rule: rev_induct)
  case (snoc z zs)
  then obtain hr where "cl_header cl z = Ok (Some hr)" using header_found [of z] by auto
  then have "fetch_header E db z sync_from = Ok None"
    using fetch_header_spec [OF assms(1)] snoc.prems by simp
  with snoc show ?case by (simp add: find_operating.simps [of E db sync_from "xs @ zs @ [z]"] butlast_append)
qed simp

lemma find_operating_idle:
  assumes "reads db m tips" and "\<forall>h\<in>set zs. ancestor cl h" and "list_all (\<lambda>h. \<not> due E sync_from m h) zs"
  shows "find_operating E db sync_from zs = Ok (None, [])"
  using find_operating_skips [OF assms, of "[]"] by (simp add: find_operating.simps)

lemma find_operating_found:
  assumes "reads db m tips" and "\<forall>h\<in>set (ts @ h # zs). ancestor cl h"
    and "list_all (\<lambda>h. \<not> due E sync_from m h) zs" and "due E sync_from m h" and "cl_header cl h = Ok (Some hr)"
  shows "find_operating E db sync_from (ts @ h # zs) = Ok (Some hr, ts)"
proof -
  have "find_operating E db sync_from ((ts @ [h]) @ zs) = find_operating E db sync_from (ts @ [h])"
    using assms by (intro find_operating_skips) auto
  moreover have "fetch_header E db h sync_from = Ok (Some hr)"
    using fetch_header_spec [OF assms(1) _ assms(5), of sync_from] assms by simp
  ultimately show ?thesis by (simp add: find_operating.simps [of E db sync_from "ts @ [h]"])
qed

text \<open>The two blocks \<open>sync_block\<close> compares are read from the same digest: their hashes agree.\<close>

lemma sync_block_entry:
  assumes "reads (ss_db st) m tips" and "ancestor cl h" and "cl_header cl h = Ok (Some hr)"
    and "sh_number hr \<noteq> 0"
  shows "\<exists>st' m'. sync_block E hr st = (Ok (), st') \<and> block_entry E h hr m m' \<and> reads (ss_db st') m' tips"
proof -
  have hash: "cl_hash_of cl hr = h" using header_found [OF assms(2)] assms(3) by auto
  from one_log [OF assms(2,3)] show ?thesis
  proof
    assume none: "find_starknet_block (se_scale E) (sh_digest hr) = Err NotLog"
    then show ?thesis
      using write_none_reads [OF assms(1), of h] block_entry.no_block [OF none, of h m]
      by (auto simp: sync_block_def hash Let_def)
  next
    assume "\<exists>b. find_starknet_block (se_scale E) (sh_digest hr) = Ok b"
    then obtain b where b: "find_starknet_block (se_scale E) (sh_digest hr) = Ok b" by blast
    from hashable [OF assms(2,3) b] obtain f c ts where f: "header_hash (se_felt E) (se_hasher E) (blk_header b) = Ok f"
      and c: "cl_chain_id cl h = Ok c"
      and ts: "transactions_hashes (se_felt E) (se_crypto E) (se_hasher E) b c
            (Some (h_block_number (blk_header b))) = Ok ts" by blast
    let ?st = "st\<lparr>ss_metrics := map_option (set_metrics (se_f64 E) (blk_header b)) (ss_metrics st)\<rparr>"
    have "get_block_by_block_hash (se_scale E) cl h = Ok b"
      by (simp add: get_block_by_block_hash_def assms(3) b)
    moreover have "reads (ss_db ?st) m tips" using assms(1) by simp
    ultimately show ?thesis
      using write_hashes_reads [of ?st m tips] block_entry.block [OF b assms(4) f c ts, of m]
      by (fastforce simp: sync_block_def sync_starknet_block_def hash b f c Let_def
          ts [unfolded transactions_hashes_def])
  qed
qed

lemma sync_genesis_block_entry:
  assumes "reads (ss_db st) m tips" and "ancestor cl h" and "cl_header cl h = Ok (Some hr)"
    and "sh_number hr = 0"
  shows "\<exists>st' m'. sync_genesis_block E hr st = (Ok (), st') \<and> block_entry E h hr m m' \<and> reads (ss_db st') m' tips"
proof -
  have hash: "cl_hash_of cl hr = h" using header_found [OF assms(2)] assms(3) by auto
  from one_log [OF assms(2,3)] show ?thesis
  proof
    assume none: "find_starknet_block (se_scale E) (sh_digest hr) = Err NotLog"
    then show ?thesis
      using write_none_reads [OF assms(1), of h] block_entry.no_block [OF none, of h m]
      by (auto simp: sync_genesis_block_def hash Let_def)
  next
    assume "\<exists>b. find_starknet_block (se_scale E) (sh_digest hr) = Ok b"
    then obtain b where b: "find_starknet_block (se_scale E) (sh_digest hr) = Ok b" by blast
    from hashable [OF assms(2,3) b] obtain f where f: "header_hash (se_felt E) (se_hasher E) (blk_header b) = Ok f"
      by blast
    show ?thesis
      using write_hashes_reads [OF assms(1)] block_entry.genesis [OF b assms(4) f, of h m]
      by (fastforce simp: sync_genesis_block_def hash b f Let_def)
  qed
qed

lemma sync_operating_entry:
  assumes "reads (ss_db st) m tips" and "ancestor cl h" and "cl_header cl h = Ok (Some hr)"
  shows "\<exists>st' m'. sync_operating E (Some hr, ts) st = (Ok True, st') \<and> block_entry E h hr m m'
    \<and> reads (ss_db st') m' (ts @ (if sh_number hr = 0 then [] else [sh_parent_hash hr]))"
proof (cases "sh_number hr = 0")
  case True
  obtain st1 m' where 1: "sync_genesis_block E hr st = (Ok (), st1)" "block_entry E h hr m m'"
    "reads (ss_db st1) m' tips" using sync_genesis_block_entry [OF assms True] by blast
  obtain st2 where "write_tips E ts st1 = (Ok (), st2)" "reads (ss_db st2) m' ts"
    using write_tips_reads [OF 1(3)] by blast
  with 1 True show ?thesis by (auto simp: sync_operating_def)
next
  case False
  obtain st1 m' where 1: "sync_block E hr st = (Ok (), st1)" "block_entry E h hr m m'"
    "reads (ss_db st1) m' tips" using sync_block_entry [OF assms False] by blast
  obtain st2 where "write_tips E (ts @ [sh_parent_hash hr]) st1 = (Ok (), st2)"
    "reads (ss_db st2) m' (ts @ [sh_parent_hash hr])"
    using write_tips_reads [OF 1(3)] by blast
  with 1 False show ?thesis by (auto simp: sync_operating_def)
qed

lemma work_tips_ancestors: "\<forall>h\<in>set tips. ancestor cl h \<Longrightarrow> h \<in> set (work_tips E tips) \<Longrightarrow> ancestor cl h"
  using leaves_known by (auto simp: work_tips_def split: if_splits intro: ancestor.leaf)

lemma sync_one_block_work:
  assumes "reads (ss_db st) m tips"
  shows "sync_one_block E sync_from st =
    (if work_tips E tips = [] then (Ok False, st)
     else st_bind (find_operating E (ss_db st) sync_from (work_tips E tips), st) (sync_operating E))"
  using assms leaves_known by (auto simp: sync_one_block_def sync_reads_def work_tips_def)

lemma sync_one_block_refines:
  assumes "reads (ss_db st) m tips" and "\<forall>h\<in>set tips. ancestor cl h"
  shows "\<exists>b st' m' tips'. sync_one_block E sync_from st = (Ok b, st')
    \<and> sync_step E sync_from m tips b m' tips' \<and> reads (ss_db st') m' tips'"
proof (cases "list_all (\<lambda>h. \<not> due E sync_from m h) (work_tips E tips)")
  case True
  show ?thesis
  proof (cases "work_tips E tips = []")
    case empty: True
    then have "tips = []" by (simp add: work_tips_def split: if_splits)
    with assms(1) sync_step.idle [OF True] have "sync_step E sync_from m tips False m []" "reads (ss_db st) m []"
      by simp_all
    moreover have "sync_one_block E sync_from st = (Ok False, st)"
      by (simp add: sync_one_block_work [OF assms(1)] empty)
    ultimately show ?thesis by blast
  next
    case False
    have "find_operating E (ss_db st) sync_from (work_tips E tips) = Ok (None, [])"
      using find_operating_idle [OF assms(1) _ True] work_tips_ancestors [OF assms(2)] by blast
    moreover obtain st' where "write_tips E [] st = (Ok (), st')" and r: "reads (ss_db st') m []"
      using write_tips_reads [OF assms(1), of "[]"] by blast
    ultimately have "sync_one_block E sync_from st = (Ok False, st')"
      using False by (simp add: sync_one_block_work [OF assms(1)] sync_operating_def)
    with r sync_step.idle [OF True] show ?thesis by blast
  qed
next
  case False
  then obtain ts h zs where split: "work_tips E tips = ts @ h # zs" "due E sync_from m h"
    "list_all (\<lambda>z. \<not> due E sync_from m z) zs"
    using split_list_last_prop [of "work_tips E tips" "due E sync_from m"] by (auto simp: list_all_iff)
  have anc: "\<forall>x\<in>set (ts @ h # zs). ancestor cl x"
    unfolding split(1) [symmetric] using work_tips_ancestors [OF assms(2)] by blast
  then have h: "ancestor cl h" by simp
  then obtain hr where hr: "cl_header cl h = Ok (Some hr)" using header_found [of h] by blast
  obtain st' m' where op: "sync_operating E (Some hr, ts) st = (Ok True, st')" and e: "block_entry E h hr m m'"
    and r: "reads (ss_db st') m' (ts @ (if sh_number hr = 0 then [] else [sh_parent_hash hr]))"
    using sync_operating_entry [OF assms(1) h hr, of ts] by blast
  have "sync_one_block E sync_from st = (Ok True, st')"
    using find_operating_found [OF assms(1) anc split(3,2) hr]
    by (simp add: sync_one_block_work [OF assms(1)] split(1) op)
  with r sync_step.synced [OF split(1,3,2) hr e] show ?thesis by blast
qed

end

section \<open>Progress of the abstract worker\<close>

lemma due_after: "block_entry E h hr m m' \<Longrightarrow> due E sync_from m' x \<longleftrightarrow> due E sync_from m x \<and> x \<noteq> h"
  by (auto simp: due_def block_entry_seen)

context sync_setup
begin

lemma finite_due: "finite (due_blocks E sync_from m)"
  using finite_ancestors by (simp add: due_blocks_def)

text \<open>With no tips left and no leaf due, nothing is due: the walk below every leaf is complete.\<close>

lemma nothing_due:
  assumes "sync_inv E sync_from m []" and "list_all (\<lambda>h. \<not> due E sync_from m h) (work_tips E [])"
  shows "due_blocks E sync_from m = {}"
proof -
  have "\<not> due E sync_from m h" if "ancestor cl h" for h
    using that
  proof (induction rule: ancestor.induct)
    case (leaf ls h)
    with assms(2) show ?case by (simp add: work_tips_def list_all_iff)
  next
    case (parent h hr)
    show ?case
    proof (cases "h \<in> seen m")
      case True
      with assms(1) parent.hyps show ?thesis by (auto simp: sync_inv_def)
    next
      case False
      with parent.IH parent_number [OF parent.hyps] show ?thesis by (simp add: due_def)
    qed
  qed
  then show ?thesis by (simp add: due_blocks_def)
qed

lemma inv_drop_tips:
  assumes "sync_inv E sync_from m (ts @ zs)" and "list_all (\<lambda>h. \<not> due E sync_from m h) zs"
  shows "sync_inv E sync_from m ts"
proof -
  have "\<not> due E sync_from m z" if "z \<in> set zs" for z using assms(2) that by (simp add: list_all_iff)
  then show ?thesis using assms(1) unfolding sync_inv_def set_append by blast
qed

lemma inv_work_tips: "sync_inv E sync_from m tips \<Longrightarrow> sync_inv E sync_from m (work_tips E tips)"
  using work_tips_ancestors [of "[]"] by (auto simp: sync_inv_def work_tips_def)

lemma sync_step_idle_inv:
  assumes "sync_step E sync_from m tips False m' tips'" and "sync_inv E sync_from m tips"
  shows "m' = m \<and> tips' = [] \<and> sync_inv E sync_from m []
    \<and> (tips = [] \<longrightarrow> due_blocks E sync_from m = {})"
  using assms(1)
proof cases
  case idle
  have inv: "sync_inv E sync_from m []"
    using inv_drop_tips [of sync_from m "[]" "work_tips E tips"] inv_work_tips [OF assms(2)] idle by simp
  with idle nothing_due [OF inv] show ?thesis by auto
qed simp

lemma sync_step_synced_inv:
  assumes "sync_step E sync_from m tips True m' tips'" and "sync_inv E sync_from m tips"
  shows "sync_inv E sync_from m' tips' \<and> grows E m m'
    \<and> (\<exists>h. h \<in> due_blocks E sync_from m \<and> seen m' = insert h (seen m)
        \<and> due_blocks E sync_from m' = due_blocks E sync_from m - {h})"
  using assms(1)
proof cases
  case 1: (synced ts h zs hr)
  have inv: "sync_inv E sync_from m ((ts @ [h]) @ zs)" using inv_work_tips [OF assms(2)] 1 by simp
  then have inv: "sync_inv E sync_from m (ts @ [h])" by (rule inv_drop_tips) (rule 1)
  then have h: "ancestor cl h" by (simp add: sync_inv_def)
  have seen: "seen m' = insert h (seen m)" using 1 block_entry_seen by blast
  note after = due_after [OF 1(6), of sync_from]
  have "sync_inv E sync_from m' tips'"
    unfolding sync_inv_def
  proof (intro conjI ballI allI impI)
    fix x assume "x \<in> set tips'"
    with 1 inv ancestor.parent [OF h, of hr] show "ancestor cl x"
      by (auto simp: sync_inv_def split: if_splits)
  next
    fix x hx assume x: "ancestor cl x" "x \<in> seen m'" "cl_header cl x = Ok (Some hx)" "sh_number hx \<noteq> 0"
      "due E sync_from m' (sh_parent_hash hx)"
    show "sh_parent_hash hx \<in> set tips'"
    proof (cases "x = h")
      case True
      with x 1 show ?thesis by simp
    next
      case False
      then have "sh_parent_hash hx \<in> set (ts @ [h])" "sh_parent_hash hx \<noteq> h"
        using inv x seen by (auto simp: sync_inv_def after)
      with 1 show ?thesis by auto
    qed
  qed
  moreover have "due_blocks E sync_from m' = due_blocks E sync_from m - {h}"
    by (auto simp: due_blocks_def after)
  moreover have "grows E m m'" using h 1 by (auto simp: grows_def)
  ultimately show ?thesis using h 1 seen by (auto simp: due_blocks_def)
qed simp

text \<open>A call of \<open>sync_blocks\<close> stops at the first block it registers.\<close>

lemma sync_loop_True: "sync_loop n E sync_from True st = (Ok True, st)"
  by (induction n) simp_all

lemma sync_one_block_progress:
  assumes "reads (ss_db st) m tips" and "sync_inv E sync_from m tips"
  obtains (idle) st' where "sync_one_block E sync_from st = (Ok False, st')" "reads (ss_db st') m []"
      "sync_inv E sync_from m []" "tips = [] \<Longrightarrow> due_blocks E sync_from m = {}"
  | (synced) h st' m' tips' where "sync_one_block E sync_from st = (Ok True, st')" "reads (ss_db st') m' tips'"
      "sync_inv E sync_from m' tips'" "grows E m m'" "h \<in> due_blocks E sync_from m" "seen m' = insert h (seen m)"
      "due_blocks E sync_from m' = due_blocks E sync_from m - {h}"
proof -
  have "\<forall>h\<in>set tips. ancestor cl h" using assms(2) by (simp add: sync_inv_def)
  from sync_one_block_refines [OF assms(1) this, of sync_from] obtain b st' m' tips'
    where step: "sync_one_block E sync_from st = (Ok b, st')" "sync_step E sync_from m tips b m' tips'"
      "reads (ss_db st') m' tips'" by blast
  show thesis
  proof (cases b)
    case True
    with step sync_step_synced_inv [OF _ assms(2), of m' tips'] show thesis by (auto intro: synced)
  next
    case False
    with step sync_step_idle_inv [OF _ assms(2), of m' tips'] show thesis by (auto intro: idle)
  qed
qed

lemma sync_loop_progress:
  assumes "reads (ss_db st) m tips" and "sync_inv E sync_from m tips"
  shows "\<exists>b st' m' tips'. sync_loop n E sync_from False st = (Ok b, st') \<and> reads (ss_db st') m' tips'
    \<and> sync_inv E sync_from m' tips'
    \<and> (if b then grows E m m' \<and> (\<exists>h. h \<in> due_blocks E sync_from m \<and> seen m' = insert h (seen m)
            \<and> due_blocks E sync_from m' = due_blocks E sync_from m - {h})
       else m' = m \<and> (n \<noteq> 0 \<longrightarrow> tips' = [] \<and> (n = 1 \<and> tips \<noteq> [] \<or> due_blocks E sync_from m = {})))"
  using assms
proof (induction n arbitrary: st tips)
  case 0
  then show ?case by (intro exI [of _ False] exI [of _ st] exI [of _ m] exI [of _ tips]) simp
next
  case (Suc n)
  from Suc.prems show ?case
  proof (cases rule: sync_one_block_progress)
    case (idle st')
    from Suc.IH [OF idle(2,3)] obtain b st'' m' tips' where ih:
      "sync_loop n E sync_from False st' = (Ok b, st'')" "reads (ss_db st'') m' tips'"
      "sync_inv E sync_from m' tips'"
      "if b then grows E m m' \<and> (\<exists>h. h \<in> due_blocks E sync_from m \<and> seen m' = insert h (seen m)
            \<and> due_blocks E sync_from m' = due_blocks E sync_from m - {h})
       else m' = m \<and> (n \<noteq> 0 \<longrightarrow> tips' = [] \<and> (n = 1 \<and> ([] :: dhash list) \<noteq> [] \<or> due_blocks E sync_from m = {}))"
      by blast
    show ?thesis
    proof (cases n)
      case 0
      with idle show ?thesis
        by (intro exI [of _ False] exI [of _ st'] exI [of _ m] exI [of _ "[]"]) auto
    next
      case (Suc k)
      with ih idle(1) show ?thesis
        by (intro exI [of _ b] exI [of _ st''] exI [of _ m'] exI [of _ tips']) (auto split: if_splits)
    qed
  next
    case (synced h st' m' tips')
    then show ?thesis
      by (intro exI [of _ True] exI [of _ st'] exI [of _ m'] exI [of _ tips']) (auto simp: sync_loop_True)
  qed
qed

end

section \<open>Polling\<close>

text \<open>Successive polls without notifications; each element says whether the delay has elapsed.\<close>

definition worker_run :: "('db, 'd, 'cu, 'f) sync_env \<Rightarrow> bool list \<Rightarrow> ('db, 'f) sync_worker \<Rightarrow> ('db, 'f) sync_worker" where
  "worker_run E delays w = fold (\<lambda>d w. snd (poll_next E 0 False d w)) delays w"

definition worker_ok :: "('db, 'd, 'cu, 'f) sync_env \<Rightarrow> ('db, 'f) sync_worker \<Rightarrow> mapping_abs \<Rightarrow> dhash list \<Rightarrow> bool" where
  "worker_ok E w m tips \<longleftrightarrow> sync_reads E (ss_db (sw_state w)) m tips \<and> sync_inv E (sw_sync_from w) m tips"

context sync_setup
begin

lemma poll_fires:
  assumes "worker_ok E w m tips" and "0 < k \<or> d \<or> sw_have_next w"
  obtains b st' m' tips' where
    "poll_next E k False d w
       = (PollReady (Some ()), w\<lparr>sw_inner_delay := False, sw_state := st', sw_have_next := b\<rparr>)"
    "worker_ok E (w\<lparr>sw_inner_delay := False, sw_state := st', sw_have_next := b\<rparr>) m' tips'"
    "b \<Longrightarrow> card (due_blocks E (sw_sync_from w) m') < card (due_blocks E (sw_sync_from w) m)"
    "\<not> b \<Longrightarrow> m' = m \<and> (sw_retry_times w \<noteq> 0 \<longrightarrow> tips' = [] \<and>
       (tips \<noteq> [] \<or> due_blocks E (sw_sync_from w) m = {}))"
    "(grows E)\<^sup>*\<^sup>* m m'"
proof -
  from assms(1) have ok: "reads (ss_db (sw_state w)) m tips" "sync_inv E (sw_sync_from w) m tips"
    by (simp_all add: worker_ok_def)
  from sync_loop_progress [OF ok, of "unat (sw_retry_times w)"] obtain b st' m' tips' where
    r: "sync_blocks E (sw_retry_times w) (sw_sync_from w) (sw_state w) = (Ok b, st')"
      "reads (ss_db st') m' tips'" "sync_inv E (sw_sync_from w) m' tips'"
    and b: "if b then grows E m m' \<and> (\<exists>h. h \<in> due_blocks E (sw_sync_from w) m \<and> seen m' = insert h (seen m)
            \<and> due_blocks E (sw_sync_from w) m' = due_blocks E (sw_sync_from w) m - {h})
       else m' = m \<and> (unat (sw_retry_times w) \<noteq> 0 \<longrightarrow> tips' = []
         \<and> (unat (sw_retry_times w) = 1 \<and> tips \<noteq> [] \<or> due_blocks E (sw_sync_from w) m = {}))"
    unfolding sync_blocks_def by blast
  show thesis
  proof (rule that)
    show "poll_next E k False d w
        = (PollReady (Some ()), w\<lparr>sw_inner_delay := False, sw_state := st', sw_have_next := b\<rparr>)"
      using assms(2) r(1) by (simp add: poll_next_def Let_def)
    show "worker_ok E (w\<lparr>sw_inner_delay := False, sw_state := st', sw_have_next := b\<rparr>) m' tips'"
      using r by (simp add: worker_ok_def)
    show "card (due_blocks E (sw_sync_from w) m') < card (due_blocks E (sw_sync_from w) m)" if b
      using b that by (metis card_Diff1_less finite_due)
    show "m' = m \<and> (sw_retry_times w \<noteq> 0 \<longrightarrow> tips' = [] \<and>
       (tips \<noteq> [] \<or> due_blocks E (sw_sync_from w) m = {}))" if "\<not> b"
      using b that by (auto simp: unat_eq_0)
    show "(grows E)\<^sup>*\<^sup>* m m'" using b by (auto split: if_splits)
  qed
qed

text \<open>While the delay elapses, every poll registers a block or clears the tips, until nothing is due.\<close>

lemma run_elapsed:
  assumes "worker_ok E w m tips" and "sw_retry_times w \<noteq> 0"
    and "2 * card (due_blocks E (sw_sync_from w) m) + (if tips = [] then 0 else 1) \<le> n"
  shows "\<exists>m' tips'. worker_ok E (worker_run E (replicate n True) w) m' tips'
    \<and> due_blocks E (sw_sync_from w) m' = {} \<and> (grows E)\<^sup>*\<^sup>* m m'"
  using assms
proof (induction n arbitrary: w m tips)
  case 0
  then show ?case using finite_due [of "sw_sync_from w" m] by (auto simp: worker_run_def)
next
  case (Suc n)
  obtain b st' m' tips' where p: "poll_next E 0 False True w
       = (PollReady (Some ()), w\<lparr>sw_inner_delay := False, sw_state := st', sw_have_next := b\<rparr>)"
    and ok: "worker_ok E (w\<lparr>sw_inner_delay := False, sw_state := st', sw_have_next := b\<rparr>) m' tips'"
    and b: "b \<Longrightarrow> card (due_blocks E (sw_sync_from w) m') < card (due_blocks E (sw_sync_from w) m)"
      "\<not> b \<Longrightarrow> m' = m \<and> (sw_retry_times w \<noteq> 0 \<longrightarrow> tips' = [] \<and>
         (tips \<noteq> [] \<or> due_blocks E (sw_sync_from w) m = {}))"
    and g: "(grows E)\<^sup>*\<^sup>* m m'"
    using poll_fires [OF Suc.prems(1), of 0 True] by (metis (no_types))
  have "2 * card (due_blocks E (sw_sync_from w) m') + (if tips' = [] then 0 else 1) \<le> n"
    using b Suc.prems(2,3) by (cases b) (auto split: if_splits)
  with Suc.IH [OF ok] Suc.prems(2) obtain m'' tips'' where
    "worker_ok E (worker_run E (replicate (Suc n) True) w) m'' tips''"
    "due_blocks E (sw_sync_from w) m'' = {}" "(grows E)\<^sup>*\<^sup>* m' m''"
    by (auto simp: worker_run_def p)
  with g show ?case by (meson rtranclp_trans)
qed

text \<open>Whatever the delays do, the polls only let the mapping grow.\<close>

lemma run_grows:
  assumes "worker_ok E w m tips"
  shows "\<exists>m' tips'. worker_ok E (worker_run E delays w) m' tips' \<and> (grows E)\<^sup>*\<^sup>* m m'"
  using assms
proof (induction delays arbitrary: w m tips)
  case Nil
  then show ?case by (auto simp: worker_run_def)
next
  case (Cons d delays)
  show ?case
  proof (cases "d \<or> sw_have_next w")
    case True
    then obtain b st' m' tips' where p: "poll_next E 0 False d w
        = (PollReady (Some ()), w\<lparr>sw_inner_delay := False, sw_state := st', sw_have_next := b\<rparr>)"
      and ok: "worker_ok E (w\<lparr>sw_inner_delay := False, sw_state := st', sw_have_next := b\<rparr>) m' tips'"
      and g: "(grows E)\<^sup>*\<^sup>* m m'"
      using poll_fires [OF Cons.prems, of 0 d] by (metis (no_types))
    from Cons.IH [OF ok] g show ?thesis by (auto simp: worker_run_def p intro: rtranclp_trans)
  next
    case False
    then have p: "poll_next E 0 False d w = (PollPending, w\<lparr>sw_inner_delay := True\<rparr>)"
      by (simp add: poll_next_def Let_def)
    have "worker_ok E (w\<lparr>sw_inner_delay := True\<rparr>) m tips" using Cons.prems by (simp add: worker_ok_def)
    from Cons.IH [OF this] show ?thesis by (auto simp: worker_run_def p)
  qed
qed

text \<open>Left to itself the worker goes on only after a poll that registered a block.\<close>

lemma run_idle:
  assumes "worker_ok E w m tips"
    and "(if sw_have_next w then card (due_blocks E (sw_sync_from w) m) + 1 else 0) \<le> n"
  shows "\<not> sw_have_next (worker_run E (replicate n False) w)"
  using assms
proof (induction n arbitrary: w m tips)
  case 0
  then show ?case by (auto simp: worker_run_def split: if_splits)
next
  case (Suc n)
  show ?case
  proof (cases "sw_have_next w")
    case True
    then obtain b st' m' tips' where p: "poll_next E 0 False False w
        = (PollReady (Some ()), w\<lparr>sw_inner_delay := False, sw_state := st', sw_have_next := b\<rparr>)"
      and ok: "worker_ok E (w\<lparr>sw_inner_delay := False, sw_state := st', sw_have_next := b\<rparr>) m' tips'"
      and b: "b \<Longrightarrow> card (due_blocks E (sw_sync_from w) m') < card (due_blocks E (sw_sync_from w) m)"
      using poll_fires [OF Suc.prems(1), of 0 False] by (metis (no_types))
    have "(if b then card (due_blocks E (sw_sync_from w) m') + 1 else 0) \<le> n"
      using b Suc.prems(2) True by (cases b) auto
    with Suc.IH [OF ok] show ?thesis by (cases b) (simp_all add: worker_run_def p)
  next
    case False
    then have "poll_next E 0 False False w = (PollPending, w\<lparr>sw_inner_delay := True\<rparr>)"
      by (simp add: poll_next_def Let_def)
    moreover have "worker_ok E (w\<lparr>sw_inner_delay := True\<rparr>) m tips"
      using Suc.prems(1) by (simp add: worker_ok_def)
    ultimately show ?thesis using Suc.IH [of "w\<lparr>sw_inner_delay := True\<rparr>" m tips] False
      by (simp add: worker_run_def)
  qed
qed

end

section \<open>A chain of three blocks\<close>

text \<open>The genesis block and the block after it wrap a Starknet block with a transaction, the third block none.\<close>

definition ref_genesis :: deoxys_block where
  "ref_genesis = deoxys_block_new (sample_header 0 7) [sample_invoke 1] []"

definition ref_block :: deoxys_block where
  "ref_block = deoxys_block_new (sample_header 1 7) [sample_invoke 1]
    [ordered_events_new 0 [\<lparr> ev_from_address = 3, ev_keys = [4], ev_data = [6] \<rparr>]]"

definition ref_scale :: "unit scale_lib" where
  "ref_scale = (one_block_lib ref_block)\<lparr>try_to_consensus := (\<lambda>item e. case item of
      Consensus e' d \<Rightarrow> if e' = e then Some (LogBlock (if d = [] then ref_block else ref_genesis)) else None
    | _ \<Rightarrow> None)\<rparr>"

definition ref_client :: substrate_client where
  "ref_client =
    \<lparr> cl_header = (\<lambda>h. Ok (if h \<le> 2 then Some \<lparr> sh_number = ucast h, sh_parent_hash = h - 1,
        sh_digest = (if h = 0 then [Consensus MADARA_ENGINE_ID [0]]
          else if h = 1 then [Consensus MADARA_ENGINE_ID []] else []) \<rparr> else None)),
      cl_leaves = Ok [2],
      cl_hash_of = (\<lambda>hr. ucast (sh_number hr)),
      cl_chain_id = (\<lambda>_. Ok 5) \<rparr>"

definition nat_f64 :: "nat f64_ops" where
  "nat_f64 = \<lparr> f64_of_u64 = unat, f64_of_u128 = (\<lambda>n. Some (unat n)), f64_plus = (+), f64_MIN = 0 \<rparr>"

definition ref_sync_env :: "(alist_db, bytes, unit, nat) sync_env" where
  "ref_sync_env =
    \<lparr> se_rocks = alist_rocks, se_codecs = ref_db_codecs, se_cache = True, se_felt = ref_felt_lib,
      se_crypto = ref_crypto, se_hasher = PedersenHasher ref_felt_lib ref_crypto,
      se_scale = ref_scale, se_f64 = nat_f64, se_client = ref_client \<rparr>"

lemma ref_client_le2: "(h :: dhash) \<le> 2 \<longleftrightarrow> h = 0 \<or> h = 1 \<or> h = 2"
proof
  assume "h \<le> 2"
  then have "unat h \<le> 2" by (simp add: word_le_nat_alt)
  then have "unat h = 0 \<or> unat h = 1 \<or> unat h = 2" by linarith
  then show "h = 0 \<or> h = 1 \<or> h = 2" by (simp add: word_unat_eq_iff)
qed auto

lemma ref_ancestor: "ancestor ref_client h \<Longrightarrow> h \<le> 2"
proof (induction rule: ancestor.induct)
  case (parent h hr)
  then show ?case by (auto simp: ref_client_le2 ref_client_def split: if_splits)
qed (auto simp: ref_client_def)

lemma ref_number: "h \<le> 2 \<Longrightarrow> number_of ref_client h = unat h"
  by (auto simp: ref_client_le2 number_of_def ref_client_def)

interpretation ref_sync: sync_setup ref_sync_env alist_view
proof -
  have env: "se_client ref_sync_env = ref_client" "se_rocks ref_sync_env = alist_rocks"
    "se_codecs ref_sync_env = ref_db_codecs" by (simp_all add: ref_sync_env_def)
  have chain: "substrate_chain ref_client"
  proof
    show "\<exists>ls. cl_leaves ref_client = Ok ls" by (simp add: ref_client_def)
  next
    fix h assume "ancestor ref_client h"
    then have "h \<le> 2" by (rule ref_ancestor)
    then show "\<exists>hr. cl_header ref_client h = Ok (Some hr) \<and> cl_hash_of ref_client hr = h"
      by (auto simp: ref_client_le2 ref_client_def)
  next
    fix h hr assume "ancestor ref_client h" and hr: "cl_header ref_client h = Ok (Some hr)" "sh_number hr \<noteq> 0"
    then have "h \<le> 2" by (simp add: ref_ancestor)
    with hr show "number_of ref_client h = Suc (number_of ref_client (sh_parent_hash hr))"
      by (auto simp: ref_client_le2 number_of_def ref_client_def)
  qed
  have find: "find_starknet_block ref_scale (sh_digest hr)
      = (if h = 0 then Ok ref_genesis else if h = 1 then Ok ref_block else Err NotLog)" if "cl_header ref_client h = Ok (Some hr)" for h hr
    using that by (auto simp: ref_client_def find_starknet_block_def find_log_def find_log_in_def find_log_step_def
        ref_scale_def split: if_splits)
  have "sync_setup_axioms ref_sync_env"
  proof
    fix h hr assume "ancestor (se_client ref_sync_env) h" and hr: "cl_header (se_client ref_sync_env) h = Ok (Some hr)"
    then show "find_starknet_block (se_scale ref_sync_env) (sh_digest hr) = Err NotLog
      \<or> (\<exists>b. find_starknet_block (se_scale ref_sync_env) (sh_digest hr) = Ok b)"
      using find [of h hr] by (simp add: ref_sync_env_def split: if_splits)
    fix b assume "find_starknet_block (se_scale ref_sync_env) (sh_digest hr) = Ok b"
    with hr find [of h hr] have "b = ref_block \<or> b = ref_genesis" by (auto simp: ref_sync_env_def split: if_splits)
    then show "\<exists>f c ts. header_hash (se_felt ref_sync_env) (se_hasher ref_sync_env) (blk_header b) = Ok f
        \<and> cl_chain_id (se_client ref_sync_env) h = Ok c
        \<and> transactions_hashes (se_felt ref_sync_env) (se_crypto ref_sync_env) (se_hasher ref_sync_env) b c
            (Some (h_block_number (blk_header b))) = Ok ts"
      by (auto simp: ref_sync_env_def header_hash_value [OF ref_felt_codec] ref_client_def transactions_hashes_def
          ref_block_def ref_genesis_def deoxys_block_new_def compute_hash_value [OF ref_felt_codec] sample_invoke_def)
  qed
  with chain ref_client_db show "sync_setup ref_sync_env alist_view"
    by (intro sync_setup.intro) (simp_all add: env)
qed

lemma ref_sync_setup: "sync_setup ref_sync_env alist_view"
  by (rule ref_sync.sync_setup_axioms)

lemma ref_sync_start: "sync_reads ref_sync_env [] mapping_abs_empty [] \<and> sync_inv ref_sync_env n mapping_abs_empty []"
  using empty_mapping_reads [of True]
  by (simp add: sync_reads_def sync_inv_def mapping_abs_empty_def ref_sync_env_def current_syncing_tips_def
      ref_db.read_key_view alist_view_def)

section \<open>Properties\<close>

text \<open>C12: a call of \<open>sync_one_block\<close> implements one step of the abstract worker: on a database that
  reads as the maps \<open>m\<close> with the tips \<open>tips\<close> it succeeds, answers whether a block was registered, and
  leaves a database that reads as the maps and tips after the step; no gap opens in the walk.\<close>

theorem mapping_sync_refines:
  assumes "sync_setup E view" and "sync_reads E (ss_db st) m tips" and "sync_inv E sync_from m tips"
  shows "\<exists>b st' m' tips'. sync_one_block E sync_from st = (Ok b, st')
    \<and> sync_step E sync_from m tips b m' tips' \<and> sync_reads E (ss_db st') m' tips'
    \<and> sync_inv E sync_from m' tips'"
proof -
  have "\<forall>h\<in>set tips. ancestor (se_client E) h" using assms(3) by (simp add: sync_inv_def)
  from sync_setup.sync_one_block_refines [OF assms(1,2) this, of sync_from] obtain b st' m' tips'
    where step: "sync_one_block E sync_from st = (Ok b, st')" "sync_step E sync_from m tips b m' tips'"
      "sync_reads E (ss_db st') m' tips'" by blast
  moreover have "sync_inv E sync_from m' tips'"
    using step(2) sync_setup.sync_step_synced_inv [OF assms(1) _ assms(3)]
      sync_setup.sync_step_idle_inv [OF assms(1) _ assms(3)] by (cases b) auto
  ultimately show ?thesis by blast
qed

lemma ref_first_step: "sync_step ref_sync_env 0 mapping_abs_empty [] b m' tips' \<Longrightarrow> b \<and> tips' = [1] \<and> seen m' = {2}"
proof (induction rule: sync_step.induct)
  case idle
  then show ?case
    by (simp add: work_tips_def ref_sync_env_def ref_client_def due_def mapping_abs_empty_def)
next
  case (synced ts h zs hr m')
  then have "ts = [] \<and> h = 2 \<and> zs = []"
    by (auto simp: work_tips_def ref_sync_env_def ref_client_def Cons_eq_append_conv)
  with synced block_entry_seen [OF synced(5)] show ?case
    by (auto simp: ref_sync_env_def ref_client_def mapping_abs_empty_def)
qed

theorem mapping_sync_refines_witness:
  "\<exists>st'. sync_one_block ref_sync_env 0 \<lparr> ss_db = [], ss_metrics = None \<rparr> = (Ok True, st')
    \<and> is_synced alist_rocks ref_db_codecs (ss_db st') 2 = Ok True
    \<and> current_syncing_tips alist_rocks ref_db_codecs (ss_db st') = Ok [1]"
proof -
  let ?st = "\<lparr> ss_db = [], ss_metrics = None \<rparr> :: (alist_db, nat) sync_state"
  have "sync_reads ref_sync_env (ss_db ?st) mapping_abs_empty []" "sync_inv ref_sync_env 0 mapping_abs_empty []"
    using ref_sync_start by simp_all
  from mapping_sync_refines [OF ref_sync_setup this] obtain b st' m' tips'
    where "sync_one_block ref_sync_env 0 ?st = (Ok b, st')"
      "sync_step ref_sync_env 0 mapping_abs_empty [] b m' tips'" "sync_reads ref_sync_env (ss_db st') m' tips'"
    by blast
  then show ?thesis
    using ref_first_step [of b m' tips'] by (auto simp: sync_reads_def mapping_reads_def ref_sync_env_def)
qed

text \<open>One call registers at most one block, whatever the limit: \<open>sync_blocks\<close> succeeds; when it
  answers true exactly one block of the chain that was due is new in the database, and when it
  answers false nothing is new.\<close>

theorem mapping_sync_one_per_call:
  assumes "sync_setup E view" and "sync_reads E (ss_db st) m tips" and "sync_inv E sync_from m tips"
  shows "\<exists>b st' m' tips'. sync_blocks E limit sync_from st = (Ok b, st') \<and> sync_reads E (ss_db st') m' tips'
    \<and> (if b then \<exists>h\<in>due_blocks E sync_from m. seen m' = insert h (seen m) else m' = m)"
  using sync_setup.sync_loop_progress [OF assms, of "unat limit"] unfolding sync_blocks_def
  by (elim exE conjE) (auto split: if_splits)

theorem mapping_sync_one_per_call_witness:
  "\<exists>b st'. sync_blocks ref_sync_env 100 0 \<lparr> ss_db = [], ss_metrics = None \<rparr> = (Ok b, st')
    \<and> (is_synced alist_rocks ref_db_codecs (ss_db st') 2 = Ok False
       \<or> is_synced alist_rocks ref_db_codecs (ss_db st') 1 = Ok False)"
proof -
  let ?st = "\<lparr> ss_db = [], ss_metrics = None \<rparr> :: (alist_db, nat) sync_state"
  have "sync_reads ref_sync_env (ss_db ?st) mapping_abs_empty []" "sync_inv ref_sync_env 0 mapping_abs_empty []"
    using ref_sync_start by simp_all
  from mapping_sync_one_per_call [OF ref_sync_setup this, of 100] obtain b st' m' tips'
    where r: "sync_blocks ref_sync_env 100 0 ?st = (Ok b, st')" "sync_reads ref_sync_env (ss_db st') m' tips'"
      "if b then \<exists>h\<in>due_blocks ref_sync_env 0 mapping_abs_empty. seen m' = insert h (seen mapping_abs_empty)
       else m' = mapping_abs_empty" by blast
  then have "2 \<notin> seen m' \<or> 1 \<notin> seen m'" by (auto simp: mapping_abs_empty_def split: if_splits)
  with r(1,2) show ?thesis by (auto simp: sync_reads_def mapping_reads_def ref_sync_env_def)
qed

text \<open>C11: the mapping becomes complete: with a limit other than zero, once the delay has elapsed twice
  per block that is due, plus once, every block of the chain from \<open>sync_from\<close> on is registered,
  whatever branch it is on, although a call stops at the first block.\<close>

theorem mapping_sync_complete:
  assumes "sync_setup E view" and "worker_ok E w m tips" and "sw_retry_times w \<noteq> 0"
    and "2 * card (due_blocks E (sw_sync_from w) m) + 1 \<le> n"
    and "ancestor (se_client E) h" and "unat (sw_sync_from w) \<le> number_of (se_client E) h"
  shows "is_synced (se_rocks E) (se_codecs E) (ss_db (sw_state (worker_run E (replicate n True) w))) h = Ok True"
proof -
  have "2 * card (due_blocks E (sw_sync_from w) m) + (if tips = [] then 0 else 1) \<le> n"
    using assms(4) by simp
  from sync_setup.run_elapsed [OF assms(1-3) this] obtain m' tips' where
    "worker_ok E (worker_run E (replicate n True) w) m' tips'" "due_blocks E (sw_sync_from w) m' = {}" by blast
  then show ?thesis
    using assms(5,6) by (auto simp: worker_ok_def sync_reads_def mapping_reads_def due_blocks_def due_def)
qed

lemma ref_due: "card (due_blocks ref_sync_env 0 mapping_abs_empty) \<le> 3"
proof -
  have "due_blocks ref_sync_env 0 mapping_abs_empty \<subseteq> {0, 1, 2}"
    using ref_ancestor ref_client_le2 by (auto simp: due_blocks_def ref_sync_env_def)
  then have "card (due_blocks ref_sync_env 0 mapping_abs_empty) \<le> card {0, 1, 2 :: dhash}"
    by (rule card_mono [rotated]) simp
  also have "\<dots> \<le> 3" by (simp add: card_insert_if)
  finally show ?thesis .
qed

lemma ref_worker_ok: "worker_ok ref_sync_env (worker_new 10 0 \<lparr> ss_db = [], ss_metrics = None \<rparr>) mapping_abs_empty []"
  using ref_sync_start [of 0] by (simp add: worker_ok_def worker_new_def)

lemma ref_ancestor_1: "ancestor ref_client 1"
proof -
  have "ancestor ref_client 2" by (rule ancestor.leaf [of _ "[2]"]) (simp_all add: ref_client_def)
  then show ?thesis
    using ancestor.parent [of ref_client 2 "\<lparr> sh_number = 2, sh_parent_hash = 1, sh_digest = [] \<rparr>"]
    by (simp add: ref_client_def)
qed

theorem mapping_sync_complete_witness:
  "is_synced alist_rocks ref_db_codecs (ss_db (sw_state (worker_run ref_sync_env (replicate 7 True)
      (worker_new 10 0 \<lparr> ss_db = [], ss_metrics = None \<rparr>)))) 1 = Ok True"
  using mapping_sync_complete [OF ref_sync_setup ref_worker_ok, of 7 1] ref_due ref_ancestor_1
  by (simp add: worker_new_def ref_sync_env_def)

text \<open>Left to itself the worker comes to rest: without notifications and before the delay elapses,
  it is ready only while blocks are due, and from the poll after that on every poll is pending.\<close>

theorem mapping_sync_rests:
  assumes "sync_setup E view" and "worker_ok E w m tips"
    and "card (due_blocks E (sw_sync_from w) m) + 1 \<le> n"
  shows "fst (poll_next E 0 False False (worker_run E (replicate n False) w)) = PollPending"
proof -
  have "(if sw_have_next w then card (due_blocks E (sw_sync_from w) m) + 1 else 0) \<le> n"
    using assms(3) by simp
  from sync_setup.run_idle [OF assms(1,2) this] show ?thesis by (simp add: poll_next_def Let_def)
qed

theorem mapping_sync_rests_witness:
  "fst (poll_next ref_sync_env 0 False False (worker_run ref_sync_env (replicate 4 False)
      (worker_new 10 0 \<lparr> ss_db = [], ss_metrics = None \<rparr>))) = PollPending"
  using mapping_sync_rests [OF ref_sync_setup ref_worker_ok, of 4] ref_due by (simp add: worker_new_def)

end
