(* ===== verification/TxConvert.thy ===== *)
theory TxConvert
  imports Transactions
begin

text \<open>
  Conversions of transactions, \<open>crates/primitives/transactions/src\<close>: to the types the RPC returns
  (\<open>to_starknet_core_transaction.rs\<close>), from the broadcasted transactions the RPC receives
  (\<open>from_broadcasted_transactions.rs\<close>), and the accessors of \<open>getters.rs\<close> and \<open>lib.rs\<close>. The elements
  of \<open>starknet_api\<close>, \<open>starknet_core\<close> and the wrapper are all field elements here (theories Felt and
  StarkTypes have the conversions). The compiler, the class hashes, gzip, JSON and the constructors of
  blockifier that can fail are the fields of a record.
\<close>

section \<open>The types of \<open>starknet_core\<close>\<close>

record core_bounds_mapping =
  cb_l1_gas :: resource_bounds
  cb_l2_gas :: resource_bounds

datatype core_da_mode = CoreDA_L1 | CoreDA_L2

record core_invoke_v0 =
  ci0_transaction_hash :: felt
  ci0_max_fee :: felt
  ci0_signature :: "felt list"
  ci0_contract_address :: felt
  ci0_entry_point_selector :: felt
  ci0_calldata :: "felt list"

record core_invoke_v1 =
  ci1_transaction_hash :: felt
  ci1_sender_address :: felt
  ci1_calldata :: "felt list"
  ci1_max_fee :: felt
  ci1_signature :: "felt list"
  ci1_nonce :: felt

record core_invoke_v3 =
  ci3_transaction_hash :: felt
  ci3_sender_address :: felt
  ci3_calldata :: "felt list"
  ci3_signature :: "felt list"
  ci3_nonce :: felt
  ci3_resource_bounds :: core_bounds_mapping
  ci3_tip :: "64 word"
  ci3_paymaster_data :: "felt list"
  ci3_account_deployment_data :: "felt list"
  ci3_nonce_da :: core_da_mode
  ci3_fee_da :: core_da_mode

record core_declare_v0 =
  cd0_transaction_hash :: felt
  cd0_sender_address :: felt
  cd0_max_fee :: felt
  cd0_signature :: "felt list"
  cd0_class_hash :: felt

record core_declare_v1 =
  cd1_transaction_hash :: felt
  cd1_sender_address :: felt
  cd1_max_fee :: felt
  cd1_signature :: "felt list"
  cd1_nonce :: felt
  cd1_class_hash :: felt

record core_declare_v2 =
  cd2_transaction_hash :: felt
  cd2_sender_address :: felt
  cd2_compiled_class_hash :: felt
  cd2_max_fee :: felt
  cd2_signature :: "felt list"
  cd2_nonce :: felt
  cd2_class_hash :: felt

record core_declare_v3 =
  cd3_transaction_hash :: felt
  cd3_sender_address :: felt
  cd3_compiled_class_hash :: felt
  cd3_signature :: "felt list"
  cd3_nonce :: felt
  cd3_class_hash :: felt
  cd3_resource_bounds :: core_bounds_mapping
  cd3_tip :: "64 word"
  cd3_paymaster_data :: "felt list"
  cd3_account_deployment_data :: "felt list"
  cd3_nonce_da :: core_da_mode
  cd3_fee_da :: core_da_mode

record core_deploy_account_v1 =
  ca1_transaction_hash :: felt
  ca1_max_fee :: felt
  ca1_signature :: "felt list"
  ca1_nonce :: felt
  ca1_contract_address_salt :: felt
  ca1_constructor_calldata :: "felt list"
  ca1_class_hash :: felt

record core_deploy_account_v3 =
  ca3_transaction_hash :: felt
  ca3_signature :: "felt list"
  ca3_nonce :: felt
  ca3_contract_address_salt :: felt
  ca3_constructor_calldata :: "felt list"
  ca3_class_hash :: felt
  ca3_resource_bounds :: core_bounds_mapping
  ca3_tip :: "64 word"
  ca3_paymaster_data :: "felt list"
  ca3_nonce_da :: core_da_mode
  ca3_fee_da :: core_da_mode

record core_deploy =
  cp_transaction_hash :: felt
  cp_version :: felt
  cp_contract_address_salt :: felt
  cp_constructor_calldata :: "felt list"
  cp_class_hash :: felt

record core_l1_handler =
  cl_transaction_hash :: felt
  cl_version :: felt
  cl_nonce :: "64 word"
  cl_contract_address :: felt
  cl_entry_point_selector :: felt
  cl_calldata :: "felt list"

datatype core_declare =
  CoreDeclareV0 core_declare_v0 | CoreDeclareV1 core_declare_v1 | CoreDeclareV2 core_declare_v2
| CoreDeclareV3 core_declare_v3

datatype core_invoke = CoreInvokeV0 core_invoke_v0 | CoreInvokeV1 core_invoke_v1 | CoreInvokeV3 core_invoke_v3

datatype core_deploy_account = CoreDeployAccountV1 core_deploy_account_v1 | CoreDeployAccountV3 core_deploy_account_v3

datatype core_transaction =
  CoreInvoke core_invoke | CoreL1Handler core_l1_handler | CoreDeclare core_declare | CoreDeploy core_deploy
| CoreDeployAccount core_deploy_account

section \<open>To the types of \<open>starknet_core\<close>\<close>

definition api_resources_to_core_ressources :: "resource_bounds_mapping \<Rightarrow> core_bounds_mapping panicking" where
  "api_resources_to_core_ressources resource =
    res_bind (unwrap_opt (resource L1Gas)) (\<lambda>l1_gas.
    res_bind (unwrap_opt (resource L2Gas)) (\<lambda>l2_gas.
    Ok \<lparr> cb_l1_gas = \<lparr> max_amount = max_amount l1_gas, max_price_per_unit = max_price_per_unit l1_gas \<rparr>,
         cb_l2_gas = \<lparr> max_amount = max_amount l2_gas, max_price_per_unit = max_price_per_unit l2_gas \<rparr> \<rparr>))"

primrec api_da_to_core_da :: "data_availability_mode \<Rightarrow> core_da_mode option" where
  "api_da_to_core_da DA_L1 = Some CoreDA_L1"
| "api_da_to_core_da DA_L2 = Some CoreDA_L2"

primrec declare_to_core :: "felt_lib \<Rightarrow> declare_transaction \<Rightarrow> felt \<Rightarrow> core_declare panicking" where
  "declare_to_core L (DeclareV0 tx) transaction_hash =
    res_bind (from_u128 L (dc1_max_fee tx)) (\<lambda>max_fee.
    Ok (CoreDeclareV0
      \<lparr> cd0_transaction_hash = transaction_hash,
        cd0_sender_address = dc1_sender_address tx,
        cd0_max_fee = max_fee,
        cd0_signature = convert_calldata (dc1_signature tx),
        cd0_class_hash = dc1_class_hash tx \<rparr>))"
| "declare_to_core L (DeclareV1 tx) transaction_hash =
    res_bind (from_u128 L (dc1_max_fee tx)) (\<lambda>max_fee.
    Ok (CoreDeclareV1
      \<lparr> cd1_transaction_hash = transaction_hash,
        cd1_sender_address = dc1_sender_address tx,
        cd1_max_fee = max_fee,
        cd1_signature = convert_calldata (dc1_signature tx),
        cd1_nonce = dc1_nonce tx,
        cd1_class_hash = dc1_class_hash tx \<rparr>))"
| "declare_to_core L (DeclareV2 tx) transaction_hash =
    res_bind (from_u128 L (dc2_max_fee tx)) (\<lambda>max_fee.
    Ok (CoreDeclareV2
      \<lparr> cd2_transaction_hash = transaction_hash,
        cd2_sender_address = dc2_sender_address tx,
        cd2_compiled_class_hash = dc2_compiled_class_hash tx,
        cd2_max_fee = max_fee,
        cd2_signature = convert_calldata (dc2_signature tx),
        cd2_nonce = dc2_nonce tx,
        cd2_class_hash = dc2_class_hash tx \<rparr>))"
| "declare_to_core L (DeclareV3 tx) transaction_hash =
    res_bind (api_resources_to_core_ressources (dc3_resource_bounds tx)) (\<lambda>resource_bounds.
    res_bind (unwrap_opt (api_da_to_core_da (dc3_nonce_da tx))) (\<lambda>nonce_da.
    res_bind (unwrap_opt (api_da_to_core_da (dc3_fee_da tx))) (\<lambda>fee_da.
    Ok (CoreDeclareV3
      \<lparr> cd3_transaction_hash = transaction_hash,
        cd3_sender_address = dc3_sender_address tx,
        cd3_compiled_class_hash = dc3_compiled_class_hash tx,
        cd3_signature = convert_calldata (dc3_signature tx),
        cd3_nonce = dc3_nonce tx,
        cd3_class_hash = dc3_class_hash tx,
        cd3_resource_bounds = resource_bounds,
        cd3_tip = dc3_tip tx,
        cd3_paymaster_data = convert_calldata (dc3_paymaster_data tx),
        cd3_account_deployment_data = convert_calldata (dc3_account_deployment_data tx),
        cd3_nonce_da = nonce_da,
        cd3_fee_da = fee_da \<rparr>))))"

primrec deploy_account_to_core :: "felt_lib \<Rightarrow> deploy_account_transaction \<Rightarrow> felt \<Rightarrow> core_deploy_account panicking" where
  "deploy_account_to_core L (DeployAccountV1 tx) transaction_hash =
    res_bind (from_u128 L (da1_max_fee tx)) (\<lambda>max_fee.
    Ok (CoreDeployAccountV1
      \<lparr> ca1_transaction_hash = transaction_hash,
        ca1_max_fee = max_fee,
        ca1_signature = convert_calldata (da1_signature tx),
        ca1_nonce = da1_nonce tx,
        ca1_contract_address_salt = da1_contract_address_salt tx,
        ca1_constructor_calldata = convert_calldata (da1_constructor_calldata tx),
        ca1_class_hash = da1_class_hash tx \<rparr>))"
| "deploy_account_to_core L (DeployAccountV3 tx) transaction_hash =
    res_bind (api_resources_to_core_ressources (da3_resource_bounds tx)) (\<lambda>resource_bounds.
    res_bind (unwrap_opt (api_da_to_core_da (da3_nonce_da tx))) (\<lambda>nonce_da.
    res_bind (unwrap_opt (api_da_to_core_da (da3_fee_da tx))) (\<lambda>fee_da.
    Ok (CoreDeployAccountV3
      \<lparr> ca3_transaction_hash = transaction_hash,
        ca3_signature = convert_calldata (da3_signature tx),
        ca3_nonce = da3_nonce tx,
        ca3_contract_address_salt = da3_contract_address_salt tx,
        ca3_constructor_calldata = convert_calldata (da3_constructor_calldata tx),
        ca3_class_hash = da3_class_hash tx,
        ca3_resource_bounds = resource_bounds,
        ca3_tip = da3_tip tx,
        ca3_paymaster_data = convert_calldata (da3_paymaster_data tx),
        ca3_nonce_da = nonce_da,
        ca3_fee_da = fee_da \<rparr>))))"

primrec invoke_to_core :: "felt_lib \<Rightarrow> invoke_transaction \<Rightarrow> felt \<Rightarrow> core_invoke panicking" where
  "invoke_to_core L (InvokeV0 tx) transaction_hash =
    res_bind (from_u128 L (iv0_max_fee tx)) (\<lambda>max_fee.
    Ok (CoreInvokeV0
      \<lparr> ci0_transaction_hash = transaction_hash,
        ci0_max_fee = max_fee,
        ci0_signature = convert_calldata (iv0_signature tx),
        ci0_contract_address = iv0_contract_address tx,
        ci0_entry_point_selector = iv0_entry_point_selector tx,
        ci0_calldata = convert_calldata (iv0_calldata tx) \<rparr>))"
| "invoke_to_core L (InvokeV1 tx) transaction_hash =
    res_bind (from_u128 L (iv1_max_fee tx)) (\<lambda>max_fee.
    Ok (CoreInvokeV1
      \<lparr> ci1_transaction_hash = transaction_hash,
        ci1_sender_address = iv1_sender_address tx,
        ci1_calldata = convert_calldata (iv1_calldata tx),
        ci1_max_fee = max_fee,
        ci1_signature = convert_calldata (iv1_signature tx),
        ci1_nonce = iv1_nonce tx \<rparr>))"
| "invoke_to_core L (InvokeV3 tx) transaction_hash =
    res_bind (api_resources_to_core_ressources (iv3_resource_bounds tx)) (\<lambda>resource_bounds.
    res_bind (unwrap_opt (api_da_to_core_da (iv3_nonce_da tx))) (\<lambda>nonce_da.
    res_bind (unwrap_opt (api_da_to_core_da (iv3_fee_da tx))) (\<lambda>fee_da.
    Ok (CoreInvokeV3
      \<lparr> ci3_transaction_hash = transaction_hash,
        ci3_sender_address = iv3_sender_address tx,
        ci3_calldata = convert_calldata (iv3_calldata tx),
        ci3_signature = convert_calldata (iv3_signature tx),
        ci3_nonce = iv3_nonce tx,
        ci3_resource_bounds = resource_bounds,
        ci3_tip = iv3_tip tx,
        ci3_paymaster_data = convert_calldata (iv3_paymaster_data tx),
        ci3_account_deployment_data = convert_calldata (iv3_account_deployment_data tx),
        ci3_nonce_da = nonce_da,
        ci3_fee_da = fee_da \<rparr>))))"

primrec to_starknet_core_tx :: "felt_lib \<Rightarrow> transaction \<Rightarrow> felt \<Rightarrow> core_transaction panicking" where
  "to_starknet_core_tx L (Declare tx) transaction_hash = map_ok CoreDeclare (declare_to_core L tx transaction_hash)"
| "to_starknet_core_tx L (DeployAccount tx) transaction_hash =
    map_ok CoreDeployAccount (deploy_account_to_core L tx transaction_hash)"
| "to_starknet_core_tx L (Deploy tx) transaction_hash =
    Ok (CoreDeploy
      \<lparr> cp_transaction_hash = transaction_hash,
        cp_version = ZERO,
        cp_contract_address_salt = dp_contract_address_salt tx,
        cp_constructor_calldata = convert_calldata (dp_constructor_calldata tx),
        cp_class_hash = dp_class_hash tx \<rparr>)"
| "to_starknet_core_tx L (Invoke tx) transaction_hash = map_ok CoreInvoke (invoke_to_core L tx transaction_hash)"
| "to_starknet_core_tx L (L1Handler tx) transaction_hash =
    res_bind (unwrap (try_into_u64 L (l1_nonce tx))) (\<lambda>nonce.
    Ok (CoreL1Handler
      \<lparr> cl_transaction_hash = transaction_hash,
        cl_version = 0,
        cl_nonce = nonce,
        cl_contract_address = l1_contract_address tx,
        cl_entry_point_selector = l1_entry_point_selector tx,
        cl_calldata = convert_calldata (l1_calldata tx) \<rparr>))"

section \<open>Broadcasted transactions\<close>

record broadcasted_invoke_v1 =
  bi1_sender_address :: felt
  bi1_calldata :: "felt list"
  bi1_max_fee :: felt
  bi1_signature :: "felt list"
  bi1_nonce :: felt
  bi1_is_query :: bool

record broadcasted_invoke_v3 =
  bi3_sender_address :: felt
  bi3_calldata :: "felt list"
  bi3_signature :: "felt list"
  bi3_nonce :: felt
  bi3_resource_bounds :: core_bounds_mapping
  bi3_tip :: "64 word"
  bi3_paymaster_data :: "felt list"
  bi3_account_deployment_data :: "felt list"
  bi3_nonce_da :: core_da_mode
  bi3_fee_da :: core_da_mode
  bi3_is_query :: bool

record broadcasted_deploy_account_v1 =
  ba1_max_fee :: felt
  ba1_signature :: "felt list"
  ba1_nonce :: felt
  ba1_contract_address_salt :: felt
  ba1_constructor_calldata :: "felt list"
  ba1_class_hash :: felt
  ba1_is_query :: bool

record broadcasted_deploy_account_v3 =
  ba3_signature :: "felt list"
  ba3_nonce :: felt
  ba3_contract_address_salt :: felt
  ba3_constructor_calldata :: "felt list"
  ba3_class_hash :: felt
  ba3_resource_bounds :: core_bounds_mapping
  ba3_tip :: "64 word"
  ba3_paymaster_data :: "felt list"
  ba3_nonce_da :: core_da_mode
  ba3_fee_da :: core_da_mode
  ba3_is_query :: bool

section \<open>Contract classes\<close>

text \<open>An offset or index of type \<open>usize\<close> is a \<open>64 word\<close>; a \<open>BigUint\<close> a natural number.\<close>

record legacy_entry_point =
  le_offset :: "64 word"
  le_selector :: felt

record 'e entry_points_by_type =
  ep_constructor :: "'e list"
  ep_external :: "'e list"
  ep_l1_handler :: "'e list"

record 'abi compressed_legacy_class =
  lc_program :: bytes
  lc_entry_points :: "legacy_entry_point entry_points_by_type"
  lc_abi :: "'abi list option"

record raw_legacy_entry_point =
  rl_offset :: "64 word"
  rl_selector :: felt

record ('lprog, 'rabi) legacy_contract_class =
  lcc_program :: 'lprog
  lcc_abi :: "'rabi list option"
  lcc_entry_points :: "raw_legacy_entry_point entry_points_by_type"

text \<open>An entry point of \<open>starknet_api\<close>: the selector is given by its 32 bytes.\<close>

record api_entry_point =
  ae_selector :: bytes
  ae_offset :: "64 word"

datatype ('prog, 'v1) blockifier_class =
  ClassV0 'prog "(entry_point_type \<times> api_entry_point list) list"
| ClassV1 'v1

record sierra_entry_point =
  se_selector :: felt
  se_function_idx :: "64 word"

record flattened_sierra_class =
  fs_sierra_program :: "felt list"
  fs_contract_class_version :: string
  fs_entry_points :: "sierra_entry_point entry_points_by_type"
  fs_abi :: string

record contract_entry_point =
  ce_selector :: nat
  ce_function_idx :: "64 word"

record sierra_contract_class =
  sc_sierra_program :: "nat list"
  sc_contract_class_version :: string
  sc_entry_points :: "contract_entry_point entry_points_by_type"

record casm_entry_point =
  cs_selector :: nat
  cs_offset :: "64 word"
  cs_builtins :: "string list"

record casm_contract_class =
  cm_prime :: nat
  cm_compiler_version :: string
  cm_bytecode :: "nat list"
  cm_entry_points :: "casm_entry_point entry_points_by_type"

record compiled_entry_point =
  co_selector :: felt
  co_offset :: "64 word"
  co_builtins :: "string list"

record compiled_class =
  cc_prime :: string
  cc_compiler_version :: string
  cc_bytecode :: "felt list"
  cc_entry_points :: "compiled_entry_point entry_points_by_type"

text \<open>What is not in the repository: gzip, JSON, the Sierra compiler, the class hashes, and the
  constructors of blockifier.\<close>

record ('abi, 'rabi, 'lprog, 'prog, 'v1, 'ci) class_lib =
  gz_read_to_end :: "bytes \<Rightarrow> bytes option"
  json_from_slice :: "bytes \<Rightarrow> 'lprog option"
  abi_entry_into :: "'abi \<Rightarrow> 'rabi"
  legacy_class_hash :: "('lprog, 'rabi) legacy_contract_class \<Rightarrow> felt option"
  program_from_bytes :: "bytes \<Rightarrow> 'prog option"
  from_contract_class :: "sierra_contract_class \<Rightarrow> casm_contract_class option"
  class_v1_try_from :: "casm_contract_class \<Rightarrow> 'v1 option"
  compiled_class_hash :: "compiled_class \<Rightarrow> felt option"
  sierra_class_hash :: "flattened_sierra_class \<Rightarrow> felt"
  class_info_new :: "('prog, 'v1) blockifier_class \<Rightarrow> nat \<Rightarrow> nat \<Rightarrow> 'ci option"
  declare_new_ok :: "declare_transaction \<Rightarrow> felt \<Rightarrow> 'ci \<Rightarrow> bool"

definition map_entry_points :: "('a \<Rightarrow> 'b) \<Rightarrow> 'a entry_points_by_type \<Rightarrow> 'b entry_points_by_type" where
  "map_entry_points f e =
    \<lparr> ep_constructor = map f (ep_constructor e), ep_external = map f (ep_external e),
      ep_l1_handler = map f (ep_l1_handler e) \<rparr>"

definition to_raw_legacy_entry_point :: "legacy_entry_point \<Rightarrow> raw_legacy_entry_point" where
  "to_raw_legacy_entry_point entry_point =
    \<lparr> rl_offset = le_offset entry_point, rl_selector = le_selector entry_point \<rparr>"

definition to_raw_legacy_entry_points :: "legacy_entry_point entry_points_by_type
    \<Rightarrow> raw_legacy_entry_point entry_points_by_type" where
  "to_raw_legacy_entry_points entry_points = map_entry_points to_raw_legacy_entry_point entry_points"

definition field_element_to_big_uint :: "felt_lib \<Rightarrow> felt \<Rightarrow> nat" where
  "field_element_to_big_uint L v = be_nat (fe_to_bytes_be L v)"

definition sierra_entry_point_to_contract_entry_point :: "felt_lib \<Rightarrow> sierra_entry_point \<Rightarrow> contract_entry_point" where
  "sierra_entry_point_to_contract_entry_point L v =
    \<lparr> ce_selector = field_element_to_big_uint L (se_selector v), ce_function_idx = se_function_idx v \<rparr>"

definition flattened_sierra_to_casm_contract_class ::
    "felt_lib \<Rightarrow> ('abi, 'rabi, 'lprog, 'prog, 'v1, 'ci) class_lib \<Rightarrow> flattened_sierra_class
    \<Rightarrow> casm_contract_class option" where
  "flattened_sierra_to_casm_contract_class L M flattened_sierra =
    from_contract_class M
      \<lparr> sc_sierra_program = map (field_element_to_big_uint L) (fs_sierra_program flattened_sierra),
        sc_contract_class_version = fs_contract_class_version flattened_sierra,
        sc_entry_points =
          map_entry_points (sierra_entry_point_to_contract_entry_point L) (fs_entry_points flattened_sierra) \<rparr>"

text \<open>\<open>utils.rs\<close>: the same for a class of \<open>starknet_api\<close>, whose entry points are a map.\<close>

record api_state_entry_point =
  as_function_idx :: "64 word"
  as_selector :: felt

record api_contract_class =
  ac_sierra_program :: "felt list"
  ac_entry_points :: "entry_point_type \<rightharpoonup> api_state_entry_point list"

definition starknet_api_entry_point_to_contract_entry_point :: "felt_lib \<Rightarrow> api_state_entry_point \<Rightarrow> contract_entry_point" where
  "starknet_api_entry_point_to_contract_entry_point L v =
    \<lparr> ce_selector = be_nat (stark_bytes L (as_selector v)), ce_function_idx = as_function_idx v \<rparr>"

definition sierra_to_casm_contract_class :: "felt_lib \<Rightarrow> ('abi, 'rabi, 'lprog, 'prog, 'v1, 'ci) class_lib
    \<Rightarrow> api_contract_class \<Rightarrow> casm_contract_class option" where
  "sierra_to_casm_contract_class L M contract_class =
    (let entry_points = (\<lambda>ty. map (starknet_api_entry_point_to_contract_entry_point L)
           (case ac_entry_points contract_class ty of Some es \<Rightarrow> es | None \<Rightarrow> []))
     in from_contract_class M
      \<lparr> sc_sierra_program = map (\<lambda>v. be_nat (stark_bytes L v)) (ac_sierra_program contract_class),
        sc_contract_class_version = ''0.1.0'',
        sc_entry_points = \<lparr> ep_constructor = entry_points Constructor, ep_external = entry_points External,
          ep_l1_handler = entry_points L1HandlerEntry \<rparr> \<rparr>)"

text \<open>\<open>BigUint::to_bytes_be\<close>: the shortest big-endian representation, one zero byte for zero.\<close>

fun biguint_bytes :: "nat \<Rightarrow> bytes" where
  "biguint_bytes n = (if n < 256 then [of_nat n] else biguint_bytes (n div 256) @ [of_nat (n mod 256)])"

declare biguint_bytes.simps [simp del]

definition biguint_to_field_element :: "felt_lib \<Rightarrow> nat \<Rightarrow> ('e, felt) res" where
  "biguint_to_field_element L v = unwrap (fe_from_byte_slice_be L (biguint_bytes v))"

definition casm_entry_point_to_compiled_entry_point :: "felt_lib \<Rightarrow> casm_entry_point \<Rightarrow> ('e, compiled_entry_point) res" where
  "casm_entry_point_to_compiled_entry_point L v =
    res_bind (biguint_to_field_element L (cs_selector v)) (\<lambda>selector.
    Ok \<lparr> co_selector = selector, co_offset = cs_offset v, co_builtins = cs_builtins v \<rparr>)"

definition casm_entry_points_to_compiled_entry_points :: "felt_lib \<Rightarrow> casm_entry_point entry_points_by_type
    \<Rightarrow> ('e, compiled_entry_point entry_points_by_type) res" where
  "casm_entry_points_to_compiled_entry_points L v =
    res_bind (try_map (casm_entry_point_to_compiled_entry_point L) (ep_external v)) (\<lambda>external.
    res_bind (try_map (casm_entry_point_to_compiled_entry_point L) (ep_l1_handler v)) (\<lambda>l1_handler.
    res_bind (try_map (casm_entry_point_to_compiled_entry_point L) (ep_constructor v)) (\<lambda>constructor.
    Ok \<lparr> ep_constructor = constructor, ep_external = external, ep_l1_handler = l1_handler \<rparr>)))"

definition casm_contract_class_to_compiled_class :: "felt_lib \<Rightarrow> casm_contract_class \<Rightarrow> ('e, compiled_class) res" where
  "casm_contract_class_to_compiled_class L casm =
    res_bind (try_map (biguint_to_field_element L) (cm_bytecode casm)) (\<lambda>bytecode.
    res_bind (casm_entry_points_to_compiled_entry_points L (cm_entry_points casm)) (\<lambda>entry_points.
    Ok \<lparr> cc_prime = show_dec (cm_prime casm),
         cc_compiler_version = cm_compiler_version casm,
         cc_bytecode = bytecode,
         cc_entry_points = entry_points \<rparr>))"

definition get_casm_contract_class_hash :: "felt_lib \<Rightarrow> ('abi, 'rabi, 'lprog, 'prog, 'v1, 'ci) class_lib
    \<Rightarrow> casm_contract_class \<Rightarrow> ('e, felt) res" where
  "get_casm_contract_class_hash L M casm =
    res_bind (casm_contract_class_to_compiled_class L casm) (\<lambda>compiled_class.
    unwrap_opt (compiled_class_hash M compiled_class))"

definition api_entry_points :: "felt_lib \<Rightarrow> legacy_entry_point list \<Rightarrow> api_entry_point list" where
  "api_entry_points L = map (\<lambda>e. \<lparr> ae_selector = fe_to_bytes_be L (le_selector e), ae_offset = le_offset e \<rparr>)"

section \<open>From broadcasted transactions\<close>

datatype conversion_error =
  MaxFeeTooBig | ProgramDecompressionFailed | ProgramDeserializationFailed | ClassHashComputationFailed
| CasmContractClassConversionFailed | InvalidCompiledClassHash | SierraCompilationFailed
| UnsuportedTransactionVersion

text \<open>A blockifier transaction: the transaction of \<open>starknet_api\<close>, its hash, and the class info or the
  contract address.\<close>

datatype 'ci account_transaction =
  AccountDeclare declare_transaction felt 'ci
| AccountDeployAccount deploy_account_transaction felt felt
| AccountInvoke invoke_transaction felt

record 'abi broadcasted_declare_v1 =
  bd1_sender_address :: felt
  bd1_max_fee :: felt
  bd1_signature :: "felt list"
  bd1_nonce :: felt
  bd1_contract_class :: "'abi compressed_legacy_class"
  bd1_is_query :: bool

record broadcasted_declare_v2 =
  bd2_sender_address :: felt
  bd2_compiled_class_hash :: felt
  bd2_max_fee :: felt
  bd2_signature :: "felt list"
  bd2_nonce :: felt
  bd2_contract_class :: flattened_sierra_class
  bd2_is_query :: bool

record broadcasted_declare_v3 =
  bd3_sender_address :: felt
  bd3_compiled_class_hash :: felt
  bd3_signature :: "felt list"
  bd3_nonce :: felt
  bd3_contract_class :: flattened_sierra_class
  bd3_resource_bounds :: core_bounds_mapping
  bd3_tip :: "64 word"
  bd3_paymaster_data :: "felt list"
  bd3_account_deployment_data :: "felt list"
  bd3_nonce_da :: core_da_mode
  bd3_fee_da :: core_da_mode
  bd3_is_query :: bool

datatype 'abi broadcasted_declare =
  BroadcastedDeclareV1 "'abi broadcasted_declare_v1"
| BroadcastedDeclareV2 broadcasted_declare_v2
| BroadcastedDeclareV3 broadcasted_declare_v3

datatype broadcasted_invoke =
  BroadcastedInvokeV1 broadcasted_invoke_v1 | BroadcastedInvokeV3 broadcasted_invoke_v3

datatype broadcasted_deploy_account =
  BroadcastedDeployAccountV1 broadcasted_deploy_account_v1
| BroadcastedDeployAccountV3 broadcasted_deploy_account_v3

datatype 'abi broadcasted_transaction =
  BroadcastedInvoke broadcasted_invoke
| BroadcastedDeclare "'abi broadcasted_declare"
| BroadcastedDeployAccount broadcasted_deploy_account

primrec core_da_to_api_da :: "core_da_mode \<Rightarrow> data_availability_mode" where
  "core_da_to_api_da CoreDA_L1 = DA_L1"
| "core_da_to_api_da CoreDA_L2 = DA_L2"

definition core_resources_to_api_resources :: "core_bounds_mapping \<Rightarrow> resource_bounds_mapping" where
  "core_resources_to_api_resources core_resources =
    Map.empty
      (L1Gas \<mapsto> \<lparr> max_amount = max_amount (cb_l1_gas core_resources),
                 max_price_per_unit = max_price_per_unit (cb_l1_gas core_resources) \<rparr>,
       L2Gas \<mapsto> \<lparr> max_amount = max_amount (cb_l2_gas core_resources),
                 max_price_per_unit = max_price_per_unit (cb_l2_gas core_resources) \<rparr>)"

definition instantiate_blockifier_contract_class :: "felt_lib
    \<Rightarrow> ('abi, 'rabi, 'lprog, 'prog, 'v1, 'ci) class_lib \<Rightarrow> 'abi compressed_legacy_class \<Rightarrow> bytes
    \<Rightarrow> (conversion_error, ('prog, 'v1) blockifier_class) res" where
  "instantiate_blockifier_contract_class L M contract_class program_decompressed_bytes =
    res_bind (ok_or ProgramDeserializationFailed (program_from_bytes M program_decompressed_bytes)) (\<lambda>program.
    Ok (ClassV0 program
      [(Constructor, api_entry_points L (ep_constructor (lc_entry_points contract_class))),
       (External, api_entry_points L (ep_external (lc_entry_points contract_class))),
       (L1HandlerEntry, api_entry_points L (ep_l1_handler (lc_entry_points contract_class)))]))"

text \<open>The chain id of the hashes is zero, and no block number is given.\<close>

definition account_declare :: "felt_lib \<Rightarrow> crypto_lib \<Rightarrow> ('abi, 'rabi, 'lprog, 'prog, 'v1, 'ci) class_lib
    \<Rightarrow> declare_transaction \<Rightarrow> ('prog, 'v1) blockifier_class \<Rightarrow> nat \<Rightarrow> nat
    \<Rightarrow> (conversion_error, 'ci account_transaction) res" where
  "account_declare L K M declare_tx blockifier_contract_class program_length abi_length =
    res_bind (unwrap (declare_compute_hash L K (PedersenHasher L K) declare_tx ZERO False None)) (\<lambda>tx_hash.
    res_bind (unwrap_opt (class_info_new M blockifier_contract_class program_length abi_length)) (\<lambda>class_info.
    if declare_new_ok M declare_tx tx_hash class_info then Ok (AccountDeclare declare_tx tx_hash class_info)
    else Panic))"

definition declare_v1_to_account :: "felt_lib \<Rightarrow> crypto_lib \<Rightarrow> ('abi, 'rabi, 'lprog, 'prog, 'v1, 'ci) class_lib
    \<Rightarrow> 'abi broadcasted_declare_v1 \<Rightarrow> (conversion_error, 'ci account_transaction) res" where
  "declare_v1_to_account L K M v =
    (let contract_class = bd1_contract_class v in
    res_bind (ok_or ProgramDecompressionFailed (gz_read_to_end M (lc_program contract_class))) (\<lambda>decompressed_bytes.
    res_bind (ok_or ProgramDeserializationFailed (json_from_slice M decompressed_bytes)) (\<lambda>program.
    let legacy_contract_class =
          \<lparr> lcc_program = program,
            lcc_abi = (case lc_abi contract_class of Some abi \<Rightarrow> Some (map (abi_entry_into M) abi) | None \<Rightarrow> Some []),
            lcc_entry_points = to_raw_legacy_entry_points (lc_entry_points contract_class) \<rparr>
    in res_bind (ok_or ClassHashComputationFailed (legacy_class_hash M legacy_contract_class)) (\<lambda>class_hash.
    res_bind (instantiate_blockifier_contract_class L M contract_class decompressed_bytes) (\<lambda>blockifier_contract_class.
    res_bind (unwrap (try_into_u128 L (bd1_max_fee v))) (\<lambda>max_fee.
    let declare_tx = DeclareV1
          \<lparr> dc1_max_fee = max_fee,
            dc1_signature = convert_calldata (bd1_signature v),
            dc1_nonce = bd1_nonce v,
            dc1_class_hash = class_hash,
            dc1_sender_address = bd1_sender_address v \<rparr>
    in res_bind (unwrap_opt (lc_abi contract_class)) (\<lambda>abi.
       account_declare L K M declare_tx blockifier_contract_class (length (lc_program contract_class)) (length abi))))))))"

text \<open>The compiled class of a Sierra class, checked against the hash the sender signed.\<close>

definition checked_sierra_class :: "felt_lib \<Rightarrow> ('abi, 'rabi, 'lprog, 'prog, 'v1, 'ci) class_lib
    \<Rightarrow> flattened_sierra_class \<Rightarrow> felt \<Rightarrow> (conversion_error, ('prog, 'v1) blockifier_class) res" where
  "checked_sierra_class L M contract_class signed_hash =
    res_bind (ok_or SierraCompilationFailed (flattened_sierra_to_casm_contract_class L M contract_class)) (\<lambda>casm_contract_class.
    res_bind (get_casm_contract_class_hash L M casm_contract_class) (\<lambda>casm_hash.
    if casm_hash \<noteq> signed_hash then Err InvalidCompiledClassHash
    else res_bind (ok_or CasmContractClassConversionFailed (class_v1_try_from M casm_contract_class)) (\<lambda>v1.
      Ok (ClassV1 v1))))"

definition declare_v2_to_account :: "felt_lib \<Rightarrow> crypto_lib \<Rightarrow> ('abi, 'rabi, 'lprog, 'prog, 'v1, 'ci) class_lib
    \<Rightarrow> broadcasted_declare_v2 \<Rightarrow> (conversion_error, 'ci account_transaction) res" where
  "declare_v2_to_account L K M v =
    (let contract_class = bd2_contract_class v in
    res_bind (checked_sierra_class L M contract_class (bd2_compiled_class_hash v)) (\<lambda>blockifier_contract_class.
    res_bind (unwrap (try_into_u128 L (bd2_max_fee v))) (\<lambda>max_fee.
    let declare_tx = DeclareV2
          \<lparr> dc2_max_fee = max_fee,
            dc2_signature = convert_calldata (bd2_signature v),
            dc2_nonce = bd2_nonce v,
            dc2_class_hash = sierra_class_hash M contract_class,
            dc2_compiled_class_hash = bd2_compiled_class_hash v,
            dc2_sender_address = bd2_sender_address v \<rparr>
    in account_declare L K M declare_tx blockifier_contract_class (length (fs_sierra_program contract_class))
         (length (fs_abi contract_class)))))"

definition declare_v3_to_account :: "felt_lib \<Rightarrow> crypto_lib \<Rightarrow> ('abi, 'rabi, 'lprog, 'prog, 'v1, 'ci) class_lib
    \<Rightarrow> broadcasted_declare_v3 \<Rightarrow> (conversion_error, 'ci account_transaction) res" where
  "declare_v3_to_account L K M v =
    (let contract_class = bd3_contract_class v in
    res_bind (checked_sierra_class L M contract_class (bd3_compiled_class_hash v)) (\<lambda>blockifier_contract_class.
    let declare_tx = DeclareV3
          \<lparr> dc3_resource_bounds = core_resources_to_api_resources (bd3_resource_bounds v),
            dc3_tip = bd3_tip v,
            dc3_signature = convert_calldata (bd3_signature v),
            dc3_nonce = bd3_nonce v,
            dc3_class_hash = sierra_class_hash M contract_class,
            dc3_compiled_class_hash = bd3_compiled_class_hash v,
            dc3_sender_address = bd3_sender_address v,
            dc3_nonce_da = core_da_to_api_da (bd3_nonce_da v),
            dc3_fee_da = core_da_to_api_da (bd3_fee_da v),
            dc3_paymaster_data = convert_calldata (bd3_paymaster_data v),
            dc3_account_deployment_data = convert_calldata (bd3_account_deployment_data v) \<rparr>
    in account_declare L K M declare_tx blockifier_contract_class (length (fs_sierra_program contract_class))
         (length (fs_abi contract_class))))"

primrec declare_to_account_transaction :: "felt_lib \<Rightarrow> crypto_lib
    \<Rightarrow> ('abi, 'rabi, 'lprog, 'prog, 'v1, 'ci) class_lib \<Rightarrow> 'abi broadcasted_declare
    \<Rightarrow> (conversion_error, 'ci account_transaction) res" where
  "declare_to_account_transaction L K M (BroadcastedDeclareV1 v) = declare_v1_to_account L K M v"
| "declare_to_account_transaction L K M (BroadcastedDeclareV2 v) = declare_v2_to_account L K M v"
| "declare_to_account_transaction L K M (BroadcastedDeclareV3 v) = declare_v3_to_account L K M v"

primrec invoke_to_account_transaction :: "felt_lib \<Rightarrow> crypto_lib \<Rightarrow> broadcasted_invoke
    \<Rightarrow> (conversion_error, 'ci account_transaction) res" where
  "invoke_to_account_transaction L K (BroadcastedInvokeV1 v) =
    res_bind (unwrap (try_into_u128 L (bi1_max_fee v))) (\<lambda>max_fee.
    let invoke_tx = InvokeV1
          \<lparr> iv1_max_fee = max_fee,
            iv1_signature = convert_calldata (bi1_signature v),
            iv1_nonce = bi1_nonce v,
            iv1_sender_address = bi1_sender_address v,
            iv1_calldata = convert_calldata (bi1_calldata v) \<rparr>
    in res_bind (unwrap (invoke_compute_hash L K (PedersenHasher L K) invoke_tx ZERO False None)) (\<lambda>tx_hash.
       Ok (AccountInvoke invoke_tx tx_hash)))"
| "invoke_to_account_transaction L K (BroadcastedInvokeV3 v) =
    (let invoke_tx = InvokeV3
          \<lparr> iv3_resource_bounds = core_resources_to_api_resources (bi3_resource_bounds v),
            iv3_tip = bi3_tip v,
            iv3_signature = convert_calldata (bi3_signature v),
            iv3_nonce = bi3_nonce v,
            iv3_sender_address = bi3_sender_address v,
            iv3_calldata = convert_calldata (bi3_calldata v),
            iv3_nonce_da = core_da_to_api_da (bi3_nonce_da v),
            iv3_fee_da = core_da_to_api_da (bi3_fee_da v),
            iv3_paymaster_data = convert_calldata (bi3_paymaster_data v),
            iv3_account_deployment_data = convert_calldata (bi3_account_deployment_data v) \<rparr>
    in res_bind (unwrap (invoke_compute_hash L K (PedersenHasher L K) invoke_tx ZERO False None)) (\<lambda>tx_hash.
       Ok (AccountInvoke invoke_tx tx_hash)))"

definition account_deploy_account :: "felt_lib \<Rightarrow> crypto_lib \<Rightarrow> deploy_account_transaction \<Rightarrow> felt \<Rightarrow> felt
    \<Rightarrow> felt list \<Rightarrow> (conversion_error, 'ci account_transaction) res" where
  "account_deploy_account L K deploy_account_tx contract_address_salt class_hash constructor_calldata =
    res_bind (unwrap (deploy_account_compute_hash L K (PedersenHasher L K) deploy_account_tx ZERO False None)) (\<lambda>tx_hash.
    res_bind (unwrap_opt (calculate_contract_address K contract_address_salt class_hash constructor_calldata 0))
      (\<lambda>contract_address.
    Ok (AccountDeployAccount deploy_account_tx tx_hash contract_address)))"

primrec deploy_account_to_account_transaction :: "felt_lib \<Rightarrow> crypto_lib \<Rightarrow> broadcasted_deploy_account
    \<Rightarrow> (conversion_error, 'ci account_transaction) res" where
  "deploy_account_to_account_transaction L K (BroadcastedDeployAccountV1 v) =
    res_bind (unwrap (try_into_u128 L (ba1_max_fee v))) (\<lambda>max_fee.
    account_deploy_account L K
      (DeployAccountV1
        \<lparr> da1_max_fee = max_fee,
          da1_signature = convert_calldata (ba1_signature v),
          da1_nonce = ba1_nonce v,
          da1_class_hash = ba1_class_hash v,
          da1_contract_address_salt = ba1_contract_address_salt v,
          da1_constructor_calldata = convert_calldata (ba1_constructor_calldata v) \<rparr>)
      (ba1_contract_address_salt v) (ba1_class_hash v) (convert_calldata (ba1_constructor_calldata v)))"
| "deploy_account_to_account_transaction L K (BroadcastedDeployAccountV3 v) =
    account_deploy_account L K
      (DeployAccountV3
        \<lparr> da3_resource_bounds = core_resources_to_api_resources (ba3_resource_bounds v),
          da3_tip = ba3_tip v,
          da3_signature = convert_calldata (ba3_signature v),
          da3_nonce = ba3_nonce v,
          da3_class_hash = ba3_class_hash v,
          da3_contract_address_salt = ba3_contract_address_salt v,
          da3_constructor_calldata = convert_calldata (ba3_constructor_calldata v),
          da3_nonce_da = core_da_to_api_da (ba3_nonce_da v),
          da3_fee_da = core_da_to_api_da (ba3_fee_da v),
          da3_paymaster_data = convert_calldata (ba3_paymaster_data v) \<rparr>)
      (ba3_contract_address_salt v) (ba3_class_hash v) (convert_calldata (ba3_constructor_calldata v))"

primrec to_account_transaction :: "felt_lib \<Rightarrow> crypto_lib \<Rightarrow> ('abi, 'rabi, 'lprog, 'prog, 'v1, 'ci) class_lib
    \<Rightarrow> 'abi broadcasted_transaction \<Rightarrow> (conversion_error, 'ci account_transaction) res" where
  "to_account_transaction L K M (BroadcastedInvoke tx) = invoke_to_account_transaction L K tx"
| "to_account_transaction L K M (BroadcastedDeclare tx) = declare_to_account_transaction L K M tx"
| "to_account_transaction L K M (BroadcastedDeployAccount tx) = deploy_account_to_account_transaction L K tx"

section \<open>Accessors\<close>

text \<open>The getters of \<open>starknet_api\<close> that \<open>getters.rs\<close> calls.\<close>

record stx_getters =
  gt_declare_sender :: "declare_transaction \<Rightarrow> felt"
  gt_declare_signature :: "declare_transaction \<Rightarrow> felt list"
  gt_declare_nonce :: "declare_transaction \<Rightarrow> felt"
  gt_deploy_account_salt :: "deploy_account_transaction \<Rightarrow> felt"
  gt_deploy_account_signature :: "deploy_account_transaction \<Rightarrow> felt list"
  gt_deploy_account_calldata :: "deploy_account_transaction \<Rightarrow> felt list"
  gt_deploy_account_nonce :: "deploy_account_transaction \<Rightarrow> felt"
  gt_invoke_sender :: "invoke_transaction \<Rightarrow> felt"
  gt_invoke_signature :: "invoke_transaction \<Rightarrow> felt list"
  gt_invoke_calldata :: "invoke_transaction \<Rightarrow> felt list"
  gt_invoke_nonce :: "invoke_transaction \<Rightarrow> felt"
  gt_declare_class_hash :: "declare_transaction \<Rightarrow> felt"

datatype tx_type = TxInvoke | TxDeclare | TxDeployAccount | TxL1Handler

primrec account_sender_address :: "stx_getters \<Rightarrow> 'ci account_transaction \<Rightarrow> felt" where
  "account_sender_address G (AccountDeclare tx h ci) = gt_declare_sender G tx"
| "account_sender_address G (AccountDeployAccount tx h addr) = gt_deploy_account_salt G tx"
| "account_sender_address G (AccountInvoke tx h) = gt_invoke_sender G tx"

primrec account_signature :: "stx_getters \<Rightarrow> 'ci account_transaction \<Rightarrow> felt list" where
  "account_signature G (AccountDeclare tx h ci) = convert_calldata (gt_declare_signature G tx)"
| "account_signature G (AccountDeployAccount tx h addr) = convert_calldata (gt_deploy_account_signature G tx)"
| "account_signature G (AccountInvoke tx h) = convert_calldata (gt_invoke_signature G tx)"

primrec account_calldata :: "stx_getters \<Rightarrow> 'ci account_transaction \<Rightarrow> felt list option" where
  "account_calldata G (AccountDeclare tx h ci) = None"
| "account_calldata G (AccountDeployAccount tx h addr) = Some (convert_calldata (gt_deploy_account_calldata G tx))"
| "account_calldata G (AccountInvoke tx h) = Some (convert_calldata (gt_invoke_calldata G tx))"

primrec account_nonce :: "stx_getters \<Rightarrow> 'ci account_transaction \<Rightarrow> felt option" where
  "account_nonce G (AccountDeclare tx h ci) = Some (gt_declare_nonce G tx)"
| "account_nonce G (AccountDeployAccount tx h addr) = Some (gt_deploy_account_nonce G tx)"
| "account_nonce G (AccountInvoke tx h) = Some (gt_invoke_nonce G tx)"

primrec account_tx_type :: "'ci account_transaction \<Rightarrow> tx_type" where
  "account_tx_type (AccountDeclare tx h ci) = TxDeclare"
| "account_tx_type (AccountDeployAccount tx h addr) = TxDeployAccount"
| "account_tx_type (AccountInvoke tx h) = TxInvoke"

primrec account_tx_hash :: "'ci account_transaction \<Rightarrow> felt option" where
  "account_tx_hash (AccountDeclare tx h ci) = Some h"
| "account_tx_hash (AccountDeployAccount tx h addr) = Some h"
| "account_tx_hash (AccountInvoke tx h) = Some h"

section \<open>Round trips of the parts\<close>

lemma convert_calldata_id [simp]: "convert_calldata xs = xs"
  by (simp add: convert_calldata_def)

lemma resources_roundtrip [simp]:
  "api_resources_to_core_ressources (core_resources_to_api_resources r) = Ok r"
  by (simp add: api_resources_to_core_ressources_def core_resources_to_api_resources_def)

lemma da_roundtrip [simp]: "api_da_to_core_da (core_da_to_api_da d) = Some d"
  by (cases d) simp_all

lemma api_da_defined [simp]: "api_da_to_core_da d \<noteq> None"
  by (cases d) simp_all

lemma max_fee_roundtrip:
  assumes "felt_codec L" and "try_into_u128 L f = Ok v"
  shows "from_u128 L v = (Ok f :: ('e, felt) res)"
proof -
  from assms(2) have f: "felt_nat f < 2 ^ 128" and v: "v = of_nat (felt_nat f)"
    by (simp_all add: try_into_u128_def felt_codec.fe_to_u128 [OF assms(1)] result_simps del: power_numeral
        split: if_splits)
  from f have "unat v = felt_nat f" by (simp add: v unat_of_nat del: power_numeral)
  then show ?thesis by (simp add: felt_codec.u128_embeds [OF assms(1)])
qed

lemma try_into_u128_outcome:
  "felt_codec L \<Longrightarrow> unwrap (try_into_u128 L f) =
     (if felt_nat f < 2 ^ 128 then Ok (of_nat (felt_nat f)) else Panic)"
  by (simp add: try_into_u128_def felt_codec.fe_to_u128 del: power_numeral)

section \<open>The broadcasted transaction as the RPC shows it\<close>

primrec account_tx :: "'ci account_transaction \<Rightarrow> transaction" where
  "account_tx (AccountDeclare tx h ci) = Declare tx"
| "account_tx (AccountDeployAccount tx h addr) = DeployAccount tx"
| "account_tx (AccountInvoke tx h) = Invoke tx"

text \<open>The fields of the broadcasted transaction, with its hash and, for a declaration, the class hash.\<close>

primrec broadcast_core :: "'abi broadcasted_transaction \<Rightarrow> felt \<Rightarrow> felt \<Rightarrow> core_transaction" where
  "broadcast_core (BroadcastedInvoke t) class_hash h = CoreInvoke
    (case t of
       BroadcastedInvokeV1 v \<Rightarrow> CoreInvokeV1
         \<lparr> ci1_transaction_hash = h, ci1_sender_address = bi1_sender_address v, ci1_calldata = bi1_calldata v,
           ci1_max_fee = bi1_max_fee v, ci1_signature = bi1_signature v, ci1_nonce = bi1_nonce v \<rparr>
     | BroadcastedInvokeV3 v \<Rightarrow> CoreInvokeV3
         \<lparr> ci3_transaction_hash = h, ci3_sender_address = bi3_sender_address v, ci3_calldata = bi3_calldata v,
           ci3_signature = bi3_signature v, ci3_nonce = bi3_nonce v, ci3_resource_bounds = bi3_resource_bounds v,
           ci3_tip = bi3_tip v, ci3_paymaster_data = bi3_paymaster_data v,
           ci3_account_deployment_data = bi3_account_deployment_data v, ci3_nonce_da = bi3_nonce_da v,
           ci3_fee_da = bi3_fee_da v \<rparr>)"
| "broadcast_core (BroadcastedDeclare t) class_hash h = CoreDeclare
    (case t of
       BroadcastedDeclareV1 v \<Rightarrow> CoreDeclareV1
         \<lparr> cd1_transaction_hash = h, cd1_sender_address = bd1_sender_address v, cd1_max_fee = bd1_max_fee v,
           cd1_signature = bd1_signature v, cd1_nonce = bd1_nonce v, cd1_class_hash = class_hash \<rparr>
     | BroadcastedDeclareV2 v \<Rightarrow> CoreDeclareV2
         \<lparr> cd2_transaction_hash = h, cd2_sender_address = bd2_sender_address v,
           cd2_compiled_class_hash = bd2_compiled_class_hash v, cd2_max_fee = bd2_max_fee v,
           cd2_signature = bd2_signature v, cd2_nonce = bd2_nonce v, cd2_class_hash = class_hash \<rparr>
     | BroadcastedDeclareV3 v \<Rightarrow> CoreDeclareV3
         \<lparr> cd3_transaction_hash = h, cd3_sender_address = bd3_sender_address v,
           cd3_compiled_class_hash = bd3_compiled_class_hash v, cd3_signature = bd3_signature v,
           cd3_nonce = bd3_nonce v, cd3_class_hash = class_hash, cd3_resource_bounds = bd3_resource_bounds v,
           cd3_tip = bd3_tip v, cd3_paymaster_data = bd3_paymaster_data v,
           cd3_account_deployment_data = bd3_account_deployment_data v, cd3_nonce_da = bd3_nonce_da v,
           cd3_fee_da = bd3_fee_da v \<rparr>)"
| "broadcast_core (BroadcastedDeployAccount t) class_hash h = CoreDeployAccount
    (case t of
       BroadcastedDeployAccountV1 v \<Rightarrow> CoreDeployAccountV1
         \<lparr> ca1_transaction_hash = h, ca1_max_fee = ba1_max_fee v, ca1_signature = ba1_signature v,
           ca1_nonce = ba1_nonce v, ca1_contract_address_salt = ba1_contract_address_salt v,
           ca1_constructor_calldata = ba1_constructor_calldata v, ca1_class_hash = ba1_class_hash v \<rparr>
     | BroadcastedDeployAccountV3 v \<Rightarrow> CoreDeployAccountV3
         \<lparr> ca3_transaction_hash = h, ca3_signature = ba3_signature v, ca3_nonce = ba3_nonce v,
           ca3_contract_address_salt = ba3_contract_address_salt v,
           ca3_constructor_calldata = ba3_constructor_calldata v, ca3_class_hash = ba3_class_hash v,
           ca3_resource_bounds = ba3_resource_bounds v, ca3_tip = ba3_tip v,
           ca3_paymaster_data = ba3_paymaster_data v, ca3_nonce_da = ba3_nonce_da v, ca3_fee_da = ba3_fee_da v \<rparr>)"

text \<open>What a successful conversion yields: the transaction reads back, and carries the hash computed for
  chain id zero and no block number.\<close>

definition reads_back :: "felt_lib \<Rightarrow> crypto_lib \<Rightarrow> 'abi broadcasted_transaction \<Rightarrow> felt \<Rightarrow> 'ci account_transaction \<Rightarrow> bool" where
  "reads_back L K b class_hash a \<longleftrightarrow>
    (\<forall>h. to_starknet_core_tx L (account_tx a) h = Ok (broadcast_core b class_hash h))
    \<and> (\<exists>f. account_tx_hash a = Some f
        \<and> compute_hash L K (PedersenHasher L K) (account_tx a) ZERO False None = Ok f)"

lemma account_declare_Ok:
  "account_declare L K M tx cls n k = Ok a \<longleftrightarrow>
    (\<exists>f ci. declare_compute_hash L K (PedersenHasher L K) tx ZERO False None = Ok f
       \<and> class_info_new M cls n k = Some ci \<and> declare_new_ok M tx f ci \<and> a = AccountDeclare tx f ci)"
  by (auto simp: account_declare_def result_simps split: if_splits)

lemma account_deploy_account_Ok:
  "account_deploy_account L K tx salt ch cd = Ok a \<longleftrightarrow>
    (\<exists>f addr. deploy_account_compute_hash L K (PedersenHasher L K) tx ZERO False None = Ok f
       \<and> calculate_contract_address K salt ch cd 0 = Some addr \<and> a = AccountDeployAccount tx f addr)"
  by (auto simp: account_deploy_account_def result_simps)

lemma invoke_reads_back:
  assumes "felt_codec L" and "invoke_to_account_transaction L K t = Ok a"
  shows "reads_back L K (BroadcastedInvoke t) ch a"
  using assms(2) by (cases t) (auto simp: result_simps reads_back_def Let_def max_fee_roundtrip [OF assms(1)])

lemma deploy_account_reads_back:
  assumes "felt_codec L" and "deploy_account_to_account_transaction L K t = Ok a"
  shows "reads_back L K (BroadcastedDeployAccount t) ch a"
  using assms(2)
  by (cases t) (auto simp: account_deploy_account_Ok result_simps reads_back_def max_fee_roundtrip [OF assms(1)])

lemma declare_reads_back:
  assumes "felt_codec L" and "declare_to_account_transaction L K M t = Ok a"
  shows "\<exists>ch. reads_back L K (BroadcastedDeclare t) ch a"
  using assms(2)
  by (cases t) (auto simp: account_declare_Ok result_simps reads_back_def Let_def declare_v1_to_account_def
      declare_v2_to_account_def declare_v3_to_account_def max_fee_roundtrip [OF assms(1)])

section \<open>Compiled classes\<close>

lemma be_nat_biguint: "be_nat (biguint_bytes n) = n"
proof (induction n rule: biguint_bytes.induct)
  case (1 n)
  then show ?case
    by (cases "n < 256") (simp_all add: biguint_bytes.simps [of n] be_nat_append be_nat_Cons unat_of_nat)
qed

lemma biguint_length: "n < 256 ^ Suc k \<Longrightarrow> length (biguint_bytes n) \<le> Suc k"
proof (induction k arbitrary: n)
  case 0
  then show ?case by (simp add: biguint_bytes.simps [of n])
next
  case (Suc k)
  then have "n div 256 < 256 ^ Suc k" by (simp add: less_mult_imp_div_less mult.commute)
  with Suc.IH [of "n div 256"] show ?case by (simp add: biguint_bytes.simps [of n])
qed

lemma biguint_outcome:
  assumes "felt_codec L"
  shows "biguint_to_field_element L n = (if n < STARK_PRIME then Ok (felt_of_nat n) else Panic)"
proof -
  have "n < STARK_PRIME \<Longrightarrow> n < 256 ^ Suc 31" by (simp add: STARK_PRIME_def)
  then have "n < STARK_PRIME \<Longrightarrow> length (biguint_bytes n) \<le> 32" using biguint_length [of n 31] by simp
  then show ?thesis
    by (auto simp: biguint_to_field_element_def felt_codec.fe_from_byte_slice_be [OF assms] be_nat_biguint)
qed

text \<open>The two conversions of a Sierra class give the compiler the same input.\<close>

lemma sierra_conversions_agree:
  assumes "felt_codec L" and "fs_contract_class_version c = ''0.1.0''"
    and "ac_sierra_program a = fs_sierra_program c"
    and "\<And>ty. (case ac_entry_points a ty of Some es \<Rightarrow> es | None \<Rightarrow> []) =
      map (\<lambda>e. \<lparr> as_function_idx = se_function_idx e, as_selector = se_selector e \<rparr>)
        (case ty of Constructor \<Rightarrow> ep_constructor (fs_entry_points c) | External \<Rightarrow> ep_external (fs_entry_points c)
         | L1HandlerEntry \<Rightarrow> ep_l1_handler (fs_entry_points c))"
  shows "sierra_to_casm_contract_class L M a = flattened_sierra_to_casm_contract_class L M c"
proof -
  have f: "(\<lambda>v. be_nat (stark_bytes L v)) = field_element_to_big_uint L"
    by (simp add: fun_eq_iff field_element_to_big_uint_def felt_codec.fe_to_bytes_be [OF assms(1)]
        felt_codec.stark_bytes [OF assms(1)])
  have e: "starknet_api_entry_point_to_contract_entry_point L
      \<lparr> as_function_idx = se_function_idx x, as_selector = se_selector x \<rparr>
      = sierra_entry_point_to_contract_entry_point L x" for x
    using fun_cong [OF f, of "se_selector x"]
    by (simp add: starknet_api_entry_point_to_contract_entry_point_def sierra_entry_point_to_contract_entry_point_def)
  show ?thesis
    unfolding sierra_to_casm_contract_class_def flattened_sierra_to_casm_contract_class_def assms(2-4) f Let_def
    by (simp add: comp_def e map_entry_points_def)
qed

lemma compiled_bytecode:
  assumes "felt_codec L" and "get_casm_contract_class_hash L M casm = Ok h" and "n \<in> set (cm_bytecode casm)"
  shows "n < STARK_PRIME"
proof -
  from assms(2) obtain bs where bs: "try_map (biguint_to_field_element L :: nat \<Rightarrow> ('a, felt) res) (cm_bytecode casm) = Ok bs"
    by (auto simp: get_casm_contract_class_hash_def casm_contract_class_to_compiled_class_def result_simps)
  obtain i where i: "i < length (cm_bytecode casm)" "n = cm_bytecode casm ! i"
    using assms(3) by (auto simp: in_set_conv_nth)
  from try_map_nth [OF bs i(1)] i(2) show ?thesis
    by (simp add: biguint_outcome [OF assms(1)] split: if_splits)
qed

section \<open>What the conversion to core transactions shows\<close>

definition both_bounds :: "resource_bounds_mapping \<Rightarrow> bool" where
  "both_bounds m \<longleftrightarrow> m L1Gas \<noteq> None \<and> m L2Gas \<noteq> None"

definition convertible :: "transaction \<Rightarrow> bool" where
  "convertible tx =
    (case tx of
       Declare (DeclareV3 t) \<Rightarrow> both_bounds (dc3_resource_bounds t)
     | DeployAccount (DeployAccountV3 t) \<Rightarrow> both_bounds (da3_resource_bounds t)
     | Invoke (InvokeV3 t) \<Rightarrow> both_bounds (iv3_resource_bounds t)
     | L1Handler t \<Rightarrow> felt_nat (l1_nonce t) < 2 ^ 64
     | _ \<Rightarrow> True)"

text \<open>The fields the RPC does not show, erased.\<close>

definition shown :: "transaction \<Rightarrow> transaction" where
  "shown tx =
    (case tx of
       Declare (DeclareV0 t) \<Rightarrow> Declare (DeclareV0 (t\<lparr>dc1_nonce := 0\<rparr>))
     | Deploy t \<Rightarrow> Deploy (t\<lparr>dp_version := 0\<rparr>)
     | L1Handler t \<Rightarrow> L1Handler (t\<lparr>l1_version := 0\<rparr>)
     | _ \<Rightarrow> tx)"

lemma u128_inj: "felt_of_nat (unat v) = felt_of_nat (unat w) \<longleftrightarrow> v = (w :: 128 word)"
  using u128_lt_prime [of v] u128_lt_prime [of w] by (simp add: felt_eq_iff)

lemma resources_outcome:
  "api_resources_to_core_ressources m =
    (if both_bounds m then Ok \<lparr> cb_l1_gas = the (m L1Gas), cb_l2_gas = the (m L2Gas) \<rparr> else Panic)"
  by (cases "m L1Gas"; cases "m L2Gas") (auto simp: api_resources_to_core_ressources_def both_bounds_def)

lemma bounds_eq:
  assumes "both_bounds m" and "both_bounds m'"
    and "the (m L1Gas) = the (m' L1Gas)" and "the (m L2Gas) = the (m' L2Gas)"
  shows "m = m'"
proof
  fix r
  show "m r = m' r" using assms by (cases r) (auto simp: both_bounds_def)
qed

primrec core_da_of :: "data_availability_mode \<Rightarrow> core_da_mode" where
  "core_da_of DA_L1 = CoreDA_L1"
| "core_da_of DA_L2 = CoreDA_L2"

lemma api_da_outcome: "unwrap_opt (api_da_to_core_da d) = Ok (core_da_of d)"
  by (cases d) simp_all

lemma core_da_of_inj: "core_da_of d = core_da_of d' \<longleftrightarrow> d = d'"
  by (cases d; cases d') simp_all

lemma invoke_to_core_eq:
  assumes "felt_codec L" and "convertible (Invoke t)" and "convertible (Invoke t')"
  shows "invoke_to_core L t h = invoke_to_core L t' h' \<longleftrightarrow> h = h' \<and> t = t'"
proof (cases t; cases t')
  fix r r' assume t: "t = InvokeV3 r" "t' = InvokeV3 r'"
  with assms(2,3) have "both_bounds (iv3_resource_bounds r)" "both_bounds (iv3_resource_bounds r')"
    by (simp_all add: convertible_def)
  then show ?thesis
    by (cases r; cases r') (auto simp: t resources_outcome api_da_outcome core_da_of_inj intro: bounds_eq)
qed (use assms(2,3) in \<open>auto simp: convertible_def felt_codec.u128_embeds [OF assms(1)] u128_inj resources_outcome
      api_da_outcome invoke_v0.equality invoke_v1.equality\<close>)

lemma declare_to_core_eq:
  assumes "felt_codec L" and "convertible (Declare t)" and "convertible (Declare t')"
  shows "declare_to_core L t h = declare_to_core L t' h' \<longleftrightarrow> h = h' \<and> shown (Declare t) = shown (Declare t')"
proof (cases t; cases t')
  fix r r' assume t: "t = DeclareV3 r" "t' = DeclareV3 r'"
  with assms(2,3) have "both_bounds (dc3_resource_bounds r)" "both_bounds (dc3_resource_bounds r')"
    by (simp_all add: convertible_def)
  then show ?thesis
    by (cases r; cases r') (auto simp: t shown_def resources_outcome api_da_outcome core_da_of_inj intro: bounds_eq)
next
  fix r r' assume t: "t = DeclareV0 r" "t' = DeclareV0 r'"
  show ?thesis
    by (cases r; cases r') (auto simp: t shown_def felt_codec.u128_embeds [OF assms(1)] u128_inj)
qed (use assms(2,3) in \<open>auto simp: convertible_def shown_def felt_codec.u128_embeds [OF assms(1)] u128_inj
      resources_outcome api_da_outcome declare_v0v1.equality declare_v2.equality\<close>)

lemma deploy_account_to_core_eq:
  assumes "felt_codec L" and "convertible (DeployAccount t)" and "convertible (DeployAccount t')"
  shows "deploy_account_to_core L t h = deploy_account_to_core L t' h' \<longleftrightarrow> h = h' \<and> t = t'"
proof (cases t; cases t')
  fix r r' assume t: "t = DeployAccountV3 r" "t' = DeployAccountV3 r'"
  with assms(2,3) have "both_bounds (da3_resource_bounds r)" "both_bounds (da3_resource_bounds r')"
    by (simp_all add: convertible_def)
  then show ?thesis
    by (cases r; cases r') (auto simp: t resources_outcome api_da_outcome core_da_of_inj intro: bounds_eq)
qed (use assms(2,3) in \<open>auto simp: convertible_def felt_codec.u128_embeds [OF assms(1)] u128_inj resources_outcome
      api_da_outcome deploy_account_v1.equality\<close>)

lemma convert_outcome:
  assumes "felt_codec L"
  shows "to_starknet_core_tx L tx h = Panic \<longleftrightarrow> \<not> convertible tx"
    and "\<exists>c. convertible tx \<longrightarrow> to_starknet_core_tx L tx h = Ok c"
proof -
  have "if convertible tx then \<exists>c. to_starknet_core_tx L tx h = Ok c else to_starknet_core_tx L tx h = Panic"
    by (cases tx; simp add: convertible_def try_into_u64_def felt_codec.fe_to_u64 [OF assms] del: power_numeral
          split: declare_transaction.split deploy_account_transaction.split invoke_transaction.split)
      (auto simp: felt_codec.u128_embeds [OF assms] resources_outcome api_da_outcome)
  then show "to_starknet_core_tx L tx h = Panic \<longleftrightarrow> \<not> convertible tx"
    and "\<exists>c. convertible tx \<longrightarrow> to_starknet_core_tx L tx h = Ok c"
    by (auto split: if_splits)
qed

section \<open>Properties\<close>

lemma l1_nonce_inj:
  assumes "felt_nat n < 2 ^ 64" and "felt_nat n' < 2 ^ 64"
  shows "(of_nat (felt_nat n) :: 64 word) = of_nat (felt_nat n') \<longleftrightarrow> n = n'"
proof -
  have "unat (of_nat (felt_nat n) :: 64 word) = felt_nat n" "unat (of_nat (felt_nat n') :: 64 word) = felt_nat n'"
    using assms by (simp_all add: unat_of_nat del: power_numeral)
  then show ?thesis by (metis felt_eq_iff)
qed

lemma map_ok_inj: "(\<And>x y. f x = f y \<longleftrightarrow> x = y) \<Longrightarrow> map_ok f m = map_ok f m' \<longleftrightarrow> m = m'"
  by (cases m; cases m') auto

primrec api_kind :: "transaction \<Rightarrow> nat" where
  "api_kind (Declare t) = 0" | "api_kind (Deploy t) = 1" | "api_kind (DeployAccount t) = 2"
| "api_kind (Invoke t) = 3" | "api_kind (L1Handler t) = 4"

primrec core_kind :: "core_transaction \<Rightarrow> nat" where
  "core_kind (CoreDeclare t) = 0" | "core_kind (CoreDeploy t) = 1" | "core_kind (CoreDeployAccount t) = 2"
| "core_kind (CoreInvoke t) = 3" | "core_kind (CoreL1Handler t) = 4"

lemma shown_kind: "api_kind (shown tx) = api_kind tx"
  by (auto simp: shown_def split: transaction.split declare_transaction.split)

lemma core_kind_of: "to_starknet_core_tx L tx h = Ok c \<Longrightarrow> core_kind c = api_kind tx"
  by (cases tx) (auto simp: result_simps)

lemma shown_invoke [simp]: "shown (Invoke t) = Invoke t" "shown (DeployAccount t') = DeployAccount t'"
  by (simp_all add: shown_def)

lemma to_core_eq:
  assumes "felt_codec L" and "convertible tx" and "convertible tx'"
  shows "to_starknet_core_tx L tx h = to_starknet_core_tx L tx' h' \<longleftrightarrow> h = h' \<and> shown tx = shown tx'"
proof (cases "api_kind tx = api_kind tx'")
  case False
  obtain c c' where c: "to_starknet_core_tx L tx h = Ok c" "to_starknet_core_tx L tx' h' = Ok c'"
    using convert_outcome(2) [OF assms(1)] assms(2,3) by blast
  with False core_kind_of have "c \<noteq> c'" by metis
  moreover from False have "shown tx \<noteq> shown tx'" by (metis shown_kind)
  ultimately show ?thesis by (simp add: c)
next
  case True
  show ?thesis
  proof (cases tx)
    case (Declare t)
    with True obtain t' where "tx' = Declare t'" by (cases tx') simp_all
    with Declare declare_to_core_eq [OF assms(1), of t t'] assms(2,3) show ?thesis by (simp add: map_ok_inj)
  next
    case (Deploy t)
    with True obtain t' where "tx' = Deploy t'" by (cases tx') simp_all
    with Deploy show ?thesis by (cases t; cases t') (auto simp: shown_def)
  next
    case (DeployAccount t)
    with True obtain t' where "tx' = DeployAccount t'" by (cases tx') simp_all
    with DeployAccount deploy_account_to_core_eq [OF assms(1), of t t'] assms(2,3) show ?thesis
      by (simp add: map_ok_inj)
  next
    case (Invoke t)
    with True obtain t' where "tx' = Invoke t'" by (cases tx') simp_all
    with Invoke invoke_to_core_eq [OF assms(1), of t t'] assms(2,3) show ?thesis by (simp add: map_ok_inj)
  next
    case (L1Handler t)
    with True obtain t' where t': "tx' = L1Handler t'" by (cases tx') simp_all
    have "felt_nat (l1_nonce t) < 2 ^ 64" "felt_nat (l1_nonce t') < 2 ^ 64"
      using assms(2,3) by (simp_all add: L1Handler t' convertible_def)
    then show ?thesis
      by (cases t; cases t') (auto simp: L1Handler t' shown_def try_into_u64_def felt_codec.fe_to_u64 [OF assms(1)]
          l1_nonce_inj simp del: power_numeral)
  qed
qed

text \<open>C30: a broadcasted transaction that is accepted reads back through the RPC exactly as it was sent:
  the core transaction made from it has the sent fields, plus the hash and, for a declaration, the
  class hash. The hash stored with it is the one for chain id zero and no block number.\<close>

theorem broadcast_core_roundtrip:
  assumes "felt_codec L" and "to_account_transaction L K M b = Ok a"
  shows "\<exists>class_hash f. (\<forall>h. to_starknet_core_tx L (account_tx a) h = Ok (broadcast_core b class_hash h))
    \<and> account_tx_hash a = Some f
    \<and> compute_hash L K (PedersenHasher L K) (account_tx a) ZERO False None = Ok f"
proof -
  have "\<exists>ch. reads_back L K b ch a"
  proof (cases b)
    case (BroadcastedInvoke t)
    with assms(2) invoke_reads_back [OF assms(1), of K t a 0] show ?thesis by (intro exI [of _ 0]) simp
  next
    case (BroadcastedDeclare t)
    with assms(2) declare_reads_back [OF assms(1), of K M t a] show ?thesis by simp
  next
    case (BroadcastedDeployAccount t)
    with assms(2) deploy_account_reads_back [OF assms(1), of K t a 0] show ?thesis by (intro exI [of _ 0]) simp
  qed
  then show ?thesis unfolding reads_back_def by blast
qed

text \<open>Libraries that compile a Sierra class to its own program and hash a class by its length.\<close>

definition ref_class_lib :: "(unit, unit, bytes, bytes, casm_contract_class, nat) class_lib" where
  "ref_class_lib =
    \<lparr> gz_read_to_end = Some,
      json_from_slice = Some,
      abi_entry_into = (\<lambda>a. a),
      legacy_class_hash = (\<lambda>c. Some (felt_of_nat (length (lcc_program c)))),
      program_from_bytes = Some,
      from_contract_class = (\<lambda>c. Some \<lparr> cm_prime = STARK_PRIME, cm_compiler_version = sc_contract_class_version c,
        cm_bytecode = sc_sierra_program c,
        cm_entry_points = \<lparr> ep_constructor = [], ep_external = [], ep_l1_handler = [] \<rparr> \<rparr>),
      class_v1_try_from = Some,
      compiled_class_hash = (\<lambda>c. Some (felt_of_nat (length (cc_bytecode c)))),
      sierra_class_hash = (\<lambda>c. felt_of_nat (length (fs_sierra_program c))),
      class_info_new = (\<lambda>c n k. Some n),
      declare_new_ok = (\<lambda>tx f ci. True) \<rparr>"

definition sample_broadcast :: "felt \<Rightarrow> unit broadcasted_transaction" where
  "sample_broadcast fee = BroadcastedInvoke (BroadcastedInvokeV1
    \<lparr> bi1_sender_address = 7, bi1_calldata = [1, 2], bi1_max_fee = fee, bi1_signature = [3], bi1_nonce = 4,
      bi1_is_query = False \<rparr>)"

lemma sample_accepted:
  "\<exists>a. to_account_transaction ref_felt_lib ref_crypto M (sample_broadcast 5) = Ok a"
proof -
  let ?t = "InvokeV1 \<lparr> iv1_max_fee = 5, iv1_signature = [3], iv1_nonce = 4, iv1_sender_address = 7, iv1_calldata = [1, 2] \<rparr>"
  obtain f where "invoke_compute_hash ref_felt_lib ref_crypto (PedersenHasher ref_felt_lib ref_crypto) ?t ZERO False None = Ok f"
    using compute_hash_value [OF ref_felt_codec, of ref_crypto _ "Invoke ?t" ZERO False None]
    by (simp del: invoke_compute_hash.simps)
  then show ?thesis
    by (simp add: sample_broadcast_def try_into_u128_outcome [OF ref_felt_codec] felt_nat_numeral STARK_PRIME_def
        Let_def del: invoke_compute_hash.simps)
qed

theorem broadcast_core_roundtrip_witness:
  "\<exists>a. to_account_transaction ref_felt_lib ref_crypto ref_class_lib (sample_broadcast 5) = Ok a
    \<and> to_starknet_core_tx ref_felt_lib (account_tx a) 9 = Ok (broadcast_core (sample_broadcast 5) 0 9)"
proof -
  obtain a where a: "to_account_transaction ref_felt_lib ref_crypto ref_class_lib (sample_broadcast 5) = Ok a"
    using sample_accepted by blast
  from broadcast_core_roundtrip [OF ref_felt_codec a] obtain ch where
    "to_starknet_core_tx ref_felt_lib (account_tx a) 9 = Ok (broadcast_core (sample_broadcast 5) ch 9)" by blast
  with a show ?thesis by (simp add: sample_broadcast_def)
qed

text \<open>C32: what the RPC shows of a transaction determines it: the conversion panics exactly for a
  version 3 transaction without both resource bounds and for an L1 handler nonce of 64 bits or more,
  and two transactions it converts look the same exactly when they agree on everything but the nonce
  of a version 0 declaration and the version of a deployment or an L1 handler.\<close>

theorem core_conversion_faithful:
  assumes "felt_codec L"
  shows "(to_starknet_core_tx L tx h = Panic \<longleftrightarrow> \<not> convertible tx)
    \<and> (convertible tx \<longrightarrow> convertible tx' \<longrightarrow>
        (to_starknet_core_tx L tx h = to_starknet_core_tx L tx' h' \<longleftrightarrow> h = h' \<and> shown tx = shown tx'))"
  using convert_outcome(1) [OF assms] to_core_eq [OF assms] by blast

theorem core_conversion_faithful_witness:
  "to_starknet_core_tx ref_felt_lib (L1Handler \<lparr> l1_version = 0, l1_nonce = felt_of_nat (2 ^ 64),
      l1_contract_address = 1, l1_entry_point_selector = 2, l1_calldata = [] \<rparr>) 3 = Panic"
proof -
  let ?tx = "L1Handler \<lparr> l1_version = 0, l1_nonce = felt_of_nat (2 ^ 64), l1_contract_address = 1,
    l1_entry_point_selector = 2, l1_calldata = [] \<rparr>"
  have "\<not> convertible ?tx" by (simp add: convertible_def STARK_PRIME_def)
  then show ?thesis using core_conversion_faithful [OF ref_felt_codec] by blast
qed

text \<open>The Sierra class and the compiled class hash a declaration was signed with.\<close>

primrec signed_class :: "'abi broadcasted_declare \<Rightarrow> (flattened_sierra_class \<times> felt) option" where
  "signed_class (BroadcastedDeclareV1 v) = None"
| "signed_class (BroadcastedDeclareV2 v) = Some (bd2_contract_class v, bd2_compiled_class_hash v)"
| "signed_class (BroadcastedDeclareV3 v) = Some (bd3_contract_class v, bd3_compiled_class_hash v)"

lemma checked_sierra_class_Ok:
  "checked_sierra_class L M cls h = Ok b \<longleftrightarrow>
    (\<exists>casm v1. flattened_sierra_to_casm_contract_class L M cls = Some casm
       \<and> get_casm_contract_class_hash L M casm = (Ok h :: (conversion_error, felt) res)
       \<and> class_v1_try_from M casm = Some v1 \<and> b = ClassV1 v1)"
  by (auto simp: checked_sierra_class_def result_simps split: if_splits)

text \<open>C31: a declaration of a Sierra class is accepted only if compiling its class gives a program of
  field elements whose class hash is the compiled class hash the sender signed.\<close>

theorem declare_checks_compiled_hash:
  assumes "felt_codec L" and "declare_to_account_transaction L K M t = Ok a" and "signed_class t = Some (cls, h)"
  shows "\<exists>casm. flattened_sierra_to_casm_contract_class L M cls = Some casm
    \<and> get_casm_contract_class_hash L M casm = (Ok h :: (conversion_error, felt) res)
    \<and> list_all (\<lambda>n. n < STARK_PRIME) (cm_bytecode casm)"
proof -
  have "\<exists>b. checked_sierra_class L M cls h = Ok b"
    using assms(2,3)
    by (cases t) (auto simp: declare_v2_to_account_def declare_v3_to_account_def Let_def result_simps)
  then obtain casm where casm: "flattened_sierra_to_casm_contract_class L M cls = Some casm"
    "get_casm_contract_class_hash L M casm = (Ok h :: (conversion_error, felt) res)"
    unfolding checked_sierra_class_Ok by blast
  moreover have "list_all (\<lambda>n. n < STARK_PRIME) (cm_bytecode casm)"
    using compiled_bytecode [OF assms(1) casm(2)] by (simp add: list_all_iff)
  ultimately show ?thesis by blast
qed

definition sample_class :: flattened_sierra_class where
  "sample_class = \<lparr> fs_sierra_program = [8, 9], fs_contract_class_version = ''0.1.0'',
     fs_entry_points = \<lparr> ep_constructor = [], ep_external = [], ep_l1_handler = [] \<rparr>, fs_abi = ''[]'' \<rparr>"

definition sample_declare :: "unit broadcasted_declare" where
  "sample_declare = BroadcastedDeclareV2
    \<lparr> bd2_sender_address = 7, bd2_compiled_class_hash = 2, bd2_max_fee = 5, bd2_signature = [3], bd2_nonce = 4,
      bd2_contract_class = sample_class, bd2_is_query = False \<rparr>"

lemma sample_casm:
  "flattened_sierra_to_casm_contract_class ref_felt_lib ref_class_lib sample_class = Some
    \<lparr> cm_prime = STARK_PRIME, cm_compiler_version = ''0.1.0'', cm_bytecode = [8, 9],
      cm_entry_points = \<lparr> ep_constructor = [], ep_external = [], ep_l1_handler = [] \<rparr> \<rparr>"
  by (simp add: flattened_sierra_to_casm_contract_class_def ref_class_lib_def sample_class_def
      field_element_to_big_uint_def felt_codec.fe_to_bytes_be [OF ref_felt_codec] be_nat_nat_be felt_nat_numeral
      STARK_PRIME_def del: nat_be.simps)

lemma sample_declared:
  "\<exists>a. declare_to_account_transaction ref_felt_lib ref_crypto ref_class_lib sample_declare = Ok a"
proof -
  let ?t = "DeclareV2 \<lparr> dc2_max_fee = 5, dc2_signature = [3], dc2_nonce = 4, dc2_class_hash = 2,
    dc2_compiled_class_hash = 2, dc2_sender_address = 7 \<rparr>"
  obtain f where f: "declare_compute_hash ref_felt_lib ref_crypto (PedersenHasher ref_felt_lib ref_crypto) ?t ZERO False None = Ok f"
    using compute_hash_value [OF ref_felt_codec, of ref_crypto _ "Declare ?t" ZERO False None]
    by (simp del: declare_compute_hash.simps)
  have two: "felt_of_nat 2 = 2" "felt_of_nat (Suc (Suc 0)) = 2"
    by (simp_all add: felt_eq_iff felt_nat_numeral STARK_PRIME_def)
  have "get_casm_contract_class_hash ref_felt_lib ref_class_lib
      \<lparr> cm_prime = STARK_PRIME, cm_compiler_version = ''0.1.0'', cm_bytecode = [8, 9],
        cm_entry_points = \<lparr> ep_constructor = [], ep_external = [], ep_l1_handler = [] \<rparr> \<rparr>
      = (Ok 2 :: (conversion_error, felt) res)"
    by (simp add: get_casm_contract_class_hash_def casm_contract_class_to_compiled_class_def
        casm_entry_points_to_compiled_entry_points_def biguint_outcome [OF ref_felt_codec] STARK_PRIME_def
        ref_class_lib_def two)
  then have "checked_sierra_class ref_felt_lib ref_class_lib sample_class 2 = Ok (ClassV1
      \<lparr> cm_prime = STARK_PRIME, cm_compiler_version = ''0.1.0'', cm_bytecode = [8, 9],
        cm_entry_points = \<lparr> ep_constructor = [], ep_external = [], ep_l1_handler = [] \<rparr> \<rparr>)"
    by (simp add: checked_sierra_class_Ok sample_casm) (simp add: ref_class_lib_def)
  then show ?thesis
    by (simp add: sample_declare_def declare_v2_to_account_def Let_def account_declare_Ok
        try_into_u128_outcome [OF ref_felt_codec] felt_nat_numeral STARK_PRIME_def del: declare_compute_hash.simps)
      (simp add: ref_class_lib_def sample_class_def two f del: declare_compute_hash.simps)
qed

theorem declare_checks_compiled_hash_witness:
  "\<exists>casm. flattened_sierra_to_casm_contract_class ref_felt_lib ref_class_lib sample_class = Some casm
    \<and> get_casm_contract_class_hash ref_felt_lib ref_class_lib casm = (Ok 2 :: (conversion_error, felt) res)"
proof -
  obtain a where "declare_to_account_transaction ref_felt_lib ref_crypto ref_class_lib sample_declare = Ok a"
    using sample_declared by blast
  from declare_checks_compiled_hash [OF ref_felt_codec this, of sample_class 2] show ?thesis
    by (auto simp: sample_declare_def)
qed

end
