(* ===== verification/ContractClasses.thy ===== *)
theory ContractClasses
  imports TxConvert
begin

text \<open>
  Contract classes and their ABI as the node stores them, \<open>crates/primitives/contract/src\<close>, and their
  conversion from and to the classes of the RPC, \<open>crates/primitives/convert/src/contract.rs\<close>. Gzip, the
  serialisation of programs and the compiler are arguments.
\<close>

section \<open>The ABI of a legacy class\<close>

text \<open>The types of \<open>starknet_core\<close>, then those of the repository.\<close>

record legacy_typed_parameter =
  lp_name :: string
  lp_type :: string

datatype legacy_function_type = LegacyFunction | LegacyL1Handler | LegacyConstructor
datatype legacy_mutability = LegacyView
datatype legacy_event_type = LegacyEventType
datatype legacy_struct_type = LegacyStructType

record legacy_function_entry =
  lf_type :: legacy_function_type
  lf_name :: string
  lf_inputs :: "legacy_typed_parameter list"
  lf_outputs :: "legacy_typed_parameter list"
  lf_state_mutability :: "legacy_mutability option"

record legacy_event_entry =
  lv_type :: legacy_event_type
  lv_name :: string
  lv_keys :: "legacy_typed_parameter list"
  lv_data :: "legacy_typed_parameter list"

record legacy_struct_member =
  lm_name :: string
  lm_type :: string
  lm_offset :: "64 word"

record legacy_struct_entry =
  lr_type :: legacy_struct_type
  lr_name :: string
  lr_size :: "64 word"
  lr_members :: "legacy_struct_member list"

datatype legacy_abi_entry =
  LegacyFunctionEntry legacy_function_entry | LegacyEventEntry legacy_event_entry
| LegacyStructEntry legacy_struct_entry

record abi_typed_parameter =
  tp_name :: string
  tp_type :: string

datatype abi_function_type = AbiFunction | AbiL1handler | AbiConstructor
datatype abi_mutability = AbiView
datatype abi_event_type = AbiEvent
datatype abi_struct_type = AbiStruct

record abi_function_entry =
  af_type :: abi_function_type
  af_name :: string
  af_inputs :: "abi_typed_parameter list"
  af_outputs :: "abi_typed_parameter list"
  af_state_mutability :: "abi_mutability option"

record abi_event_entry =
  av_type :: abi_event_type
  av_name :: string
  av_keys :: "abi_typed_parameter list"
  av_data :: "abi_typed_parameter list"

record abi_struct_member =
  am_name :: string
  am_type :: string
  am_offset :: "64 word"

record abi_struct_entry =
  ar_type :: abi_struct_type
  ar_name :: string
  ar_size :: "64 word"
  ar_members :: "abi_struct_member list"

datatype abi_entry = AbiFunctionEntry abi_function_entry | AbiEventEntry abi_event_entry | AbiStructEntry abi_struct_entry

datatype contract_abi = SierraAbi string | CairoAbi "abi_entry list option"

section \<open>Conversions of the ABI\<close>

definition param_of_legacy :: "legacy_typed_parameter \<Rightarrow> abi_typed_parameter" where
  "param_of_legacy p = \<lparr> tp_name = lp_name p, tp_type = lp_type p \<rparr>"

definition param_to_legacy :: "abi_typed_parameter \<Rightarrow> legacy_typed_parameter" where
  "param_to_legacy p = \<lparr> lp_name = tp_name p, lp_type = tp_type p \<rparr>"

primrec function_type_of_legacy :: "legacy_function_type \<Rightarrow> abi_function_type" where
  "function_type_of_legacy LegacyFunction = AbiFunction"
| "function_type_of_legacy LegacyL1Handler = AbiL1handler"
| "function_type_of_legacy LegacyConstructor = AbiConstructor"

primrec function_type_to_legacy :: "abi_function_type \<Rightarrow> legacy_function_type" where
  "function_type_to_legacy AbiFunction = LegacyFunction"
| "function_type_to_legacy AbiL1handler = LegacyL1Handler"
| "function_type_to_legacy AbiConstructor = LegacyConstructor"

primrec mutability_of_legacy :: "legacy_mutability \<Rightarrow> abi_mutability" where
  "mutability_of_legacy LegacyView = AbiView"

primrec mutability_to_legacy :: "abi_mutability \<Rightarrow> legacy_mutability" where
  "mutability_to_legacy AbiView = LegacyView"

definition function_of_legacy :: "legacy_function_entry \<Rightarrow> abi_function_entry" where
  "function_of_legacy e =
    \<lparr> af_type = function_type_of_legacy (lf_type e), af_name = lf_name e,
      af_inputs = map param_of_legacy (lf_inputs e), af_outputs = map param_of_legacy (lf_outputs e),
      af_state_mutability = map_option mutability_of_legacy (lf_state_mutability e) \<rparr>"

definition function_to_legacy :: "abi_function_entry \<Rightarrow> legacy_function_entry" where
  "function_to_legacy e =
    \<lparr> lf_type = function_type_to_legacy (af_type e), lf_name = af_name e,
      lf_inputs = map param_to_legacy (af_inputs e), lf_outputs = map param_to_legacy (af_outputs e),
      lf_state_mutability = map_option mutability_to_legacy (af_state_mutability e) \<rparr>"

primrec event_type_of_legacy :: "legacy_event_type \<Rightarrow> abi_event_type" where
  "event_type_of_legacy LegacyEventType = AbiEvent"

primrec event_type_to_legacy :: "abi_event_type \<Rightarrow> legacy_event_type" where
  "event_type_to_legacy AbiEvent = LegacyEventType"

definition event_of_legacy :: "legacy_event_entry \<Rightarrow> abi_event_entry" where
  "event_of_legacy e =
    \<lparr> av_type = event_type_of_legacy (lv_type e), av_name = lv_name e,
      av_keys = map param_of_legacy (lv_keys e), av_data = map param_of_legacy (lv_data e) \<rparr>"

definition event_to_legacy :: "abi_event_entry \<Rightarrow> legacy_event_entry" where
  "event_to_legacy e =
    \<lparr> lv_type = event_type_to_legacy (av_type e), lv_name = av_name e,
      lv_keys = map param_to_legacy (av_keys e), lv_data = map param_to_legacy (av_data e) \<rparr>"

definition member_of_legacy :: "legacy_struct_member \<Rightarrow> abi_struct_member" where
  "member_of_legacy m = \<lparr> am_name = lm_name m, am_type = lm_type m, am_offset = lm_offset m \<rparr>"

definition member_to_legacy :: "abi_struct_member \<Rightarrow> legacy_struct_member" where
  "member_to_legacy m = \<lparr> lm_name = am_name m, lm_type = am_type m, lm_offset = am_offset m \<rparr>"

primrec struct_type_of_legacy :: "legacy_struct_type \<Rightarrow> abi_struct_type" where
  "struct_type_of_legacy LegacyStructType = AbiStruct"

primrec struct_type_to_legacy :: "abi_struct_type \<Rightarrow> legacy_struct_type" where
  "struct_type_to_legacy AbiStruct = LegacyStructType"

definition struct_of_legacy :: "legacy_struct_entry \<Rightarrow> abi_struct_entry" where
  "struct_of_legacy e =
    \<lparr> ar_type = struct_type_of_legacy (lr_type e), ar_name = lr_name e, ar_size = lr_size e,
      ar_members = map member_of_legacy (lr_members e) \<rparr>"

definition struct_to_legacy :: "abi_struct_entry \<Rightarrow> legacy_struct_entry" where
  "struct_to_legacy e =
    \<lparr> lr_type = struct_type_to_legacy (ar_type e), lr_name = ar_name e, lr_size = ar_size e,
      lr_members = map member_to_legacy (ar_members e) \<rparr>"

primrec abi_entry_of_legacy :: "legacy_abi_entry \<Rightarrow> abi_entry" where
  "abi_entry_of_legacy (LegacyFunctionEntry e) = AbiFunctionEntry (function_of_legacy e)"
| "abi_entry_of_legacy (LegacyEventEntry e) = AbiEventEntry (event_of_legacy e)"
| "abi_entry_of_legacy (LegacyStructEntry e) = AbiStructEntry (struct_of_legacy e)"

primrec abi_entry_to_legacy :: "abi_entry \<Rightarrow> legacy_abi_entry" where
  "abi_entry_to_legacy (AbiFunctionEntry e) = LegacyFunctionEntry (function_to_legacy e)"
| "abi_entry_to_legacy (AbiEventEntry e) = LegacyEventEntry (event_to_legacy e)"
| "abi_entry_to_legacy (AbiStructEntry e) = LegacyStructEntry (struct_to_legacy e)"

definition from_rpc_contract_abi :: "legacy_abi_entry list option \<Rightarrow> abi_entry list option" where
  "from_rpc_contract_abi abi = map_option (map abi_entry_of_legacy) abi"

definition to_rpc_contract_abi :: "abi_entry list option \<Rightarrow> legacy_abi_entry list option" where
  "to_rpc_contract_abi abi = map_option (map abi_entry_to_legacy) abi"

section \<open>Conversions of the class\<close>

datatype core_class = CoreSierra flattened_sierra_class | CoreLegacy "legacy_abi_entry compressed_legacy_class"

datatype class_error =
  SierraError | DecompressError | CompressError | SerializeError | MissingEntryPoint entry_point_type
| SelectorOutOfRange

text \<open>The writing side of the libraries: the serialisation of a program, gzip, and the environment
  variable read when the node is compiled.\<close>

record 'prog class_out =
  program_serialize :: "'prog \<Rightarrow> bytes option"
  gz_write :: "bytes \<Rightarrow> bytes option"
  env_compiler_version :: "string option"

definition decompress :: "('abi, 'rabi, 'lprog, 'prog, 'v1, 'ci) class_lib \<Rightarrow> bytes \<Rightarrow> (class_error, bytes) res" where
  "decompress M data = ok_or DecompressError (gz_read_to_end M data)"

definition compress :: "'prog class_out \<Rightarrow> bytes \<Rightarrow> (class_error, bytes) res" where
  "compress W data = ok_or CompressError (gz_write W data)"

definition from_legacy_entry_point :: "felt_lib \<Rightarrow> legacy_entry_point \<Rightarrow> api_entry_point" where
  "from_legacy_entry_point L e = \<lparr> ae_selector = fe_to_bytes_be L (le_selector e), ae_offset = le_offset e \<rparr>"

definition to_legacy_entry_point :: "felt_lib \<Rightarrow> api_entry_point \<Rightarrow> (class_error, legacy_entry_point) res" where
  "to_legacy_entry_point L e =
    res_bind (ok_or SelectorOutOfRange (fe_from_bytes_be L (ae_selector e))) (\<lambda>selector.
    Ok \<lparr> le_offset = ae_offset e, le_selector = selector \<rparr>)"

text \<open>\<open>map.entry(ty).or_default().push(e)\<close> on an \<open>IndexMap\<close>, which keeps the order of insertion.\<close>

fun entry_push :: "'k \<Rightarrow> 'e \<Rightarrow> ('k \<times> 'e list) list \<Rightarrow> ('k \<times> 'e list) list" where
  "entry_push k e [] = [(k, [e])]"
| "entry_push k e ((k', es) # m) = (if k' = k then (k', es @ [e]) # m else (k', es) # entry_push k e m)"

definition from_legacy_entry_points_by_type :: "felt_lib \<Rightarrow> legacy_entry_point entry_points_by_type
    \<Rightarrow> (entry_point_type \<times> api_entry_point list) list" where
  "from_legacy_entry_points_by_type L entries =
    fold (\<lambda>(entry_type, entry) m. entry_push entry_type (from_legacy_entry_point L entry) m)
      (map (\<lambda>e. (Constructor, e)) (ep_constructor entries) @ map (\<lambda>e. (External, e)) (ep_external entries)
        @ map (\<lambda>e. (L1HandlerEntry, e)) (ep_l1_handler entries)) []"

definition collect_entry_points :: "felt_lib \<Rightarrow> (entry_point_type \<rightharpoonup> api_entry_point list) \<Rightarrow> entry_point_type
    \<Rightarrow> (class_error, legacy_entry_point list) res" where
  "collect_entry_points L entries entry_point_type =
    res_bind (ok_or (MissingEntryPoint entry_point_type) (entries entry_point_type)) (\<lambda>es.
    try_map (to_legacy_entry_point L) es)"

definition unwrap_or_default :: "('e, 'x list) res \<Rightarrow> ('f, 'x list) res" where
  "unwrap_or_default r = (case r of Ok xs \<Rightarrow> Ok xs | Err e \<Rightarrow> Ok [] | Panic \<Rightarrow> Panic)"

definition to_legacy_entry_points_by_type :: "felt_lib \<Rightarrow> (entry_point_type \<rightharpoonup> api_entry_point list)
    \<Rightarrow> (class_error, legacy_entry_point entry_points_by_type) res" where
  "to_legacy_entry_points_by_type L entries =
    res_bind (unwrap_or_default (collect_entry_points L entries Constructor)) (\<lambda>constructor.
    res_bind (collect_entry_points L entries External) (\<lambda>external.
    res_bind (unwrap_or_default (collect_entry_points L entries L1HandlerEntry)) (\<lambda>l1_handler.
    Ok \<lparr> ep_constructor = constructor, ep_external = external, ep_l1_handler = l1_handler \<rparr>)))"

definition from_contract_class_sierra :: "felt_lib \<Rightarrow> ('abi, 'rabi, 'lprog, 'prog, 'v1, 'ci) class_lib
    \<Rightarrow> flattened_sierra_class \<Rightarrow> (class_error, ('prog, 'v1) blockifier_class) res" where
  "from_contract_class_sierra L M contract_class =
    res_bind (ok_or SierraError (flattened_sierra_to_casm_contract_class L M contract_class)) (\<lambda>raw_casm_contract.
    res_bind (unwrap_opt (class_v1_try_from M raw_casm_contract)) (\<lambda>blockifier_contract.
    Ok (ClassV1 blockifier_contract)))"

definition from_contract_class_cairo :: "felt_lib \<Rightarrow> ('abi, 'rabi, 'lprog, 'prog, 'v1, 'ci) class_lib
    \<Rightarrow> legacy_abi_entry compressed_legacy_class \<Rightarrow> (class_error, ('prog, 'v1) blockifier_class) res" where
  "from_contract_class_cairo L M contract_class =
    res_bind (decompress M (lc_program contract_class)) (\<lambda>bytes.
    res_bind (unwrap_opt (program_from_bytes M bytes)) (\<lambda>program.
    Ok (ClassV0 program (from_legacy_entry_points_by_type L (lc_entry_points contract_class)))))"

primrec from_rpc_contract_class :: "felt_lib \<Rightarrow> ('abi, 'rabi, 'lprog, 'prog, 'v1, 'ci) class_lib \<Rightarrow> core_class
    \<Rightarrow> (class_error, ('prog, 'v1) blockifier_class) res" where
  "from_rpc_contract_class L M (CoreSierra contract_class) = from_contract_class_sierra L M contract_class"
| "from_rpc_contract_class L M (CoreLegacy contract_class) = from_contract_class_cairo L M contract_class"

definition to_contract_class_sierra :: "'prog class_out \<Rightarrow> 'v1 \<Rightarrow> string \<Rightarrow> (class_error, core_class) res" where
  "to_contract_class_sierra W _ abi =
    Ok (CoreSierra
      \<lparr> fs_sierra_program = [],
        fs_contract_class_version = (case env_compiler_version W of Some v \<Rightarrow> v | None \<Rightarrow> ''0.11.2''),
        fs_entry_points = \<lparr> ep_constructor = [], ep_external = [], ep_l1_handler = [] \<rparr>,
        fs_abi = abi \<rparr>)"

definition to_contract_class_cairo :: "felt_lib \<Rightarrow> 'prog class_out \<Rightarrow> 'prog
    \<Rightarrow> (entry_point_type \<times> api_entry_point list) list \<Rightarrow> legacy_abi_entry list option \<Rightarrow> (class_error, core_class) res" where
  "to_contract_class_cairo L W program entry_points abi =
    res_bind (to_legacy_entry_points_by_type L (map_of entry_points)) (\<lambda>entry_points_by_type.
    res_bind (ok_or SerializeError (program_serialize W program)) (\<lambda>data.
    res_bind (compress W data) (\<lambda>compressed_program.
    Ok (CoreLegacy \<lparr> lc_program = compressed_program, lc_entry_points = entry_points_by_type, lc_abi = abi \<rparr>))))"

text \<open>A stored class: the class of blockifier with its ABI.\<close>

record ('prog, 'v1) class_wrapper =
  cw_contract :: "('prog, 'v1) blockifier_class"
  cw_abi :: contract_abi

definition wrapper_try_from :: "felt_lib \<Rightarrow> ('abi, 'rabi, 'lprog, 'prog, 'v1, 'ci) class_lib \<Rightarrow> core_class
    \<Rightarrow> (class_error, ('prog, 'v1) class_wrapper) res" where
  "wrapper_try_from L M contract_class =
    res_bind (from_rpc_contract_class L M contract_class) (\<lambda>contract.
    Ok \<lparr> cw_contract = contract,
         cw_abi = (case contract_class of
             CoreSierra class_sierra \<Rightarrow> SierraAbi (fs_abi class_sierra)
           | CoreLegacy class_cairo \<Rightarrow> CairoAbi (from_rpc_contract_abi (lc_abi class_cairo))) \<rparr>)"

definition wrapper_try_into :: "felt_lib \<Rightarrow> 'prog class_out \<Rightarrow> ('prog, 'v1) class_wrapper \<Rightarrow> (class_error, core_class) res" where
  "wrapper_try_into L W w =
    (case cw_abi w of
       SierraAbi abi_sierra \<Rightarrow>
         (case cw_contract w of ClassV1 contract \<Rightarrow> to_contract_class_sierra W contract abi_sierra | _ \<Rightarrow> Panic)
     | CairoAbi abi_cairo \<Rightarrow>
         (case cw_contract w of
            ClassV0 program entry_points \<Rightarrow>
              to_contract_class_cairo L W program entry_points (to_rpc_contract_abi abi_cairo)
          | _ \<Rightarrow> Panic))"

section \<open>Round trips\<close>

lemma params_roundtrip [simp]: "param_to_legacy (param_of_legacy p) = p" "param_of_legacy (param_to_legacy q) = q"
  by (simp_all add: param_to_legacy_def param_of_legacy_def)

lemma members_roundtrip [simp]: "member_to_legacy (member_of_legacy p) = p" "member_of_legacy (member_to_legacy q) = q"
  by (simp_all add: member_to_legacy_def member_of_legacy_def)

lemma types_roundtrip [simp]:
  "function_type_to_legacy (function_type_of_legacy t) = t" "mutability_to_legacy (mutability_of_legacy v) = v"
  "event_type_to_legacy (event_type_of_legacy e) = e" "struct_type_to_legacy (struct_type_of_legacy s) = s"
  "function_type_of_legacy (function_type_to_legacy t') = t'" "mutability_of_legacy (mutability_to_legacy v') = v'"
  "event_type_of_legacy (event_type_to_legacy e') = e'" "struct_type_of_legacy (struct_type_to_legacy s') = s'"
  by (cases t; cases v; cases e; cases s; cases t'; cases v'; cases e'; cases s'; simp)+

lemma abi_entry_roundtrip [simp]:
  "abi_entry_to_legacy (abi_entry_of_legacy a) = a" "abi_entry_of_legacy (abi_entry_to_legacy b) = b"
  by (cases a; simp add: function_to_legacy_def function_of_legacy_def event_to_legacy_def event_of_legacy_def
      struct_to_legacy_def struct_of_legacy_def comp_def option.map_comp option.map_ident)
    (cases b; simp add: function_to_legacy_def function_of_legacy_def event_to_legacy_def event_of_legacy_def
      struct_to_legacy_def struct_of_legacy_def comp_def option.map_comp option.map_ident)

lemma abi_roundtrip [simp]:
  "to_rpc_contract_abi (from_rpc_contract_abi abi) = abi" "from_rpc_contract_abi (to_rpc_contract_abi abi') = abi'"
  by (simp_all add: to_rpc_contract_abi_def from_rpc_contract_abi_def option.map_comp comp_def option.map_ident)


lemma fold_entry_push_same:
  "k \<notin> fst ` set m \<Longrightarrow>
    fold (\<lambda>(t, e) m. entry_push t (f e) m) (map (Pair k) es) (m @ [(k, xs)]) = m @ [(k, xs @ map f es)]"
proof (induction es arbitrary: xs)
  case (Cons e es)
  have "entry_push k y (m @ [(k, xs)]) = m @ [(k, xs @ [y])]" for y xs
    using Cons.prems by (induction m) auto
  then show ?case using Cons by simp
qed simp

lemma fold_entry_push_new:
  assumes "k \<notin> fst ` set m"
  shows "fold (\<lambda>(t, e) m. entry_push t (f e) m) (map (Pair k) es) m = m @ (if es = [] then [] else [(k, map f es)])"
proof (cases es)
  case (Cons e es')
  have "entry_push k y m = m @ [(k, [y])]" for y
    using assms by (induction m) auto
  then show ?thesis using fold_entry_push_same [OF assms, of f es' "[f e]"] Cons by simp
qed simp

lemma from_legacy_entry_points_value:
  "from_legacy_entry_points_by_type L E =
    (if ep_constructor E = [] then [] else [(Constructor, map (from_legacy_entry_point L) (ep_constructor E))])
    @ (if ep_external E = [] then [] else [(External, map (from_legacy_entry_point L) (ep_external E))])
    @ (if ep_l1_handler E = [] then [] else [(L1HandlerEntry, map (from_legacy_entry_point L) (ep_l1_handler E))])"
  by (simp add: from_legacy_entry_points_by_type_def fold_entry_push_new split: if_split)

lemma legacy_entry_point_back:
  assumes "felt_codec L"
  shows "to_legacy_entry_point L (from_legacy_entry_point L e) = Ok e"
  by (simp add: to_legacy_entry_point_def from_legacy_entry_point_def felt_codec.fe_to_bytes_be [OF assms]
      felt_codec.fe_from_bytes_be [OF assms] be_felt result_simps del: nat_be.simps)

lemma legacy_entry_points_back:
  assumes "felt_codec L"
  shows "try_map (to_legacy_entry_point L) (map (from_legacy_entry_point L) es) = Ok es"
  by (induction es) (simp_all add: legacy_entry_point_back [OF assms] result_simps)

lemma legacy_entry_points_roundtrip:
  assumes "felt_codec L"
  shows "to_legacy_entry_points_by_type L (map_of (from_legacy_entry_points_by_type L E)) =
    (if ep_external E = [] then Err (MissingEntryPoint External) else Ok E)"
  by (cases E; cases "ep_constructor E"; cases "ep_external E"; cases "ep_l1_handler E")
    (simp_all add: to_legacy_entry_points_by_type_def collect_entry_points_def from_legacy_entry_points_value
      unwrap_or_default_def legacy_entry_points_back [OF assms] legacy_entry_point_back [OF assms] ok_or_def result_simps)

text \<open>C29: storing a Cairo 0 class and reading it back. The entry points of each kind come back in their
  order and the ABI comes back entry by entry; the program is the one that was stored, written again and
  compressed again. The only classes that cannot be read back are those without an external entry point: the
  fold of the store leaves no key for them and the reader asks for that key.\<close>

theorem legacy_class_roundtrip:
  fixes c :: "legacy_abi_entry compressed_legacy_class"
  assumes "felt_codec L"
    and "gz_read_to_end M (lc_program c) = Some json" "program_from_bytes M json = Some program"
    and "program_serialize W program = Some json'" "gz_write W json' = Some compressed"
  shows "\<exists>w. wrapper_try_from L M (CoreLegacy c) = Ok w \<and>
    wrapper_try_into L W w =
      (if ep_external (lc_entry_points c) = [] then Err (MissingEntryPoint External)
       else Ok (CoreLegacy (c\<lparr>lc_program := compressed\<rparr>)))"
proof -
  have "wrapper_try_from L M (CoreLegacy c) =
      Ok \<lparr> cw_contract = ClassV0 program (from_legacy_entry_points_by_type L (lc_entry_points c)),
           cw_abi = CairoAbi (from_rpc_contract_abi (lc_abi c)) \<rparr>" (is "_ = Ok ?w")
    by (simp add: wrapper_try_from_def from_contract_class_cairo_def decompress_def ok_or_def unwrap_opt_def
        assms(2,3) result_simps)
  moreover have "wrapper_try_into L W ?w = (if ep_external (lc_entry_points c) = [] then Err (MissingEntryPoint External)
       else Ok (CoreLegacy (c\<lparr>lc_program := compressed\<rparr>)))"
    by (cases c) (simp add: wrapper_try_into_def to_contract_class_cairo_def compress_def ok_or_def
        legacy_entry_points_roundtrip [OF assms(1)] assms(4,5) result_simps)
  ultimately show ?thesis by blast
qed

text \<open>Libraries that store a program as its bytes.\<close>

definition ref_class_out :: "bytes class_out" where
  "ref_class_out = \<lparr> program_serialize = Some, gz_write = Some, env_compiler_version = None \<rparr>"

definition sample_legacy_class :: "legacy_abi_entry compressed_legacy_class" where
  "sample_legacy_class =
    \<lparr> lc_program = [123, 125],
      lc_entry_points = \<lparr> ep_constructor = [], ep_external = [\<lparr> le_offset = 8, le_selector = felt_of_nat 7 \<rparr>], ep_l1_handler = [] \<rparr>,
      lc_abi = Some [LegacyFunctionEntry \<lparr> lf_type = LegacyFunction, lf_name = ''balance'', lf_inputs = [],
        lf_outputs = [\<lparr> lp_name = ''value'', lp_type = ''felt'' \<rparr>], lf_state_mutability = Some LegacyView \<rparr>] \<rparr>"

theorem legacy_class_roundtrip_witness:
  "\<exists>w. wrapper_try_from ref_felt_lib ref_class_lib (CoreLegacy sample_legacy_class) = Ok w \<and>
    wrapper_try_into ref_felt_lib ref_class_out w = Ok (CoreLegacy sample_legacy_class)"
  using legacy_class_roundtrip [OF ref_felt_codec, of ref_class_lib sample_legacy_class "[123, 125]" "[123, 125]"
      ref_class_out "[123, 125]" "[123, 125]"]
  by (simp add: ref_class_lib_def ref_class_out_def sample_legacy_class_def)

end
