(* ===== verification/RpcCore.thy ===== *)
theory RpcCore
  imports MappingSync ContractClasses StorageOverride BonsaiStore
begin

text \<open>
  The RPC server, \<open>crates/client/rpc/src\<close>: its errors (\<open>errors.rs\<close>), the server and its look-ups of
  blocks (\<open>lib.rs\<close>, \<open>madara_backend_client.rs\<close>), what it shows of a block (\<open>utils.rs\<close>,
  \<open>methods/get_block.rs\<close>), and the read methods on blocks, transactions, classes and nonces
  (\<open>methods/read\<close>). A server is a record: the client database, the Substrate client, the storage
  overrides, and the global variables of \<open>mc_sync\<close> the methods read. The Substrate client, the
  syncing service and the runtime API are fields of that record.
\<close>

section \<open>Errors\<close>

datatype rpc_api_error =
  FailedToReceiveTxn | ContractNotFound | BlockNotFound | InvalidTxnHash | InvalidBlockHash | InvalidTxnIndex
| ClassHashNotFound | TxnHashNotFound | PageSizeTooBig | NoBlocks | InvalidContinuationToken | TooManyKeysInFilter
| FailedToFetchPendingTransactions | ContractErr | TxnExecutionError | InvalidContractClass | ClassAlreadyDeclared
| InvalidTxnNonce | InsufficientMaxFee | InsufficientAccountBalance | ValidationFailure | CompilationFailed
| ContractClassSizeTooLarge | NonAccount | DuplicateTxn | CompiledClassHashMismatch | UnsupportedTxnVersion
| UnsupportedContractClassVersion | ErrUnexpectedError | InternalServerError | UnimplementedMethod | ProofLimitExceeded

primrec rpc_error_code :: "rpc_api_error \<Rightarrow> int" where
  "rpc_error_code FailedToReceiveTxn = 1"
| "rpc_error_code ContractNotFound = 20"
| "rpc_error_code BlockNotFound = 24"
| "rpc_error_code InvalidTxnHash = 25"
| "rpc_error_code InvalidBlockHash = 26"
| "rpc_error_code InvalidTxnIndex = 27"
| "rpc_error_code ClassHashNotFound = 28"
| "rpc_error_code TxnHashNotFound = 29"
| "rpc_error_code PageSizeTooBig = 31"
| "rpc_error_code NoBlocks = 32"
| "rpc_error_code InvalidContinuationToken = 33"
| "rpc_error_code TooManyKeysInFilter = 34"
| "rpc_error_code FailedToFetchPendingTransactions = 38"
| "rpc_error_code ContractErr = 40"
| "rpc_error_code TxnExecutionError = 41"
| "rpc_error_code InvalidContractClass = 50"
| "rpc_error_code ClassAlreadyDeclared = 51"
| "rpc_error_code InvalidTxnNonce = 52"
| "rpc_error_code InsufficientMaxFee = 53"
| "rpc_error_code InsufficientAccountBalance = 54"
| "rpc_error_code ValidationFailure = 55"
| "rpc_error_code CompilationFailed = 56"
| "rpc_error_code ContractClassSizeTooLarge = 57"
| "rpc_error_code NonAccount = 58"
| "rpc_error_code DuplicateTxn = 59"
| "rpc_error_code CompiledClassHashMismatch = 60"
| "rpc_error_code UnsupportedTxnVersion = 61"
| "rpc_error_code UnsupportedContractClassVersion = 62"
| "rpc_error_code ErrUnexpectedError = 63"
| "rpc_error_code InternalServerError = 500"
| "rpc_error_code UnimplementedMethod = 501"
| "rpc_error_code ProofLimitExceeded = 10000"

text \<open>What a method answers when it fails: an error of the API, an error of the look-up of a block
  (passed on as it is), or a message.\<close>

datatype rpc_error = Api rpc_api_error | Lookup block_lookup_error | CallFailed string | Custom string

section \<open>Types of the answers\<close>

record core_storage_diff_item =
  csd_address :: felt
  csd_entries :: "(felt \<times> felt) list"

record core_state_diff =
  csf_storage_diffs :: "core_storage_diff_item list"
  csf_deprecated_declared_classes :: "felt list"
  csf_declared_classes :: "(felt \<times> felt) list"
  csf_deployed_contracts :: "(felt \<times> felt) list"
  csf_replaced_classes :: "(felt \<times> felt) list"
  csf_nonces :: "(felt \<times> felt) list"

record core_state_update =
  csu_block_hash :: felt
  csu_old_root :: felt
  csu_new_root :: felt
  csu_state_diff :: core_state_diff

record core_pending_state_update =
  cpu_old_root :: felt
  cpu_state_diff :: core_state_diff

datatype maybe_pending_state_update = StateUpdated core_state_update | PendingUpdate core_pending_state_update

text \<open>The state difference of \<open>starknet_api\<close> that the database stores; its maps keep their order.\<close>

record thin_state_diff =
  tsd_deployed_contracts :: "(felt \<times> felt) list"
  tsd_storage_diffs :: "(felt \<times> (felt \<times> felt) list) list"
  tsd_declared_classes :: "(felt \<times> felt) list"
  tsd_deprecated_declared_classes :: "felt list"
  tsd_nonces :: "(felt \<times> felt) list"
  tsd_replaced_classes :: "(felt \<times> felt) list"

section \<open>The server\<close>

text \<open>The Substrate client answers or fails; it does not panic.\<close>

record ('db, 'd, 'cu, 'c, 'a) rpc_server =
  rs_rocks :: "'db rocks"
  rs_codecs :: "'d db_codecs"
  rs_cache :: bool
  rs_db :: 'db
  rs_felt :: felt_lib
  rs_crypto :: crypto_lib
  rs_hasher :: hasher_t
  rs_scale :: "'cu scale_lib"
  rs_client :: substrate_client
  rs_best_hash :: dhash
  rs_best_number :: "32 word"
  rs_number :: "dhash \<Rightarrow> (unit, 32 word option) res"
  rs_hash :: "32 word \<Rightarrow> (unit, dhash option) res"
  rs_frame :: "('c, 'a) frame_codecs"
  rs_raw :: "dhash raw_storage"
  rs_overrides :: "(dhash, 'c, 'a) override_handle"
  rs_tx_outcome :: "dhash \<Rightarrow> felt \<Rightarrow> (unit, bytes option) res"
  rs_starting_block :: "32 word"
  rs_best_seen :: "(unit, 32 word option) res"
  rs_config_chain_id :: "felt option"
  rs_pending_block :: "deoxys_block option"
  rs_pending_state_update :: "core_pending_state_update option"
  rs_highest :: "felt \<times> 64 word"
  rs_l1_block_number :: "64 word"

definition saturate_u32 :: "64 word \<Rightarrow> 32 word" where
  "saturate_u32 n = (if n \<le> 0xFFFFFFFF then ucast n else 0xFFFFFFFF)"

definition rpc_chain_id :: "('db, 'd, 'cu, 'c, 'a) rpc_server \<Rightarrow> (rpc_error, felt) res" where
  "rpc_chain_id s = ok_or (Api InternalServerError) (rs_config_chain_id s)"

definition current_block_number :: "('db, 'd, 'cu, 'c, 'a) rpc_server \<Rightarrow> (rpc_error, 64 word) res" where
  "current_block_number s = Ok (ucast (rs_best_number s))"

definition current_spec_version :: "('db, 'd, 'cu, 'c, 'a) rpc_server \<Rightarrow> (rpc_error, string) res" where
  "current_spec_version s = Ok ''0.7.0''"

definition block_of :: "('db, 'd, 'cu, 'c, 'a) rpc_server \<Rightarrow> dhash \<Rightarrow> (block_lookup_error, deoxys_block) res" where
  "block_of s h = get_block_by_block_hash (rs_scale s) (rs_client s) h"

definition hash_of :: "('db, 'd, 'cu, 'c, 'a) rpc_server \<Rightarrow> deoxys_block \<Rightarrow> ('e, felt) res" where
  "hash_of s b = unwrap (header_hash (rs_felt s) (rs_hasher s) (blk_header b))"

definition current_block_hash :: "('db, 'd, 'cu, 'c, 'a) rpc_server \<Rightarrow> (rpc_api_error, bytes) res" where
  "current_block_hash s =
    res_bind (map_err (\<lambda>_. BlockNotFound) (block_of s (rs_best_hash s))) (\<lambda>starknet_block.
    res_bind (hash_of s starknet_block) (\<lambda>h. into_h256 (rs_felt s) h))"

text \<open>\<open>madara_backend_client.rs\<close>: a Starknet block may be wrapped by several Substrate blocks; the
  canonical one is meant.\<close>

definition is_canon :: "('db, 'd, 'cu, 'c, 'a) rpc_server \<Rightarrow> dhash \<Rightarrow> bool" where
  "is_canon s target_hash =
    (case rs_number s target_hash of
       Ok (Some number) \<Rightarrow> (case rs_hash s number of Ok (Some hash) \<Rightarrow> hash = target_hash | _ \<Rightarrow> False)
     | _ \<Rightarrow> False)"

definition load_hash :: "('db, 'd, 'cu, 'c, 'a) rpc_server \<Rightarrow> felt \<Rightarrow> (db_error, dhash option) res" where
  "load_hash s hash =
    res_bind (mapped_block_hash (rs_rocks s) (rs_codecs s) (rs_db s) hash) (\<lambda>substrate_hashes.
    Ok (case substrate_hashes of Some hs \<Rightarrow> List.find (is_canon s) hs | None \<Rightarrow> None))"

definition starknet_block_from_substrate_hash :: "('db, 'd, 'cu, 'c, 'a) rpc_server \<Rightarrow> 32 word
    \<Rightarrow> (rpc_api_error, deoxys_block) res" where
  "starknet_block_from_substrate_hash s target_number =
    (case rs_hash s target_number of
       Ok (Some block_hash) \<Rightarrow> unwrap (block_of s block_hash)
     | Panic \<Rightarrow> Panic
     | _ \<Rightarrow> Err BlockNotFound)"

definition substrate_block_hash_from_starknet_block :: "('db, 'd, 'cu, 'c, 'a) rpc_server \<Rightarrow> block_id
    \<Rightarrow> (rpc_api_error, dhash) res" where
  "substrate_block_hash_from_starknet_block s block_id =
    res_bind
      (case block_id of
         BlockHash h \<Rightarrow> map_err (\<lambda>_. BlockNotFound) (load_hash s h)
       | BlockNumber n \<Rightarrow> map_err (\<lambda>_. BlockNotFound) (rs_hash s (saturate_u32 n))
       | BlockTag _ \<Rightarrow> Ok (Some (rs_best_hash s)))
      (ok_or BlockNotFound)"

definition substrate_block_number_from_starknet_block :: "('db, 'd, 'cu, 'c, 'a) rpc_server \<Rightarrow> block_id
    \<Rightarrow> (rpc_api_error, 64 word) res" where
  "substrate_block_number_from_starknet_block s block_id =
    (case block_id of
       BlockNumber x \<Rightarrow> Ok x
     | _ \<Rightarrow>
         res_bind (substrate_block_hash_from_starknet_block s block_id) (\<lambda>substrate_block_hash.
         res_bind (map_err (\<lambda>_. BlockNotFound) (block_of s substrate_block_hash)) (\<lambda>starknet_block.
         Ok (h_block_number (blk_header starknet_block)))))"

definition get_cached_transaction_hashes :: "('db, 'd, 'cu, 'c, 'a) rpc_server \<Rightarrow> felt \<Rightarrow> ('e, felt list option) res" where
  "get_cached_transaction_hashes s block_hash =
    (case cached_transaction_hashes_from_block_hash (rs_rocks s) (rs_codecs s) (rs_cache s) (rs_db s) block_hash of
       Ok r \<Rightarrow> Ok r
     | Err _ \<Rightarrow> Ok None
     | Panic \<Rightarrow> Panic)"

section \<open>What is shown of a block, \<open>utils.rs\<close>\<close>

definition tx_hash_retrieve :: "felt list \<Rightarrow> felt list" where
  "tx_hash_retrieve tx_hashes = map (\<lambda>h. h) tx_hashes"

definition tx_hash_compute :: "('db, 'd, 'cu, 'c, 'a) rpc_server \<Rightarrow> deoxys_block \<Rightarrow> felt \<Rightarrow> ('e, felt list) res" where
  "tx_hash_compute s block chain_id =
    unwrap (transactions_hashes (rs_felt s) (rs_crypto s) (rs_hasher s) block chain_id
      (Some (h_block_number (blk_header block))))"

definition tx_conv :: "('db, 'd, 'cu, 'c, 'a) rpc_server \<Rightarrow> transaction list \<Rightarrow> felt list \<Rightarrow> ('e, core_transaction list) res" where
  "tx_conv s txs tx_hashes = try_map (\<lambda>(tx, hash). unwrap (to_starknet_core_tx (rs_felt s) tx hash)) (zip txs tx_hashes)"

definition block_status_of :: "('db, 'd, 'cu, 'c, 'a) rpc_server \<Rightarrow> 64 word \<Rightarrow> core_block_status" where
  "block_status_of s block_number =
    (if block_number \<le> rs_l1_block_number s then CoreAcceptedOnL1 else CoreAcceptedOnL2)"

record resource_price =
  price_in_fri :: felt
  price_in_wei :: felt

definition non_zero_u128_to_field_element :: "felt_lib \<Rightarrow> 128 word \<Rightarrow> felt" where
  "non_zero_u128_to_field_element L v = (if v = 1 then 0 else fe_from_u128 L v)"

definition rpc_l1_gas_price :: "felt_lib \<Rightarrow> deoxys_block \<Rightarrow> resource_price" where
  "rpc_l1_gas_price L block =
    (case h_l1_gas_price (blk_header block) of
       Some p \<Rightarrow> \<lparr> price_in_fri = non_zero_u128_to_field_element L (strk_l1_gas_price p),
                  price_in_wei = non_zero_u128_to_field_element L (eth_l1_gas_price p) \<rparr>
     | None \<Rightarrow> \<lparr> price_in_fri = 0, price_in_wei = 0 \<rparr>)"

definition rpc_l1_data_gas_price :: "felt_lib \<Rightarrow> deoxys_block \<Rightarrow> resource_price" where
  "rpc_l1_data_gas_price L block =
    (case h_l1_gas_price (blk_header block) of
       Some p \<Rightarrow> \<lparr> price_in_fri = fe_from_u128 L (strk_l1_data_gas_price p),
                  price_in_wei = fe_from_u128 L (eth_l1_data_gas_price p) \<rparr>
     | None \<Rightarrow> \<lparr> price_in_fri = 1, price_in_wei = 1 \<rparr>)"

datatype core_l1_da_mode = CoreCalldata | CoreBlob

definition rpc_l1_da_mode :: "deoxys_block \<Rightarrow> core_l1_da_mode" where
  "rpc_l1_da_mode block = (case h_l1_da_mode (blk_header block) of Calldata \<Rightarrow> CoreCalldata | Blob \<Rightarrow> CoreBlob)"

definition starknet_version :: "felt_lib \<Rightarrow> deoxys_block \<Rightarrow> ('e, bytes) res" where
  "starknet_version L block = unwrap (from_utf8 L (h_protocol_version (blk_header block)))"


text \<open>The copy of the conversion in \<open>utils.rs\<close> asks for entry points of every kind.\<close>

definition rpc_legacy_entry_points_by_type :: "felt_lib \<Rightarrow> (entry_point_type \<rightharpoonup> api_entry_point list)
    \<Rightarrow> (class_error, legacy_entry_point entry_points_by_type) res" where
  "rpc_legacy_entry_points_by_type L entries =
    res_bind (collect_entry_points L entries Constructor) (\<lambda>constructor.
    res_bind (collect_entry_points L entries External) (\<lambda>external.
    res_bind (collect_entry_points L entries L1HandlerEntry) (\<lambda>l1_handler.
    Ok \<lparr> ep_constructor = constructor, ep_external = external, ep_l1_handler = l1_handler \<rparr>)))"

definition to_rpc_contract_class :: "felt_lib \<Rightarrow> 'prog class_out \<Rightarrow> ('prog, 'v1) blockifier_class \<Rightarrow> (class_error, core_class) res" where
  "to_rpc_contract_class L W contract_class =
    (case contract_class of
       ClassV0 program entry_points \<Rightarrow>
         res_bind (rpc_legacy_entry_points_by_type L (map_of entry_points)) (\<lambda>entry_points_by_type.
         res_bind (ok_or SerializeError (program_serialize W program)) (\<lambda>data.
         res_bind (compress W data) (\<lambda>compressed_program.
         Ok (CoreLegacy \<lparr> lc_program = compressed_program, lc_entry_points = entry_points_by_type, lc_abi = None \<rparr>))))
     | ClassV1 _ \<Rightarrow>
         Ok (CoreSierra
           \<lparr> fs_sierra_program = [],
             fs_contract_class_version = (case env_compiler_version W of Some v \<Rightarrow> v | None \<Rightarrow> ''0.11.2''),
             fs_entry_points = \<lparr> ep_constructor = [], ep_external = [], ep_l1_handler = [] \<rparr>,
             fs_abi = ''{}'' \<rparr>))"

definition to_rpc_state_diff :: "thin_state_diff \<Rightarrow> core_state_diff" where
  "to_rpc_state_diff d =
    \<lparr> csf_storage_diffs = map (\<lambda>x. \<lparr> csd_address = fst x, csd_entries = map (\<lambda>y. (fst y, snd y)) (snd x) \<rparr>) (tsd_storage_diffs d),
      csf_deprecated_declared_classes = map (\<lambda>x. x) (tsd_deprecated_declared_classes d),
      csf_declared_classes = map (\<lambda>x. (fst x, snd x)) (tsd_declared_classes d),
      csf_deployed_contracts = map (\<lambda>x. (fst x, snd x)) (tsd_deployed_contracts d),
      csf_replaced_classes = map (\<lambda>x. (fst x, snd x)) (tsd_replaced_classes d),
      csf_nonces = map (\<lambda>x. (fst x, snd x)) (tsd_nonces d) \<rparr>"

definition get_state_diff :: "('db, thin_state_diff, 'cu, 'c, 'a) rpc_server \<Rightarrow> felt \<Rightarrow> (rpc_api_error, core_state_diff) res" where
  "get_state_diff s starknet_block_hash =
    res_bind (map_err (\<lambda>_. InternalServerError) (da_state_diff (rs_rocks s) (rs_codecs s) (rs_db s) starknet_block_hash))
      (\<lambda>state_diff. Ok (to_rpc_state_diff state_diff))"

section \<open>Blocks, \<open>methods/get_block.rs\<close>\<close>

record 't rpc_block =
  rb_status :: core_block_status
  rb_block_hash :: felt
  rb_parent_hash :: felt
  rb_block_number :: "64 word"
  rb_new_root :: felt
  rb_timestamp :: "64 word"
  rb_sequencer_address :: felt
  rb_l1_gas_price :: resource_price
  rb_l1_data_gas_price :: resource_price
  rb_l1_da_mode :: core_l1_da_mode
  rb_starknet_version :: bytes
  rb_transactions :: "'t list"

record 't rpc_pending_block =
  rp_transactions :: "'t list"
  rp_parent_hash :: felt
  rp_timestamp :: "64 word"
  rp_sequencer_address :: felt
  rp_l1_gas_price :: resource_price
  rp_l1_data_gas_price :: resource_price
  rp_starknet_version :: bytes
  rp_l1_da_mode :: core_l1_da_mode

datatype 't maybe_pending_block = FinalBlock "'t rpc_block" | PendingBlock "'t rpc_pending_block"

definition rpc_block_of :: "('db, 'd, 'cu, 'c, 'a) rpc_server \<Rightarrow> deoxys_block \<Rightarrow> felt \<Rightarrow> 't list \<Rightarrow> ('e, 't rpc_block) res" where
  "rpc_block_of s b block_hash transactions =
    (let L = rs_felt s; h = blk_header b in
     res_bind (starknet_version L b) (\<lambda>version.
     Ok \<lparr> rb_status = block_status_of s (h_block_number h), rb_block_hash = block_hash,
          rb_parent_hash = h_parent_block_hash h, rb_block_number = h_block_number h,
          rb_new_root = h_global_state_root h, rb_timestamp = h_block_timestamp h,
          rb_sequencer_address = h_sequencer_address h, rb_l1_gas_price = rpc_l1_gas_price L b,
          rb_l1_data_gas_price = rpc_l1_data_gas_price L b, rb_l1_da_mode = rpc_l1_da_mode b,
          rb_starknet_version = version, rb_transactions = transactions \<rparr>))"

definition rpc_pending_of :: "felt_lib \<Rightarrow> deoxys_block \<Rightarrow> 't list \<Rightarrow> ('e, 't rpc_pending_block) res" where
  "rpc_pending_of L b transactions =
    (let h = blk_header b in
     res_bind (starknet_version L b) (\<lambda>version.
     Ok \<lparr> rp_transactions = transactions, rp_parent_hash = h_parent_block_hash h, rp_timestamp = h_block_timestamp h,
          rp_sequencer_address = h_sequencer_address h, rp_l1_gas_price = rpc_l1_gas_price L b,
          rp_l1_data_gas_price = rpc_l1_data_gas_price L b, rp_starknet_version = version,
          rp_l1_da_mode = rpc_l1_da_mode b \<rparr>))"

text \<open>The hashes of the transactions of a block: from the cache, or computed.\<close>

definition tx_hashes_of :: "('db, 'd, 'cu, 'c, 'a) rpc_server \<Rightarrow> felt \<Rightarrow> deoxys_block \<Rightarrow> felt \<Rightarrow> ('e, felt list) res" where
  "tx_hashes_of s chain_id b block_hash =
    res_bind (get_cached_transaction_hashes s block_hash) (\<lambda>cached.
    case cached of Some tx_hashes \<Rightarrow> Ok (tx_hash_retrieve tx_hashes) | None \<Rightarrow> tx_hash_compute s b chain_id)"

definition get_block_with_tx_hashes_finalized :: "('db, 'd, 'cu, 'c, 'a) rpc_server \<Rightarrow> felt \<Rightarrow> dhash
    \<Rightarrow> (rpc_error, felt maybe_pending_block) res" where
  "get_block_with_tx_hashes_finalized s chain_id substrate_block_hash =
    res_bind (map_err Lookup (block_of s substrate_block_hash)) (\<lambda>starknet_block.
    res_bind (hash_of s starknet_block) (\<lambda>block_hash.
    res_bind (tx_hashes_of s chain_id starknet_block block_hash) (\<lambda>transactions.
    map_ok FinalBlock (rpc_block_of s starknet_block block_hash transactions))))"

definition pending_block :: "('db, 'd, 'cu, 'c, 'a) rpc_server \<Rightarrow> (rpc_error, deoxys_block) res" where
  "pending_block s =
    ok_or (Custom ''Failed to retrieve pending block, node not yet synchronized'') (rs_pending_block s)"

definition get_block_with_tx_hashes_pending :: "('db, 'd, 'cu, 'c, 'a) rpc_server \<Rightarrow> felt
    \<Rightarrow> (rpc_error, felt maybe_pending_block) res" where
  "get_block_with_tx_hashes_pending s chain_id =
    res_bind (pending_block s) (\<lambda>starknet_block.
    res_bind (tx_hash_compute s starknet_block chain_id) (\<lambda>transactions.
    map_ok PendingBlock (rpc_pending_of (rs_felt s) starknet_block transactions)))"

definition get_block_with_txs_finalized :: "('db, 'd, 'cu, 'c, 'a) rpc_server \<Rightarrow> felt \<Rightarrow> dhash
    \<Rightarrow> (rpc_error, core_transaction maybe_pending_block) res" where
  "get_block_with_txs_finalized s chain_id substrate_block_hash =
    res_bind (map_err Lookup (block_of s substrate_block_hash)) (\<lambda>starknet_block.
    res_bind (hash_of s starknet_block) (\<lambda>block_hash.
    res_bind (tx_hashes_of s chain_id starknet_block block_hash) (\<lambda>tx_hashes.
    res_bind (tx_conv s (blk_transactions starknet_block) tx_hashes) (\<lambda>transactions.
    map_ok FinalBlock (rpc_block_of s starknet_block block_hash transactions)))))"

definition get_block_with_txs_pending :: "('db, 'd, 'cu, 'c, 'a) rpc_server \<Rightarrow> felt
    \<Rightarrow> (rpc_error, core_transaction maybe_pending_block) res" where
  "get_block_with_txs_pending s chain_id =
    res_bind (pending_block s) (\<lambda>starknet_block.
    res_bind (tx_hash_compute s starknet_block chain_id) (\<lambda>tx_hashes.
    res_bind (tx_conv s (blk_transactions starknet_block) tx_hashes) (\<lambda>transactions.
    map_ok PendingBlock (rpc_pending_of (rs_felt s) starknet_block transactions))))"

section \<open>Read methods on blocks\<close>

definition substrate_hash :: "('db, 'd, 'cu, 'c, 'a) rpc_server \<Rightarrow> block_id \<Rightarrow> (rpc_error, dhash) res" where
  "substrate_hash s block_id = map_err (\<lambda>_. Api BlockNotFound) (substrate_block_hash_from_starknet_block s block_id)"

definition rpc_block_hash_and_number :: "('db, 'd, 'cu, 'c, 'a) rpc_server \<Rightarrow> (rpc_error, felt \<times> 64 word) res" where
  "rpc_block_hash_and_number s =
    res_bind (current_block_number s) (\<lambda>block_number.
    res_bind (map_err (\<lambda>_. Api NoBlocks) (current_block_hash s)) (\<lambda>block_hash.
    res_bind (unwrap (fe_from_byte_slice_be (rs_felt s) block_hash)) (\<lambda>h. Ok (h, block_number))))"

definition rpc_get_block_with_tx_hashes :: "('db, 'd, 'cu, 'c, 'a) rpc_server \<Rightarrow> block_id
    \<Rightarrow> (rpc_error, felt maybe_pending_block) res" where
  "rpc_get_block_with_tx_hashes s block_id =
    res_bind (rpc_chain_id s) (\<lambda>chain_id.
    res_bind (substrate_hash s block_id) (\<lambda>substrate_block_hash.
    if block_id = BlockTag PendingTag then get_block_with_tx_hashes_pending s chain_id
    else get_block_with_tx_hashes_finalized s chain_id substrate_block_hash))"

definition rpc_get_block_with_txs :: "('db, 'd, 'cu, 'c, 'a) rpc_server \<Rightarrow> block_id
    \<Rightarrow> (rpc_error, core_transaction maybe_pending_block) res" where
  "rpc_get_block_with_txs s block_id =
    res_bind (rpc_chain_id s) (\<lambda>chain_id.
    res_bind (substrate_hash s block_id) (\<lambda>substrate_block_hash.
    if block_id = BlockTag PendingTag then get_block_with_txs_pending s chain_id
    else get_block_with_txs_finalized s chain_id substrate_block_hash))"

definition rpc_get_block_transaction_count :: "('db, 'd, 'cu, 'c, 'a) rpc_server \<Rightarrow> block_id \<Rightarrow> (rpc_error, 128 word) res" where
  "rpc_get_block_transaction_count s block_id =
    res_bind (substrate_hash s block_id) (\<lambda>substrate_block_hash.
    res_bind (map_err Lookup (block_of s substrate_block_hash)) (\<lambda>starknet_block.
    Ok (h_transaction_count (blk_header starknet_block))))"

definition rpc_state_diff :: "('db, thin_state_diff, 'cu, 'c, 'a) rpc_server \<Rightarrow> deoxys_block \<Rightarrow> (rpc_error, core_state_diff) res" where
  "rpc_state_diff s block =
    res_bind (hash_of s block) (\<lambda>starknet_block_hash.
    map_err (\<lambda>_. Api InternalServerError) (get_state_diff s starknet_block_hash))"

text \<open>\<open>temporary_global_state_root_getter\<close> returns the default value, so that the old root is zero in
  both branches.\<close>

definition temporary_global_state_root_getter :: felt where
  "temporary_global_state_root_getter = 0"

definition get_state_update_finalized :: "('db, thin_state_diff, 'cu, 'c, 'a) rpc_server \<Rightarrow> dhash
    \<Rightarrow> (rpc_error, maybe_pending_state_update) res" where
  "get_state_update_finalized s substrate_block_hash =
    res_bind (map_err Lookup (block_of s substrate_block_hash)) (\<lambda>starknet_block.
    res_bind (hash_of s starknet_block) (\<lambda>block_hash.
    let new_root = h_global_state_root (blk_header starknet_block);
        old_root = (if 0 < h_block_number (blk_header starknet_block) then temporary_global_state_root_getter else 0)
    in res_bind (rpc_state_diff s starknet_block) (\<lambda>state_diff.
    Ok (StateUpdated \<lparr> csu_block_hash = block_hash, csu_old_root = old_root, csu_new_root = new_root,
      csu_state_diff = state_diff \<rparr>))))"

definition get_state_update_pending :: "('db, 'd, 'cu, 'c, 'a) rpc_server \<Rightarrow> (rpc_error, maybe_pending_state_update) res" where
  "get_state_update_pending s =
    (case rs_pending_state_update s of
       Some state_update \<Rightarrow> Ok (PendingUpdate state_update)
     | None \<Rightarrow> Err (Custom ''Failed to retrieve pending state update, node not yet synchronized''))"

definition rpc_get_state_update :: "('db, thin_state_diff, 'cu, 'c, 'a) rpc_server \<Rightarrow> block_id
    \<Rightarrow> (rpc_error, maybe_pending_state_update) res" where
  "rpc_get_state_update s block_id =
    res_bind (substrate_hash s block_id) (\<lambda>substrate_block_hash.
    if block_id = BlockTag PendingTag then get_state_update_pending s
    else get_state_update_finalized s substrate_block_hash)"

section \<open>Read methods on transactions\<close>

text \<open>\<open>iter().find(|tx| tx.compute_hash(..) == hash)\<close>: the hash of a transaction is computed only until
  the first match, and a panic of the computation ends the search.\<close>

fun find_by_hash :: "(transaction \<Rightarrow> ('e, felt) res) \<Rightarrow> felt \<Rightarrow> transaction list \<Rightarrow> ('e, transaction option) res" where
  "find_by_hash f hash [] = Ok None"
| "find_by_hash f hash (tx # txs) =
    res_bind (f tx) (\<lambda>h. if h = hash then Ok (Some tx) else find_by_hash f hash txs)"

definition find_transaction :: "('db, 'd, 'cu, 'c, 'a) rpc_server \<Rightarrow> deoxys_block \<Rightarrow> felt \<Rightarrow> felt
    \<Rightarrow> (rpc_error, core_transaction option) res" where
  "find_transaction s starknet_block chain_id transaction_hash =
    res_bind (hash_of s starknet_block) (\<lambda>block_hash.
    res_bind (get_cached_transaction_hashes s block_hash) (\<lambda>cached.
    res_bind
      (case cached of
         Some tx_hashes \<Rightarrow>
           Ok (map_option snd (List.find (\<lambda>(tx_hash, _). tx_hash = transaction_hash)
             (zip tx_hashes (blk_transactions starknet_block))))
       | None \<Rightarrow>
           find_by_hash (\<lambda>tx. unwrap (compute_hash (rs_felt s) (rs_crypto s) (rs_hasher s) tx chain_id False
             (Some (h_block_number (blk_header starknet_block))))) transaction_hash (blk_transactions starknet_block))
      (\<lambda>found.
    case found of
      Some tx \<Rightarrow> map_ok Some (unwrap (to_starknet_core_tx (rs_felt s) tx transaction_hash))
    | None \<Rightarrow> Ok None)))"

definition transaction_block :: "('db, 'd, 'cu, 'c, 'a) rpc_server \<Rightarrow> felt \<Rightarrow> (rpc_error, dhash) res" where
  "transaction_block s transaction_hash =
    res_bind (map_err (\<lambda>_. Api TxnHashNotFound)
      (block_hash_from_transaction_hash (rs_rocks s) (rs_codecs s) (rs_db s) transaction_hash))
      (ok_or (Api TxnHashNotFound))"

definition rpc_get_transaction_by_hash :: "('db, 'd, 'cu, 'c, 'a) rpc_server \<Rightarrow> felt \<Rightarrow> (rpc_error, core_transaction) res" where
  "rpc_get_transaction_by_hash s transaction_hash =
    res_bind (transaction_block s transaction_hash) (\<lambda>substrate_block_hash.
    res_bind (map_err Lookup (block_of s substrate_block_hash)) (\<lambda>starknet_block.
    res_bind (rpc_chain_id s) (\<lambda>chain_id.
    res_bind (find_transaction s starknet_block chain_id transaction_hash) (\<lambda>find_tx.
    ok_or (Api TxnHashNotFound) find_tx))))"

datatype execution_status = Succeeded | Reverted
datatype transaction_status = TxAcceptedOnL2 execution_status

definition rpc_get_transaction_status :: "('db, 'd, 'cu, 'c, 'a) rpc_server \<Rightarrow> felt \<Rightarrow> (rpc_error, transaction_status) res" where
  "rpc_get_transaction_status s transaction_hash =
    res_bind (transaction_block s transaction_hash) (\<lambda>substrate_block_hash.
    res_bind (map_err Lookup (block_of s substrate_block_hash)) (\<lambda>starknet_block.
    res_bind (rpc_chain_id s) (\<lambda>chain_id.
    res_bind (find_transaction s starknet_block chain_id transaction_hash) (\<lambda>starknet_tx.
    res_bind (map_err (\<lambda>_. Api InternalServerError) (rs_tx_outcome s substrate_block_hash transaction_hash)) (\<lambda>revert_error.
    Ok (TxAcceptedOnL2 (if revert_error = None then Succeeded else Reverted)))))))"

definition nth_option :: "'x list \<Rightarrow> 64 word \<Rightarrow> 'x option" where
  "nth_option xs i = (if unat i < length xs then Some (xs ! unat i) else None)"

definition rpc_get_transaction_by_block_id_and_index :: "('db, 'd, 'cu, 'c, 'a) rpc_server \<Rightarrow> block_id \<Rightarrow> 64 word
    \<Rightarrow> (rpc_error, core_transaction) res" where
  "rpc_get_transaction_by_block_id_and_index s block_id index =
    res_bind (substrate_hash s block_id) (\<lambda>substrate_block_hash.
    res_bind (map_err Lookup (block_of s substrate_block_hash)) (\<lambda>starknet_block.
    res_bind (ok_or (Api InvalidTxnIndex) (nth_option (blk_transactions starknet_block) index)) (\<lambda>transaction.
    res_bind (rpc_chain_id s) (\<lambda>chain_id.
    res_bind (hash_of s starknet_block) (\<lambda>block_hash.
    res_bind (get_cached_transaction_hashes s block_hash) (\<lambda>opt_cached_transaction_hashes.
    res_bind
      (case opt_cached_transaction_hashes of
         Some cached_tx_hashes \<Rightarrow>
           ok_or (CallFailed ''Number of cached tx hashes does not match the number of transactions in block'')
             (nth_option cached_tx_hashes index)
       | None \<Rightarrow> unwrap (compute_hash (rs_felt s) (rs_crypto s) (rs_hasher s) transaction chain_id False
             (Some (h_block_number (blk_header starknet_block)))))
      (\<lambda>transaction_hash. unwrap (to_starknet_core_tx (rs_felt s) transaction transaction_hash))))))))"

section \<open>Read methods on the state\<close>

abbreviation override_at :: "('db, 'd, 'cu, 'c, 'a) rpc_server \<Rightarrow> dhash \<Rightarrow> (dhash, 'c, 'a) storage_override" where
  "override_at s h \<equiv> for_block_hash (rs_frame s) (rs_raw s) (rs_overrides s) h"

definition rpc_get_class_hash_at :: "('db, 'd, 'cu, 'c, 'a) rpc_server \<Rightarrow> block_id \<Rightarrow> felt \<Rightarrow> (rpc_error, felt) res" where
  "rpc_get_class_hash_at s block_id contract_address =
    res_bind (substrate_hash s block_id) (\<lambda>substrate_block_hash.
    ok_or (Api ContractNotFound)
      (contract_class_hash_by_address (override_at s substrate_block_hash) substrate_block_hash contract_address))"

definition rpc_get_nonce :: "('db, 'd, 'cu, 'c, 'a) rpc_server \<Rightarrow> block_id \<Rightarrow> felt \<Rightarrow> (rpc_error, felt) res" where
  "rpc_get_nonce s block_id contract_address =
    res_bind (substrate_hash s block_id) (\<lambda>substrate_block_hash.
    ok_or (Api ContractNotFound)
      (override_nonce (override_at s substrate_block_hash) substrate_block_hash contract_address))"

definition rpc_get_class :: "'prog class_out \<Rightarrow> ('db, 'd, 'cu, ('prog, 'v1) blockifier_class, contract_abi) rpc_server
    \<Rightarrow> block_id \<Rightarrow> felt \<Rightarrow> (rpc_error, core_class) res" where
  "rpc_get_class W s block_id class_hash =
    res_bind (substrate_hash s block_id) (\<lambda>substrate_block_hash.
    res_bind (ok_or (Api ClassHashNotFound)
      (contract_class_by_class_hash (override_at s substrate_block_hash) substrate_block_hash class_hash)) (\<lambda>contract_class.
    res_bind (ok_or (Api ClassHashNotFound)
      (contract_abi_by_class_hash (override_at s substrate_block_hash) substrate_block_hash class_hash)) (\<lambda>contract_abi.
    map_err (\<lambda>_. Api InternalServerError)
      (wrapper_try_into (rs_felt s) W \<lparr> cw_contract = contract_class, cw_abi = contract_abi \<rparr>))))"

definition rpc_get_class_at :: "'prog class_out \<Rightarrow> ('db, 'd, 'cu, ('prog, 'v1) blockifier_class, contract_abi) rpc_server
    \<Rightarrow> block_id \<Rightarrow> felt \<Rightarrow> (rpc_error, core_class) res" where
  "rpc_get_class_at W s block_id contract_address =
    res_bind (substrate_hash s block_id) (\<lambda>substrate_block_hash.
    res_bind (ok_or (Api ContractNotFound)
      (contract_class_by_address (override_at s substrate_block_hash) substrate_block_hash contract_address)) (\<lambda>contract_class.
    res_bind (ok_or (Api ContractNotFound)
      (contract_abi_by_address (override_at s substrate_block_hash) substrate_block_hash contract_address)) (\<lambda>contract_abi.
    map_err (\<lambda>_. Api InternalServerError)
      (wrapper_try_into (rs_felt s) W \<lparr> cw_contract = contract_class, cw_abi = contract_abi \<rparr>))))"

definition rpc_get_storage_at :: "('b, 'tr) bonsai_lib \<Rightarrow> 'b deoxys_backend \<Rightarrow> ('db, 'd, 'cu, 'c, 'a) rpc_server
    \<Rightarrow> felt \<Rightarrow> felt \<Rightarrow> block_id \<Rightarrow> (rpc_error, felt) res" where
  "rpc_get_storage_at B bk s contract_address key block_id =
    res_bind (map_err (\<lambda>_. Api BlockNotFound) (substrate_block_number_from_starknet_block s block_id)) (\<lambda>block_number.
    res_bind (map_err (\<lambda>_. Api ContractNotFound) (contract_storage_mut B bk (BlockNumber block_number))) (\<lambda>handle.
    case contract_storage_get (rs_felt s) B handle bk contract_address key of
      Ok value \<Rightarrow> ok_or (Api ContractNotFound) value
    | Err _ \<Rightarrow> Err (Api ContractNotFound)
    | Panic \<Rightarrow> Panic))"

section \<open>Syncing\<close>

record sync_status =
  sy_starting_block_num :: "64 word"
  sy_starting_block_hash :: felt
  sy_current_block_num :: "64 word"
  sy_current_block_hash :: felt
  sy_highest_block_num :: "64 word"
  sy_highest_block_hash :: felt

datatype sync_status_type = Syncing sync_status | NotSyncing

text \<open>The three blocks are all looked up before any is examined.\<close>

definition rpc_syncing :: "('db, 'd, 'cu, 'c, 'a) rpc_server \<Rightarrow> (rpc_error, sync_status_type) res" where
  "rpc_syncing s =
    (case rs_best_seen s of
       Ok best_seen_block \<Rightarrow>
         (let best_number = rs_best_number s;
              highest_number = (case best_seen_block of Some n \<Rightarrow> n | None \<Rightarrow> best_number);
              starting_block = starknet_block_from_substrate_hash s (rs_starting_block s);
              current_block = starknet_block_from_substrate_hash s best_number;
              highest_block = starknet_block_from_substrate_hash s highest_number
          in if starting_block = Panic \<or> current_block = Panic \<or> highest_block = Panic then Panic
             else case (starting_block, current_block, highest_block) of
               (Ok starting, Ok current, Ok _) \<Rightarrow>
                 res_bind (hash_of s starting) (\<lambda>starting_block_hash.
                 res_bind (hash_of s current) (\<lambda>current_block_hash.
                 Ok (Syncing \<lparr> sy_starting_block_num = ucast (rs_starting_block s),
                   sy_starting_block_hash = starting_block_hash,
                   sy_current_block_num = ucast best_number, sy_current_block_hash = current_block_hash,
                   sy_highest_block_num = snd (rs_highest s), sy_highest_block_hash = fst (rs_highest s) \<rparr>)))
             | _ \<Rightarrow> Ok NotSyncing)
     | Err _ \<Rightarrow> Ok NotSyncing
     | Panic \<Rightarrow> Panic)"

section \<open>What the mapping database holds\<close>

definition chain_block :: "('db, 'd, 'cu, 'f) sync_env \<Rightarrow> dhash \<Rightarrow> substrate_header \<Rightarrow> deoxys_block \<Rightarrow> bool" where
  "chain_block E h hr b \<longleftrightarrow> ancestor (se_client E) h \<and> cl_header (se_client E) h = Ok (Some hr)
     \<and> find_starknet_block (se_scale E) (sh_digest hr) = Ok b"

definition hashes_at :: "('db, 'd, 'cu, 'f) sync_env \<Rightarrow> dhash \<Rightarrow> deoxys_block \<Rightarrow> felt list \<Rightarrow> bool" where
  "hashes_at E h b ts \<longleftrightarrow> (\<exists>c. cl_chain_id (se_client E) h = Ok c
     \<and> transactions_hashes (se_felt E) (se_crypto E) (se_hasher E) b c (Some (h_block_number (blk_header b))) = Ok ts)"

definition starknet_hash :: "('db, 'd, 'cu, 'f) sync_env \<Rightarrow> deoxys_block \<Rightarrow> felt \<Rightarrow> bool" where
  "starknet_hash E b f \<longleftrightarrow> header_hash (se_felt E) (se_hasher E) (blk_header b) = Ok f"

text \<open>Every entry of the mapping is about a block of the chain, and a block that was seen has its entries.\<close>

definition accurate :: "('db, 'd, 'cu, 'f) sync_env \<Rightarrow> mapping_abs \<Rightarrow> bool" where
  "accurate E m \<longleftrightarrow>
     (\<forall>t h. tx_block m t = Some h \<longrightarrow>
        (\<exists>hr b ts. chain_block E h hr b \<and> sh_number hr \<noteq> 0 \<and> hashes_at E h b ts \<and> t \<in> set ts))
   \<and> (\<forall>f ts. tx_hashes_cache m f = Some ts \<longrightarrow>
        (\<exists>h hr b. chain_block E h hr b \<and> starknet_hash E b f
          \<and> (if sh_number hr = 0 then ts = [] else hashes_at E h b ts)))
   \<and> (\<forall>f hs h. wrapping m f = Some hs \<longrightarrow> h \<in> set hs \<longrightarrow> (\<exists>hr b. chain_block E h hr b \<and> starknet_hash E b f))
   \<and> (\<forall>h hr b ts t. chain_block E h hr b \<longrightarrow> sh_number hr \<noteq> 0 \<longrightarrow> h \<in> seen m \<longrightarrow> hashes_at E h b ts \<longrightarrow>
        t \<in> set ts \<longrightarrow> tx_block m t \<noteq> None)
   \<and> (\<forall>h hr b f. chain_block E h hr b \<longrightarrow> h \<in> seen m \<longrightarrow> starknet_hash E b f \<longrightarrow>
        (\<exists>hs. wrapping m f = Some hs \<and> h \<in> set hs) \<and> (se_cache E \<longrightarrow> tx_hashes_cache m f \<noteq> None))"

lemma accurate_empty: "accurate E mapping_abs_empty"
  by (simp add: accurate_def mapping_abs_empty_def)

lemma accurate_mark:
  assumes "accurate E m" and "\<And>hr b. \<not> chain_block E h hr b"
  shows "accurate E (m\<lparr>seen := insert h (seen m)\<rparr>)"
  using assms by (auto simp: accurate_def)

lemma hashes_at_unique: "hashes_at E h b ts \<Longrightarrow> hashes_at E h b ts' \<Longrightarrow> ts' = ts"
  by (auto simp: hashes_at_def)

lemma chain_block_unique: "chain_block E h hr b \<Longrightarrow> chain_block E h hr' b' \<Longrightarrow> hr' = hr \<and> b' = b"
  by (auto simp: chain_block_def)

lemma accurate_write:
  assumes acc: "accurate E m" and blk: "chain_block E h hr b" and f: "starknet_hash E b f"
    and ts: "if sh_number hr = 0 then ts = [] else hashes_at E h b ts"
  shows "accurate E (mapping_abs_write (se_cache E)
    \<lparr> mc_block_number = n, mc_block_hash = h, mc_starknet_block_hash = f, mc_starknet_transaction_hashes = ts \<rparr> m)"
    (is "accurate E ?m")
proof -
  have "\<exists>hr b ts. chain_block E h' hr b \<and> sh_number hr \<noteq> 0 \<and> hashes_at E h' b ts \<and> t \<in> set ts"
    if "tx_block ?m t = Some h'" for t h'
    using that acc blk ts by (auto simp: mapping_abs_write_def accurate_def Let_def split: if_splits)
  moreover have "\<exists>h hr b. chain_block E h hr b \<and> starknet_hash E b f'
      \<and> (if sh_number hr = 0 then ts' = [] else hashes_at E h b ts')"
    if "tx_hashes_cache ?m f' = Some ts'" for f' ts'
  proof (cases "se_cache E \<and> f' = f")
    case True
    with that have "ts' = ts" by (simp add: mapping_abs_write_def Let_def)
    with True blk f ts show ?thesis by blast
  next
    case False
    with that have "tx_hashes_cache m f' = Some ts'" by (auto simp: mapping_abs_write_def Let_def split: if_splits)
    with acc show ?thesis by (simp add: accurate_def)
  qed
  moreover have "\<exists>hr b. chain_block E h' hr b \<and> starknet_hash E b f'"
    if "wrapping ?m f' = Some hs" "h' \<in> set hs" for f' hs h'
    using that acc blk f by (fastforce simp: mapping_abs_write_def accurate_def Let_def split: if_splits option.splits)
  moreover have "tx_block ?m t \<noteq> None"
    if x: "chain_block E h' hr' b'" "sh_number hr' \<noteq> 0" "h' \<in> seen ?m" "hashes_at E h' b' ts'" "t \<in> set ts'" for h' hr' b' ts' t
  proof (cases "h' = h")
    case True
    with x blk have "hr' = hr" "b' = b" using chain_block_unique by blast+
    with True x ts have "t \<in> set ts" using hashes_at_unique by fastforce
    then show ?thesis by (simp add: mapping_abs_write_def Let_def)
  next
    case False
    with x have "h' \<in> seen m" by (simp add: mapping_abs_write_def Let_def)
    with x acc have "tx_block m t \<noteq> None" unfolding accurate_def by blast
    then show ?thesis by (simp add: mapping_abs_write_def Let_def)
  qed
  moreover have "(\<exists>hs. wrapping ?m f' = Some hs \<and> h' \<in> set hs) \<and> (se_cache E \<longrightarrow> tx_hashes_cache ?m f' \<noteq> None)"
    if x: "chain_block E h' hr' b'" "h' \<in> seen ?m" "starknet_hash E b' f'" for h' hr' b' f'
  proof (cases "h' = h")
    case True
    with x blk f have "f' = f" using chain_block_unique [OF blk, of hr' b'] by (auto simp: starknet_hash_def)
    with True show ?thesis by (simp add: mapping_abs_write_def Let_def)
  next
    case False
    with x have "h' \<in> seen m" by (simp add: mapping_abs_write_def Let_def)
    with x acc obtain hs where "wrapping m f' = Some hs" "h' \<in> set hs" "se_cache E \<longrightarrow> tx_hashes_cache m f' \<noteq> None"
      unfolding accurate_def by blast
    then show ?thesis by (auto simp: mapping_abs_write_def Let_def)
  qed
  ultimately show ?thesis unfolding accurate_def by blast
qed

lemma accurate_grows:
  assumes "accurate E m" and "grows E m m'"
  shows "accurate E m'"
proof -
  from assms(2) obtain h hr where h: "ancestor (se_client E) h" "cl_header (se_client E) h = Ok (Some hr)"
    and e: "block_entry E h hr m m'" by (auto simp: grows_def)
  from e show ?thesis
  proof cases
    case no_block
    with h have "\<not> chain_block E h hr' b" for hr' b by (auto simp: chain_block_def)
    with no_block accurate_mark [OF assms(1)] show ?thesis by blast
  next
    case (genesis b f)
    with h accurate_write [OF assms(1), of h hr b f "[]"] show ?thesis
      by (simp add: chain_block_def starknet_hash_def)
  next
    case (block b f c ts)
    with h accurate_write [OF assms(1), of h hr b f ts] show ?thesis
      by (simp add: chain_block_def starknet_hash_def hashes_at_def)
  qed
qed

lemma accurate_run: "(grows E)\<^sup>*\<^sup>* m m' \<Longrightarrow> accurate E m \<Longrightarrow> accurate E m'"
  by (induction rule: rtranclp_induct) (auto intro: accurate_grows)

section \<open>A server over the database of the worker\<close>

text \<open>The server reads the database the worker wrote, with the same libraries and the same client; the
  blocks the client names are blocks of the chain.\<close>

definition server_over :: "('db, 'd, 'cu, 'f) sync_env \<Rightarrow> felt \<Rightarrow> ('db, 'd, 'cu, 'c, 'a) rpc_server \<Rightarrow> bool" where
  "server_over E c s \<longleftrightarrow>
     rs_rocks s = se_rocks E \<and> rs_codecs s = se_codecs E \<and> rs_cache s = se_cache E
   \<and> rs_felt s = se_felt E \<and> rs_crypto s = se_crypto E \<and> rs_hasher s = se_hasher E
   \<and> rs_scale s = se_scale E \<and> rs_client s = se_client E \<and> rs_config_chain_id s = Some c
   \<and> ancestor (se_client E) (rs_best_hash s) \<and> (\<forall>n h. rs_hash s n = Ok (Some h) \<longrightarrow> ancestor (se_client E) h)"

definition serves :: "('db, 'd, 'cu, 'f) sync_env \<Rightarrow> mapping_abs \<Rightarrow> felt \<Rightarrow> ('db, 'd, 'cu, 'c, 'a) rpc_server \<Rightarrow> bool" where
  "serves E m c s \<longleftrightarrow> server_over E c s \<and> mapping_reads (se_rocks E) (se_codecs E) (se_cache E) (rs_db s) m"

text \<open>The hash of a header, which contains the number of the block and the commitment to its
  transactions, does not collide on the chain; there is one chain id; the block wrapped at Substrate number 0,
  which has the number 0, is not wrapped again later.\<close>

definition hash_identifies :: "('db, 'd, 'cu, 'f) sync_env \<Rightarrow> bool" where
  "hash_identifies E \<longleftrightarrow> (\<forall>h hr b h' hr' b' f. chain_block E h hr b \<longrightarrow> chain_block E h' hr' b' \<longrightarrow>
     starknet_hash E b f \<longrightarrow> starknet_hash E b' f \<longrightarrow>
     blk_transactions b' = blk_transactions b \<and> h_block_number (blk_header b') = h_block_number (blk_header b))"

definition one_chain_id :: "('db, 'd, 'cu, 'f) sync_env \<Rightarrow> felt \<Rightarrow> bool" where
  "one_chain_id E c \<longleftrightarrow> (\<forall>h. ancestor (se_client E) h \<longrightarrow> cl_chain_id (se_client E) h = Ok c)"

definition genesis_apart :: "('db, 'd, 'cu, 'f) sync_env \<Rightarrow> bool" where
  "genesis_apart E \<longleftrightarrow> (\<forall>h hr b h' hr' b' f. chain_block E h hr b \<longrightarrow> chain_block E h' hr' b' \<longrightarrow>
     starknet_hash E b f \<longrightarrow> starknet_hash E b' f \<longrightarrow> sh_number hr = 0 \<longrightarrow> sh_number hr' = 0)"

lemma find_by_hash_zip:
  "try_map f txs = Ok ts \<Longrightarrow>
    find_by_hash (\<lambda>tx. unwrap (f tx) :: ('e, felt) res) t txs = Ok (map_option snd (List.find (\<lambda>(h, _). h = t) (zip ts txs)))"
proof (induction txs arbitrary: ts)
  case (Cons tx txs)
  then obtain h hs where "f tx = Ok h" "try_map f txs = Ok hs" "ts = h # hs"
    by (cases "f tx"; cases "try_map f txs") auto
  with Cons.IH show ?case by (simp add: result_simps)
qed simp

lemma find_zip_member:
  "length ts = length txs \<Longrightarrow> t \<in> set ts \<Longrightarrow> \<exists>i < length ts. ts ! i = t \<and> List.find (\<lambda>(h, _). h = t) (zip ts txs) = Some (t, txs ! i)"
proof (induction ts txs rule: list_induct2)
  case (Cons h hs tx txs)
  show ?case
  proof (cases "h = t")
    case True
    then show ?thesis by (intro exI [of _ 0]) simp
  next
    case False
    with Cons obtain i where "i < length hs" "hs ! i = t" "List.find (\<lambda>(h, _). h = t) (zip hs txs) = Some (t, txs ! i)"
      by auto
    with False show ?thesis by (intro exI [of _ "Suc i"]) simp
  qed
qed simp

lemma serves_fields:
  assumes "serves E m c s"
  shows "rs_rocks s = se_rocks E" "rs_codecs s = se_codecs E" "rs_cache s = se_cache E" "rs_felt s = se_felt E"
    "rs_crypto s = se_crypto E" "rs_hasher s = se_hasher E" "rs_scale s = se_scale E" "rs_client s = se_client E"
    "rs_config_chain_id s = Some c"
  using assms by (simp_all add: serves_def server_over_def)

lemma serves_block: "serves E m c s \<Longrightarrow> chain_block E h hr b \<Longrightarrow> block_of s h = Ok b"
  by (simp add: block_of_def get_block_by_block_hash_def serves_fields chain_block_def result_simps)

lemma serves_hash: "serves E m c s \<Longrightarrow> starknet_hash E b f \<Longrightarrow> hash_of s b = Ok f"
  by (simp add: hash_of_def serves_fields starknet_hash_def result_simps)

lemma serves_cached:
  assumes "serves E m c s"
  shows "get_cached_transaction_hashes s f = (Ok (if se_cache E then tx_hashes_cache m f else None) :: ('e, felt list option) res)"
  using assms by (simp add: get_cached_transaction_hashes_def serves_def server_over_def mapping_reads_def)

lemma accurate_cached:
  "accurate E m \<Longrightarrow> chain_block E h hr b \<Longrightarrow> h \<in> seen m \<Longrightarrow> starknet_hash E b f \<Longrightarrow> se_cache E \<Longrightarrow> tx_hashes_cache m f \<noteq> None"
  unfolding accurate_def by blast

text \<open>The worker files the genesis block with an empty list of hashes, whatever transactions it has: a server with
  the cache shows this list.\<close>

definition shown_hashes :: "('db, 'd, 'cu, 'c, 'a) rpc_server \<Rightarrow> substrate_header \<Rightarrow> felt list \<Rightarrow> felt list" where
  "shown_hashes s hr ts = (if sh_number hr = 0 \<and> rs_cache s then [] else ts)"

lemma shown_hashes_later [simp]: "sh_number hr \<noteq> 0 \<Longrightarrow> shown_hashes s hr ts = ts"
  by (simp add: shown_hashes_def)

lemma cached_is_shown:
  assumes "serves E m c s" and "accurate E m" and "hash_identifies E" "one_chain_id E c" "genesis_apart E"
    and blk: "chain_block E h hr b" and f: "starknet_hash E b f" and ts: "hashes_at E h b ts"
    and gen: "sh_number hr = 0 \<longrightarrow> h \<in> seen m"
  shows "get_cached_transaction_hashes s f = (Ok None :: ('e, felt list option) res) \<and> shown_hashes s hr ts = ts
    \<or> get_cached_transaction_hashes s f = (Ok (Some (shown_hashes s hr ts)) :: ('e, felt list option) res)"
proof (cases "if se_cache E then tx_hashes_cache m f else None")
  case None
  then have "\<not> (sh_number hr = 0 \<and> se_cache E)"
    using accurate_cached [OF assms(2) blk _ f] gen by auto
  with None show ?thesis by (auto simp: serves_cached [OF assms(1)] shown_hashes_def serves_fields [OF assms(1)])
next
  case (Some ts')
  then have cache: "se_cache E" and "tx_hashes_cache m f = Some ts'" by (simp_all split: if_splits)
  with assms(2) obtain h' hr' b' where c: "chain_block E h' hr' b'" "starknet_hash E b' f"
    "if sh_number hr' = 0 then ts' = [] else hashes_at E h' b' ts'" unfolding accurate_def by blast
  with assms(3) blk f have same: "blk_transactions b' = blk_transactions b"
    "h_block_number (blk_header b') = h_block_number (blk_header b)" unfolding hash_identifies_def by blast+
  have zero: "sh_number hr' = 0 \<longleftrightarrow> sh_number hr = 0"
    using assms(5) blk f c(1,2) unfolding genesis_apart_def by blast
  have t: "transactions_hashes (se_felt E) (se_crypto E) (se_hasher E) b c (Some (h_block_number (blk_header b))) = Ok ts"
    using ts blk assms(4) by (auto simp: hashes_at_def one_chain_id_def chain_block_def)
  have "ts' = shown_hashes s hr ts"
  proof (cases "sh_number hr = 0")
    case True
    with c zero cache show ?thesis by (simp add: shown_hashes_def serves_fields [OF assms(1)])
  next
    case False
    with c zero assms(4) same t show ?thesis
      by (auto simp: hashes_at_def one_chain_id_def chain_block_def transactions_hashes_def)
  qed
  with Some show ?thesis by (simp add: serves_cached [OF assms(1)])
qed

lemma uncached:
  assumes "serves E m c s"
  shows "get_cached_transaction_hashes (s\<lparr>rs_cache := False\<rparr>) f = (Ok None :: ('e, felt list option) res)"
proof -
  have "\<exists>x. cached_transaction_hashes_from_block_hash (rs_rocks s) (rs_codecs s) (rs_cache s) (rs_db s) f = Ok x"
    using assms by (simp add: serves_def server_over_def mapping_reads_def)
  then show ?thesis
    by (auto simp: get_cached_transaction_hashes_def cached_transaction_hashes_from_block_hash_def result_simps)
qed

lemma is_canon_iff: "is_canon s h \<longleftrightarrow> (\<exists>n. rs_number s h = Ok (Some n) \<and> rs_hash s n = Ok (Some h))"
proof (cases "rs_number s h")
  case (Ok x)
  show ?thesis
  proof (cases x)
    case (Some n)
    with Ok show ?thesis by (cases "rs_hash s n") (auto simp: is_canon_def split: option.splits)
  qed (simp add: is_canon_def Ok)
qed (simp_all add: is_canon_def)

lemma serves_load_hash:
  assumes "serves E m c s"
  shows "load_hash s f = Ok (case wrapping m f of Some hs \<Rightarrow> List.find (is_canon s) hs | None \<Rightarrow> None)"
  using assms by (simp add: load_hash_def serves_def server_over_def mapping_reads_def)

lemma serves_ancestor:
  assumes "serves E m c s" and "accurate E m" and "substrate_hash s block_id = Ok h"
  shows "ancestor (se_client E) h"
proof (cases block_id)
  case (BlockHash f)
  with assms(3) obtain hs where "wrapping m f = Some hs" "h \<in> set hs"
    by (auto simp: substrate_hash_def substrate_block_hash_from_starknet_block_def serves_load_hash [OF assms(1)]
        result_simps find_Some_iff split: option.splits)
  with assms(2) show ?thesis unfolding accurate_def chain_block_def by blast
qed (use assms in \<open>auto simp: substrate_hash_def substrate_block_hash_from_starknet_block_def serves_def server_over_def result_simps\<close>)

lemma serves_found:
  assumes "sync_setup E view" and "serves E m c s" and "ancestor (se_client E) h" and "block_of s h = Ok b"
  obtains hr f ts where "chain_block E h hr b" "starknet_hash E b f" "hashes_at E h b ts"
proof -
  from assms(2-4) obtain hr where hr: "cl_header (se_client E) h = Ok (Some hr)"
    "find_starknet_block (se_scale E) (sh_digest hr) = Ok b"
    by (auto simp: block_of_def get_block_by_block_hash_def serves_fields result_simps split: res.splits option.splits)
  with sync_setup.hashable [OF assms(1,3)] assms(3) that show thesis
    by (fastforce simp: chain_block_def starknet_hash_def hashes_at_def)
qed

text \<open>The answers of the server on blocks after genesis do not depend on the cache of transaction hashes.\<close>

lemma tx_hashes_shown:
  assumes "serves E m c s" "accurate E m" "hash_identifies E" "one_chain_id E c" "genesis_apart E"
    and blk: "chain_block E h hr b" and "starknet_hash E b f" and ts: "hashes_at E h b ts"
    and "sh_number hr = 0 \<longrightarrow> h \<in> seen m"
  shows "tx_hashes_of s c b f = (Ok (shown_hashes s hr ts) :: ('e, felt list) res)"
    "tx_hashes_of (s\<lparr>rs_cache := False\<rparr>) c b f = (Ok ts :: ('e, felt list) res)"
proof -
  have t: "tx_hash_compute s b c = (Ok ts :: ('e, felt list) res)"
    using ts blk assms(4)
    by (auto simp: tx_hash_compute_def serves_fields [OF assms(1)] hashes_at_def one_chain_id_def chain_block_def)
  then have "tx_hash_compute (s\<lparr>rs_cache := False\<rparr>) b c = (Ok ts :: ('e, felt list) res)"
    by (simp add: tx_hash_compute_def)
  with t show "tx_hashes_of s c b f = (Ok (shown_hashes s hr ts) :: ('e, felt list) res)"
    "tx_hashes_of (s\<lparr>rs_cache := False\<rparr>) c b f = (Ok ts :: ('e, felt list) res)"
    using cached_is_shown [OF assms, where 'e = 'e]
    by (auto simp: tx_hashes_of_def uncached [OF assms(1)] tx_hash_retrieve_def)
qed

lemma find_transaction_value:
  assumes "serves E m c s" "accurate E m" "hash_identifies E" "one_chain_id E c" "genesis_apart E"
    and blk: "chain_block E h hr b" and f: "starknet_hash E b f" and ts: "hashes_at E h b ts"
    and later: "sh_number hr \<noteq> 0"
  shows "find_transaction s b c t =
    (case map_option snd (List.find (\<lambda>(h, _). h = t) (zip ts (blk_transactions b))) of
       Some tx \<Rightarrow> map_ok Some (unwrap (to_starknet_core_tx (se_felt E) tx t)) | None \<Rightarrow> Ok None)"
    "find_transaction (s\<lparr>rs_cache := False\<rparr>) b c t = find_transaction s b c t"
proof -
  have "try_map (\<lambda>tx. compute_hash (se_felt E) (se_crypto E) (se_hasher E) tx c False
      (Some (h_block_number (blk_header b)))) (blk_transactions b) = Ok ts"
    using ts blk assms(4)
    by (auto simp: hashes_at_def one_chain_id_def chain_block_def transactions_hashes_def)
  note found = find_by_hash_zip [OF this, where 'e = rpc_error]
  have cached: "get_cached_transaction_hashes s f = (Ok None :: (rpc_error, felt list option) res)
      \<or> get_cached_transaction_hashes s f = (Ok (Some ts) :: (rpc_error, felt list option) res)"
    using cached_is_shown [OF assms(1-8), where 'e = rpc_error] later by simp
  have hash: "hash_of s b = (Ok f :: (rpc_error, felt) res)" using serves_hash [OF assms(1) f] .
  have hash': "hash_of (s\<lparr>rs_cache := False\<rparr>) b = (Ok f :: (rpc_error, felt) res)"
    using hash by (simp add: hash_of_def)
  show 1: "find_transaction s b c t =
    (case map_option snd (List.find (\<lambda>(h, _). h = t) (zip ts (blk_transactions b))) of
       Some tx \<Rightarrow> map_ok Some (unwrap (to_starknet_core_tx (se_felt E) tx t)) | None \<Rightarrow> Ok None)"
    using cached by (elim disjE) (simp_all add: find_transaction_def hash found serves_fields [OF assms(1)])
  have "find_transaction (s\<lparr>rs_cache := False\<rparr>) b c t =
    (case map_option snd (List.find (\<lambda>(h, _). h = t) (zip ts (blk_transactions b))) of
       Some tx \<Rightarrow> map_ok Some (unwrap (to_starknet_core_tx (se_felt E) tx t)) | None \<Rightarrow> Ok None)"
    by (simp add: find_transaction_def hash' uncached [OF assms(1)] found serves_fields [OF assms(1)])
  then show "find_transaction (s\<lparr>rs_cache := False\<rparr>) b c t = find_transaction s b c t" by (simp only: 1)
qed

lemma uncached_is_canon [simp]: "is_canon (s\<lparr>rs_cache := x\<rparr>) = is_canon s"
  by (simp add: fun_eq_iff is_canon_def split: res.split option.split)

lemma uncached_load_hash [simp]: "load_hash (s\<lparr>rs_cache := x\<rparr>) = load_hash s"
  by (simp add: fun_eq_iff load_hash_def cong: option.case_cong)

lemma uncached_fields:
  "block_of (s\<lparr>rs_cache := x\<rparr>) = block_of s" "hash_of (s\<lparr>rs_cache := x\<rparr>) = hash_of s"
  "rpc_chain_id (s\<lparr>rs_cache := x\<rparr>) = rpc_chain_id s" "transaction_block (s\<lparr>rs_cache := x\<rparr>) = transaction_block s"
  "tx_conv (s\<lparr>rs_cache := x\<rparr>) = tx_conv s" "rpc_block_of (s\<lparr>rs_cache := x\<rparr>) = rpc_block_of s"
  "substrate_hash (s\<lparr>rs_cache := x\<rparr>) = substrate_hash s" "tx_hash_compute (s\<lparr>rs_cache := x\<rparr>) = tx_hash_compute s"
  by (simp_all add: fun_eq_iff block_of_def hash_of_def rpc_chain_id_def transaction_block_def tx_conv_def rpc_block_of_def
      block_status_of_def substrate_hash_def substrate_block_hash_from_starknet_block_def 
      tx_hash_compute_def Let_def split: block_id.split)

lemma uncached_pending:
  "get_block_with_tx_hashes_pending (s\<lparr>rs_cache := x\<rparr>) = get_block_with_tx_hashes_pending s"
  "get_block_with_txs_pending (s\<lparr>rs_cache := x\<rparr>) = get_block_with_txs_pending s"
  by (simp_all add: fun_eq_iff get_block_with_tx_hashes_pending_def get_block_with_txs_pending_def pending_block_def
      uncached_fields)

text \<open>The two forms of a block, by the hashes that are shown for it.\<close>

lemma finalized_value:
  assumes ok: "serves E m c s" "accurate E m" "hash_identifies E" "one_chain_id E c" "genesis_apart E"
    and b: "chain_block E h hr b" "starknet_hash E b f" "hashes_at E h b ts" and gen: "sh_number hr = 0 \<longrightarrow> h \<in> seen m"
  shows "get_block_with_tx_hashes_finalized s c h = map_ok FinalBlock (rpc_block_of s b f (shown_hashes s hr ts))"
    "get_block_with_txs_finalized s c h = res_bind (tx_conv s (blk_transactions b) (shown_hashes s hr ts))
       (\<lambda>txs. map_ok FinalBlock (rpc_block_of s b f txs))"
    "get_block_with_tx_hashes_finalized (s\<lparr>rs_cache := False\<rparr>) c h = map_ok FinalBlock (rpc_block_of s b f ts)"
    "get_block_with_txs_finalized (s\<lparr>rs_cache := False\<rparr>) c h = res_bind (tx_conv s (blk_transactions b) ts)
       (\<lambda>txs. map_ok FinalBlock (rpc_block_of s b f txs))"
  by (simp_all add: get_block_with_tx_hashes_finalized_def get_block_with_txs_finalized_def uncached_fields
      serves_block [OF ok(1) b(1)] serves_hash [OF ok(1) b(2)] tx_hashes_shown [OF ok b gen])

definition names_genesis :: "('db, 'd, 'cu, 'f) sync_env \<Rightarrow> ('db, 'd, 'cu, 'c, 'a) rpc_server \<Rightarrow> block_id \<Rightarrow> bool" where
  "names_genesis E s block_id \<longleftrightarrow> (\<exists>h hr b. substrate_hash s block_id = Ok h \<and> chain_block E h hr b \<and> sh_number hr = 0)"

lemma finalized_transparent:
  assumes "sync_setup E view" and ok: "serves E m c s" "accurate E m" "hash_identifies E" "one_chain_id E c" "genesis_apart E"
    and h: "substrate_hash s block_id = Ok h" and later: "\<not> names_genesis E s block_id"
  shows "get_block_with_tx_hashes_finalized (s\<lparr>rs_cache := False\<rparr>) c h = get_block_with_tx_hashes_finalized s c h
    \<and> get_block_with_txs_finalized (s\<lparr>rs_cache := False\<rparr>) c h = get_block_with_txs_finalized s c h"
proof (cases "block_of s h")
  case (Ok b)
  then obtain hr f ts where b: "chain_block E h hr b" "starknet_hash E b f" "hashes_at E h b ts"
    using serves_found [OF assms(1,2) serves_ancestor [OF ok(1,2) h]] by blast
  then have "sh_number hr \<noteq> 0" using h later by (auto simp: names_genesis_def)
  then show ?thesis by (simp add: finalized_value [OF ok b])
qed (simp_all add: get_block_with_tx_hashes_finalized_def get_block_with_txs_finalized_def uncached_fields)

lemma by_index_transparent:
  assumes "sync_setup E view" and ok: "serves E m c s" "accurate E m" "hash_identifies E" "one_chain_id E c" "genesis_apart E"
    and later: "\<not> names_genesis E s block_id"
  shows "rpc_get_transaction_by_block_id_and_index (s\<lparr>rs_cache := False\<rparr>) block_id i =
    rpc_get_transaction_by_block_id_and_index s block_id i"
proof (cases "res_bind (substrate_hash s block_id) (\<lambda>h. map_err Lookup (block_of s h))")
  case (Ok b)
  then obtain h where h: "substrate_hash s block_id = Ok h" "block_of s h = Ok b" by (auto simp: result_simps)
  then obtain hr f ts where b: "chain_block E h hr b" "starknet_hash E b f" "hashes_at E h b ts"
    using serves_found [OF assms(1,2) serves_ancestor [OF ok(1,2) h(1)]] by blast
  then have pos: "sh_number hr \<noteq> 0" using h later by (auto simp: names_genesis_def)
  have "try_map (\<lambda>tx. compute_hash (se_felt E) (se_crypto E) (se_hasher E) tx c False
      (Some (h_block_number (blk_header b)))) (blk_transactions b) = Ok ts"
    using b ok(4) by (auto simp: hashes_at_def one_chain_id_def chain_block_def transactions_hashes_def)
  then have "length ts = length (blk_transactions b)"
    "unat i < length (blk_transactions b) \<Longrightarrow> compute_hash (se_felt E) (se_crypto E) (se_hasher E) (blk_transactions b ! unat i) c False
      (Some (h_block_number (blk_header b))) = Ok (ts ! unat i)"
    using try_map_length try_map_nth by blast+
  then show ?thesis
    using cached_is_shown [OF ok b, where 'e = rpc_error] pos
    by (auto simp: rpc_get_transaction_by_block_id_and_index_def uncached_fields h serves_hash [OF ok(1) b(2)]
        uncached [OF ok(1)] serves_fields [OF ok(1)] rpc_chain_id_def nth_option_def)
qed (cases "substrate_hash s block_id";
     auto simp: rpc_get_transaction_by_block_id_and_index_def uncached_fields res_bind_assoc [symmetric])+

lemma by_hash_transparent:
  assumes "sync_setup E view" and ok: "serves E m c s" "accurate E m" "hash_identifies E" "one_chain_id E c" "genesis_apart E"
  shows "rpc_get_transaction_by_hash (s\<lparr>rs_cache := False\<rparr>) t = rpc_get_transaction_by_hash s t"
proof (cases "tx_block m t")
  case None
  with ok(1) have "transaction_block s t = Err (Api TxnHashNotFound)"
    by (simp add: transaction_block_def serves_def server_over_def mapping_reads_def)
  then show ?thesis by (simp add: rpc_get_transaction_by_hash_def uncached_fields)
next
  case (Some h)
  with ok(1) have h: "transaction_block s t = Ok h"
    by (simp add: transaction_block_def serves_def server_over_def mapping_reads_def)
  from Some ok(2) obtain hr b ts where b: "chain_block E h hr b" "hashes_at E h b ts" "sh_number hr \<noteq> 0"
    unfolding accurate_def by blast
  then obtain f where f: "starknet_hash E b f"
    using sync_setup.hashable [OF assms(1)] by (fastforce simp: chain_block_def starknet_hash_def)
  show ?thesis
    by (simp add: rpc_get_transaction_by_hash_def uncached_fields h serves_block [OF ok(1) b(1)] rpc_chain_id_def
        serves_fields [OF ok(1)] find_transaction_value(2) [OF ok b(1) f b(2,3)])
qed

text \<open>The genesis block once it is registered, read with the cache.\<close>

lemma genesis_answers:
  assumes ok: "serves E m c s" "accurate E m" "hash_identifies E" "one_chain_id E c" "genesis_apart E"
    and b: "chain_block E h hr b" "starknet_hash E b f" "hashes_at E h b ts"
    and gen: "sh_number hr = 0" "h \<in> seen m" and cache: "rs_cache s" and h: "substrate_hash s block_id = Ok h"
  shows "block_id \<noteq> BlockTag PendingTag \<Longrightarrow> rpc_get_block_with_tx_hashes s block_id = map_ok FinalBlock (rpc_block_of s b f [])"
    "block_id \<noteq> BlockTag PendingTag \<Longrightarrow> rpc_get_block_with_txs s block_id = map_ok FinalBlock (rpc_block_of s b f [])"
    "unat i < length (blk_transactions b) \<Longrightarrow> rpc_get_transaction_by_block_id_and_index s block_id i =
       Err (CallFailed ''Number of cached tx hashes does not match the number of transactions in block'')"
proof -
  have none: "shown_hashes s hr ts = []" using gen cache by (simp add: shown_hashes_def)
  have chain: "rpc_chain_id s = Ok c" by (simp add: rpc_chain_id_def serves_fields [OF ok(1)])
  have cached: "get_cached_transaction_hashes s f = (Ok (Some []) :: (rpc_error, felt list option) res)"
    using accurate_cached [OF ok(2) b(1) gen(2) b(2)] cache gen(2) cached_is_shown [OF ok b, where 'e = rpc_error] none
    by (auto simp: serves_cached [OF ok(1)] serves_fields [OF ok(1)])
  show "block_id \<noteq> BlockTag PendingTag \<Longrightarrow> rpc_get_block_with_tx_hashes s block_id = map_ok FinalBlock (rpc_block_of s b f [])"
    "block_id \<noteq> BlockTag PendingTag \<Longrightarrow> rpc_get_block_with_txs s block_id = map_ok FinalBlock (rpc_block_of s b f [])"
    using gen by (simp_all add: rpc_get_block_with_tx_hashes_def rpc_get_block_with_txs_def chain h
        finalized_value [OF ok b] none tx_conv_def)
  show "unat i < length (blk_transactions b) \<Longrightarrow> rpc_get_transaction_by_block_id_and_index s block_id i =
       Err (CallFailed ''Number of cached tx hashes does not match the number of transactions in block'')"
    by (simp add: rpc_get_transaction_by_block_id_and_index_def h serves_block [OF ok(1) b(1)] chain
        serves_hash [OF ok(1) b(2)] cached nth_option_def)
qed

text \<open>The database a worker has written from an empty one is accurate.\<close>

lemma worker_serves:
  assumes "sync_setup E view" and "worker_ok E w mapping_abs_empty tips" and "server_over E c s"
    and "rs_db s = ss_db (sw_state (worker_run E delays w))"
  obtains m where "serves E m c s" "accurate E m" "\<And>h. is_synced (rs_rocks s) (rs_codecs s) (rs_db s) h = Ok (h \<in> seen m)"
proof -
  obtain m tips' where m: "worker_ok E (worker_run E delays w) m tips'" "(grows E)\<^sup>*\<^sup>* mapping_abs_empty m"
    using sync_setup.run_grows [OF assms(1,2)] by blast
  have sv: "serves E m c s" using m(1) assms(3,4) by (simp add: serves_def worker_ok_def sync_reads_def)
  moreover have "is_synced (rs_rocks s) (rs_codecs s) (rs_db s) h = Ok (h \<in> seen m)" for h
    using sv by (simp add: serves_def server_over_def mapping_reads_def)
  ultimately show thesis using that accurate_run [OF m(2) accurate_empty] by blast
qed

text \<open>C14: the cache of transaction hashes is invisible except at genesis. On a database written by the worker
  from an empty one, however its delays ran: looking up a transaction by its hash gives the same answer with
  the cache and without; so do a block with the hashes of its transactions, a block with its transactions and
  a transaction by position, for every block id that does not name the block at Substrate number 0. That block is
  filed with no transaction hashes: once it is registered, the server with the cache shows it without
  transactions, whatever it contains, and answers an error for each of its positions.\<close>

theorem rpc_cache_transparent:
  assumes "sync_setup E view" and "worker_ok E w mapping_abs_empty tips" and "server_over E c s"
    and "rs_db s = ss_db (sw_state (worker_run E delays w))"
    and "hash_identifies E" "one_chain_id E c" "genesis_apart E"
  shows "rpc_get_transaction_by_hash (s\<lparr>rs_cache := False\<rparr>) t = rpc_get_transaction_by_hash s t
    \<and> (\<not> names_genesis E s block_id \<longrightarrow>
        rpc_get_block_with_tx_hashes (s\<lparr>rs_cache := False\<rparr>) block_id = rpc_get_block_with_tx_hashes s block_id
      \<and> rpc_get_block_with_txs (s\<lparr>rs_cache := False\<rparr>) block_id = rpc_get_block_with_txs s block_id
      \<and> rpc_get_transaction_by_block_id_and_index (s\<lparr>rs_cache := False\<rparr>) block_id i
        = rpc_get_transaction_by_block_id_and_index s block_id i)
    \<and> (\<forall>h hr b f. substrate_hash s block_id = Ok h \<and> block_id \<noteq> BlockTag PendingTag \<and> chain_block E h hr b
          \<and> starknet_hash E b f \<and> sh_number hr = 0 \<and> rs_cache s
          \<and> is_synced (rs_rocks s) (rs_codecs s) (rs_db s) h = Ok True \<longrightarrow>
        rpc_get_block_with_tx_hashes s block_id = map_ok FinalBlock (rpc_block_of s b f [])
      \<and> rpc_get_block_with_txs s block_id = map_ok FinalBlock (rpc_block_of s b f [])
      \<and> (unat i < length (blk_transactions b) \<longrightarrow> rpc_get_transaction_by_block_id_and_index s block_id i =
          Err (CallFailed ''Number of cached tx hashes does not match the number of transactions in block'')))"
proof -
  obtain m where ok: "serves E m c s" "accurate E m"
    and seen: "\<And>h. is_synced (rs_rocks s) (rs_codecs s) (rs_db s) h = Ok (h \<in> seen m)"
    using worker_serves [OF assms(1-4)] by blast
  note laws = ok assms(5-7)
  have chain: "rpc_chain_id s = Ok c" by (simp add: rpc_chain_id_def serves_fields [OF ok(1)])
  have blocks: "rpc_get_block_with_tx_hashes (s\<lparr>rs_cache := False\<rparr>) block_id = rpc_get_block_with_tx_hashes s block_id
    \<and> rpc_get_block_with_txs (s\<lparr>rs_cache := False\<rparr>) block_id = rpc_get_block_with_txs s block_id"
    if "\<not> names_genesis E s block_id"
    by (cases "substrate_hash s block_id")
      (simp_all add: rpc_get_block_with_tx_hashes_def rpc_get_block_with_txs_def uncached_fields uncached_pending chain
        finalized_transparent [OF assms(1) laws _ that])
  have genesis: "rpc_get_block_with_tx_hashes s block_id = map_ok FinalBlock (rpc_block_of s b f [])
      \<and> rpc_get_block_with_txs s block_id = map_ok FinalBlock (rpc_block_of s b f [])
      \<and> (unat i < length (blk_transactions b) \<longrightarrow> rpc_get_transaction_by_block_id_and_index s block_id i =
          Err (CallFailed ''Number of cached tx hashes does not match the number of transactions in block''))"
    if g: "substrate_hash s block_id = Ok h" "block_id \<noteq> BlockTag PendingTag" "chain_block E h hr b" "starknet_hash E b f"
      "sh_number hr = 0" "rs_cache s" "is_synced (rs_rocks s) (rs_codecs s) (rs_db s) h = Ok True" for h hr b f
  proof -
    obtain ts where ts: "hashes_at E h b ts"
      using sync_setup.hashable [OF assms(1)] g(3) by (fastforce simp: chain_block_def hashes_at_def)
    have "h \<in> seen m" using g(7) seen by simp
    from genesis_answers [OF laws g(3,4) ts g(5) this g(6,1)] g(2) show ?thesis by simp
  qed
  show ?thesis
    using by_hash_transparent [OF assms(1) laws] blocks by_index_transparent [OF assms(1) laws] genesis by blast
qed

text \<open>A chain and a server over the database its worker has filled.\<close>

abbreviation ref_run :: "(alist_db, nat) sync_worker" where
  "ref_run \<equiv> worker_run ref_sync_env (replicate 7 True) (worker_new 10 0 \<lparr> ss_db = [], ss_metrics = None \<rparr>)"

definition ref_server :: "(alist_db, bytes, unit, unit, unit) rpc_server" where
  "ref_server =
    \<lparr> rs_rocks = alist_rocks, rs_codecs = ref_db_codecs, rs_cache = True, rs_db = ss_db (sw_state ref_run),
      rs_felt = ref_felt_lib, rs_crypto = ref_crypto, rs_hasher = PedersenHasher ref_felt_lib ref_crypto,
      rs_scale = ref_scale, rs_client = ref_client, rs_best_hash = 2, rs_best_number = 2,
      rs_number = (\<lambda>h. Ok (if h \<le> 2 then Some (ucast h) else None)),
      rs_hash = (\<lambda>n. Ok (if n = 0 then Some 0 else if n = 1 then Some 1 else if n = 2 then Some 2 else None)),
      rs_frame = \<lparr> twox_128 = (\<lambda>b. b), fr_enc_felt = (\<lambda>f. []), fr_dec_felt = (\<lambda>b. None), fr_enc_class = (\<lambda>c. []),
        fr_dec_class = (\<lambda>b. None), fr_enc_abi = (\<lambda>a. []), fr_dec_abi = (\<lambda>b. None), fr_enc_schema = (\<lambda>v. []),
        fr_dec_schema = (\<lambda>b. None) \<rparr>,
      rs_raw = (\<lambda>h k. Ok None),
      rs_overrides = \<lparr> schemas = Map.empty, fallback = runtime_api_override (\<lambda>h. Err ()) \<rparr>,
      rs_tx_outcome = (\<lambda>h t. Ok None), rs_starting_block = 0, rs_best_seen = Ok None, rs_config_chain_id = Some 5,
      rs_pending_block = None, rs_pending_state_update = None, rs_highest = (0, 0), rs_l1_block_number = 0 \<rparr>"

lemma ref_ancestor_2: "ancestor ref_client 2"
  by (rule ancestor.leaf [of _ "[2]"]) (simp_all add: ref_client_def)

lemma ref_ancestor_0: "ancestor ref_client 0"
  using ancestor.parent [OF ref_ancestor_1, of "\<lparr> sh_number = 1, sh_parent_hash = 0,
      sh_digest = [Consensus MADARA_ENGINE_ID []] \<rparr>"]
  by (simp add: ref_client_def)

lemma ref_server_over: "server_over ref_sync_env 5 ref_server"
  using ref_ancestor_0 ref_ancestor_1 ref_ancestor_2 by (auto simp: server_over_def ref_server_def ref_sync_env_def)

lemma ref_chain_block:
  "chain_block ref_sync_env h hr b \<Longrightarrow> h = 1 \<and> b = ref_block \<and> sh_number hr = 1 \<or> h = 0 \<and> b = ref_genesis \<and> sh_number hr = 0"
  using ref_ancestor [of h]
  by (auto simp: chain_block_def ref_sync_env_def ref_client_def find_starknet_block_def find_log_def
      find_log_in_def find_log_step_def ref_scale_def split: if_splits)

lemma ref_hashes_differ: "\<not> (starknet_hash ref_sync_env ref_block f \<and> starknet_hash ref_sync_env ref_genesis f)"
proof -
  have "felt_nat (short_felt (ascii ''SN_MAIN'')) = 23448594291968334"
    by (simp add: short_felt_def ascii_def of_char_def be_nat_def STARK_PRIME_def)
  then have "header_hash ref_felt_lib (PedersenHasher ref_felt_lib ref_crypto) (blk_header ref_block)
      \<noteq> header_hash ref_felt_lib (PedersenHasher ref_felt_lib ref_crypto) (blk_header ref_genesis)"
    by (simp add: header_hash_value [OF ref_felt_codec] header_preimage_def ref_block_def ref_genesis_def
        deoxys_block_new_def sample_header_def header_new_def PedersenHasher_def ref_crypto_def toy_hash_def
        one_felt_def zero_felt_def STARK_PRIME_def word_le_nat_alt)
  then show ?thesis by (auto simp: starknet_hash_def ref_sync_env_def)
qed

lemma ref_laws: "hash_identifies ref_sync_env" "one_chain_id ref_sync_env 5" "genesis_apart ref_sync_env"
proof -
  have same: "b' = b \<and> sh_number hr' = sh_number hr"
    if "chain_block ref_sync_env h hr b" "chain_block ref_sync_env h' hr' b'" "starknet_hash ref_sync_env b f"
      "starknet_hash ref_sync_env b' f" for h hr b h' hr' b' f
    using ref_chain_block [OF that(1)] ref_chain_block [OF that(2)] that(3,4) ref_hashes_differ [of f] by auto
  show "hash_identifies ref_sync_env" unfolding hash_identifies_def using same by (intro allI impI) metis
  show "genesis_apart ref_sync_env" unfolding genesis_apart_def using same by (intro allI impI) metis
qed (simp add: one_chain_id_def ref_sync_env_def ref_client_def)

lemma ref_db: "rs_db ref_server = ss_db (sw_state ref_run)"
  by (simp add: ref_server_def)

lemma ref_serves: "\<exists>m. serves ref_sync_env m 5 ref_server \<and> accurate ref_sync_env m \<and> 0 \<in> seen m \<and> 1 \<in> seen m"
proof -
  obtain m tips where m: "worker_ok ref_sync_env ref_run m tips" "due_blocks ref_sync_env 0 m = {}"
    "(grows ref_sync_env)\<^sup>*\<^sup>* mapping_abs_empty m"
    using ref_sync.run_elapsed [OF ref_worker_ok, of 7] ref_due by (auto simp: worker_new_def)
  moreover have "0 \<in> seen m" "1 \<in> seen m"
    using m(2) ref_ancestor_0 ref_ancestor_1 by (auto simp: due_blocks_def due_def ref_sync_env_def)
  ultimately show ?thesis
    using ref_server_over ref_db accurate_run [OF m(3) accurate_empty]
    by (auto simp: serves_def worker_ok_def sync_reads_def)
qed

lemma ref_is_chain_block:
  "\<exists>hr. chain_block ref_sync_env 1 hr ref_block \<and> sh_number hr \<noteq> 0"
  "\<exists>hr. chain_block ref_sync_env 0 hr ref_genesis \<and> sh_number hr = 0"
  using ref_ancestor_0 ref_ancestor_1
  by (simp_all add: chain_block_def ref_sync_env_def ref_client_def find_starknet_block_def find_log_def
      find_log_in_def find_log_step_def ref_scale_def)

lemma ref_hash: "\<exists>f. starknet_hash ref_sync_env b f"
  by (simp add: starknet_hash_def ref_sync_env_def header_hash_value [OF ref_felt_codec])

theorem rpc_cache_transparent_witness:
  "rpc_get_block_with_txs (ref_server\<lparr>rs_cache := False\<rparr>) (BlockNumber 1) = rpc_get_block_with_txs ref_server (BlockNumber 1)
    \<and> length (blk_transactions ref_genesis) = 1
    \<and> (\<exists>f. rpc_get_block_with_txs ref_server (BlockNumber 0) = map_ok FinalBlock (rpc_block_of ref_server ref_genesis f []))"
proof -
  note c = rpc_cache_transparent [OF ref_sync_setup ref_worker_ok ref_server_over ref_db ref_laws]
  have id: "substrate_hash ref_server (BlockNumber 0) = Ok 0" "substrate_hash ref_server (BlockNumber 1) = Ok 1"
    by (simp_all add: substrate_hash_def substrate_block_hash_from_starknet_block_def saturate_u32_def ref_server_def)
  have "\<not> names_genesis ref_sync_env ref_server (BlockNumber 1)"
    using ref_chain_block by (fastforce simp: names_genesis_def id)
  moreover obtain hr where hr: "chain_block ref_sync_env 0 hr ref_genesis" "sh_number hr = 0"
    using ref_is_chain_block(2) by blast
  moreover obtain f where f: "starknet_hash ref_sync_env ref_genesis f" using ref_hash by blast
  moreover have "is_synced (rs_rocks ref_server) (rs_codecs ref_server) (rs_db ref_server) 0 = Ok True" "rs_cache ref_server"
    using ref_serves by (auto simp: serves_def server_over_def mapping_reads_def ref_sync_env_def)
  moreover have "length (blk_transactions ref_genesis) = 1" by (simp add: ref_genesis_def deoxys_block_new_def)
  ultimately show ?thesis
    using c [of undefined "BlockNumber 0"] c [of undefined "BlockNumber 1"] id by blast
qed

text \<open>A hash the mapping holds is found, one it does not hold is not.\<close>

lemma registered_found:
  assumes "sync_setup E view" and codec: "felt_codec (se_felt E)"
    and ok: "serves E m c s" "accurate E m" "hash_identifies E" "one_chain_id E c" "genesis_apart E"
    and conv: "\<forall>h hr b. chain_block E h hr b \<longrightarrow> list_all convertible (blk_transactions b)"
    and h: "tx_block m t = Some h"
  shows "\<exists>hr b tx core. chain_block E h hr b \<and> sh_number hr \<noteq> 0 \<and> tx \<in> set (blk_transactions b)
    \<and> compute_hash (se_felt E) (se_crypto E) (se_hasher E) tx c False (Some (h_block_number (blk_header b))) = Ok t
    \<and> to_starknet_core_tx (se_felt E) tx t = Ok core \<and> rpc_get_transaction_by_hash s t = Ok core"
proof -
  from ok(2) h obtain hr b ts where b: "chain_block E h hr b" "sh_number hr \<noteq> 0" "hashes_at E h b ts" "t \<in> set ts"
    unfolding accurate_def by blast
  obtain f where f: "starknet_hash E b f"
    using sync_setup.hashable [OF assms(1)] b(1) by (fastforce simp: chain_block_def starknet_hash_def)
  have hashes: "try_map (\<lambda>tx. compute_hash (se_felt E) (se_crypto E) (se_hasher E) tx c False
      (Some (h_block_number (blk_header b)))) (blk_transactions b) = Ok ts"
    using b ok(4) by (auto simp: hashes_at_def one_chain_id_def chain_block_def transactions_hashes_def)
  from find_zip_member [OF try_map_length [OF hashes] b(4)] obtain i where i: "i < length ts" "ts ! i = t"
    "List.find (\<lambda>(h, _). h = t) (zip ts (blk_transactions b)) = Some (t, blk_transactions b ! i)" by blast
  let ?tx = "blk_transactions b ! i"
  have len: "i < length (blk_transactions b)" using i(1) try_map_length [OF hashes] by simp
  then have tx: "?tx \<in> set (blk_transactions b)" by simp
  have "convertible ?tx" using conv b(1) tx unfolding list_all_iff by blast
  then obtain core where core: "to_starknet_core_tx (se_felt E) ?tx t = Ok core"
    using convert_outcome(2) [OF codec] by blast
  have "transaction_block s t = Ok h"
    using ok(1) h by (simp add: transaction_block_def serves_def server_over_def mapping_reads_def)
  moreover have "rpc_chain_id s = Ok c" by (simp add: rpc_chain_id_def serves_fields [OF ok(1)])
  ultimately have "rpc_get_transaction_by_hash s t = Ok core"
    by (simp add: rpc_get_transaction_by_hash_def serves_block [OF ok(1) b(1)] core i(3)
        find_transaction_value(1) [OF ok b(1) f b(3,2)])
  with b(1,2) tx core try_map_nth [OF hashes len] i(2) show ?thesis by blast
qed

text \<open>C13: what the worker registered, and nothing else, can be read. Starting from an empty mapping, after enough
  polls every transaction of every block of the chain from \<open>sync_from\<close> on, other than the block at Substrate number 0, is
  found by its hash: the server answers with the RPC form of a transaction of such a block that has this hash.
  A hash that no transaction of a later block has is answered with \<open>TxnHashNotFound\<close>, even if it is the hash of
  a transaction of the genesis block, which the worker files without transactions.\<close>

theorem rpc_finds_synced:
  assumes "sync_setup E view" and "felt_codec (se_felt E)"
    and "worker_ok E w mapping_abs_empty tips" and "sw_retry_times w \<noteq> 0"
    and "2 * card (due_blocks E (sw_sync_from w) mapping_abs_empty) + 1 \<le> n"
    and "hash_identifies E" "one_chain_id E c" "genesis_apart E"
    and "\<forall>h hr b. chain_block E h hr b \<longrightarrow> list_all convertible (blk_transactions b)"
    and "server_over E c s" and "rs_db s = ss_db (sw_state (worker_run E (replicate n True) w))"
  shows "(\<forall>h hr b ts. chain_block E h hr b \<and> sh_number hr \<noteq> 0 \<and> unat (sw_sync_from w) \<le> number_of (se_client E) h
        \<and> hashes_at E h b ts \<and> t \<in> set ts \<longrightarrow>
      (\<exists>h' hr' b' tx core. chain_block E h' hr' b' \<and> sh_number hr' \<noteq> 0 \<and> tx \<in> set (blk_transactions b')
        \<and> compute_hash (se_felt E) (se_crypto E) (se_hasher E) tx c False (Some (h_block_number (blk_header b'))) = Ok t
        \<and> to_starknet_core_tx (se_felt E) tx t = Ok core \<and> rpc_get_transaction_by_hash s t = Ok core))
    \<and> ((\<forall>h hr b ts. chain_block E h hr b \<and> sh_number hr \<noteq> 0 \<and> hashes_at E h b ts \<longrightarrow> t \<notin> set ts) \<longrightarrow>
        rpc_get_transaction_by_hash s t = Err (Api TxnHashNotFound))"
proof -
  have "2 * card (due_blocks E (sw_sync_from w) mapping_abs_empty) + (if tips = [] then 0 else 1) \<le> n" using assms(5) by simp
  from sync_setup.run_elapsed [OF assms(1,3,4) this] obtain m tips' where
    m: "worker_ok E (worker_run E (replicate n True) w) m tips'" "due_blocks E (sw_sync_from w) m = {}"
    "(grows E)\<^sup>*\<^sup>* mapping_abs_empty m" by blast
  have acc: "accurate E m" using accurate_run [OF m(3) accurate_empty] .
  have sv: "serves E m c s" using m(1) assms(10,11) by (simp add: serves_def worker_ok_def sync_reads_def)
  have "tx_block m t \<noteq> None" if "chain_block E h hr b" "sh_number hr \<noteq> 0" "unat (sw_sync_from w) \<le> number_of (se_client E) h"
    "hashes_at E h b ts" "t \<in> set ts" for h hr b ts
  proof -
    have "h \<in> seen m" using m(2) that by (auto simp: due_blocks_def due_def chain_block_def)
    with acc that show ?thesis unfolding accurate_def by blast
  qed
  moreover have "rpc_get_transaction_by_hash s t = Err (Api TxnHashNotFound)" if "tx_block m t = None"
    using sv that by (simp add: rpc_get_transaction_by_hash_def transaction_block_def serves_def server_over_def mapping_reads_def)
  moreover have "\<exists>h hr b ts. chain_block E h hr b \<and> sh_number hr \<noteq> 0 \<and> hashes_at E h b ts \<and> t \<in> set ts"
    if "tx_block m t \<noteq> None"
    using acc that unfolding accurate_def by blast
  moreover note found = registered_found [OF assms(1,2) sv acc assms(6-9), of t]
  ultimately show ?thesis by blast
qed

lemma ref_hashes_at: "\<exists>t. hashes_at ref_sync_env 1 ref_block [t]"
  by (simp add: hashes_at_def ref_sync_env_def ref_client_def transactions_hashes_def ref_block_def deoxys_block_new_def
      compute_hash_value [OF ref_felt_codec] sample_invoke_def)

theorem rpc_finds_synced_witness:
  "\<exists>t core. rpc_get_transaction_by_hash ref_server t = Ok core"
proof -
  obtain hr where hr: "chain_block ref_sync_env 1 hr ref_block" "sh_number hr \<noteq> 0" using ref_is_chain_block(1) by blast
  obtain t where t: "hashes_at ref_sync_env 1 ref_block [t]" using ref_hashes_at by blast
  have conv: "\<forall>h hr b. chain_block ref_sync_env h hr b \<longrightarrow> list_all convertible (blk_transactions b)"
  proof (intro allI impI)
    fix h hr b assume "chain_block ref_sync_env h hr b"
    then have "b = ref_block \<or> b = ref_genesis" using ref_chain_block by blast
    then show "list_all convertible (blk_transactions b)"
      by (auto simp: ref_block_def ref_genesis_def deoxys_block_new_def sample_invoke_def convertible_def)
  qed
  have codec: "felt_codec (se_felt ref_sync_env)" using ref_felt_codec by (simp add: ref_sync_env_def)
  let ?w = "worker_new 10 0 \<lparr> ss_db = [], ss_metrics = None \<rparr> :: (alist_db, nat) sync_worker"
  have run: "sw_retry_times ?w \<noteq> 0" "2 * card (due_blocks ref_sync_env (sw_sync_from ?w) mapping_abs_empty) + 1 \<le> 7"
    "unat (sw_sync_from ?w) \<le> number_of (se_client ref_sync_env) 1"
    using ref_due by (simp_all add: worker_new_def)
  have "\<exists>core. rpc_get_transaction_by_hash ref_server t = Ok core"
    using rpc_finds_synced [OF ref_sync_setup codec ref_worker_ok run(1,2) ref_laws conv ref_server_over ref_db, of t]
      hr run(3) t by (metis list.set_intros(1))
  then show ?thesis by blast
qed

text \<open>Looking a block up by its Starknet hash gives a canonical Substrate block that wraps a block with this
  hash, and finds nothing only if no canonical block that was registered has it. A canonical block is also what
  its number gives.\<close>

theorem rpc_block_by_hash:
  assumes "serves E m c s" and "accurate E m"
  shows "case substrate_block_hash_from_starknet_block s (BlockHash f) of
       Ok h \<Rightarrow> (\<exists>hr b. chain_block E h hr b \<and> starknet_hash E b f)
         \<and> (\<exists>n. rs_number s h = Ok (Some n) \<and> substrate_block_hash_from_starknet_block s (BlockNumber (ucast n)) = Ok h)
     | Err e \<Rightarrow> e = BlockNotFound
         \<and> (\<forall>h hr b. chain_block E h hr b \<and> starknet_hash E b f \<and> h \<in> seen m \<longrightarrow> \<not> is_canon s h)
     | Panic \<Rightarrow> False"
proof -
  have look: "substrate_block_hash_from_starknet_block s (BlockHash f) =
      ok_or BlockNotFound (case wrapping m f of Some hs \<Rightarrow> List.find (is_canon s) hs | None \<Rightarrow> None)"
    by (simp add: substrate_block_hash_from_starknet_block_def serves_load_hash [OF assms(1)])
  show ?thesis
  proof (cases "case wrapping m f of Some hs \<Rightarrow> List.find (is_canon s) hs | None \<Rightarrow> None")
    case None
    have "\<not> is_canon s h" if "chain_block E h hr b" "starknet_hash E b f" "h \<in> seen m" for h hr b
    proof -
      from assms(2) that obtain hs where "wrapping m f = Some hs" "h \<in> set hs" unfolding accurate_def by blast
      with None show ?thesis by (simp add: find_None_iff)
    qed
    with None show ?thesis unfolding look by simp blast
  next
    case (Some h)
    then obtain hs where hs: "wrapping m f = Some hs" "List.find (is_canon s) hs = Some h" by (auto split: option.splits)
    then have "h \<in> set hs" and canon: "is_canon s h" by (auto simp: find_Some_iff)
    with hs assms(2) obtain hr b where b: "chain_block E h hr b" "starknet_hash E b f" unfolding accurate_def by blast
    from canon obtain n where n: "rs_number s h = Ok (Some n)" "rs_hash s n = Ok (Some h)"
      unfolding is_canon_iff by blast
    have "saturate_u32 (ucast n) = n"
    proof -
      have lt: "unat n < 2 ^ 32" using unsigned_less [of n] by simp
      have "unat (ucast n :: 64 word) = unat n"
        by (simp add: unsigned_ucast_eq take_bit_nat_eq_self less_trans [OF lt])
      with lt have "(ucast n :: 64 word) \<le> 0xFFFFFFFF" by (simp add: word_le_nat_alt)
      moreover have "ucast (ucast n :: 64 word) = n" by transfer simp
      ultimately show ?thesis by (simp add: saturate_u32_def)
    qed
    with n(2) have "substrate_block_hash_from_starknet_block s (BlockNumber (ucast n)) = Ok h"
      by (simp add: substrate_block_hash_from_starknet_block_def)
    with Some b n(1) show ?thesis unfolding look by auto
  qed
qed

theorem rpc_block_by_hash_witness:
  "\<exists>f. substrate_block_hash_from_starknet_block ref_server (BlockHash f) = Ok 1"
proof -
  obtain hr where hr: "chain_block ref_sync_env 1 hr ref_block" using ref_is_chain_block(1) by blast
  obtain f where f: "starknet_hash ref_sync_env ref_block f" using ref_hash by blast
  obtain m where m: "serves ref_sync_env m 5 ref_server" "accurate ref_sync_env m" "1 \<in> seen m" using ref_serves by blast
  have canon: "is_canon ref_server 1" by (simp add: is_canon_def ref_server_def)
  have "substrate_block_hash_from_starknet_block ref_server (BlockHash f) = Ok 1"
    using rpc_block_by_hash [OF m(1,2), of f] hr f m(3) canon ref_chain_block ref_hashes_differ
    by (fastforce split: res.splits)
  then show ?thesis by blast
qed

end
