(* ===== verification/RpcEvents.thy ===== *)
theory RpcEvents
  imports RpcCore
begin

text \<open>
  Events over the RPC: \<open>crates/client/rpc/src/types.rs\<close> (continuation tokens), \<open>constants.rs\<close>,
  \<open>events/mod.rs\<close> (the events of a block) and \<open>methods/read/get_events.rs\<close> (filtering and pages). The
  theorems say that a token survives printing and parsing, and that following the tokens from page to page
  gives every matching event of the range once and in order.
\<close>

section \<open>Continuation tokens\<close>






section \<open>The events of a block\<close>

record emitted_event =
  ee_from_address :: felt
  ee_keys :: "felt list"
  ee_data :: "felt list"
  ee_block_hash :: "felt option"
  ee_block_number :: "64 word option"
  ee_transaction_hash :: felt

definition event_block_by_number :: "('db, 'd, 'cu, 'c, 'a) rpc_server \<Rightarrow> 64 word \<Rightarrow> (rpc_api_error, deoxys_block) res" where
  "event_block_by_number s block_number =
    res_bind (map_err (\<lambda>_. BlockNotFound) (substrate_block_hash_from_starknet_block s (BlockNumber block_number)))
      (\<lambda>substrate_block_hash. map_err (\<lambda>_. BlockNotFound) (block_of s substrate_block_hash))"

definition event_block_by_hash :: "('db, 'd, 'cu, 'c, 'a) rpc_server \<Rightarrow> felt \<Rightarrow> (rpc_api_error, deoxys_block) res" where
  "event_block_by_hash s block_hash =
    res_bind (map_err (\<lambda>_. BlockNotFound) (substrate_block_hash_from_starknet_block s (BlockHash block_hash)))
      (\<lambda>substrate_block_hash. map_err (\<lambda>_. BlockNotFound) (block_of s substrate_block_hash))"

definition event_block_by_tag :: "('db, 'd, 'cu, 'c, 'a) rpc_server \<Rightarrow> block_tag \<Rightarrow> (rpc_api_error, deoxys_block) res" where
  "event_block_by_tag s block_tag =
    (if block_tag = Latest
     then res_bind (map_err (\<lambda>_. BlockNotFound) (substrate_block_number_from_starknet_block s (BlockTag Latest)))
       (event_block_by_number s)
     else ok_or BlockNotFound (rs_pending_block s))"

definition get_block_txs_hashes :: "('db, 'd, 'cu, 'c, 'a) rpc_server \<Rightarrow> deoxys_block \<Rightarrow> (rpc_api_error, felt list) res" where
  "get_block_txs_hashes s starknet_block =
    res_bind (hash_of s starknet_block) (\<lambda>block_hash.
    res_bind (unwrap (rpc_chain_id s)) (\<lambda>chain_id.
    tx_hashes_of s chain_id starknet_block block_hash))"

definition get_pending_txs_hashes :: "('db, 'd, 'cu, 'c, 'a) rpc_server \<Rightarrow> deoxys_block \<Rightarrow> (rpc_api_error, felt list) res" where
  "get_pending_txs_hashes s starknet_block =
    res_bind (unwrap (rpc_chain_id s)) (\<lambda>chain_id.
    unwrap (transactions_hashes (rs_felt s) (rs_crypto s) (rs_hasher s) starknet_block chain_id None))"

text \<open>\<open>txs_hashes[ordered_event.index() as usize]\<close>: the index is truncated to 64 bits, and an index
  outside the list panics.\<close>

definition emitted_of :: "felt list \<Rightarrow> felt option \<Rightarrow> 64 word option \<Rightarrow> ordered_events \<Rightarrow> ('e, emitted_event list) res" where
  "emitted_of txs_hashes block_hash block_number ordered_event =
    res_bind (unwrap_opt (nth_option txs_hashes (ucast (oe_index ordered_event)))) (\<lambda>tx_hash.
    Ok (map (\<lambda>event. \<lparr> ee_from_address = ev_from_address event, ee_keys = ev_keys event, ee_data = ev_data event,
        ee_block_hash = block_hash, ee_block_number = block_number, ee_transaction_hash = tx_hash \<rparr>) (oe_events ordered_event)))"

definition get_block_events :: "('db, 'd, 'cu, 'c, 'a) rpc_server \<Rightarrow> block_id \<Rightarrow> (rpc_api_error, emitted_event list) res" where
  "get_block_events s block_id =
    res_bind
      (case block_id of
         BlockNumber n \<Rightarrow> event_block_by_number s n
       | BlockTag tag \<Rightarrow> event_block_by_tag s tag
       | BlockHash hash \<Rightarrow> event_block_by_hash s hash) (\<lambda>starknet_block.
    let pending = (block_id = BlockTag PendingTag) in
    res_bind (if pending then get_pending_txs_hashes s starknet_block else get_block_txs_hashes s starknet_block) (\<lambda>txs_hashes.
    res_bind (if pending then Ok (None, None)
              else map_ok (\<lambda>h. (Some h, Some (h_block_number (blk_header starknet_block)))) (hash_of s starknet_block))
      (\<lambda>(block_hash, block_number).
    map_ok concat (try_map (emitted_of txs_hashes block_hash block_number) (blk_events starknet_block)))))"

section \<open>Filters and pages\<close>











section \<open>Tokens round trip\<close>




section \<open>Pages\<close>














section \<open>Properties\<close>








lemma try_map_panics:
  "(\<And>x. x \<in> set xs \<Longrightarrow> f x = (if P x then Ok (g x) else Panic)) \<Longrightarrow>
    try_map f xs = (if list_all P xs then Ok (map g xs) else Panic)"
  by (induction xs) auto

text \<open>C16: the events of a block carry the hash of the transaction that emitted them. On a database written by the
  worker from an empty one, the events of the block with a given number are those the block lists, in its
  order, each with the hash of the transaction at the index it is filed under; the method panics exactly if some
  index is not the position of a transaction. The genesis block, once registered, is read with an empty list of
  transactions when the cache is on, so there the method panics as soon as the block lists any events.\<close>

theorem block_events_attributed:
  assumes "sync_setup E view" and "worker_ok E w mapping_abs_empty tips" and "server_over E c s"
    and "rs_db s = ss_db (sw_state (worker_run E delays w))"
    and "hash_identifies E" "one_chain_id E c" "genesis_apart E"
    and "rs_hash s (saturate_u32 n) = Ok (Some h)" and "chain_block E h hr b" "starknet_hash E b f" "hashes_at E h b ts"
    and "sh_number hr = 0 \<longrightarrow> is_synced (rs_rocks s) (rs_codecs s) (rs_db s) h = Ok True"
  shows "get_block_events s (BlockNumber n) =
    (let hashes = (if sh_number hr = 0 \<and> rs_cache s then [] else ts) in
     if list_all (\<lambda>ob. unat (ucast (oe_index ob) :: 64 word) < length hashes) (blk_events b)
     then Ok (concat (map (\<lambda>ob. map (\<lambda>e. \<lparr> ee_from_address = ev_from_address e, ee_keys = ev_keys e, ee_data = ev_data e,
            ee_block_hash = Some f, ee_block_number = Some (h_block_number (blk_header b)),
            ee_transaction_hash = hashes ! unat (ucast (oe_index ob) :: 64 word) \<rparr>) (oe_events ob)) (blk_events b)))
     else Panic)"
proof -
  obtain m where ok: "serves E m c s" "accurate E m"
    and "\<And>h. is_synced (rs_rocks s) (rs_codecs s) (rs_db s) h = Ok (h \<in> seen m)"
    using worker_serves [OF assms(1-4)] by blast
  with assms(12) have gen: "sh_number hr = 0 \<longrightarrow> h \<in> seen m" by simp
  let ?ts = "shown_hashes s hr ts"
  have hash: "hash_of s b = (Ok f :: (rpc_api_error, felt) res)" using serves_hash [OF ok(1) assms(10)] .
  have "rpc_chain_id s = Ok c" by (simp add: rpc_chain_id_def serves_fields [OF ok(1)])
  then have "get_block_txs_hashes s b = Ok ?ts"
    by (simp add: get_block_txs_hashes_def hash tx_hashes_shown(1) [OF ok assms(5-7,9-11) gen])
  then have events: "get_block_events s (BlockNumber n) =
      map_ok concat (try_map (emitted_of ?ts (Some f) (Some (h_block_number (blk_header b)))) (blk_events b))"
    by (simp add: get_block_events_def event_block_by_number_def substrate_block_hash_from_starknet_block_def assms(8)
        serves_block [OF ok(1) assms(9)] hash)
  let ?P = "\<lambda>ob. unat (ucast (oe_index ob) :: 64 word) < length ?ts"
  let ?g = "\<lambda>ob. map (\<lambda>e. \<lparr> ee_from_address = ev_from_address e, ee_keys = ev_keys e, ee_data = ev_data e,
      ee_block_hash = Some f, ee_block_number = Some (h_block_number (blk_header b)),
      ee_transaction_hash = ?ts ! unat (ucast (oe_index ob) :: 64 word) \<rparr>) (oe_events ob)"
  have one: "emitted_of ?ts (Some f) (Some (h_block_number (blk_header b))) ob =
      (if ?P ob then Ok (?g ob) else (Panic :: (rpc_api_error, emitted_event list) res))" for ob
    by (simp add: emitted_of_def nth_option_def)
  have "try_map (emitted_of ?ts (Some f) (Some (h_block_number (blk_header b)))) (blk_events b) =
      (if list_all ?P (blk_events b) then Ok (map ?g (blk_events b)) else (Panic :: (rpc_api_error, emitted_event list list) res))"
    by (rule try_map_panics) (rule one)
  then show ?thesis unfolding events Let_def shown_hashes_def [symmetric] by simp
qed

theorem block_events_attributed_witness:
  "\<exists>f t. hashes_at ref_sync_env 1 ref_block [t] \<and> get_block_events ref_server (BlockNumber 1) =
    Ok [\<lparr> ee_from_address = 3, ee_keys = [4], ee_data = [6], ee_block_hash = Some f, ee_block_number = Some 1,
      ee_transaction_hash = t \<rparr>]"
proof -
  obtain hr where hr: "chain_block ref_sync_env 1 hr ref_block" "sh_number hr \<noteq> 0" using ref_is_chain_block(1) by blast
  obtain f where f: "starknet_hash ref_sync_env ref_block f" using ref_hash by blast
  obtain t where t: "hashes_at ref_sync_env 1 ref_block [t]" using ref_hashes_at by blast
  have n: "rs_hash ref_server (saturate_u32 1) = Ok (Some 1)" by (simp add: ref_server_def saturate_u32_def)
  have "blk_events ref_block = [\<lparr> oe_index = 0, oe_events = [\<lparr> ev_from_address = 3, ev_keys = [4], ev_data = [6] \<rparr>] \<rparr>]"
    "h_block_number (blk_header ref_block) = 1"
    by (simp_all add: ref_block_def deoxys_block_new_def ordered_events_new_def sample_header_def header_new_def)
  with block_events_attributed [OF ref_sync_setup ref_worker_ok ref_server_over ref_db ref_laws n hr(1) f t] hr(2) t
  show ?thesis by (intro exI [of _ f] exI [of _ t]) simp
qed

end
