(* ===== verification/RpcExecution.thy ===== *)
theory RpcExecution
  imports RpcCore Simulations
begin

text \<open>
  The runtime API that the RPC server calls, \<open>crates/runtime/src/lib.rs\<close> (the two \<open>impl\<close> blocks of
  \<open>impl_runtime_apis!\<close>), and the RPC methods that run it once: \<open>methods/read/call.rs\<close>, \<open>estimate_fee.rs\<close> and
  \<open>estimate_message_fee.rs\<close>, and the methods of \<open>methods/write\<close>, which pass a transaction on to the sequencer.
  The theorems follow an error of the pallet to the code the caller sees, and say how many estimates a fee request
  returns.
\<close>

section \<open>The runtime\<close>

text \<open>The state of the pallet at a block, if the node has it, and the execution engine over that state.\<close>

record ('c, 'a, 's, 'x, 'm, 'e) exec_runtime =
  rt_state :: "dhash \<Rightarrow> (unit, ('c, 'a) pallet_state) res"
  rt_engine :: "dhash \<Rightarrow> ('c, 's, 'x, 'm, 'e) engine"
  rt_config :: pallet_config
  rt_layer :: bool
  rt_context_ok :: bool
  rt_execute_call :: "block_context \<Rightarrow> felt \<Rightarrow> felt \<Rightarrow> felt \<Rightarrow> felt list \<Rightarrow> ('e, felt list) res"

text \<open>A call of the API runs the runtime on the state of a block: the outer result says whether the call could be
  made, and a panic of the runtime is such a failure. The inner result is the runtime's.\<close>

definition api_run :: "('c, 'a, 's, 'x, 'm, 'e) exec_runtime \<Rightarrow> dhash \<Rightarrow> (('c, 'a) pallet_state \<Rightarrow> ('f, 'r) res)
    \<Rightarrow> (unit, ('f, 'r) res) res" where
  "api_run rt h f =
    res_bind (rt_state rt h) (\<lambda>st. case f st of Ok r \<Rightarrow> Ok (Ok r) | Err e \<Rightarrow> Ok (Err e) | Panic \<Rightarrow> Err ())"

definition api_call :: "felt_lib \<Rightarrow> ('c, 'a, 's, 'x, 'm, 'e) exec_runtime \<Rightarrow> dhash \<Rightarrow> felt \<Rightarrow> felt \<Rightarrow> felt list
    \<Rightarrow> (unit, (pallet_error, felt list) res) res" where
  "api_call L rt h address function_selector calldata =
    api_run rt h (\<lambda>st. call_contract L (rt_config rt) (rt_context_ok rt) (rt_execute_call rt) st address
      function_selector calldata)"

definition api_fee_token_addresses :: "('c, 'a, 's, 'x, 'm, 'e) exec_runtime \<Rightarrow> dhash \<Rightarrow> (unit, fee_token_addresses) res" where
  "api_fee_token_addresses rt h = map_ok ps_fee_tokens (rt_state rt h)"

definition api_is_transaction_fee_disabled :: "('c, 'a, 's, 'x, 'm, 'e) exec_runtime \<Rightarrow> dhash \<Rightarrow> (unit, bool) res" where
  "api_is_transaction_fee_disabled rt h = map_ok (\<lambda>st. cfg_disable_transaction_fee (rt_config rt)) (rt_state rt h)"

definition api_estimate_fee :: "felt_lib \<Rightarrow> ('c, 'a, 's, 'x, 'm, 'e) exec_runtime \<Rightarrow> dhash \<Rightarrow> 'x list
    \<Rightarrow> simulation_flag_for_estimate_fee list \<Rightarrow> (unit, (pallet_error, fee_estimate list) res) res" where
  "api_estimate_fee L rt h transactions simulation_flags =
    api_run rt h (\<lambda>st. estimate_fee (rt_layer rt) L (rt_engine rt h) (rt_config rt) st transactions simulation_flags)"

definition api_re_execute_transactions :: "('c, 'a, 's, 'x, 'm, 'e) exec_runtime \<Rightarrow> dhash \<Rightarrow> ('x, 'm) exec_transaction list
    \<Rightarrow> ('x, 'm) exec_transaction list \<Rightarrow> block_context
    \<Rightarrow> (unit, (place_holder_error, tx_execution_info list) res) res" where
  "api_re_execute_transactions rt h transactions_before transactions_to_trace block_context =
    api_run rt h (\<lambda>_. re_execute_transactions (rt_engine rt h) transactions_before transactions_to_trace block_context)"

definition api_estimate_message_fee :: "felt_lib \<Rightarrow> ('c, 'a, 's, 'x, 'm, 'e) exec_runtime \<Rightarrow> dhash \<Rightarrow> 'm
    \<Rightarrow> (unit, (pallet_error, fee_estimate) res) res" where
  "api_estimate_message_fee L rt h message =
    api_run rt h (\<lambda>st. estimate_message_fee (rt_layer rt) L (rt_engine rt h) (rt_config rt) st message)"

definition api_simulate_transactions :: "felt_lib \<Rightarrow> ('c, 'a, 's, 'x, 'm, 'e) exec_runtime \<Rightarrow> dhash \<Rightarrow> 'x list
    \<Rightarrow> simulation_flags \<Rightarrow> (unit, (pallet_error, (place_holder_error, tx_execution_info) res list) res) res" where
  "api_simulate_transactions L rt h transactions simulation_flags =
    api_run rt h (\<lambda>st. simulate_transactions (rt_layer rt) L (rt_engine rt h) (rt_config rt) st transactions simulation_flags)"

definition api_simulate_message :: "felt_lib \<Rightarrow> ('c, 'a, 's, 'x, 'm, 'e) exec_runtime \<Rightarrow> dhash \<Rightarrow> 'm
    \<Rightarrow> simulation_flags \<Rightarrow> (unit, (pallet_error, (place_holder_error, tx_execution_info) res) res) res" where
  "api_simulate_message L rt h message simulation_flags =
    api_run rt h (\<lambda>st. simulate_message (rt_layer rt) L (rt_engine rt h) (rt_config rt) st message simulation_flags)"

definition api_get_tx_messages_to_l1 :: "('c, 'a, 's, 'x, 'm, 'e) exec_runtime \<Rightarrow> dhash \<Rightarrow> felt
    \<Rightarrow> (unit, message_to_l1 list) res" where
  "api_get_tx_messages_to_l1 rt h tx_hash =
    map_ok (\<lambda>st. case ps_tx_messages st tx_hash of Some ms \<Rightarrow> ms | None \<Rightarrow> []) (rt_state rt h)"

definition api_get_events_for_tx_by_hash :: "('c, 'a, 's, 'x, 'm, 'e) exec_runtime \<Rightarrow> dhash \<Rightarrow> felt
    \<Rightarrow> (unit, event list) res" where
  "api_get_events_for_tx_by_hash rt h tx_hash =
    map_ok (\<lambda>st. case ps_tx_events st tx_hash of Some es \<Rightarrow> es | None \<Rightarrow> []) (rt_state rt h)"

definition api_get_block_context :: "felt_lib \<Rightarrow> ('c, 'a, 's, 'x, 'm, 'e) exec_runtime \<Rightarrow> dhash \<Rightarrow> (unit, block_context) res" where
  "api_get_block_context L rt h = map_ok (get_block_context L (rt_config rt)) (rt_state rt h)"

datatype transaction_execution_error =
  ExecContractNotFound | ExecClassAlreadyDeclared | ExecClassHashNotFound | ExecInvalidContractClass | ExecContractError

definition api_convert_error :: "('c, 'a, 's, 'x, 'm, 'e) exec_runtime \<Rightarrow> dhash \<Rightarrow> pallet_error
    \<Rightarrow> (unit, transaction_execution_error) res" where
  "api_convert_error rt h error =
    map_ok (\<lambda>st.
      if error = Pallet.ContractNotFound then ExecContractNotFound
      else if error = ClassHashAlreadyDeclared then ExecClassAlreadyDeclared
      else if error = ContractClassHashUnknown then ExecClassHashNotFound
      else if error = Pallet.InvalidContractClass then ExecInvalidContractClass
      else ExecContractError) (rt_state rt h)"

section \<open>Errors over the RPC\<close>

primrec rpc_error_of_execution :: "transaction_execution_error \<Rightarrow> rpc_api_error" where
  "rpc_error_of_execution ExecContractNotFound = RpcCore.ContractNotFound"
| "rpc_error_of_execution ExecClassAlreadyDeclared = ClassAlreadyDeclared"
| "rpc_error_of_execution ExecClassHashNotFound = ClassHashNotFound"
| "rpc_error_of_execution ExecInvalidContractClass = RpcCore.InvalidContractClass"
| "rpc_error_of_execution ExecContractError = ContractErr"

definition convert_error :: "('c, 'a, 's, 'x, 'm, 'e) exec_runtime \<Rightarrow> dhash \<Rightarrow> (pallet_error, 'r) res
    \<Rightarrow> (rpc_api_error, 'r) res" where
  "convert_error rt best_block_hash call_result =
    (case call_result of
       Ok val \<Rightarrow> Ok val
     | Err e \<Rightarrow>
         (case api_convert_error rt best_block_hash e of
            Ok starknet_error \<Rightarrow> Err (rpc_error_of_execution starknet_error)
          | Err _ \<Rightarrow> Err InternalServerError
          | Panic \<Rightarrow> Panic)
     | Panic \<Rightarrow> Panic)"

text \<open>The errors of the sequencer's gateway, of \<open>starknet_core\<close>; what they carry is dropped.\<close>

datatype starknet_error =
  SeqFailedToReceiveTransaction | SeqContractNotFound | SeqBlockNotFound | SeqInvalidTransactionIndex
| SeqClassHashNotFound | SeqTransactionHashNotFound | SeqPageSizeTooBig | SeqNoBlocks | SeqInvalidContinuationToken
| SeqTooManyKeysInFilter | SeqContractError | SeqClassAlreadyDeclared | SeqInvalidTransactionNonce
| SeqInsufficientMaxFee | SeqInsufficientAccountBalance | SeqValidationFailure | SeqCompilationFailed
| SeqContractClassSizeIsTooLarge | SeqNonAccount | SeqDuplicateTx | SeqCompiledClassHashMismatch
| SeqUnsupportedTxVersion | SeqUnsupportedContractClassVersion | SeqUnexpectedError | SeqNoTraceAvailable
| SeqTransactionExecutionError

primrec rpc_error_of_starknet :: "starknet_error \<Rightarrow> rpc_api_error" where
  "rpc_error_of_starknet SeqFailedToReceiveTransaction = FailedToReceiveTxn"
| "rpc_error_of_starknet SeqContractNotFound = RpcCore.ContractNotFound"
| "rpc_error_of_starknet SeqBlockNotFound = BlockNotFound"
| "rpc_error_of_starknet SeqInvalidTransactionIndex = InvalidTxnIndex"
| "rpc_error_of_starknet SeqClassHashNotFound = ClassHashNotFound"
| "rpc_error_of_starknet SeqTransactionHashNotFound = TxnHashNotFound"
| "rpc_error_of_starknet SeqPageSizeTooBig = PageSizeTooBig"
| "rpc_error_of_starknet SeqNoBlocks = NoBlocks"
| "rpc_error_of_starknet SeqInvalidContinuationToken = InvalidContinuationToken"
| "rpc_error_of_starknet SeqTooManyKeysInFilter = TooManyKeysInFilter"
| "rpc_error_of_starknet SeqContractError = ContractErr"
| "rpc_error_of_starknet SeqClassAlreadyDeclared = ClassAlreadyDeclared"
| "rpc_error_of_starknet SeqInvalidTransactionNonce = InvalidTxnNonce"
| "rpc_error_of_starknet SeqInsufficientMaxFee = InsufficientMaxFee"
| "rpc_error_of_starknet SeqInsufficientAccountBalance = InsufficientAccountBalance"
| "rpc_error_of_starknet SeqValidationFailure = ValidationFailure"
| "rpc_error_of_starknet SeqCompilationFailed = CompilationFailed"
| "rpc_error_of_starknet SeqContractClassSizeIsTooLarge = ContractClassSizeTooLarge"
| "rpc_error_of_starknet SeqNonAccount = NonAccount"
| "rpc_error_of_starknet SeqDuplicateTx = DuplicateTxn"
| "rpc_error_of_starknet SeqCompiledClassHashMismatch = CompiledClassHashMismatch"
| "rpc_error_of_starknet SeqUnsupportedTxVersion = UnsupportedTxnVersion"
| "rpc_error_of_starknet SeqUnsupportedContractClassVersion = UnsupportedContractClassVersion"
| "rpc_error_of_starknet SeqUnexpectedError = ErrUnexpectedError"
| "rpc_error_of_starknet SeqNoTraceAvailable = InternalServerError"
| "rpc_error_of_starknet SeqTransactionExecutionError = TxnExecutionError"

datatype provider_error = ProviderStarknetError starknet_error | ProviderOther

text \<open>The three write methods differ only in the transaction they send: \<open>config\<close> is the fetch configuration and
  \<open>send\<close> the request to the gateway it names.\<close>

definition add_transaction :: "'g option \<Rightarrow> ('g \<Rightarrow> 't \<Rightarrow> (provider_error, 'r) res) \<Rightarrow> 't \<Rightarrow> (rpc_error, 'r) res" where
  "add_transaction config send tx =
    res_bind (ok_or (Api InternalServerError) config) (\<lambda>config.
    case send config tx of
      Ok response \<Rightarrow> Ok response
    | Err (ProviderStarknetError e) \<Rightarrow> Err (Api (rpc_error_of_starknet e))
    | Err ProviderOther \<Rightarrow> Err (Api InternalServerError)
    | Panic \<Rightarrow> Panic)"

definition add_invoke_transaction :: "'g option \<Rightarrow> ('g \<Rightarrow> broadcasted_invoke \<Rightarrow> (provider_error, 'r) res)
    \<Rightarrow> broadcasted_invoke \<Rightarrow> (rpc_error, 'r) res" where
  "add_invoke_transaction = add_transaction"

definition add_declare_transaction :: "'g option \<Rightarrow> ('g \<Rightarrow> 'abi broadcasted_declare \<Rightarrow> (provider_error, 'r) res)
    \<Rightarrow> 'abi broadcasted_declare \<Rightarrow> (rpc_error, 'r) res" where
  "add_declare_transaction = add_transaction"

definition add_deploy_account_transaction :: "'g option \<Rightarrow> ('g \<Rightarrow> broadcasted_deploy_account \<Rightarrow> (provider_error, 'r) res)
    \<Rightarrow> broadcasted_deploy_account \<Rightarrow> (rpc_error, 'r) res" where
  "add_deploy_account_transaction = add_transaction"

section \<open>Calls and fee estimates\<close>

text \<open>The two layers of errors of a call of the runtime API.\<close>

definition api_result :: "'f \<Rightarrow> 'f \<Rightarrow> (unit, ('e, 'r) res) res \<Rightarrow> ('f, 'r) res" where
  "api_result call_error run_error r = res_bind (map_err (\<lambda>_. call_error) r) (map_err (\<lambda>_. run_error))"

record function_call =
  fc_contract_address :: felt
  fc_entry_point_selector :: felt
  fc_calldata :: "felt list"

definition rpc_call :: "(felt \<Rightarrow> string) \<Rightarrow> ('db, 'd, 'cu, 'c, 'a) rpc_server \<Rightarrow> ('c, 'a, 's, 'x, 'm, 'e) exec_runtime
    \<Rightarrow> function_call \<Rightarrow> block_id \<Rightarrow> (rpc_error, string list) res" where
  "rpc_call hex s rt request block_id =
    res_bind (substrate_hash s block_id) (\<lambda>substrate_block_hash.
    let calldata = map (\<lambda>x. x) (fc_calldata request)
    in res_bind (map_err (\<lambda>_. Api InternalServerError) (api_call (rs_felt s) rt substrate_block_hash
        (fc_contract_address request) (fc_entry_point_selector request) calldata)) (\<lambda>result.
    res_bind (map_err Api (convert_error rt substrate_block_hash result)) (\<lambda>result.
    Ok (map hex result))))"

record rpc_fee_estimate =
  rfe_gas_consumed :: felt
  rfe_gas_price :: felt
  rfe_data_gas_consumed :: felt
  rfe_data_gas_price :: felt
  rfe_overall_fee :: felt
  rfe_unit :: rpc_price_unit

definition to_rpc_fee_estimate :: "fee_estimate \<Rightarrow> rpc_fee_estimate" where
  "to_rpc_fee_estimate x =
    \<lparr> rfe_gas_consumed = fe_gas_consumed x, rfe_gas_price = fe_gas_price x,
      rfe_data_gas_consumed = fe_data_gas_consumed x, rfe_data_gas_price = fe_data_gas_price x,
      rfe_overall_fee = fe_overall_fee x, rfe_unit = price_unit_into (fe_unit x) \<rparr>"

definition rpc_estimate_fee :: "('abi, 'rabi, 'lprog, 'prog, 'v1, 'ci) class_lib \<Rightarrow> ('db, 'd, 'cu, 'c, 'a) rpc_server
    \<Rightarrow> ('c, 'a, 's, 'ci account_transaction, 'm, 'e) exec_runtime \<Rightarrow> 'abi broadcasted_transaction list
    \<Rightarrow> estimate_fee_flag list \<Rightarrow> block_id \<Rightarrow> (rpc_error, rpc_fee_estimate list) res" where
  "rpc_estimate_fee M s rt request simulation_flags block_id =
    res_bind (substrate_hash s block_id) (\<lambda>substrate_block_hash.
    res_bind (map_err (\<lambda>_. Api InternalServerError)
      (try_map (to_account_transaction (rs_felt s) (rs_crypto s) M) request)) (\<lambda>account_transactions.
    let simulation_flags = convert_flags simulation_flags
    in res_bind (api_result (Api InternalServerError) (Api ContractErr)
        (api_estimate_fee (rs_felt s) rt substrate_block_hash account_transactions simulation_flags)) (\<lambda>fee_estimates.
    Ok (map to_rpc_fee_estimate fee_estimates))))"

record msg_from_l1 =
  mfl_from_address :: bytes
  mfl_to_address :: felt
  mfl_entry_point_selector :: felt
  mfl_payload :: "felt list"

text \<open>\<open>L1HandlerTransaction\<close> of blockifier.\<close>

record l1_handler_exec =
  lx_tx :: l1_handler_tx
  lx_tx_hash :: felt
  lx_paid_fee_on_l1 :: "128 word"

definition convert_message_into_tx :: "felt_lib \<Rightarrow> crypto_lib \<Rightarrow> hasher_t \<Rightarrow> msg_from_l1 \<Rightarrow> felt \<Rightarrow> 64 word option
    \<Rightarrow> l1_handler_exec panicking" where
  "convert_message_into_tx L K H message chain_id block_number =
    (let calldata = from_eth_address L (mfl_from_address message) # map (\<lambda>felt. felt) (mfl_payload message);
         tx = \<lparr> l1_version = 0, l1_nonce = 0, l1_contract_address = mfl_to_address message,
                l1_entry_point_selector = mfl_entry_point_selector message, l1_calldata = calldata \<rparr>
     in res_bind (l1_handler_compute_hash L K H tx chain_id True block_number) (\<lambda>tx_hash.
        Ok \<lparr> lx_tx = tx, lx_tx_hash = tx_hash, lx_paid_fee_on_l1 = 10 \<rparr>))"

definition rpc_estimate_message_fee :: "('db, 'd, 'cu, 'c, 'a) rpc_server
    \<Rightarrow> ('c, 'a, 's, 'x, l1_handler_exec, 'e) exec_runtime \<Rightarrow> msg_from_l1 \<Rightarrow> block_id
    \<Rightarrow> (rpc_error, rpc_fee_estimate) res" where
  "rpc_estimate_message_fee s rt message block_id =
    res_bind (substrate_hash s block_id) (\<lambda>substrate_block_hash.
    res_bind (map_err (\<lambda>_. Api BlockNotFound) (current_block_number s)) (\<lambda>block_number.
    res_bind (rpc_chain_id s) (\<lambda>chain_id.
    res_bind (unwrap (convert_message_into_tx (rs_felt s) (rs_crypto s) (rs_hasher s) message chain_id (Some block_number)))
      (\<lambda>transaction.
    res_bind (api_result (Api InternalServerError) (Api ContractErr)
        (api_estimate_message_fee (rs_felt s) rt substrate_block_hash transaction)) (\<lambda>message_fee.
    Ok (to_rpc_fee_estimate message_fee))))))"

section \<open>What the caller sees\<close>

lemma api_run_Ok [result_simps]:
  "api_result e e' (api_run rt h f) = Ok r \<longleftrightarrow> (\<exists>st. rt_state rt h = Ok st \<and> f st = Ok r)"
proof (cases "rt_state rt h")
  case (Ok st)
  then show ?thesis by (cases "f st") (simp_all add: api_result_def api_run_def)
qed (simp_all add: api_result_def api_run_def)

text \<open>A call answers with the data the contract returned; a missing contract, a failed execution and a panic of the
  runtime are three different errors.\<close>

theorem rpc_call_outcome:
  assumes "substrate_hash s block_id = Ok h" and "rt_state rt h = Ok st" and "rt_context_ok rt"
  shows "rpc_call hex s rt request block_id =
    (case ps_contract_class_hashes st (fc_contract_address request) of
       None \<Rightarrow> Err (Api RpcCore.ContractNotFound)
     | Some class_hash \<Rightarrow>
         (case rt_execute_call rt (get_block_context (rs_felt s) (rt_config rt) st) class_hash (fc_contract_address request)
             (fc_entry_point_selector request) (fc_calldata request) of
            Ok retdata \<Rightarrow> Ok (map hex retdata)
          | Err _ \<Rightarrow> Err (Api ContractErr)
          | Panic \<Rightarrow> Err (Api InternalServerError)))"
  using assms
  by (simp add: rpc_call_def api_call_def api_run_def call_contract_def convert_error_def api_convert_error_def Let_def
      split: option.splits res.splits)

text \<open>A fee request is answered with one estimate for every pair of a transaction and a flag; with no flag the answer is
  empty, although the transactions have been converted.\<close>

theorem rpc_estimate_fee_count:
  assumes "rpc_estimate_fee M s rt request flags block_id = Ok estimates"
  shows "length estimates = length request * length flags"
proof -
  obtain h txs es where r: "try_map (to_account_transaction (rs_felt s) (rs_crypto s) M) request = Ok txs"
    "api_result (Api InternalServerError) (Api ContractErr) (api_estimate_fee (rs_felt s) rt h txs (convert_flags flags)) = Ok es"
    "estimates = map to_rpc_fee_estimate es"
    using assms by (auto simp: rpc_estimate_fee_def Let_def result_simps)
  then obtain st where "rt_state rt h = Ok st"
    and "estimate_fee (rt_layer rt) (rs_felt s) (rt_engine rt h) (rt_config rt) st txs (convert_flags flags) = Ok es"
    by (auto simp: api_estimate_fee_def api_run_Ok)
  from this(2) have "try_map (\<lambda>(tx, flag). execute_fee_transaction (rs_felt s) (rt_engine rt h) tx
      (get_block_context (rs_felt s) (rt_config rt) st) flag) (List.product txs (convert_flags flags)) = Ok es"
    unfolding estimate_fee_pairs [THEN conjunct1] by (simp add: map_err_Ok_iff split: if_splits)
  then have "length es = length (List.product txs (convert_flags flags))" by (rule try_map_length)
  with try_map_length [OF r(1)] r(3) show ?thesis by (simp add: length_product convert_flags_def)
qed

text \<open>Every error of the gateway reaches the caller under its own code, except that a missing trace is an internal
  error.\<close>

lemma gateway_codes_inj: "inj_on (\<lambda>e. rpc_error_code (rpc_error_of_starknet e)) (- {SeqNoTraceAvailable})"
proof (rule inj_onI)
  fix x y
  assume "x \<in> - {SeqNoTraceAvailable}" "y \<in> - {SeqNoTraceAvailable}"
    "rpc_error_code (rpc_error_of_starknet x) = rpc_error_code (rpc_error_of_starknet y)"
  then show "x = y" by (cases x; cases y; simp)
qed

end
