(* ===== verification/RpcReceipts.thy ===== *)
theory RpcReceipts
  imports RpcExecution
begin

text \<open>
  Receipts over the RPC: \<open>crates/client/rpc/src/methods/read/get_transaction_receipt.rs\<close>,
  \<open>get_block_with_receipts.rs\<close> and \<open>blockifier_call_info_to_starknet_resources\<close> of \<open>utils.rs\<close>. A receipt is not stored:
  the block is executed again up to the transaction. Two functions of the conversion call themselves with the
  arguments they were given, so the model says which requests return at all.
\<close>

section \<open>Computations that may not return\<close>

text \<open>\<open>None\<close> is a computation that never returns.\<close>

type_synonym ('e, 'a) run = "('e, 'a) res option"

definition run_bind :: "('e, 'a) run \<Rightarrow> ('a \<Rightarrow> ('e, 'b) run) \<Rightarrow> ('e, 'b) run" where
  "run_bind m f = (case m of None \<Rightarrow> None | Some (Ok x) \<Rightarrow> f x | Some (Err e) \<Rightarrow> Some (Err e) | Some Panic \<Rightarrow> Some Panic)"

primrec run_map :: "('x \<Rightarrow> ('e, 'y) run) \<Rightarrow> 'x list \<Rightarrow> ('e, 'y list) run" where
  "run_map f [] = Some (Ok [])"
| "run_map f (x # xs) = run_bind (f x) (\<lambda>y. run_bind (run_map f xs) (\<lambda>ys. Some (Ok (y # ys))))"

lemma run_bind_simps [simp]:
  "run_bind None f = None" "run_bind (Some (Ok x)) f = f x" "run_bind (Some (Err e)) f = Some (Err e)"
  "run_bind (Some Panic) f = Some Panic"
  by (simp_all add: run_bind_def)

lemma run_bind_Ok_iff: "run_bind m f = Some (Ok y) \<longleftrightarrow> (\<exists>x. m = Some (Ok x) \<and> f x = Some (Ok y))"
  by (auto simp: run_bind_def split: option.splits res.splits)

lemma run_map_Ok_iff:
  "run_map f xs = Some (Ok ys) \<longleftrightarrow> list_all2 (\<lambda>x y. f x = Some (Ok y)) xs ys"
  by (induction xs arbitrary: ys) (auto simp: run_bind_Ok_iff list_all2_Cons1)

section \<open>Resources\<close>

record computation_resources =
  cr_steps :: "64 word"
  cr_memory_holes :: "64 word option"
  cr_range_check :: "64 word option"
  cr_pedersen :: "64 word option"
  cr_poseidon :: "64 word option"
  cr_ec_op :: "64 word option"
  cr_ecdsa :: "64 word option"
  cr_bitwise :: "64 word option"
  cr_keccak :: "64 word option"
  cr_segment_arena :: "64 word option"

record execution_resources =
  er_computation :: computation_resources
  er_l1_gas :: "64 word"
  er_l1_data_gas :: "64 word"

definition no_computation :: computation_resources where
  "no_computation =
    \<lparr> cr_steps = 0, cr_memory_holes = None, cr_range_check = None, cr_pedersen = None, cr_poseidon = None,
      cr_ec_op = None, cr_ecdsa = None, cr_bitwise = None, cr_keccak = None, cr_segment_arena = None \<rparr>"

definition no_resources :: execution_resources where
  "no_resources = \<lparr> er_computation = no_computation, er_l1_gas = 0, er_l1_data_gas = 0 \<rparr>"

definition blockifier_call_info_to_starknet_resources :: "call_info \<Rightarrow> execution_resources" where
  "blockifier_call_info_to_starknet_resources callinfo =
    (let vm_resources = ci_resources callinfo;
         builtin_instance = builtin_instance_counter vm_resources
     in \<lparr> er_computation =
            \<lparr> cr_steps = n_steps vm_resources,
              cr_memory_holes = (if n_memory_holes vm_resources = 0 then None else Some (n_memory_holes vm_resources)),
              cr_range_check = builtin_instance ''range_check_builtin'',
              cr_pedersen = builtin_instance ''pedersen_builtin'',
              cr_poseidon = builtin_instance ''poseidon_builtin'',
              cr_ec_op = builtin_instance ''ec_op_builtin'',
              cr_ecdsa = builtin_instance ''ecdsa_builtin'',
              cr_bitwise = builtin_instance ''bitwise_builtin'',
              cr_keccak = builtin_instance ''keccak_builtin'',
              cr_segment_arena = builtin_instance ''segment_arena_builtin'' \<rparr>,
          er_l1_gas = 0, er_l1_data_gas = 0 \<rparr>)"

section \<open>The transactions to execute\<close>

type_synonym 'ci btx = "('ci account_transaction, l1_handler_exec) exec_transaction"

definition tx_invoke_transaction :: "invoke_transaction \<Rightarrow> felt \<Rightarrow> (rpc_error, 'ci btx) res" where
  "tx_invoke_transaction tx hash = Ok (AccountTransaction (AccountInvoke tx hash))"

definition tx_deploy_account :: "deploy_account_transaction \<Rightarrow> felt \<Rightarrow> felt \<Rightarrow> (rpc_error, 'ci btx) res" where
  "tx_deploy_account tx hash contract_address =
    Ok (AccountTransaction (AccountDeployAccount tx hash contract_address))"

definition default_contract_class :: api_contract_class where
  "default_contract_class = \<lparr> ac_sierra_program = [], ac_entry_points = Map.empty \<rparr>"

partial_function (option) tx_declare_v2 :: "('abi, 'rabi, 'lprog, 'prog, 'v1, 'ci) class_lib
    \<Rightarrow> ('db, 'd, 'cu, 'c, 'a) rpc_server \<Rightarrow> declare_transaction \<Rightarrow> felt \<Rightarrow> (rpc_error, 'ci btx) run" where
  "tx_declare_v2 M s declare_tx class_hash =
    (case sierra_to_casm_contract_class (rs_felt s) M default_contract_class of
       None \<Rightarrow> Some (Err (Api InternalServerError))
     | Some contract_class \<Rightarrow>
         (case class_v1_try_from M contract_class of
            None \<Rightarrow> Some (Err (Api InternalServerError))
          | Some _ \<Rightarrow>
              (case declare_tx of
                 DeclareV0 _ \<Rightarrow> Some Panic
               | DeclareV1 _ \<Rightarrow> Some Panic
               | DeclareV2 _ \<Rightarrow> tx_declare_v2 M s declare_tx class_hash
               | DeclareV3 _ \<Rightarrow> Some Panic)))"

partial_function (option) tx_declare_v0v1 :: "('abi, 'rabi, 'lprog, 'prog, 'v1, 'ci) class_lib
    \<Rightarrow> ('db, 'd, 'cu, 'c, 'a) rpc_server \<Rightarrow> dhash \<Rightarrow> declare_transaction \<Rightarrow> felt \<Rightarrow> (rpc_error, 'ci btx) run" where
  "tx_declare_v0v1 M s substrate_block_hash declare_tx class_hash =
    (case contract_class_by_class_hash (override_at s substrate_block_hash) substrate_block_hash class_hash of
       None \<Rightarrow> Some (Err (Api InternalServerError))
     | Some _ \<Rightarrow>
         (case declare_tx of
            DeclareV0 _ \<Rightarrow> tx_declare_v0v1 M s substrate_block_hash declare_tx class_hash
          | DeclareV1 _ \<Rightarrow> tx_declare_v0v1 M s substrate_block_hash declare_tx class_hash
          | DeclareV2 _ \<Rightarrow> tx_declare_v2 M s declare_tx class_hash
          | DeclareV3 _ \<Rightarrow> Some Panic))"

definition tx_declare :: "stx_getters \<Rightarrow> ('abi, 'rabi, 'lprog, 'prog, 'v1, 'ci) class_lib
    \<Rightarrow> ('db, 'd, 'cu, 'c, 'a) rpc_server \<Rightarrow> dhash \<Rightarrow> declare_transaction \<Rightarrow> (rpc_error, 'ci btx) run" where
  "tx_declare G M s substrate_block_hash declare_tx =
    (let class_hash = gt_declare_class_hash G declare_tx
     in case declare_tx of
          DeclareV0 _ \<Rightarrow> tx_declare_v0v1 M s substrate_block_hash declare_tx class_hash
        | DeclareV1 _ \<Rightarrow> tx_declare_v0v1 M s substrate_block_hash declare_tx class_hash
        | DeclareV2 _ \<Rightarrow> tx_declare_v2 M s declare_tx class_hash
        | DeclareV3 _ \<Rightarrow> Some Panic)"

definition tx_l1_handler :: "('db, 'd, 'cu, 'c, 'a) rpc_server \<Rightarrow> felt \<Rightarrow> 64 word \<Rightarrow> l1_handler_tx
    \<Rightarrow> (rpc_error, 'ci btx) res" where
  "tx_l1_handler s chain_id block_number l1_handler =
    res_bind (unwrap (l1_handler_compute_hash (rs_felt s) (rs_crypto s) (rs_hasher s) l1_handler chain_id False
      (Some block_number))) (\<lambda>tx_hash.
    res_bind (map_err (\<lambda>_. Api InternalServerError)
      (get_fee_paid_for_l1_handler_tx (rs_rocks s) (rs_codecs s) (rs_db s) tx_hash)) (\<lambda>paid_fee.
    Ok (L1HandlerTransaction \<lparr> lx_tx = l1_handler, lx_tx_hash = tx_hash, lx_paid_fee_on_l1 = paid_fee \<rparr>)))"

primrec is_deploy :: "transaction \<Rightarrow> bool" where
  "is_deploy (Declare _) = False"
| "is_deploy (Deploy _) = True"
| "is_deploy (DeployAccount _) = False"
| "is_deploy (Invoke _) = False"
| "is_deploy (L1Handler _) = False"

definition receipt_transaction :: "stx_getters \<Rightarrow> ('abi, 'rabi, 'lprog, 'prog, 'v1, 'ci) class_lib
    \<Rightarrow> ('db, 'd, 'cu, 'c, 'a) rpc_server \<Rightarrow> dhash \<Rightarrow> felt \<Rightarrow> 64 word \<Rightarrow> transaction \<Rightarrow> (rpc_error, 'ci btx) run" where
  "receipt_transaction G M s substrate_block_hash chain_id block_number tx =
    (case tx of
       Invoke invoke_tx \<Rightarrow>
         Some (res_bind (unwrap (invoke_compute_hash (rs_felt s) (rs_crypto s) (rs_hasher s) invoke_tx chain_id False
           (Some block_number))) (tx_invoke_transaction invoke_tx))
     | DeployAccount deploy_account_tx \<Rightarrow>
         Some (res_bind (unwrap (deploy_account_compute_hash (rs_felt s) (rs_crypto s) (rs_hasher s) deploy_account_tx
           chain_id False (Some block_number))) (\<lambda>hash. tx_deploy_account deploy_account_tx hash 0))
     | Declare declare_tx \<Rightarrow> tx_declare G M s substrate_block_hash declare_tx
     | L1Handler l1_handler \<Rightarrow> Some (tx_l1_handler s chain_id block_number l1_handler)
     | Deploy _ \<Rightarrow> Some Panic)"

definition receipt_transactions :: "stx_getters \<Rightarrow> ('abi, 'rabi, 'lprog, 'prog, 'v1, 'ci) class_lib
    \<Rightarrow> ('db, 'd, 'cu, 'c, 'a) rpc_server \<Rightarrow> dhash \<Rightarrow> felt \<Rightarrow> deoxys_block \<Rightarrow> 64 word \<Rightarrow> nat
    \<Rightarrow> (rpc_error, 'ci btx list) run" where
  "receipt_transactions G M s substrate_block_hash chain_id block block_number tx_index =
    run_map (receipt_transaction G M s substrate_block_hash chain_id block_number)
      (filter (\<lambda>tx. \<not> is_deploy tx) (take (tx_index + 1) (blk_transactions block)))"

section \<open>Receipts\<close>

datatype finality_status = FinalOnL1 | FinalOnL2
datatype execution_result = ExecutionSucceeded | ExecutionReverted string

text \<open>The fields all receipts share.\<close>

record receipt_fields =
  rc_transaction_hash :: felt
  rc_actual_fee :: "felt \<times> rpc_price_unit"
  rc_finality_status :: finality_status
  rc_messages_sent :: "message_to_l1 list"
  rc_events :: "event list"
  rc_execution_resources :: execution_resources
  rc_execution_result :: execution_result

datatype transaction_receipt =
  DeclareReceipt (receipt_common: receipt_fields)
| DeployAccountReceipt (receipt_common: receipt_fields) felt
| InvokeReceipt (receipt_common: receipt_fields)
| L1HandlerReceipt (receipt_common: receipt_fields) bytes

record receipt_with_block_info =
  rb_receipt :: transaction_receipt
  rb_block_hash :: felt
  rb_block_number :: "64 word"

definition previous_block_hash :: "('db, 'd, 'cu, 'c, 'a) rpc_server \<Rightarrow> 64 word \<Rightarrow> (rpc_error, dhash) res" where
  "previous_block_hash s block_number =
    map_err (\<lambda>_. Api InternalServerError) (substrate_block_hash_from_starknet_block s (BlockNumber (block_number - 1)))"

definition execution_infos :: "('c, 'a, 's, 'x, 'm, 'e) exec_runtime \<Rightarrow> dhash \<Rightarrow> ('x, 'm) exec_transaction list
    \<Rightarrow> block_context \<Rightarrow> (rpc_error, tx_execution_info) res" where
  "execution_infos rt previous transactions block_context =
    (let (last_tx, prev) = (if transactions = [] then (transactions, []) else ([last transactions], butlast transactions))
     in res_bind (api_result (Api InternalServerError) (Api InternalServerError)
          (api_re_execute_transactions rt previous prev last_tx block_context)) (\<lambda>infos.
        if infos = [] then Err (Api InternalServerError) else Ok (last infos)))"

fun position :: "'x \<Rightarrow> 'x list \<Rightarrow> nat option" where
  "position x [] = None"
| "position x (y # ys) = (if y = x then Some 0 else map_option Suc (position x ys))"

definition SN_MAIN :: bytes where
  "SN_MAIN = ascii ''SN_MAIN''"

definition receipt_of :: "('db, 'd, 'cu, 'c, 'a) rpc_server \<Rightarrow> felt \<Rightarrow> 64 word \<Rightarrow> transaction \<Rightarrow> tx_execution_info
    \<Rightarrow> (rpc_error, transaction_receipt) res" where
  "receipt_of s transaction_hash block_number transaction infos =
    (let fields =
       \<lparr> rc_transaction_hash = transaction_hash,
         rc_actual_fee = (fe_from_u128 (rs_felt s) (tei_actual_fee infos), RpcWei),
         rc_finality_status = (if block_number \<le> rs_l1_block_number s then FinalOnL1 else FinalOnL2),
         rc_messages_sent =
           (case tei_execute_call_info infos of Some call_info \<Rightarrow> extract_messages_from_call_info call_info | None \<Rightarrow> []),
         rc_events =
           (case tei_execute_call_info infos of Some call_info \<Rightarrow> extract_events_from_call_info call_info | None \<Rightarrow> []),
         rc_execution_resources =
           (case tei_execute_call_info infos of
              Some call_info \<Rightarrow> blockifier_call_info_to_starknet_resources call_info | None \<Rightarrow> no_resources),
         rc_execution_result =
           (case tei_revert_error infos of Some err \<Rightarrow> ExecutionReverted err | None \<Rightarrow> ExecutionSucceeded) \<rparr>
     in case transaction of
          Declare _ \<Rightarrow> Ok (DeclareReceipt fields)
        | DeployAccount _ \<Rightarrow> Ok (DeployAccountReceipt fields 0)
        | Invoke _ \<Rightarrow> Ok (InvokeReceipt fields)
        | L1Handler _ \<Rightarrow> Ok (L1HandlerReceipt fields (fe_to_bytes_be (rs_felt s) 0))
        | Deploy _ \<Rightarrow> Panic)"

definition get_transaction_receipt_finalized :: "stx_getters \<Rightarrow> ('abi, 'rabi, 'lprog, 'prog, 'v1, 'ci) class_lib
    \<Rightarrow> ('db, 'd, 'cu, 'c, 'a) rpc_server \<Rightarrow> ('c, 'a, 's, 'ci account_transaction, l1_handler_exec, 'e) exec_runtime
    \<Rightarrow> felt \<Rightarrow> dhash \<Rightarrow> felt \<Rightarrow> (rpc_error, receipt_with_block_info) run" where
  "get_transaction_receipt_finalized G M s rt chain_id substrate_block_hash transaction_hash =
    run_bind (Some (map_err Lookup (block_of s substrate_block_hash))) (\<lambda>block.
    let block_number = h_block_number (blk_header block)
    in run_bind (Some (hash_of s block)) (\<lambda>block_hash.
    run_bind (Some (previous_block_hash s block_number)) (\<lambda>previous.
    run_bind (Some (tx_hashes_of s chain_id block block_hash)) (\<lambda>block_txs_hashes.
    run_bind (Some (unwrap_opt (position transaction_hash block_txs_hashes))) (\<lambda>tx_index.
    run_bind (Some (if tx_index < length (blk_transactions block) then Ok (blk_transactions block ! tx_index)
                    else Err (Api InternalServerError))) (\<lambda>transaction.
    if is_deploy transaction then Some (Err (Api UnimplementedMethod))
    else
      run_bind (receipt_transactions G M s substrate_block_hash chain_id block block_number tx_index) (\<lambda>transactions.
      run_bind (Some (map_err (\<lambda>_. Api InternalServerError) (api_fee_token_addresses rt substrate_block_hash)))
        (\<lambda>fee_token_address.
      let block_context = into_block_context (blk_header block) fee_token_address SN_MAIN
      in run_bind (Some (execution_infos rt previous transactions block_context)) (\<lambda>infos.
      run_bind (Some (receipt_of s transaction_hash block_number transaction infos)) (\<lambda>receipt.
      Some (Ok \<lparr> rb_receipt = receipt, rb_block_hash = block_hash, rb_block_number = block_number \<rparr>)))))))))))"

definition rpc_get_transaction_receipt :: "stx_getters \<Rightarrow> ('abi, 'rabi, 'lprog, 'prog, 'v1, 'ci) class_lib
    \<Rightarrow> ('db, 'd, 'cu, 'c, 'a) rpc_server \<Rightarrow> ('c, 'a, 's, 'ci account_transaction, l1_handler_exec, 'e) exec_runtime
    \<Rightarrow> felt \<Rightarrow> (rpc_error, receipt_with_block_info) run" where
  "rpc_get_transaction_receipt G M s rt transaction_hash =
    run_bind (Some (map_err (\<lambda>_. Api InternalServerError)
      (block_hash_from_transaction_hash (rs_rocks s) (rs_codecs s) (rs_db s) transaction_hash))) (\<lambda>substrate_block_hash.
    run_bind (Some (rpc_chain_id s)) (\<lambda>chain_id.
    run_bind (Some (unwrap_opt substrate_block_hash)) (\<lambda>substrate_block_hash.
    get_transaction_receipt_finalized G M s rt chain_id substrate_block_hash transaction_hash)))"

record transaction_with_receipt =
  twr_transaction :: core_transaction
  twr_receipt :: transaction_receipt

definition rpc_get_block_with_receipts :: "stx_getters \<Rightarrow> ('abi, 'rabi, 'lprog, 'prog, 'v1, 'ci) class_lib
    \<Rightarrow> ('db, 'd, 'cu, 'c, 'a) rpc_server \<Rightarrow> ('c, 'a, 's, 'ci account_transaction, l1_handler_exec, 'e) exec_runtime
    \<Rightarrow> block_id \<Rightarrow> (rpc_error, transaction_with_receipt maybe_pending_block) run" where
  "rpc_get_block_with_receipts G M s rt block_id =
    run_bind (Some (substrate_hash s block_id)) (\<lambda>substrate_block_hash.
    run_bind (Some (map_err (\<lambda>_. Api InternalServerError) (block_of s substrate_block_hash))) (\<lambda>starknet_block.
    run_bind (Some (rpc_chain_id s)) (\<lambda>chain_id.
    run_bind (run_map (\<lambda>tx.
        run_bind (Some (unwrap (compute_hash (rs_felt s) (rs_crypto s) (rs_hasher s) tx chain_id False
          (Some (h_block_number (blk_header starknet_block)))))) (\<lambda>transaction_hash.
        run_bind (Some (unwrap (to_starknet_core_tx (rs_felt s) tx transaction_hash))) (\<lambda>transaction.
        run_bind (map_option unwrap
          (get_transaction_receipt_finalized G M s rt chain_id substrate_block_hash transaction_hash))
          (\<lambda>receipt_with_block_info.
        Some (Ok \<lparr> twr_transaction = transaction, twr_receipt = rb_receipt receipt_with_block_info \<rparr>)))))
      (blk_transactions starknet_block)) (\<lambda>transactions_with_receipts.
    if block_id = BlockTag PendingTag
    then Some (map_ok PendingBlock (rpc_pending_of (rs_felt s) starknet_block transactions_with_receipts))
    else run_bind (Some (hash_of s starknet_block)) (\<lambda>block_hash.
      Some (map_ok FinalBlock (rpc_block_of s starknet_block block_hash transactions_with_receipts)))))))"

section \<open>Declare transactions\<close>

text \<open>The class that stands in for the declared one of a version 2 declare compiles.\<close>

definition default_class_compiles :: "('abi, 'rabi, 'lprog, 'prog, 'v1, 'ci) class_lib \<Rightarrow> felt_lib \<Rightarrow> bool" where
  "default_class_compiles M L =
    (case sierra_to_casm_contract_class L M default_contract_class of None \<Rightarrow> False | Some c \<Rightarrow> class_v1_try_from M c \<noteq> None)"

lemma default_class_compiles_iff:
  "default_class_compiles M L \<longleftrightarrow>
    (\<exists>c v. sierra_to_casm_contract_class L M default_contract_class = Some c \<and> class_v1_try_from M c = Some v)"
  by (simp add: default_class_compiles_def split: option.splits)

lemma tx_declare_v2_stuck:
  assumes "tx_declare_v2 M s tx class_hash = Some r"
  shows "\<not> ((\<exists>d. tx = DeclareV2 d) \<and> default_class_compiles M (rs_felt s))"
  by (rule tx_declare_v2.raw_induct [OF _ assms])
    (fastforce simp: default_class_compiles_iff split: option.splits declare_transaction.splits)

lemma tx_declare_v0v1_stuck:
  assumes "tx_declare_v0v1 M s h tx class_hash = Some r"
  shows "\<not> (((\<exists>d. tx = DeclareV0 d) \<or> (\<exists>d. tx = DeclareV1 d))
    \<and> contract_class_by_class_hash (override_at s h) h class_hash \<noteq> None)"
  by (rule tx_declare_v0v1.raw_induct [OF _ assms]) (fastforce split: option.splits declare_transaction.splits)

text \<open>The class hash that a declare transaction names has a class in the state of the block.\<close>

definition class_stored :: "stx_getters \<Rightarrow> ('db, 'd, 'cu, 'c, 'a) rpc_server \<Rightarrow> dhash \<Rightarrow> declare_transaction \<Rightarrow> bool" where
  "class_stored G s h tx =
    (contract_class_by_class_hash (override_at s h) h (gt_declare_class_hash G tx) \<noteq> None)"

lemma tx_declare_outcome:
  "tx_declare G M s h tx =
    (case tx of
       DeclareV3 _ \<Rightarrow> Some Panic
     | DeclareV2 _ \<Rightarrow> if default_class_compiles M (rs_felt s) then None else Some (Err (Api InternalServerError))
     | _ \<Rightarrow> if class_stored G s h tx then None else Some (Err (Api InternalServerError)))"
proof -
  let ?c = "gt_declare_class_hash G tx"
  have v2: "tx_declare_v2 M s tx ?c = (if default_class_compiles M (rs_felt s) then None
      else Some (Err (Api InternalServerError)))" if "tx = DeclareV2 d" for d
  proof (cases "default_class_compiles M (rs_felt s)")
    case True
    then show ?thesis using tx_declare_v2_stuck [of M s tx ?c] that by (cases "tx_declare_v2 M s tx ?c") auto
  next
    case False
    then show ?thesis
      by (subst tx_declare_v2.simps) (auto simp: default_class_compiles_def split: option.splits)
  qed
  have v01: "tx_declare_v0v1 M s h tx ?c = (if class_stored G s h tx then None
      else Some (Err (Api InternalServerError)))" if "tx = DeclareV0 d \<or> tx = DeclareV1 d" for d
  proof (cases "class_stored G s h tx")
    case True
    then show ?thesis using tx_declare_v0v1_stuck [of M s h tx ?c] that
      by (cases "tx_declare_v0v1 M s h tx ?c") (auto simp: class_stored_def)
  next
    case False
    then show ?thesis by (subst tx_declare_v0v1.simps) (simp add: class_stored_def)
  qed
  show ?thesis using v2 v01 by (cases tx) (auto simp: tx_declare_def)
qed

lemma tx_declare_never_converts: "tx_declare G M s h tx \<noteq> Some (Ok c)"
  by (simp add: tx_declare_outcome split: declare_transaction.splits)

lemma run_map_stops:
  assumes "\<forall>x \<in> set xs. \<exists>y. f x = Some (Ok y)" and "\<forall>y. f z \<noteq> Some (Ok y)"
  shows "run_map f (xs @ z # ys) = run_bind (f z) g"
  using assms
proof (induction xs)
  case Nil
  then show ?case by (auto simp: run_bind_def split: option.splits res.splits)
next
  case (Cons x xs)
  then obtain y where "f x = Some (Ok y)" by auto
  with Cons show ?case by (auto simp: run_bind_def split: option.splits res.splits)
qed

lemma position_Some_iff: "position x xs = Some i \<longleftrightarrow> i < length xs \<and> xs ! i = x \<and> (\<forall>j < i. xs ! j \<noteq> x)"
proof (induction xs arbitrary: i)
  case (Cons y ys)
  then show ?case by (cases i) (auto simp: nth_Cons less_Suc_eq_0_disj split: nat.splits)
qed simp

text \<open>The look-ups of a receipt succeed, and the transaction is the one at index \<open>i\<close> of the block.\<close>

definition receipt_found :: "('db, 'd, 'cu, 'c, 'a) rpc_server \<Rightarrow> felt \<Rightarrow> dhash \<Rightarrow> felt \<Rightarrow> deoxys_block \<Rightarrow> felt \<Rightarrow> dhash
    \<Rightarrow> nat \<Rightarrow> bool" where
  "receipt_found s c h t b f p i \<longleftrightarrow>
    block_of s h = Ok b \<and> hash_of s b = (Ok f :: (rpc_error, felt) res)
    \<and> previous_block_hash s (h_block_number (blk_header b)) = Ok p
    \<and> (\<exists>ts. tx_hashes_of s c b f = (Ok ts :: (rpc_error, felt list) res) \<and> position t ts = Some i)
    \<and> i < length (blk_transactions b) \<and> \<not> is_deploy (blk_transactions b ! i)"

lemma receipt_found_value:
  assumes "receipt_found s c h t b f p i"
  shows "get_transaction_receipt_finalized G M s rt c h t =
    run_bind (receipt_transactions G M s h c b (h_block_number (blk_header b)) i) (\<lambda>transactions.
    run_bind (Some (map_err (\<lambda>_. Api InternalServerError) (api_fee_token_addresses rt h))) (\<lambda>tokens.
    run_bind (Some (execution_infos rt p transactions (into_block_context (blk_header b) tokens SN_MAIN))) (\<lambda>infos.
    run_bind (Some (receipt_of s t (h_block_number (blk_header b)) (blk_transactions b ! i) infos)) (\<lambda>receipt.
    Some (Ok \<lparr> rb_receipt = receipt, rb_block_hash = f, rb_block_number = h_block_number (blk_header b) \<rparr>)))))"
  using assms by (auto simp: receipt_found_def get_transaction_receipt_finalized_def Let_def)

text \<open>C20: asking for the receipt of a transaction whose block has a declare transaction at or before it, the first one
  that is not converted, is never answered with a receipt. What happens depends on the version of the declare. Version 0
  or 1: if its class is stored the request does not return at all, and otherwise it is an internal error. Version 2: the
  stored class is not looked at; the request does not return if the stand-in class compiles, and otherwise it is an
  internal error. Version 3: a panic, whether its class is stored or not.\<close>

theorem declare_receipts_fail:
  assumes "receipt_found s c h t b f p i"
    and "j \<le> i" and "blk_transactions b ! j = Declare d"
    and "\<forall>k < j. is_deploy (blk_transactions b ! k)
      \<or> (\<exists>x. receipt_transaction G M s h c (h_block_number (blk_header b)) (blk_transactions b ! k) = Some (Ok x))"
  shows "get_transaction_receipt_finalized G M s rt c h t =
    (case d of
       DeclareV3 _ \<Rightarrow> Some Panic
     | DeclareV2 _ \<Rightarrow> if default_class_compiles M (rs_felt s) then None else Some (Err (Api InternalServerError))
     | _ \<Rightarrow> if class_stored G s h d then None else Some (Err (Api InternalServerError)))"
proof -
  let ?f = "receipt_transaction G M s h c (h_block_number (blk_header b))" and ?txs = "blk_transactions b"
  have len: "i < length ?txs" using assms(1) by (simp add: receipt_found_def)
  have "take (i + 1) ?txs = take j ?txs @ Declare d # drop (Suc j) (take (i + 1) ?txs)"
    using id_take_nth_drop [of j "take (i + 1) ?txs"] len assms(2,3) by (simp add: min_def)
  then have split: "filter (\<lambda>tx. \<not> is_deploy tx) (take (i + 1) ?txs) =
      filter (\<lambda>tx. \<not> is_deploy tx) (take j ?txs) @ Declare d # filter (\<lambda>tx. \<not> is_deploy tx) (drop (Suc j) (take (i + 1) ?txs))"
    by (metis (no_types, lifting) filter.simps(2) filter_append is_deploy.simps(1))
  have pre: "\<forall>x \<in> set (filter (\<lambda>tx. \<not> is_deploy tx) (take j ?txs)). \<exists>y. ?f x = Some (Ok y)"
  proof
    fix x
    assume "x \<in> set (filter (\<lambda>tx. \<not> is_deploy tx) (take j ?txs))"
    then obtain k where "k < j" "x = ?txs ! k" "\<not> is_deploy x" by (auto simp: in_set_conv_nth)
    with assms(4) show "\<exists>y. ?f x = Some (Ok y)" by blast
  qed
  have never: "\<forall>y. ?f (Declare d) \<noteq> Some (Ok y)"
    using tx_declare_never_converts [of G M s h d] by (simp add: receipt_transaction_def)
  have "receipt_transactions G M s h c b (h_block_number (blk_header b)) i = run_bind (tx_declare G M s h d) (\<lambda>_. Some Panic)"
    unfolding receipt_transactions_def split
    by (subst run_map_stops [OF pre never]) (simp add: receipt_transaction_def)
  then show ?thesis
    by (simp add: receipt_found_value [OF assms(1)] tx_declare_outcome split: declare_transaction.splits)
qed

text \<open>A node that has one block: its client, its state and an engine whose executions all make the same call.\<close>

definition exec_state :: "((bytes, casm_contract_class) blockifier_class, unit) pallet_state" where
  "exec_state = empty_storage
    \<lparr> ps_contract_classes := [9 \<mapsto> ClassV0 [] []], ps_contract_class_hashes := [1 \<mapsto> 9, 2 \<mapsto> 9] \<rparr>"

definition exec_server :: "alist_db \<Rightarrow> deoxys_block
    \<Rightarrow> (alist_db, bytes, unit, (bytes, casm_contract_class) blockifier_class, unit) rpc_server" where
  "exec_server db b =
    \<lparr> rs_rocks = alist_rocks, rs_codecs = ref_db_codecs, rs_cache = False, rs_db = db,
      rs_felt = ref_felt_lib, rs_crypto = ref_crypto, rs_hasher = PedersenHasher ref_felt_lib ref_crypto,
      rs_scale = one_block_lib b, rs_client = ref_client, rs_best_hash = 1, rs_best_number = 1,
      rs_number = (\<lambda>h. Ok (if h \<le> 1 then Some (ucast h) else None)),
      rs_hash = (\<lambda>n. Ok (if n \<le> 1 then Some (ucast n) else None)),
      rs_frame = \<lparr> twox_128 = (\<lambda>b. b), fr_enc_felt = (\<lambda>f. []), fr_dec_felt = (\<lambda>b. None), fr_enc_class = (\<lambda>c. []),
        fr_dec_class = (\<lambda>b. None), fr_enc_abi = (\<lambda>a. []), fr_dec_abi = (\<lambda>b. None), fr_enc_schema = (\<lambda>v. []),
        fr_dec_schema = (\<lambda>b. None) \<rparr>,
      rs_raw = (\<lambda>h k. Ok None),
      rs_overrides = \<lparr> schemas = Map.empty, fallback = runtime_api_override (\<lambda>h. Ok exec_state) \<rparr>,
      rs_tx_outcome = (\<lambda>h t. Ok None), rs_starting_block = 0, rs_best_seen = Ok None, rs_config_chain_id = Some 5,
      rs_pending_block = None, rs_pending_state_update = None, rs_highest = (0, 0), rs_l1_block_number = 0 \<rparr>"

definition class_hash_getters :: stx_getters where
  "class_hash_getters =
    \<lparr> gt_declare_sender = (\<lambda>_. 0), gt_declare_signature = (\<lambda>_. []), gt_declare_nonce = (\<lambda>_. 0),
      gt_deploy_account_salt = (\<lambda>_. 0), gt_deploy_account_signature = (\<lambda>_. []), gt_deploy_account_calldata = (\<lambda>_. []),
      gt_deploy_account_nonce = (\<lambda>_. 0), gt_invoke_sender = (\<lambda>_. 0), gt_invoke_signature = (\<lambda>_. []),
      gt_invoke_calldata = (\<lambda>_. []), gt_invoke_nonce = (\<lambda>_. 0),
      gt_declare_class_hash = (\<lambda>tx. case tx of
        DeclareV0 d \<Rightarrow> dc1_class_hash d | DeclareV1 d \<Rightarrow> dc1_class_hash d
      | DeclareV2 d \<Rightarrow> dc2_class_hash d | DeclareV3 d \<Rightarrow> dc3_class_hash d) \<rparr>"

definition exec_info :: tx_execution_info where
  "exec_info = \<lparr> tei_validate_call_info = None, tei_execute_call_info = Some (plain_call 1 [\<lparr> oev_order = 0, oev_keys = [10], oev_data = [11] \<rparr>] [] []),
     tei_fee_transfer_call_info = None, tei_actual_fee = 7, tei_da_gas = \<lparr> l1_gas = 0, l1_data_gas = 0 \<rparr>,
     tei_actual_resources = Map.empty, tei_revert_error = None \<rparr>"

definition exec_config :: pallet_config where
  "exec_config =
    \<lparr> cfg_l1_gas_prices = unit_gas_prices, cfg_chain_id = 5, cfg_program_hash = 0,
      cfg_system_hash = PedersenHasher ref_felt_lib ref_crypto, cfg_now = 0, cfg_unsigned_priority = 0,
      cfg_transaction_longevity = 0, cfg_disable_transaction_fee = False, cfg_disable_nonce_validation = False,
      cfg_invoke_tx_max_n_steps = 0, cfg_validate_max_n_steps = 0, cfg_protocol_version = 0,
      cfg_max_recursion_depth = 0 \<rparr>"

definition exec_rt :: "((bytes, casm_contract_class) blockifier_class, unit, unit, nat account_transaction,
    l1_handler_exec, unit) exec_runtime" where
  "exec_rt =
    \<lparr> rt_state = (\<lambda>h. Ok exec_state),
      rt_engine = (\<lambda>h. \<lparr> eng_new = (\<lambda>_. ()), eng_execute_account = (\<lambda>x s ctx c v. Ok (exec_info, s)),
        eng_execute_message = (\<lambda>m s ctx c v. Ok (exec_info, s)), eng_account_fee_type = (\<lambda>_. Eth),
        eng_message_fee_type = (\<lambda>_. Eth), eng_minimal_gas = (\<lambda>_ _. Err ()), eng_calculate_tx_fee = (\<lambda>_ _ _. Err ()) \<rparr>),
      rt_config = exec_config, rt_layer = True, rt_context_ok = True, rt_execute_call = (\<lambda>_ _ _ _ _. Err ()) \<rparr>"

lemma exec_server_block: "block_of (exec_server db b) 1 = Ok b"
  by (simp add: block_of_def exec_server_def get_block_by_block_hash_def ref_client_def find_starknet_block_def
      find_log_def find_log_in_def find_log_step_def one_block_lib_def)

lemma exec_server_hash: "\<exists>f. hash_of (exec_server db b) b = Ok f"
  by (simp add: hash_of_def exec_server_def header_hash_value [OF ref_felt_codec])

lemma exec_server_previous: "previous_block_hash (exec_server db b) 1 = Ok 0"
  by (simp add: previous_block_hash_def substrate_block_hash_from_starknet_block_def exec_server_def saturate_u32_def)

lemma exec_server_tx_hashes: "tx_hashes_of (exec_server db b) c b f = tx_hash_compute (exec_server db b) b c"
  by (simp add: tx_hashes_of_def get_cached_transaction_hashes_def cached_transaction_hashes_from_block_hash_def
      exec_server_def get_column_def alist_rocks_def Column_ALL_def)

lemma exec_server_override: "override_at (exec_server db b) h = runtime_api_override (\<lambda>h. Ok exec_state)"
  by (simp add: exec_server_def for_block_hash_def for_schema_version_def)

definition declare_block :: deoxys_block where
  "declare_block = deoxys_block_new (sample_header 1 7)
    [Declare (DeclareV1 \<lparr> dc1_max_fee = 0, dc1_signature = [], dc1_nonce = 0, dc1_class_hash = 9,
      dc1_sender_address = 1 \<rparr>)] []"

lemma declare_block_txs:
  "blk_transactions declare_block = [Declare (DeclareV1 \<lparr> dc1_max_fee = 0, dc1_signature = [], dc1_nonce = 0,
    dc1_class_hash = 9, dc1_sender_address = 1 \<rparr>)]"
  by (simp add: declare_block_def deoxys_block_new_def)

theorem declare_receipts_fail_witness:
  "\<exists>t. get_transaction_receipt_finalized class_hash_getters ref_class_lib (exec_server [] declare_block)
    exec_rt 5 1 t = None"
proof -
  let ?s = "exec_server [] declare_block" and ?b = declare_block
  obtain f :: felt where f: "hash_of ?s ?b = (Ok f :: (rpc_error, felt) res)" using exec_server_hash by metis
  obtain t where t: "tx_hash_compute ?s ?b 5 = (Ok [t] :: (rpc_error, felt list) res)"
    by (auto simp: tx_hash_compute_def exec_server_def transactions_hashes_def declare_block_def deoxys_block_new_def
        compute_hash_value [OF ref_felt_codec])
  have "receipt_found ?s 5 1 t ?b f 0 0"
    using f t exec_server_previous [of "[]" ?b] exec_server_block [of "[]" ?b]
    by (simp add: receipt_found_def exec_server_tx_hashes declare_block_def deoxys_block_new_def sample_header_def
        header_new_def)
  from declare_receipts_fail [OF this, of 0 _ class_hash_getters ref_class_lib exec_rt]
  have "get_transaction_receipt_finalized class_hash_getters ref_class_lib ?s exec_rt 5 1 t = None"
    by (simp add: declare_block_txs class_stored_def exec_server_override class_hash_getters_def
        runtime_api_override_def api_class_by_class_hash_def exec_state_def)
  then show ?thesis by blast
qed

end
