(* ===== verification/RpcTraces.thy ===== *)
theory RpcTraces
  imports RpcReceipts
begin

text \<open>
  Traces over the RPC, \<open>crates/client/rpc/src/methods/trace\<close>: the conversion of call trees to function invocations
  (\<open>utils.rs\<close>), \<open>trace_block_transactions.rs\<close>, \<open>trace_transaction.rs\<close> and \<open>simulate_transactions.rs\<close>. The theorems say
  that the cache of class hashes never changes a trace, and that tracing one transaction gives what tracing its
  block gives for it.
\<close>

section \<open>Function invocations\<close>

record rpc_ordered_message =
  rom_order :: "64 word"
  rom_payload :: "felt list"
  rom_to_address :: felt
  rom_from_address :: felt

record rpc_ordered_event =
  roe_order :: "64 word"
  roe_keys :: "felt list"
  roe_data :: "felt list"

datatype function_invocation = FunctionInvocation
  (fi_contract_address: felt) (fi_entry_point_selector: felt) (fi_calldata: "felt list") (fi_caller_address: felt)
  (fi_class_hash: felt) (fi_entry_point_type: entry_point_type) (fi_call_type: call_type) (fi_result: "felt list")
  (fi_calls: "function_invocation list") (fi_events: "rpc_ordered_event list") (fi_messages: "rpc_ordered_message list")
  (fi_execution_resources: computation_resources)

datatype invocation_error = InvocationContractNotFound

datatype convert_call_info_error = SimulatedTransactionFailed | GetFunctionInvocation invocation_error

primrec rpc_error_of_call_info :: "convert_call_info_error \<Rightarrow> rpc_api_error" where
  "rpc_error_of_call_info SimulatedTransactionFailed = ContractErr"
| "rpc_error_of_call_info (GetFunctionInvocation _) = InternalServerError"

definition collect_call_info_ordered_messages :: "felt_lib \<Rightarrow> call_entry_point \<Rightarrow> ordered_message list
    \<Rightarrow> ('e, rpc_ordered_message list) res" where
  "collect_call_info_ordered_messages L call messages =
    try_map (\<lambda>(index, message).
      res_bind (unwrap (fe_from_byte_slice_be L (omsg_to_address message))) (\<lambda>to_address.
      Ok \<lparr> rom_order = of_nat index, rom_payload = map (\<lambda>x. x) (omsg_payload message), rom_to_address = to_address,
           rom_from_address = ce_storage_address call \<rparr>)) (List.enumerate 0 messages)"

definition blockifier_to_starknet_rs_ordered_events :: "felt_lib \<Rightarrow> ordered_event list
    \<Rightarrow> ('e, rpc_ordered_event list) res" where
  "blockifier_to_starknet_rs_ordered_events L ordered_events =
    try_map (\<lambda>event.
      res_bind (try_map (\<lambda>key. unwrap (fe_from_byte_slice_be L (stark_bytes L key))) (oev_keys event)) (\<lambda>keys.
      res_bind (try_map (\<lambda>item. unwrap (fe_from_byte_slice_be L (stark_bytes L item))) (oev_data event)) (\<lambda>data.
      Ok \<lparr> roe_order = of_nat (oev_order event), roe_keys = keys, roe_data = data \<rparr>))) ordered_events"

text \<open>The class hash of a call: the one blockifier gives, the cached one, or the one of the storage, which is then
  cached.\<close>

definition call_class_hash :: "felt_lib \<Rightarrow> (felt \<Rightarrow> felt option) \<Rightarrow> call_entry_point \<Rightarrow> (felt \<rightharpoonup> felt)
    \<Rightarrow> (invocation_error, felt \<times> (felt \<rightharpoonup> felt)) res" where
  "call_class_hash L class_hash_at call class_hash_cache =
    (case ce_class_hash call of
       Some class_hash \<Rightarrow> Ok (class_hash, class_hash_cache)
     | None \<Rightarrow>
         (case class_hash_cache (ce_storage_address call) of
            Some cached_hash \<Rightarrow> Ok (cached_hash, class_hash_cache)
          | None \<Rightarrow>
              res_bind (ok_or InvocationContractNotFound (class_hash_at (ce_storage_address call))) (\<lambda>computed_hash.
              res_bind (unwrap (fe_from_byte_slice_be L (stark_bytes L computed_hash))) (\<lambda>computed_hash.
              Ok (computed_hash, class_hash_cache(ce_storage_address call \<mapsto> computed_hash))))))"

fun try_get_funtion_invocation_from_call_info :: "felt_lib \<Rightarrow> (felt \<Rightarrow> felt option) \<Rightarrow> call_info \<Rightarrow> (felt \<rightharpoonup> felt)
      \<Rightarrow> (invocation_error, function_invocation \<times> (felt \<rightharpoonup> felt)) res"
  and inner_invocations :: "felt_lib \<Rightarrow> (felt \<Rightarrow> felt option) \<Rightarrow> call_info list \<Rightarrow> (felt \<rightharpoonup> felt)
      \<Rightarrow> (invocation_error, function_invocation list \<times> (felt \<rightharpoonup> felt)) res" where
  "try_get_funtion_invocation_from_call_info L class_hash_at (CallInfo call retdata events messages gas resources inner)
      class_hash_cache =
    res_bind (collect_call_info_ordered_messages L call messages) (\<lambda>messages.
    res_bind (blockifier_to_starknet_rs_ordered_events L events) (\<lambda>events.
    res_bind (inner_invocations L class_hash_at inner class_hash_cache) (\<lambda>(inner_calls, class_hash_cache).
    res_bind (call_class_hash L class_hash_at call class_hash_cache) (\<lambda>(class_hash, class_hash_cache).
    Ok (FunctionInvocation (ce_storage_address call) (ce_entry_point_selector call) (ce_calldata call)
          (ce_caller_address call) class_hash (ce_entry_point_type call) (ce_call_type call) retdata inner_calls events
          messages no_computation, class_hash_cache)))))"
| "inner_invocations L class_hash_at [] class_hash_cache = Ok ([], class_hash_cache)"
| "inner_invocations L class_hash_at (call # calls) class_hash_cache =
    res_bind (try_get_funtion_invocation_from_call_info L class_hash_at call class_hash_cache)
      (\<lambda>(invocation, class_hash_cache).
    res_bind (inner_invocations L class_hash_at calls class_hash_cache) (\<lambda>(invocations, class_hash_cache).
    Ok (invocation # invocations, class_hash_cache)))"

section \<open>Traces of transactions\<close>

datatype execute_invocation = InvocationReverted string | InvocationSuccess function_invocation

text \<open>Validation, execution and fee transfer; the state difference is always absent and the resources are always
  zero.\<close>

datatype transaction_trace =
  InvokeTrace "function_invocation option" execute_invocation "function_invocation option"
    "core_state_diff option" execution_resources
| DeclareTrace "function_invocation option" "function_invocation option" "core_state_diff option" execution_resources
| DeployAccountTrace "function_invocation option" function_invocation "function_invocation option"
    "core_state_diff option" execution_resources
| L1HandlerTrace function_invocation "core_state_diff option" execution_resources

definition optional_invocation :: "felt_lib \<Rightarrow> (felt \<Rightarrow> felt option) \<Rightarrow> call_info option \<Rightarrow> (felt \<rightharpoonup> felt)
    \<Rightarrow> (invocation_error, function_invocation option \<times> (felt \<rightharpoonup> felt)) res" where
  "optional_invocation L class_hash_at call_info class_hash_cache =
    (case call_info of
       None \<Rightarrow> Ok (None, class_hash_cache)
     | Some call_info \<Rightarrow> map_ok (map_prod Some (\<lambda>c. c))
         (try_get_funtion_invocation_from_call_info L class_hash_at call_info class_hash_cache))"

definition executed_invocation :: "felt_lib \<Rightarrow> (felt \<Rightarrow> felt option) \<Rightarrow> tx_execution_info \<Rightarrow> (felt \<rightharpoonup> felt)
    \<Rightarrow> (invocation_error, function_invocation) res" where
  "executed_invocation L class_hash_at tx_exec_info class_hash_cache =
    res_bind (unwrap_opt (tei_execute_call_info tx_exec_info)) (\<lambda>call_info.
    map_ok fst (try_get_funtion_invocation_from_call_info L class_hash_at call_info class_hash_cache))"

definition tx_execution_infos_to_tx_trace :: "felt_lib \<Rightarrow> (felt \<Rightarrow> felt option) \<Rightarrow> tx_type \<Rightarrow> tx_execution_info
    \<Rightarrow> (convert_call_info_error, transaction_trace) res" where
  "tx_execution_infos_to_tx_trace L class_hash_at ty tx_exec_info =
    map_err GetFunctionInvocation
      (res_bind (optional_invocation L class_hash_at (tei_validate_call_info tx_exec_info) Map.empty)
        (\<lambda>(validate_invocation, class_hash_cache).
       res_bind (optional_invocation L class_hash_at (tei_fee_transfer_call_info tx_exec_info) class_hash_cache)
        (\<lambda>(fee_transfer_invocation, class_hash_cache).
       case ty of
         TxInvoke \<Rightarrow>
           res_bind
             (case tei_revert_error tx_exec_info of
                Some e \<Rightarrow> Ok (InvocationReverted e)
              | None \<Rightarrow> map_ok InvocationSuccess (executed_invocation L class_hash_at tx_exec_info class_hash_cache))
             (\<lambda>execute_invocation.
           Ok (InvokeTrace validate_invocation execute_invocation fee_transfer_invocation None no_resources))
       | TxDeclare \<Rightarrow> Ok (DeclareTrace validate_invocation fee_transfer_invocation None no_resources)
       | TxDeployAccount \<Rightarrow>
           res_bind (executed_invocation L class_hash_at tx_exec_info class_hash_cache) (\<lambda>constructor_invocation.
           Ok (DeployAccountTrace validate_invocation constructor_invocation fee_transfer_invocation None no_resources))
       | TxL1Handler \<Rightarrow>
           res_bind (executed_invocation L class_hash_at tx_exec_info class_hash_cache) (\<lambda>function_invocation.
           Ok (L1HandlerTrace function_invocation None no_resources)))))"

section \<open>The transactions of a block\<close>

definition account_declare_of :: "('abi, 'rabi, 'lprog, 'prog, 'v1, 'ci) class_lib \<Rightarrow> declare_transaction \<Rightarrow> felt panicking
    \<Rightarrow> ('prog, 'v1) blockifier_class \<Rightarrow> (rpc_api_error, 'ci btx) res" where
  "account_declare_of M declare_tx tx_hash contract_class =
    res_bind (unwrap_opt (class_info_new M contract_class 10 10)) (\<lambda>class_info.
    res_bind (unwrap tx_hash) (\<lambda>tx_hash.
    if declare_new_ok M declare_tx tx_hash class_info
    then Ok (AccountTransaction (AccountDeclare declare_tx tx_hash class_info)) else Panic))"

definition convert_transaction :: "stx_getters \<Rightarrow> ('abi, 'rabi, 'lprog, 'prog, 'v1, 'ci) class_lib
    \<Rightarrow> ('db, 'd, 'cu, ('prog, 'v1) blockifier_class, 'a) rpc_server \<Rightarrow> dhash \<Rightarrow> felt \<Rightarrow> 64 word \<Rightarrow> transaction
    \<Rightarrow> (rpc_api_error, 'ci btx) res" where
  "convert_transaction G M s substrate_block_hash chain_id block_number tx =
    (case tx of
       Invoke invoke_tx \<Rightarrow>
         res_bind (unwrap (invoke_compute_hash (rs_felt s) (rs_crypto s) (rs_hasher s) invoke_tx chain_id False
           (Some block_number))) (\<lambda>tx_hash. Ok (AccountTransaction (AccountInvoke invoke_tx tx_hash)))
     | DeployAccount deploy_account_tx \<Rightarrow>
         res_bind (unwrap (deploy_account_compute_hash (rs_felt s) (rs_crypto s) (rs_hasher s) deploy_account_tx chain_id
           False (Some block_number))) (\<lambda>tx_hash. Ok (AccountTransaction (AccountDeployAccount deploy_account_tx tx_hash 0)))
     | Declare declare_tx \<Rightarrow>
         (let class_hash = gt_declare_class_hash G declare_tx;
              tx_hash = declare_compute_hash (rs_felt s) (rs_crypto s) (rs_hasher s) declare_tx chain_id False
                (Some block_number);
              stored = res_bind (ok_or InternalServerError
                (contract_class_by_class_hash (override_at s substrate_block_hash) substrate_block_hash class_hash))
                (account_declare_of M declare_tx tx_hash)
          in case declare_tx of
               DeclareV0 _ \<Rightarrow> stored
             | DeclareV1 _ \<Rightarrow> stored
             | DeclareV2 _ \<Rightarrow>
                 res_bind (ok_or InternalServerError (sierra_to_casm_contract_class (rs_felt s) M default_contract_class)) (\<lambda>contract_class.
                 res_bind (ok_or InternalServerError (class_v1_try_from M contract_class)) (\<lambda>contract_class.
                 account_declare_of M declare_tx tx_hash (ClassV1 contract_class)))
             | DeclareV3 _ \<Rightarrow> Panic)
     | L1Handler handle_l1_message_tx \<Rightarrow>
         res_bind (unwrap (l1_handler_compute_hash (rs_felt s) (rs_crypto s) (rs_hasher s) handle_l1_message_tx chain_id
           False (Some block_number))) (\<lambda>tx_hash.
         res_bind (map_err (\<lambda>_. InternalServerError)
           (get_fee_paid_for_l1_handler_tx (rs_rocks s) (rs_codecs s) (rs_db s) tx_hash)) (\<lambda>paid_fee_on_l1.
         Ok (L1HandlerTransaction
           \<lparr> lx_tx = handle_l1_message_tx, lx_tx_hash = tx_hash, lx_paid_fee_on_l1 = paid_fee_on_l1 \<rparr>)))
     | Deploy _ \<Rightarrow> Panic)"

text \<open>The loop ends at the transaction to trace, if there is one.\<close>

fun convert_until :: "(transaction \<Rightarrow> ('e, felt) res) \<Rightarrow> (transaction \<Rightarrow> ('e, 't) res) \<Rightarrow> felt option \<Rightarrow> transaction list
    \<Rightarrow> ('e, 't list \<times> 't list) res" where
  "convert_until hash_of_tx convert target [] = Ok ([], [])"
| "convert_until hash_of_tx convert target (tx # txs) =
    res_bind (hash_of_tx tx) (\<lambda>current_tx_hash.
    if Some current_tx_hash = target
    then res_bind (convert tx) (\<lambda>converted_tx. Ok ([], [converted_tx]))
    else res_bind (convert tx) (\<lambda>converted_tx.
         res_bind (convert_until hash_of_tx convert target txs) (\<lambda>(transactions, transaction_to_trace).
         Ok (converted_tx # transactions, transaction_to_trace))))"

definition map_transaction_to_user_transaction :: "stx_getters \<Rightarrow> ('abi, 'rabi, 'lprog, 'prog, 'v1, 'ci) class_lib
    \<Rightarrow> ('db, 'd, 'cu, ('prog, 'v1) blockifier_class, 'a) rpc_server \<Rightarrow> deoxys_block \<Rightarrow> dhash \<Rightarrow> felt \<Rightarrow> felt option
    \<Rightarrow> (rpc_api_error, 'ci btx list \<times> 'ci btx list) res" where
  "map_transaction_to_user_transaction G M s starknet_block substrate_block_hash chain_id target_transaction_hash =
    (let block_number = h_block_number (blk_header starknet_block)
     in convert_until
          (\<lambda>tx. unwrap (compute_hash (rs_felt s) (rs_crypto s) (rs_hasher s) tx chain_id False (Some block_number)))
          (convert_transaction G M s substrate_block_hash chain_id block_number) target_transaction_hash
          (blk_transactions starknet_block))"

definition get_previous_block_substrate_hash :: "('db, 'd, 'cu, 'c, 'a) rpc_server \<Rightarrow> dhash \<Rightarrow> (rpc_api_error, dhash) res" where
  "get_previous_block_substrate_hash s substrate_block_hash =
    res_bind (map_err (\<lambda>_. InternalServerError) (block_of s substrate_block_hash)) (\<lambda>starknet_block.
    let previous_block_number = h_block_number (blk_header starknet_block) - 1;
        previous_block_number = (if previous_block_number = 0 then 0 else previous_block_number)
    in map_err (\<lambda>_. InternalServerError)
        (substrate_block_hash_from_starknet_block s (BlockNumber previous_block_number)))"

primrec tx_type_from :: "'ci btx \<Rightarrow> tx_type" where
  "tx_type_from (AccountTransaction tx) = account_tx_type tx"
| "tx_type_from (L1HandlerTransaction tx) = TxL1Handler"

primrec btx_hash :: "'ci btx \<Rightarrow> felt option" where
  "btx_hash (AccountTransaction tx) = account_tx_hash tx"
| "btx_hash (L1HandlerTransaction tx) = Some (lx_tx_hash tx)"

section \<open>Trace methods\<close>

record trace_with_hash =
  twh_transaction_hash :: felt
  twh_trace_root :: transaction_trace

definition class_hash_at_block :: "('db, 'd, 'cu, 'c, 'a) rpc_server \<Rightarrow> dhash \<Rightarrow> felt \<Rightarrow> felt option" where
  "class_hash_at_block s h address = contract_class_hash_by_address (override_at s h) h address"

definition traces_of :: "felt_lib \<Rightarrow> (felt \<Rightarrow> felt option) \<Rightarrow> 'ci btx list \<Rightarrow> tx_execution_info list
    \<Rightarrow> (convert_call_info_error, trace_with_hash list) res" where
  "traces_of L class_hash_at block_transactions infos =
    try_map (\<lambda>(tx_idx, tx_exec_info).
      res_bind (unwrap_opt (if tx_idx < length block_transactions then Some (block_transactions ! tx_idx) else None)) (\<lambda>tx.
      res_bind (tx_execution_infos_to_tx_trace L class_hash_at (tx_type_from tx) tx_exec_info) (\<lambda>trace_root.
      res_bind (unwrap_opt (btx_hash tx)) (\<lambda>transaction_hash.
      Ok \<lparr> twh_transaction_hash = transaction_hash, twh_trace_root = trace_root \<rparr>))))
      (List.enumerate 0 infos)"

definition rpc_trace_block_transactions :: "stx_getters \<Rightarrow> ('abi, 'rabi, 'lprog, 'prog, 'v1, 'ci) class_lib
    \<Rightarrow> ('db, 'd, 'cu, ('prog, 'v1) blockifier_class, 'a) rpc_server
    \<Rightarrow> (('prog, 'v1) blockifier_class, 'a, 's, 'ci account_transaction, l1_handler_exec, 'e) exec_runtime
    \<Rightarrow> block_id \<Rightarrow> (rpc_error, trace_with_hash list) res" where
  "rpc_trace_block_transactions G M s rt block_id =
    res_bind (substrate_hash s block_id) (\<lambda>substrate_block_hash.
    res_bind (map_err (\<lambda>_. Api InternalServerError) (block_of s substrate_block_hash)) (\<lambda>starknet_block.
    res_bind (rpc_chain_id s) (\<lambda>chain_id.
    res_bind (map_err Api (map_transaction_to_user_transaction G M s starknet_block substrate_block_hash chain_id None))
      (\<lambda>(block_transactions, empty_transactions).
    res_bind (map_err Api (get_previous_block_substrate_hash s substrate_block_hash)) (\<lambda>previous_block_substrate_hash.
    res_bind (map_err (\<lambda>_. Api InternalServerError) (api_fee_token_addresses rt substrate_block_hash)) (\<lambda>fee_token_address.
    res_bind (map_err Lookup (block_of s substrate_block_hash)) (\<lambda>block.
    let block_context = into_block_context (blk_header block) fee_token_address SN_MAIN
    in res_bind (api_result (Api InternalServerError) (Api InternalServerError)
        (api_re_execute_transactions rt previous_block_substrate_hash empty_transactions block_transactions block_context))
      (\<lambda>execution_infos.
    map_err (\<lambda>e. Api (rpc_error_of_call_info e))
      (traces_of (rs_felt s) (class_hash_at_block s substrate_block_hash) block_transactions execution_infos)))))))))"

definition rpc_trace_transaction :: "stx_getters \<Rightarrow> ('abi, 'rabi, 'lprog, 'prog, 'v1, 'ci) class_lib
    \<Rightarrow> ('db, 'd, 'cu, ('prog, 'v1) blockifier_class, 'a) rpc_server
    \<Rightarrow> (('prog, 'v1) blockifier_class, 'a, 's, 'ci account_transaction, l1_handler_exec, 'e) exec_runtime
    \<Rightarrow> felt \<Rightarrow> (rpc_error, trace_with_hash) res" where
  "rpc_trace_transaction G M s rt transaction_hash =
    res_bind (transaction_block s transaction_hash) (\<lambda>substrate_block_hash.
    res_bind (map_err Lookup (block_of s substrate_block_hash)) (\<lambda>starknet_block.
    res_bind (rpc_chain_id s) (\<lambda>chain_id.
    res_bind (map_err Api (map_transaction_to_user_transaction G M s starknet_block substrate_block_hash chain_id
      (Some transaction_hash))) (\<lambda>(txs_to_execute_before, tx_to_trace).
    res_bind (map_err Api (get_previous_block_substrate_hash s substrate_block_hash)) (\<lambda>previous_block_substrate_hash.
    res_bind (map_err (\<lambda>_. Api InternalServerError) (api_fee_token_addresses rt substrate_block_hash)) (\<lambda>fee_token_address.
    let block_context = into_block_context (blk_header starknet_block) fee_token_address SN_MAIN
    in res_bind (api_result (Api InternalServerError) (Api InternalServerError)
        (api_re_execute_transactions rt previous_block_substrate_hash txs_to_execute_before tx_to_trace block_context))
      (\<lambda>execution_infos.
    res_bind (rpc_chain_id s) (\<lambda>_.
    res_bind (unwrap_opt (case tx_to_trace of tx # _ \<Rightarrow> Some tx | [] \<Rightarrow> None)) (\<lambda>tx.
    res_bind (unwrap_opt (case execution_infos of info # _ \<Rightarrow> Some info | [] \<Rightarrow> None)) (\<lambda>info.
    res_bind (unwrap (tx_execution_infos_to_tx_trace (rs_felt s) (class_hash_at_block s substrate_block_hash)
      (tx_type_from tx) info)) (\<lambda>trace.
    Ok \<lparr> twh_transaction_hash = transaction_hash, twh_trace_root = trace \<rparr>)))))))))))"

section \<open>Simulation\<close>

record simulated_transaction =
  stx_trace :: transaction_trace
  stx_fee :: rpc_fee_estimate

primrec broadcast_tx_type :: "'abi broadcasted_transaction \<Rightarrow> tx_type" where
  "broadcast_tx_type (BroadcastedInvoke _) = TxInvoke"
| "broadcast_tx_type (BroadcastedDeclare _) = TxDeclare"
| "broadcast_tx_type (BroadcastedDeployAccount _) = TxDeployAccount"

definition simulated_fee :: "felt_lib \<Rightarrow> tx_execution_info \<Rightarrow> rpc_fee_estimate" where
  "simulated_fee L tx_exec_info =
    (let gas = (case tei_execute_call_info tx_exec_info of Some x \<Rightarrow> ci_gas_consumed x | None \<Rightarrow> 0);
         fee = tei_actual_fee tx_exec_info;
         price = (if gas > 0 then fee div ucast gas else 0)
     in \<lparr> rfe_gas_consumed = fe_from_u64 L gas, rfe_gas_price = fe_from_u128 L price,
          rfe_data_gas_consumed = fe_from_u128 L (l1_data_gas (tei_da_gas tx_exec_info)),
          rfe_data_gas_price = fe_from_u128 L (l1_gas (tei_da_gas tx_exec_info)),
          rfe_overall_fee = fe_from_u128 L fee, rfe_unit = RpcWei \<rparr>)"

fun tx_execution_infos_to_simulated_transactions :: "felt_lib \<Rightarrow> (felt \<Rightarrow> felt option) \<Rightarrow> tx_type list
    \<Rightarrow> (place_holder_error, tx_execution_info) res list \<Rightarrow> (convert_call_info_error, simulated_transaction list) res" where
  "tx_execution_infos_to_simulated_transactions L class_hash_at (ty # tys) (r # rs) =
    (case r of
       Ok tx_exec_info \<Rightarrow>
         res_bind (tx_execution_infos_to_tx_trace L class_hash_at ty tx_exec_info) (\<lambda>transaction_trace.
         res_bind (tx_execution_infos_to_simulated_transactions L class_hash_at tys rs) (\<lambda>results.
         Ok (\<lparr> stx_trace = transaction_trace, stx_fee = simulated_fee L tx_exec_info \<rparr> # results)))
     | Err _ \<Rightarrow> Err SimulatedTransactionFailed
     | Panic \<Rightarrow> Panic)"
| "tx_execution_infos_to_simulated_transactions L class_hash_at _ _ = Ok []"

definition rpc_simulate_transactions :: "('abi, 'rabi, 'lprog, 'prog, 'v1, 'ci) class_lib \<Rightarrow> ('db, 'd, 'cu, 'c, 'a) rpc_server
    \<Rightarrow> ('c, 'a, 's, 'ci account_transaction, 'm, 'e) exec_runtime \<Rightarrow> block_id \<Rightarrow> 'abi broadcasted_transaction list
    \<Rightarrow> simulation_flag list \<Rightarrow> (rpc_error, simulated_transaction list) res" where
  "rpc_simulate_transactions M s rt block_id transactions simulation_flags =
    res_bind (substrate_hash s block_id) (\<lambda>substrate_block_hash.
    res_bind (map_err (\<lambda>_. Api InternalServerError)
      (try_map (\<lambda>tx. map_ok (Pair (broadcast_tx_type tx)) (to_account_transaction (rs_felt s) (rs_crypto s) M tx)) transactions))
      (\<lambda>pairs.
    let (tx_types, user_transactions) = (map fst pairs, map snd pairs);
        simulation_flags = simulation_flags_from simulation_flags
    in res_bind (api_result (Api InternalServerError) (Api ContractErr)
        (api_simulate_transactions (rs_felt s) rt substrate_block_hash user_transactions simulation_flags)) (\<lambda>res.
    map_err (\<lambda>e. Api (rpc_error_of_call_info e))
      (tx_execution_infos_to_simulated_transactions (rs_felt s) (class_hash_at_block s substrate_block_hash) tx_types res))))"

section \<open>What an invocation shows\<close>

text \<open>Every call of the tree has a class, given or in the storage.\<close>

fun resolvable :: "(felt \<Rightarrow> felt option) \<Rightarrow> call_info \<Rightarrow> bool" where
  "resolvable at (CallInfo call retdata events messages gas resources inner) \<longleftrightarrow>
    (ce_class_hash call \<noteq> None \<or> at (ce_storage_address call) \<noteq> None) \<and> list_all (resolvable at) inner"

text \<open>Addresses of L1 have twenty bytes.\<close>

fun l1_addresses :: "call_info \<Rightarrow> bool" where
  "l1_addresses (CallInfo call retdata events messages gas resources inner) \<longleftrightarrow>
    list_all (\<lambda>m. length (omsg_to_address m) = 20) messages \<and> list_all l1_addresses inner"

definition shown_event :: "ordered_event \<Rightarrow> rpc_ordered_event" where
  "shown_event e = \<lparr> roe_order = of_nat (oev_order e), roe_keys = oev_keys e, roe_data = oev_data e \<rparr>"

definition reported_message :: "felt \<Rightarrow> ordered_message \<Rightarrow> rpc_ordered_message" where
  "reported_message address m = \<lparr> rom_order = of_nat (omsg_order m), rom_payload = omsg_payload m,
     rom_to_address = felt_of_nat (be_nat (omsg_to_address m)), rom_from_address = address \<rparr>"

text \<open>A message is shown as the engine reported it, except that its order is its position in its call.\<close>

definition shown_message :: "felt \<Rightarrow> nat \<times> ordered_message \<Rightarrow> rpc_ordered_message" where
  "shown_message address im = (reported_message address (snd im))\<lparr>rom_order := of_nat (fst im)\<rparr>"

text \<open>The reference: each call with the class it runs, without a cache.\<close>

fun shown_call :: "(felt \<Rightarrow> felt option) \<Rightarrow> call_info \<Rightarrow> function_invocation" where
  "shown_call at (CallInfo call retdata events messages gas resources inner) =
    FunctionInvocation (ce_storage_address call) (ce_entry_point_selector call) (ce_calldata call) (ce_caller_address call)
      (case ce_class_hash call of Some c \<Rightarrow> c | None \<Rightarrow> the (at (ce_storage_address call)))
      (ce_entry_point_type call) (ce_call_type call) retdata (map (shown_call at) inner) (map shown_event events)
      (map (shown_message (ce_storage_address call)) (List.enumerate 0 messages)) no_computation"

definition cache_ok :: "(felt \<Rightarrow> felt option) \<Rightarrow> (felt \<rightharpoonup> felt) \<Rightarrow> bool" where
  "cache_ok at cache \<longleftrightarrow> (\<forall>a c. cache a = Some c \<longrightarrow> at a = Some c)"

lemma cache_ok_empty: "cache_ok at Map.empty"
  by (simp add: cache_ok_def)

lemma try_map_all_nth:
  "length ys = length xs \<Longrightarrow> (\<And>i. i < length xs \<Longrightarrow> f (xs ! i) = Ok (ys ! i)) \<Longrightarrow> try_map f xs = Ok ys"
proof (induction xs arbitrary: ys)
  case (Cons x xs)
  then obtain y ys' where ys: "ys = y # ys'" by (cases ys) auto
  have "f x = Ok y" using Cons.prems(2) [of 0] ys by simp
  moreover have "f (xs ! i) = Ok (ys' ! i)" if "i < length xs" for i using Cons.prems(2) [of "Suc i"] ys that by simp
  ultimately show ?case using Cons ys by simp
qed simp

lemma stark_read:
  assumes "felt_codec L"
  shows "fe_from_byte_slice_be L (stark_bytes L x) = Ok x"
  using felt_codec.slice_roundtrip [OF assms, of x]
  by (simp add: try_from_slice_def felt_codec.stark_bytes [OF assms] split: res.splits from_byte_slice_error.splits)

lemma events_shown:
  assumes "felt_codec L"
  shows "blockifier_to_starknet_rs_ordered_events L events = Ok (map shown_event events)"
  unfolding blockifier_to_starknet_rs_ordered_events_def
  by (rule try_map_all_ok) (simp add: stark_read [OF assms] try_map_all_ok [where g = "\<lambda>x. x"] shown_event_def)

lemma messages_shown:
  assumes "felt_codec L" and "list_all (\<lambda>m. length (omsg_to_address m) = 20) messages"
  shows "collect_call_info_ordered_messages L call messages =
    Ok (map (shown_message (ce_storage_address call)) (List.enumerate 0 messages))"
  unfolding collect_call_info_ordered_messages_def
proof (rule try_map_all_ok)
  fix im
  assume "im \<in> set (List.enumerate 0 messages)"
  then have "snd im \<in> set messages" by (auto simp: in_set_enumerate_eq) (metis nth_mem)
  then obtain i m where im: "im = (i, m)" "m \<in> set messages" by (metis prod.collapse)
  then have "length (omsg_to_address m) = 20" using assms(2) by (simp add: list_all_iff)
  then show "(case im of (index, message) \<Rightarrow>
      res_bind (unwrap (fe_from_byte_slice_be L (omsg_to_address message))) (\<lambda>to_address.
      Ok \<lparr> rom_order = of_nat index, rom_payload = map (\<lambda>x. x) (omsg_payload message), rom_to_address = to_address,
           rom_from_address = ce_storage_address call \<rparr>)) = Ok (shown_message (ce_storage_address call) im)"
    by (simp add: im(1) felt_codec.fe_from_byte_slice_be [OF assms(1)] short_bytes_lt_prime shown_message_def reported_message_def)
qed

lemma call_class_hash_value:
  assumes "felt_codec L" and "cache_ok at cache"
  shows "if ce_class_hash call \<noteq> None \<or> at (ce_storage_address call) \<noteq> None
    then \<exists>cache'. call_class_hash L at call cache =
        Ok (case ce_class_hash call of Some c \<Rightarrow> c | None \<Rightarrow> the (at (ce_storage_address call)), cache') \<and> cache_ok at cache'
    else call_class_hash L at call cache = Err InvocationContractNotFound"
  using assms(2)
  by (auto simp: call_class_hash_def cache_ok_def stark_read [OF assms(1)] split: option.splits)

definition invocation_ok :: "(felt \<Rightarrow> felt option) \<Rightarrow> bool \<Rightarrow> (invocation_error, 'r \<times> (felt \<rightharpoonup> felt)) res \<Rightarrow> 'r \<Rightarrow> bool" where
  "invocation_ok at found r v \<longleftrightarrow>
    (if found then \<exists>cache. r = Ok (v, cache) \<and> cache_ok at cache else r = Err InvocationContractNotFound)"

lemma call_invocation_ok:
  assumes L: "felt_codec L"
  shows "cache_ok at cache \<Longrightarrow> l1_addresses ci \<Longrightarrow>
      invocation_ok at (resolvable at ci) (try_get_funtion_invocation_from_call_info L at ci cache) (shown_call at ci)"
    and "cache_ok at cache \<Longrightarrow> list_all l1_addresses cs \<Longrightarrow>
      invocation_ok at (list_all (resolvable at) cs) (inner_invocations L at cs cache) (map (shown_call at) cs)"
  using L
proof (induction L at ci cache and L at cs cache
    rule: try_get_funtion_invocation_from_call_info_inner_invocations.induct)
  case (1 L at call retdata events messages gas resources inner cache)
  then have msgs: "list_all (\<lambda>m. length (omsg_to_address m) = 20) messages"
    and inner: "invocation_ok at (list_all (resolvable at) inner) (inner_invocations L at inner cache) (map (shown_call at) inner)"
    by simp_all
  show ?case
  proof (cases "list_all (resolvable at) inner")
    case True
    with inner obtain cache' where cache': "inner_invocations L at inner cache = Ok (map (shown_call at) inner, cache')"
      "cache_ok at cache'" by (auto simp: invocation_ok_def)
    show ?thesis
      using call_class_hash_value [OF 1(4) cache'(2), of call] True
      by (auto simp: invocation_ok_def messages_shown [OF 1(4) msgs] events_shown [OF 1(4)] cache'(1) split: if_splits)
  next
    case False
    with inner show ?thesis
      by (auto simp: invocation_ok_def messages_shown [OF 1(4) msgs] events_shown [OF 1(4)])
  qed
next
  case (2 L at cache)
  then show ?case by (simp add: invocation_ok_def)
next
  case (3 L at call calls cache)
  then have call: "invocation_ok at (resolvable at call) (try_get_funtion_invocation_from_call_info L at call cache)
      (shown_call at call)" by simp
  show ?case
  proof (cases "resolvable at call")
    case True
    with call obtain cache' where cache': "try_get_funtion_invocation_from_call_info L at call cache = Ok (shown_call at call, cache')"
      "cache_ok at cache'" by (auto simp: invocation_ok_def)
    with 3 have "invocation_ok at (list_all (resolvable at) calls) (inner_invocations L at calls cache') (map (shown_call at) calls)"
      by simp
    with True cache'(1) show ?thesis by (auto simp: invocation_ok_def split: if_splits)
  qed (use call in \<open>simp add: invocation_ok_def\<close>)
qed

text \<open>The trace of an execution, in terms of the call trees it reports.\<close>

definition all_resolvable :: "(felt \<Rightarrow> felt option) \<Rightarrow> call_info option \<Rightarrow> bool" where
  "all_resolvable at oc \<longleftrightarrow> (\<forall>ci. oc = Some ci \<longrightarrow> resolvable at ci)"

definition shown_execution :: "(felt \<Rightarrow> felt option) \<Rightarrow> tx_execution_info \<Rightarrow> (function_invocation \<Rightarrow> 'r)
    \<Rightarrow> (convert_call_info_error, 'r) res" where
  "shown_execution at info f =
    (case tei_execute_call_info info of
       None \<Rightarrow> Panic
     | Some ci \<Rightarrow> if resolvable at ci then Ok (f (shown_call at ci)) else Err (GetFunctionInvocation InvocationContractNotFound))"

definition shown_trace :: "(felt \<Rightarrow> felt option) \<Rightarrow> tx_type \<Rightarrow> tx_execution_info
    \<Rightarrow> (convert_call_info_error, transaction_trace) res" where
  "shown_trace at ty info =
    (let validation = map_option (shown_call at) (tei_validate_call_info info);
         fee = map_option (shown_call at) (tei_fee_transfer_call_info info)
     in if all_resolvable at (tei_validate_call_info info) \<and> all_resolvable at (tei_fee_transfer_call_info info)
        then (case ty of
                TxInvoke \<Rightarrow>
                  (case tei_revert_error info of
                     Some e \<Rightarrow> Ok (InvokeTrace validation (InvocationReverted e) fee None no_resources)
                   | None \<Rightarrow> shown_execution at info (\<lambda>c. InvokeTrace validation (InvocationSuccess c) fee None no_resources))
              | TxDeclare \<Rightarrow> Ok (DeclareTrace validation fee None no_resources)
              | TxDeployAccount \<Rightarrow> shown_execution at info (\<lambda>c. DeployAccountTrace validation c fee None no_resources)
              | TxL1Handler \<Rightarrow> shown_execution at info (\<lambda>c. L1HandlerTrace c None no_resources))
        else Err (GetFunctionInvocation InvocationContractNotFound))"

definition shows_execution :: "tx_type \<Rightarrow> tx_execution_info \<Rightarrow> bool" where
  "shows_execution ty info \<longleftrightarrow> ty \<noteq> TxDeclare \<and> (ty = TxInvoke \<longrightarrow> tei_revert_error info = None)"

definition info_addresses :: "tx_execution_info \<Rightarrow> bool" where
  "info_addresses info \<longleftrightarrow>
    (\<forall>ci. tei_validate_call_info info = Some ci \<or> tei_execute_call_info info = Some ci
      \<or> tei_fee_transfer_call_info info = Some ci \<longrightarrow> l1_addresses ci)"

lemma optional_invocation_ok:
  assumes "felt_codec L" and "cache_ok at cache" and "\<forall>ci. oc = Some ci \<longrightarrow> l1_addresses ci"
  shows "invocation_ok at (all_resolvable at oc) (optional_invocation L at oc cache) (map_option (shown_call at) oc)"
proof (cases oc)
  case None
  with assms(2) show ?thesis by (simp add: invocation_ok_def all_resolvable_def optional_invocation_def)
next
  case (Some ci)
  with call_invocation_ok(1) [OF assms(1,2), of ci] assms(3) show ?thesis
    by (auto simp: invocation_ok_def all_resolvable_def optional_invocation_def split: if_splits)
qed

lemma executed_invocation_value:
  assumes "felt_codec L" and "cache_ok at cache" and "\<forall>ci. tei_execute_call_info info = Some ci \<longrightarrow> l1_addresses ci"
  shows "map_err GetFunctionInvocation (map_ok f (executed_invocation L at info cache)) = shown_execution at info f"
proof (cases "tei_execute_call_info info")
  case (Some ci)
  with call_invocation_ok(1) [OF assms(1,2), of ci] assms(3) show ?thesis
    by (auto simp: invocation_ok_def executed_invocation_def shown_execution_def split: if_splits)
qed (simp add: executed_invocation_def shown_execution_def)

lemma tx_trace_value:
  assumes "felt_codec L" and "info_addresses info"
  shows "tx_execution_infos_to_tx_trace L at ty info = shown_trace at ty info"
proof -
  let ?v = "tei_validate_call_info info" and ?f = "tei_fee_transfer_call_info info"
  have adr: "\<forall>ci. ?v = Some ci \<longrightarrow> l1_addresses ci" "\<forall>ci. ?f = Some ci \<longrightarrow> l1_addresses ci"
    "\<forall>ci. tei_execute_call_info info = Some ci \<longrightarrow> l1_addresses ci"
    using assms(2) by (auto simp: info_addresses_def)
  note v = optional_invocation_ok [OF assms(1) cache_ok_empty adr(1), of at]
  show ?thesis
  proof (cases "all_resolvable at ?v")
    case True
    with v obtain c where c: "optional_invocation L at ?v Map.empty = Ok (map_option (shown_call at) ?v, c)" "cache_ok at c"
      by (auto simp: invocation_ok_def)
    note f = optional_invocation_ok [OF assms(1) c(2) adr(2)]
    show ?thesis
    proof (cases "all_resolvable at ?f")
      case resolved: True
      with f obtain c' where c': "optional_invocation L at ?f c = Ok (map_option (shown_call at) ?f, c')" "cache_ok at c'"
        by (auto simp: invocation_ok_def)
      note ex = executed_invocation_value [OF assms(1) c'(2) adr(3), symmetric]
      show ?thesis
        by (cases "executed_invocation L at info c'"; cases ty; cases "tei_revert_error info")
          (simp_all add: tx_execution_infos_to_tx_trace_def shown_trace_def c(1) c'(1) True resolved ex)
    qed (use f in \<open>simp add: tx_execution_infos_to_tx_trace_def shown_trace_def c(1) invocation_ok_def\<close>)
  qed (use v in \<open>simp add: tx_execution_infos_to_tx_trace_def shown_trace_def invocation_ok_def\<close>)
qed

text \<open>C19: what the trace of an executed transaction shows, and when there is none. It shows the call trees that the engine
  reported: validation and fee transfer (not for a message from L1), and execution, each call with its inner calls, events
  and messages in their order and with the class it runs; three things are not as reported. The order number of a message is
  its position in its call, the resources of every call are shown as zero, and of an invoke that reverted only the
  reason is shown, so its execution tree may contain a call without a class; that of a declare is not shown either.
  The conversion fails exactly when a call of one of the trees it goes through runs a contract that has no class, and
  panics exactly when those of validation and fee transfer are resolved but an execution that is to be shown reports no
  call. The cache of class hashes shared by the three trees never changes the outcome.\<close>

theorem trace_shows_execution:
  assumes "felt_codec L" and "info_addresses info"
  shows "tx_execution_infos_to_tx_trace L at ty info = shown_trace at ty info
    \<and> (tx_execution_infos_to_tx_trace L at ty info = Panic \<longleftrightarrow>
        all_resolvable at (tei_validate_call_info info) \<and> all_resolvable at (tei_fee_transfer_call_info info)
        \<and> shows_execution ty info \<and> tei_execute_call_info info = None)
    \<and> ((\<exists>e. tx_execution_infos_to_tx_trace L at ty info = Err e) \<longleftrightarrow>
        \<not> all_resolvable at (tei_validate_call_info info) \<or> \<not> all_resolvable at (tei_fee_transfer_call_info info)
        \<or> shows_execution ty info \<and> \<not> all_resolvable at (tei_execute_call_info info))"
  unfolding tx_trace_value [OF assms]
  by (auto simp: shown_trace_def shown_execution_def shows_execution_def all_resolvable_def Let_def
      split: tx_type.splits option.splits if_splits)

definition traced_info :: tx_execution_info where
  "traced_info = exec_info\<lparr>tei_execute_call_info := Some (plain_call 3 [\<lparr> oev_order = 1, oev_keys = [10], oev_data = [11] \<rparr>]
     [\<lparr> omsg_order = 4, omsg_to_address = replicate 20 0, omsg_payload = [12] \<rparr>] [])\<rparr>"

lemma traced_addresses: "info_addresses traced_info"
  by (auto simp: info_addresses_def exec_info_def traced_info_def)

theorem trace_shows_execution_witness:
  "tx_execution_infos_to_tx_trace ref_felt_lib [3 \<mapsto> 9] TxInvoke traced_info =
    Ok (InvokeTrace None (InvocationSuccess
      (FunctionInvocation 3 0 [] 0 9 External CallKind [] [] [\<lparr> roe_order = 1, roe_keys = [10], roe_data = [11] \<rparr>]
        [\<lparr> rom_order = 0, rom_payload = [12], rom_to_address = felt_of_nat (be_nat (replicate 20 0)), rom_from_address = 3 \<rparr>]
        no_computation)) None None no_resources)"
  using trace_shows_execution [OF ref_felt_codec traced_addresses, of "[3 \<mapsto> 9]" TxInvoke]
  by (simp add: shown_trace_def shown_execution_def exec_info_def traced_info_def all_resolvable_def shown_event_def
      shown_message_def reported_message_def)

section \<open>One transaction and its block\<close>

lemma convert_until_all:
  "convert_until hf cv None txs = Ok (cs, rest) \<longleftrightarrow>
    rest = [] \<and> list_all2 (\<lambda>tx c. (\<exists>f. hf tx = Ok f) \<and> cv tx = Ok c) txs cs"
  by (induction txs arbitrary: cs) (auto simp: result_simps list_all2_Cons1)

lemma convert_until_target:
  assumes "list_all2 (\<lambda>tx c. (\<exists>f. hf tx = Ok f) \<and> cv tx = Ok c) txs cs" and "i < length txs"
    and "hf (txs ! i) = Ok t" and "\<forall>j < i. hf (txs ! j) \<noteq> Ok t"
  shows "convert_until hf cv (Some t) txs = Ok (take i cs, [cs ! i])"
  using assms
proof (induction arbitrary: i rule: list_all2_induct)
  case (Cons tx txs c cs)
  then obtain f where f: "hf tx = Ok f" by blast
  show ?case
  proof (cases i)
    case 0
    with Cons f show ?thesis by simp
  next
    case (Suc j)
    with Cons.prems have "f \<noteq> t" "\<forall>k < j. hf (txs ! k) \<noteq> Ok t" using f by (auto simp: nth_Cons split: nat.splits)
    with Suc Cons f show ?thesis by auto
  qed
qed simp

lemma converted_hash:
  "convert_transaction G M s h c n tx = Ok x \<Longrightarrow>
    compute_hash (rs_felt s) (rs_crypto s) (rs_hasher s) tx c False (Some n) = Ok f \<Longrightarrow> btx_hash x = Some f"
  by (auto simp: convert_transaction_def account_declare_of_def result_simps Let_def
      split: transaction.splits declare_transaction.splits if_splits)

lemma re_execute_one:
  assumes "re_execute_transactions E [] cs ctx = Ok infos" and "i < length cs"
  shows "length infos = length cs" and "re_execute_transactions E (take i cs) [cs ! i] ctx = Ok [infos ! i]"
proof -
  let ?run = "execute_all E ctx (eth_l1_gas_price (bc_gas_prices ctx) \<noteq> 1)" and ?s = "init_cached_state E"
  obtain s' where all: "?run ?s cs = Ok (infos, s')" using assms(1) by (auto simp: re_execute_run result_simps)
  show len: "length infos = length cs" using execute_all_length [OF all] .
  have "?run ?s (take (Suc i) cs @ drop (Suc i) cs) = Ok (infos, s')" using all by simp
  then obtain as s1 bs where as: "?run ?s (take (Suc i) cs) = Ok (as, s1)" "infos = as @ bs"
    unfolding execute_all_append by (auto simp: result_simps)
  have "length as = Suc i" using execute_all_length [OF as(1)] assms(2) by simp
  then have "drop i as = [infos ! i]" using as(2) by (simp add: Cons_nth_drop_Suc [symmetric] nth_append)
  moreover have "take i cs @ [cs ! i] = take (Suc i) cs" using assms(2) by (simp add: take_Suc_conv_app_nth)
  ultimately show "re_execute_transactions E (take i cs) [cs ! i] ctx = Ok [infos ! i]"
    using as(1) assms(2) by (simp add: re_execute_run min_def)
qed

lemma api_re_execute_Ok:
  "api_result e e' (api_re_execute_transactions rt h before traced ctx) = Ok infos \<longleftrightarrow>
    (\<exists>st. rt_state rt h = Ok st) \<and> re_execute_transactions (rt_engine rt h) before traced ctx = Ok infos"
  by (auto simp: api_re_execute_transactions_def api_run_Ok)

lemma traces_of_nth:
  assumes "traces_of L at cs infos = Ok traces" and "length infos = length cs"
  shows "length traces = length cs"
    and "i < length cs \<Longrightarrow> \<exists>f tr. btx_hash (cs ! i) = Some f
      \<and> tx_execution_infos_to_tx_trace L at (tx_type_from (cs ! i)) (infos ! i) = Ok tr
      \<and> traces ! i = \<lparr> twh_transaction_hash = f, twh_trace_root = tr \<rparr>"
proof -
  note eq = assms(1) [unfolded traces_of_def]
  show "length traces = length cs" using try_map_length [OF eq] assms(2) by simp
  show "\<exists>f tr. btx_hash (cs ! i) = Some f
      \<and> tx_execution_infos_to_tx_trace L at (tx_type_from (cs ! i)) (infos ! i) = Ok tr
      \<and> traces ! i = \<lparr> twh_transaction_hash = f, twh_trace_root = tr \<rparr>" if "i < length cs"
    using try_map_nth [OF eq, of i] that assms(2) by (auto simp: result_simps nth_enumerate_eq)
qed

text \<open>What a successful trace of a block rests on.\<close>

definition block_traced where
  "block_traced G M s rt h b c cs p tokens infos traces \<longleftrightarrow>
    block_of s h = Ok b \<and> rpc_chain_id s = Ok c
    \<and> map_transaction_to_user_transaction G M s b h c None = Ok (cs, [])
    \<and> get_previous_block_substrate_hash s h = Ok p \<and> api_fee_token_addresses rt h = Ok tokens
    \<and> (\<exists>st. rt_state rt p = Ok st)
    \<and> re_execute_transactions (rt_engine rt p) [] cs (into_block_context (blk_header b) tokens SN_MAIN) = Ok infos
    \<and> traces_of (rs_felt s) (class_hash_at_block s h) cs infos = Ok traces"

lemma trace_block_Ok:
  assumes "rpc_trace_block_transactions G M s rt block_id = Ok traces" and "substrate_hash s block_id = Ok h"
  shows "\<exists>b c cs p tokens infos. block_traced G M s rt h b c cs p tokens infos traces"
  using assms
  by (auto simp: rpc_trace_block_transactions_def block_traced_def result_simps api_re_execute_Ok
      map_transaction_to_user_transaction_def Let_def convert_until_all) blast

lemma block_traced_conv:
  assumes "block_traced G M s rt h b c cs p tokens infos traces"
  shows "list_all2 (\<lambda>tx x. (\<exists>f. unwrap (compute_hash (rs_felt s) (rs_crypto s) (rs_hasher s) tx c False
        (Some (h_block_number (blk_header b)))) = (Ok f :: (rpc_api_error, felt) res))
      \<and> convert_transaction G M s h c (h_block_number (blk_header b)) tx = Ok x) (blk_transactions b) cs"
  using assms by (simp add: block_traced_def map_transaction_to_user_transaction_def Let_def convert_until_all)

lemma block_traced_length:
  assumes "block_traced G M s rt h b c cs p tokens infos traces"
  shows "length cs = length traces" and "length infos = length traces" and "length (blk_transactions b) = length traces"
proof -
  note bt = assms [unfolded block_traced_def]
  have eq: "length infos = length cs"
  proof (cases "cs = []")
    case True
    then show ?thesis using bt by (auto simp: re_execute_transactions_def)
  qed (use bt re_execute_one(1) [of _ cs _ infos 0] in auto)
  show "length cs = length traces" "length infos = length traces" "length (blk_transactions b) = length traces"
    using bt traces_of_nth(1) [OF _ eq, of "rs_felt s" "class_hash_at_block s h" traces] eq list_all2_lengthD [OF block_traced_conv [OF assms]] by simp_all
qed

lemma block_traced_nth:
  assumes "block_traced G M s rt h b c cs p tokens infos traces" and "i < length traces"
  shows "compute_hash (rs_felt s) (rs_crypto s) (rs_hasher s) (blk_transactions b ! i) c False
        (Some (h_block_number (blk_header b))) = Ok (twh_transaction_hash (traces ! i))"
    and "convert_transaction G M s h c (h_block_number (blk_header b)) (blk_transactions b ! i) = Ok (cs ! i)"
    and "tx_execution_infos_to_tx_trace (rs_felt s) (class_hash_at_block s h) (tx_type_from (cs ! i)) (infos ! i) =
      Ok (twh_trace_root (traces ! i))"
proof -
  note bt = assms(1) [unfolded block_traced_def] and len = block_traced_length [OF assms(1)]
    and conv = block_traced_conv [OF assms(1)]
  have "length infos = length cs" using len by simp
  from traces_of_nth(2) [OF _ this, of "rs_felt s" "class_hash_at_block s h" traces i] bt assms(2) len
  obtain f r where f: "btx_hash (cs ! i) = Some f"
    "tx_execution_infos_to_tx_trace (rs_felt s) (class_hash_at_block s h) (tx_type_from (cs ! i)) (infos ! i) = Ok r"
    "traces ! i = \<lparr> twh_transaction_hash = f, twh_trace_root = r \<rparr>" by auto
  show cv: "convert_transaction G M s h c (h_block_number (blk_header b)) (blk_transactions b ! i) = Ok (cs ! i)"
    using list_all2_nthD [OF conv] assms(2) len by simp
  obtain g where g: "compute_hash (rs_felt s) (rs_crypto s) (rs_hasher s) (blk_transactions b ! i) c False
      (Some (h_block_number (blk_header b))) = Ok g"
    using list_all2_nthD [OF conv, of i] assms(2) len by (auto simp: result_simps)
  with converted_hash [OF cv g] f show "compute_hash (rs_felt s) (rs_crypto s) (rs_hasher s) (blk_transactions b ! i) c
      False (Some (h_block_number (blk_header b))) = Ok (twh_transaction_hash (traces ! i))" by simp
  show "tx_execution_infos_to_tx_trace (rs_felt s) (class_hash_at_block s h) (tx_type_from (cs ! i)) (infos ! i) =
      Ok (twh_trace_root (traces ! i))" using f by simp
qed

text \<open>C17: tracing one transaction agrees with tracing its block. When a block can be traced, the trace of a transaction of
  it, found by its hash, is returned and is the one the trace of the block shows first for this hash.\<close>

theorem trace_transaction_agrees:
  assumes "rpc_trace_block_transactions G M s rt block_id = Ok traces" and "substrate_hash s block_id = Ok h"
    and "transaction_block s t = Ok h" and "List.find (\<lambda>x. twh_transaction_hash x = t) traces = Some tr"
  shows "rpc_trace_transaction G M s rt t = Ok tr"
proof -
  obtain b c cs p tokens infos where bt: "block_traced G M s rt h b c cs p tokens infos traces"
    using trace_block_Ok [OF assms(1,2)] by blast
  note at = block_traced_nth [OF bt] and len = block_traced_length [OF bt] and parts = bt [unfolded block_traced_def]
  let ?hf = "\<lambda>tx. unwrap (compute_hash (rs_felt s) (rs_crypto s) (rs_hasher s) tx c False
      (Some (h_block_number (blk_header b)))) :: (rpc_api_error, felt) res"
  obtain i where i: "i < length traces" "traces ! i = tr" "twh_transaction_hash tr = t"
    "\<forall>j < i. twh_transaction_hash (traces ! j) \<noteq> t"
    using assms(4) by (auto simp: find_Some_iff)
  have "map_transaction_to_user_transaction G M s b h c (Some t) = Ok (take i cs, [cs ! i])"
    unfolding map_transaction_to_user_transaction_def Let_def
  proof (rule convert_until_target [OF block_traced_conv [OF bt]])
    show "i < length (blk_transactions b)" using len i(1) by simp
    show "?hf (blk_transactions b ! i) = Ok t" using at(1) [OF i(1)] i(2,3) by simp
    show "\<forall>j < i. ?hf (blk_transactions b ! j) \<noteq> Ok t" using at(1) i(1,4) by auto
  qed
  moreover have "re_execute_transactions (rt_engine rt p) (take i cs) [cs ! i]
      (into_block_context (blk_header b) tokens SN_MAIN) = Ok [infos ! i]"
    using re_execute_one(2) [of _ cs _ infos i] parts len i(1) by auto
  ultimately show ?thesis
    using parts assms(3) at(3) [OF i(1)] i(2,3)
    by (simp add: rpc_trace_transaction_def api_re_execute_Ok [THEN iffD2])
qed

section \<open>Receipts and traces\<close>

text \<open>The events of an invocation, its own before those of its inner calls, as a receipt lists them.\<close>

fun invocation_events :: "function_invocation \<Rightarrow> event list" where
  "invocation_events (FunctionInvocation address selector calldata caller cls ty cty res calls events messages resources) =
    map (\<lambda>e. \<lparr> ev_from_address = address, ev_keys = roe_keys e, ev_data = roe_data e \<rparr>) events
      @ concat (map invocation_events calls)"

lemma invocation_events_extracted:
  assumes L: "felt_codec L"
  shows "try_get_funtion_invocation_from_call_info L at ci cache = Ok (fi, cache') \<Longrightarrow>
      invocation_events fi = extract_events_from_call_info ci"
    and "inner_invocations L at cs cache = Ok (fis, cache') \<Longrightarrow>
      map invocation_events fis = map extract_events_from_call_info cs"
  using L
proof (induction L at ci cache and L at cs cache arbitrary: fi cache' and fis cache'
    rule: try_get_funtion_invocation_from_call_info_inner_invocations.induct)
  case (1 L at call retdata events messages gas resources inner cache)
  then obtain inner' cache1 where inner': "inner_invocations L at inner cache = Ok (inner', cache1)"
    by (auto simp: result_simps)
  with 1 have "map invocation_events inner' = map extract_events_from_call_info inner" by blast
  then show ?case using 1(2,3) inner'
    by (auto simp: result_simps events_shown shown_event_def event_of_def)
next
  case (3 L at call calls cache)
  then show ?case by (auto simp: result_simps)
qed simp

lemma executed_events:
  assumes "felt_codec L" and "executed_invocation L at info cache = Ok fi"
  shows "\<exists>ci. tei_execute_call_info info = Some ci \<and> extract_events_from_call_info ci = invocation_events fi"
  using assms(2) invocation_events_extracted(1) [OF assms(1), symmetric]
  by (fastforce simp: executed_invocation_def result_simps)

lemma receipt_transaction_converted:
  assumes "convert_transaction G M s h c n tx = Ok x" and "\<forall>d. tx \<noteq> Declare d"
  shows "receipt_transaction G M s h c n tx = Some (Ok x)" and "\<not> is_deploy tx"
  using assms
  by (auto simp: convert_transaction_def receipt_transaction_def tx_invoke_transaction_def tx_deploy_account_def
      tx_l1_handler_def result_simps split: transaction.splits)

lemma previous_hashes_agree:
  assumes "block_of s h = Ok b" and "get_previous_block_substrate_hash s h = Ok p"
  shows "previous_block_hash s (h_block_number (blk_header b)) = Ok p"
  using assms
  by (auto simp: get_previous_block_substrate_hash_def previous_block_hash_def result_simps Let_def split: if_splits)

lemma block_traced_receipt_transactions:
  assumes "block_traced G M s rt h b c cs p tokens infos traces" and "i < length traces"
    and "\<forall>tx \<in> set (blk_transactions b). \<forall>d. tx \<noteq> Declare d"
  shows "receipt_transactions G M s h c b (h_block_number (blk_header b)) i = Some (Ok (take (Suc i) cs))"
    and "\<not> is_deploy (blk_transactions b ! i)"
proof -
  note at = block_traced_nth [OF assms(1)] and len = block_traced_length [OF assms(1)]
  have conv: "receipt_transaction G M s h c (h_block_number (blk_header b)) (blk_transactions b ! j) = Some (Ok (cs ! j))"
    "\<not> is_deploy (blk_transactions b ! j)" if "j < length traces" for j
    using receipt_transaction_converted [OF at(2) [OF that]] assms(3) len that by simp_all
  show "\<not> is_deploy (blk_transactions b ! i)" using conv(2) [OF assms(2)] .
  have "filter (\<lambda>tx. \<not> is_deploy tx) (take (i + 1) (blk_transactions b)) = take (Suc i) (blk_transactions b)"
    using conv(2) len assms(2) by (auto simp: filter_id_conv in_set_conv_nth)
  moreover have "list_all2 (\<lambda>x y. receipt_transaction G M s h c (h_block_number (blk_header b)) x = Some (Ok y))
      (take (Suc i) (blk_transactions b)) (take (Suc i) cs)"
    using conv(1) len assms(2) by (auto simp: list_all2_conv_all_nth)
  ultimately show "receipt_transactions G M s h c b (h_block_number (blk_header b)) i = Some (Ok (take (Suc i) cs))"
    by (simp add: receipt_transactions_def run_map_Ok_iff)
qed

lemma block_traced_hashes:
  assumes "block_traced G M s rt h b c cs p tokens infos traces"
  shows "tx_hash_compute s b c = Ok (map twh_transaction_hash traces)"
  using block_traced_length(3) [OF assms] block_traced_nth(1) [OF assms]
  by (simp add: tx_hash_compute_def transactions_hashes_def try_map_all_nth unwrap_Ok_iff)

lemma execution_infos_last:
  assumes "re_execute_transactions (rt_engine rt p) [] cs ctx = Ok infos" and "i < length cs" and "rt_state rt p = Ok st"
  shows "execution_infos rt p (take (Suc i) cs) ctx = Ok (infos ! i)"
proof -
  have "take (Suc i) cs \<noteq> []" "last (take (Suc i) cs) = cs ! i" "butlast (take (Suc i) cs) = take i cs"
    using assms(2) by (auto simp: take_Suc_conv_app_nth)
  with re_execute_one(2) [OF assms(1,2)] assms(3) show ?thesis
    by (simp add: execution_infos_def api_re_execute_Ok [THEN iffD2])
qed

lemma receipt_of_fields:
  assumes "\<not> is_deploy tx"
  shows "\<exists>r. receipt_of s t n tx info = Ok r \<and> rc_transaction_hash (receipt_common r) = t
    \<and> rc_events (receipt_common r) =
      (case tei_execute_call_info info of Some ci \<Rightarrow> extract_events_from_call_info ci | None \<Rightarrow> [])
    \<and> rc_execution_result (receipt_common r) =
      (case tei_revert_error info of Some e \<Rightarrow> ExecutionReverted e | None \<Rightarrow> ExecutionSucceeded)"
  using assms by (cases tx) (simp_all add: receipt_of_def)

text \<open>A receipt and a trace tell the same of an execution: the events, and whether it reverted.\<close>

definition tells_same :: "transaction_trace \<Rightarrow> receipt_fields \<Rightarrow> bool" where
  "tells_same tr common =
    (case tr of
       InvokeTrace v e fee d r \<Rightarrow>
         (case e of
            InvocationReverted reason \<Rightarrow> rc_execution_result common = ExecutionReverted reason
          | InvocationSuccess call \<Rightarrow> rc_execution_result common = ExecutionSucceeded \<and> rc_events common = invocation_events call)
     | DeployAccountTrace v call fee d r \<Rightarrow> rc_events common = invocation_events call
     | L1HandlerTrace call d r \<Rightarrow> rc_events common = invocation_events call
     | DeclareTrace v fee d r \<Rightarrow> True)"

lemma trace_tells_same:
  assumes "felt_codec L" and "tx_execution_infos_to_tx_trace L at ty info = Ok tr"
    and "rc_events common = (case tei_execute_call_info info of Some ci \<Rightarrow> extract_events_from_call_info ci | None \<Rightarrow> [])"
    and "rc_execution_result common = (case tei_revert_error info of Some e \<Rightarrow> ExecutionReverted e | None \<Rightarrow> ExecutionSucceeded)"
  shows "tells_same tr common"
proof -
  have ev: "rc_events common = invocation_events call" if "executed_invocation L at info cache = Ok call" for cache call
    using executed_events [OF assms(1) that] assms(3) by auto
  show ?thesis
    using assms(2,4) by (cases ty) (auto simp: tx_execution_infos_to_tx_trace_def result_simps tells_same_def ev
        split: option.splits)
qed

text \<open>C18: receipts agree with traces. When a block without declare transactions can be traced, every transaction of it
  gets a receipt, of this block and with its own hash, which reports the same outcome as the trace: the same events in
  the same order, and a revert exactly when the trace shows one.\<close>

theorem receipt_agrees_with_trace:
  assumes "felt_codec (rs_felt s)"
    and "rpc_trace_block_transactions G M s rt block_id = Ok traces" and "substrate_hash s block_id = Ok h"
    and "block_of s h = Ok b" and "\<forall>tx \<in> set (blk_transactions b). \<forall>d. tx \<noteq> Declare d"
    and "rpc_chain_id s = Ok c" and "hash_of s b = (Ok f :: (rpc_error, felt) res)"
    and "tx_hashes_of s c b f = (tx_hash_compute s b c :: (rpc_error, felt list) res)"
    and "block_hash_from_transaction_hash (rs_rocks s) (rs_codecs s) (rs_db s) t = Ok (Some h)"
    and "List.find (\<lambda>x. twh_transaction_hash x = t) traces = Some tr"
  shows "\<exists>r. rpc_get_transaction_receipt G M s rt t = Some (Ok r)
    \<and> rc_transaction_hash (receipt_common (rb_receipt r)) = t
    \<and> rb_block_hash r = f \<and> rb_block_number r = h_block_number (blk_header b)
    \<and> tells_same (twh_trace_root tr) (receipt_common (rb_receipt r))"
proof -
  obtain cs p tokens infos where bt: "block_traced G M s rt h b c cs p tokens infos traces"
    using trace_block_Ok [OF assms(2,3)] assms(4,6) by (auto simp: block_traced_def)
  note parts = bt [unfolded block_traced_def] and len = block_traced_length [OF bt]
  obtain i where i: "i < length traces" "traces ! i = tr" "twh_transaction_hash tr = t"
    "\<forall>j < i. twh_transaction_hash (traces ! j) \<noteq> t"
    using assms(10) by (auto simp: find_Some_iff)
  note txs = block_traced_receipt_transactions [OF bt i(1) assms(5)]
  have pos: "position t (map twh_transaction_hash traces) = Some i"
    using i by (auto simp: position_Some_iff)
  have hashes: "tx_hash_compute s b c = (Ok (map twh_transaction_hash traces) :: (rpc_error, felt list) res)"
    by (rule block_traced_hashes [OF bt])
  have found: "receipt_found s c h t b f p i"
    using assms(4,7,8) hashes previous_hashes_agree [OF assms(4)] parts txs(2) len i(1) pos
    by (simp add: receipt_found_def)
  have info: "execution_infos rt p (take (Suc i) cs) (into_block_context (blk_header b) tokens SN_MAIN) = Ok (infos ! i)"
    using execution_infos_last [of rt p cs _ infos i] parts len i(1) by auto
  obtain r where r: "receipt_of s t (h_block_number (blk_header b)) (blk_transactions b ! i) (infos ! i) = Ok r"
    "rc_transaction_hash (receipt_common r) = t" "tells_same (twh_trace_root tr) (receipt_common r)"
    using receipt_of_fields [OF txs(2), of s t "h_block_number (blk_header b)" "infos ! i"]
      trace_tells_same [OF assms(1) block_traced_nth(3) [OF bt i(1)]] i(2) by blast
  have "get_transaction_receipt_finalized G M s rt c h t = Some (Ok \<lparr> rb_receipt = r, rb_block_hash = f,
      rb_block_number = h_block_number (blk_header b) \<rparr>)"
    using parts by (simp add: receipt_found_value [OF found] txs(1) info r(1))
  with assms(6,9) r(2,3) show ?thesis by (simp add: rpc_get_transaction_receipt_def)
qed

text \<open>The node of RpcReceipts with a block of one invoke transaction; its mapping knows the transaction.\<close>

abbreviation exec_node :: "felt \<Rightarrow> (alist_db, bytes, unit, (bytes, casm_contract_class) blockifier_class, unit) rpc_server" where
  "exec_node t \<equiv> exec_server [((rocksdb_name TransactionMapping, enc_stark ref_db_codecs t), enc_hash ref_db_codecs 1)] ref_block"

lemma exec_node_tx: "block_hash_from_transaction_hash (rs_rocks (exec_node t)) (rs_codecs (exec_node t)) (rs_db (exec_node t)) t
    = Ok (Some 1)"
  by (simp add: block_hash_from_transaction_hash_def exec_server_def ref_db.read_key_view alist_view_def ref_db_codecs_def be_nat_nat_be)

lemma exec_node_chain: "rpc_chain_id (exec_server db b) = Ok 5"
  by (simp add: rpc_chain_id_def exec_server_def)

lemma exec_node_head: "substrate_hash (exec_server db b) (BlockTag Latest) = Ok 1"
  by (simp add: substrate_hash_def substrate_block_hash_from_starknet_block_def exec_server_def)

lemma exec_node_traced:
  "\<exists>t. \<forall>db. \<exists>tr. rpc_trace_block_transactions class_hash_getters ref_class_lib (exec_server db ref_block) exec_rt
    (BlockTag Latest) = Ok [\<lparr> twh_transaction_hash = t, twh_trace_root = tr \<rparr>]"
proof -
  have tx: "blk_transactions ref_block = [sample_invoke 1]" "h_block_number (blk_header ref_block) = 1"
    by (simp_all add: ref_block_def deoxys_block_new_def sample_header_def header_new_def)
  have "\<exists>p. tx_preimage ref_crypto (sample_invoke 1) 5 False (Some 1) = Some p" by (simp add: sample_invoke_def)
  then obtain t where t: "compute_hash ref_felt_lib ref_crypto (PedersenHasher ref_felt_lib ref_crypto) (sample_invoke 1) 5
      False (Some 1) = Ok t"
    using compute_hash_value [OF ref_felt_codec, of ref_crypto _ "sample_invoke 1" 5 False "Some 1"] by auto
  have libs: "rs_felt (exec_server db b) = ref_felt_lib" "rs_crypto (exec_server db b) = ref_crypto"
    "rs_hasher (exec_server db b) = PedersenHasher ref_felt_lib ref_crypto" for db b by (simp_all add: exec_server_def)
  have "\<exists>tr. rpc_trace_block_transactions class_hash_getters ref_class_lib (exec_server db ref_block) exec_rt
      (BlockTag Latest) = Ok [\<lparr> twh_transaction_hash = t, twh_trace_root = tr \<rparr>]" for db
  proof -
    let ?s = "exec_server db ref_block"
    have conv: "map_transaction_to_user_transaction class_hash_getters ref_class_lib ?s ref_block 1 5 None =
        Ok ([AccountTransaction (AccountInvoke (InvokeV1 \<lparr> iv1_max_fee = 5, iv1_signature = [], iv1_nonce = 1,
          iv1_sender_address = 1, iv1_calldata = [] \<rparr>) t)], [])"
      using t by (simp add: map_transaction_to_user_transaction_def tx libs convert_transaction_def sample_invoke_def)
    have prev: "get_previous_block_substrate_hash ?s 1 = Ok 0"
      by (simp add: get_previous_block_substrate_hash_def exec_server_block tx)
        (simp add: substrate_block_hash_from_starknet_block_def exec_server_def saturate_u32_def)
    have at: "class_hash_at_block ?s 1 1 = Some 9"
      by (simp add: class_hash_at_block_def exec_server_override runtime_api_override_def api_class_hash_by_address_def
          pallet_class_hash_def exec_state_def)
    have "info_addresses exec_info" by (auto simp: info_addresses_def exec_info_def)
    then have "\<exists>tr. tx_execution_infos_to_tx_trace ref_felt_lib (class_hash_at_block ?s 1) TxInvoke exec_info = Ok tr"
      by (simp add: tx_trace_value [OF ref_felt_codec] shown_trace_def shown_execution_def all_resolvable_def exec_info_def at)
    then show ?thesis
      by (auto simp: rpc_trace_block_transactions_def exec_node_head exec_server_block exec_node_chain conv prev libs
          api_fee_token_addresses_def exec_rt_def api_result_def api_re_execute_transactions_def api_run_def
          re_execute_transactions_def traces_of_def)
  qed
  then show ?thesis by blast
qed

theorem trace_transaction_agrees_witness:
  "\<exists>t tr. rpc_trace_transaction class_hash_getters ref_class_lib (exec_node t) exec_rt t = Ok tr"
proof -
  obtain t where t: "\<And>db. \<exists>tr. rpc_trace_block_transactions class_hash_getters ref_class_lib (exec_server db ref_block) exec_rt
      (BlockTag Latest) = Ok [\<lparr> twh_transaction_hash = t, twh_trace_root = tr \<rparr>]"
    using exec_node_traced by blast
  then obtain tr where tr: "rpc_trace_block_transactions class_hash_getters ref_class_lib (exec_node t) exec_rt
      (BlockTag Latest) = Ok [\<lparr> twh_transaction_hash = t, twh_trace_root = tr \<rparr>]" by blast
  have "transaction_block (exec_node t) t = Ok 1" by (simp add: transaction_block_def exec_node_tx)
  from trace_transaction_agrees [OF tr exec_node_head this]
  have "rpc_trace_transaction class_hash_getters ref_class_lib (exec_node t) exec_rt t =
      Ok \<lparr> twh_transaction_hash = t, twh_trace_root = tr \<rparr>" by simp
  then show ?thesis by blast
qed

theorem receipt_agrees_with_trace_witness:
  "\<exists>t r. rpc_get_transaction_receipt class_hash_getters ref_class_lib (exec_node t) exec_rt t = Some (Ok r)"
proof -
  obtain t where "\<And>db. \<exists>tr. rpc_trace_block_transactions class_hash_getters ref_class_lib (exec_server db ref_block) exec_rt
      (BlockTag Latest) = Ok [\<lparr> twh_transaction_hash = t, twh_trace_root = tr \<rparr>]"
    using exec_node_traced by blast
  then obtain tr where tr: "rpc_trace_block_transactions class_hash_getters ref_class_lib (exec_node t) exec_rt
      (BlockTag Latest) = Ok [\<lparr> twh_transaction_hash = t, twh_trace_root = tr \<rparr>]" by blast
  have codec: "felt_codec (rs_felt (exec_node t))" using ref_felt_codec by (simp add: exec_server_def)
  have no_declare: "\<forall>tx \<in> set (blk_transactions ref_block). \<forall>d. tx \<noteq> Declare d"
    by (simp add: ref_block_def deoxys_block_new_def sample_invoke_def)
  obtain f where f: "hash_of (exec_node t) ref_block = (Ok f :: (rpc_error, felt) res)" using exec_server_hash by metis
  show ?thesis
    using receipt_agrees_with_trace [OF codec tr exec_node_head exec_server_block no_declare exec_node_chain f
        exec_server_tx_hashes exec_node_tx] by fastforce
qed

end
