(* ===== verification/SyncConvert.thy ===== *)
theory SyncConvert
  imports RpcCore Commitments
begin

text \<open>
  What the node makes of a block of the sequencer, \<open>client/sync/src/utils/convert.rs\<close>, and of its state
  update, with the conversions of \<open>primitives/block/src/state_update.rs\<close>. The records below have the
  fields of the models of \<open>starknet_providers\<close> that the code reads. An \<open>expect\<close> on a missing field
  is a panic. A \<open>HashMap\<close> is the list of its entries in the order of its iterator. The constructors of
  \<open>starknet_api\<close> that wrap one felt (addresses, hashes, nonces, selectors, versions) are felts here, so
  the one-line wrappers of the source are \<open>felt_conv\<close>, and those of lists \<open>felts_conv\<close>.
\<close>

section \<open>The models of the sequencer\<close>

datatype prov_da_mode = ProvDA_L1 | ProvDA_L2

record prov_bounds =
  pb_l1_gas :: resource_bounds
  pb_l2_gas :: resource_bounds

record prov_declare =
  pd_version :: felt
  pd_max_fee :: "felt option"
  pd_signature :: "felt list"
  pd_nonce :: felt
  pd_class_hash :: felt
  pd_compiled_class_hash :: "felt option"
  pd_sender_address :: felt
  pd_resource_bounds :: "prov_bounds option"
  pd_tip :: "64 word option"
  pd_nonce_da :: "prov_da_mode option"
  pd_fee_da :: "prov_da_mode option"
  pd_paymaster_data :: "felt list option"
  pd_account_deployment_data :: "felt list option"

record prov_deploy =
  pp_version :: felt
  pp_class_hash :: felt
  pp_contract_address_salt :: felt
  pp_constructor_calldata :: "felt list"

record prov_deploy_account =
  pa_max_fee :: "felt option"
  pa_signature :: "felt list"
  pa_nonce :: felt
  pa_class_hash :: felt
  pa_contract_address_salt :: felt
  pa_constructor_calldata :: "felt list"
  pa_resource_bounds :: "prov_bounds option"
  pa_tip :: "64 word option"
  pa_nonce_da :: "prov_da_mode option"
  pa_fee_da :: "prov_da_mode option"
  pa_paymaster_data :: "felt list option"

record prov_invoke =
  pi_version :: felt
  pi_max_fee :: "felt option"
  pi_signature :: "felt list"
  pi_nonce :: "felt option"
  pi_sender_address :: felt
  pi_entry_point_selector :: "felt option"
  pi_calldata :: "felt list"
  pi_resource_bounds :: "prov_bounds option"
  pi_tip :: "64 word option"
  pi_nonce_da :: "prov_da_mode option"
  pi_fee_da :: "prov_da_mode option"
  pi_paymaster_data :: "felt list option"
  pi_account_deployment_data :: "felt list option"

record prov_l1_handler =
  ph_version :: felt
  ph_nonce :: "felt option"
  ph_contract_address :: felt
  ph_entry_point_selector :: felt
  ph_calldata :: "felt list"

datatype prov_transaction =
  ProvDeclare prov_declare
| ProvDeploy prov_deploy
| ProvDeployAccount prov_deploy_account
| ProvInvoke prov_invoke
| ProvL1Handler prov_l1_handler

record prov_event =
  pe_from_address :: felt
  pe_keys :: "felt list"
  pe_data :: "felt list"

record prov_receipt =
  pr_events :: "prov_event list"

record prov_block =
  pk_block_hash :: "felt option"
  pk_block_number :: "64 word option"
  pk_parent_block_hash :: felt
  pk_timestamp :: "64 word"
  pk_sequencer_address :: "felt option"
  pk_state_root :: "felt option"
  pk_transactions :: "prov_transaction list"
  pk_receipts :: "prov_receipt list"
  pk_starknet_version :: "bytes option"
  pk_l1_gas_price :: resource_price
  pk_l1_data_gas_price :: resource_price
  pk_l1_da_mode :: core_l1_da_mode

record prov_state_diff =
  psd_storage_diffs :: "(felt \<times> storage_diff list) list"
  psd_deployed_contracts :: "deployed_contract list"
  psd_old_declared_contracts :: "felt list"
  psd_declared_classes :: "declared_contract list"
  psd_nonces :: "(felt \<times> felt) list"
  psd_replaced_classes :: "deployed_contract list"

record prov_state_update =
  pu_block_hash :: "felt option"
  pu_new_root :: "felt option"
  pu_old_root :: felt
  pu_state_diff :: prov_state_diff

section \<open>Felts, fees, bounds and prices\<close>

definition felt_conv :: "felt_lib \<Rightarrow> felt \<Rightarrow> felt panicking" where
  "felt_conv L field_element = unwrap_opt (stark_new L (fe_to_bytes_be L field_element))"

definition felts_conv :: "felt_lib \<Rightarrow> felt list \<Rightarrow> felt list panicking" where
  "felts_conv L fs = try_map (felt_conv L) fs"

definition fee_conv :: "felt_lib \<Rightarrow> felt \<Rightarrow> 128 word panicking" where
  "fee_conv L f = unwrap_opt (fe_to_u128 L f)"

definition starknet_version :: "felt_lib \<Rightarrow> bytes option \<Rightarrow> felt panicking" where
  "starknet_version L version =
    (case version of Some version \<Rightarrow> unwrap (try_from_slice L version) | None \<Rightarrow> Ok ZERO)"

definition resource_bounds_conv :: "prov_bounds \<Rightarrow> resource_bounds_mapping" where
  "resource_bounds_conv b =
    [L1Gas \<mapsto> \<lparr> max_amount = max_amount (pb_l1_gas b), max_price_per_unit = max_price_per_unit (pb_l1_gas b) \<rparr>,
     L2Gas \<mapsto> \<lparr> max_amount = max_amount (pb_l2_gas b), max_price_per_unit = max_price_per_unit (pb_l2_gas b) \<rparr>]"

primrec data_availability_mode_conv :: "prov_da_mode \<Rightarrow> data_availability_mode" where
  "data_availability_mode_conv ProvDA_L1 = DA_L1"
| "data_availability_mode_conv ProvDA_L2 = DA_L2"

text \<open>The inner \<open>field_element_to_non_zero_u128\<close> and the prices of a block.\<close>

definition field_element_to_non_zero_u128 :: "felt_lib \<Rightarrow> felt \<Rightarrow> 128 word panicking" where
  "field_element_to_non_zero_u128 L f =
    res_bind (if f = ZERO then Ok 1 else unwrap_opt (fe_to_u128 L f)) (\<lambda>value.
      if value = 0 then Panic else Ok value)"

definition resource_price_conv :: "felt_lib \<Rightarrow> resource_price \<Rightarrow> resource_price \<Rightarrow> gas_prices option panicking" where
  "resource_price_conv L l1_gas_price l1_data_gas_price =
    (if price_in_wei l1_gas_price = ZERO then Ok None
     else
       res_bind (field_element_to_non_zero_u128 L (price_in_wei l1_gas_price)) (\<lambda>eth_l1_gas_price.
       res_bind (field_element_to_non_zero_u128 L (price_in_fri l1_gas_price)) (\<lambda>strk_l1_gas_price.
       res_bind (field_element_to_non_zero_u128 L (price_in_wei l1_data_gas_price)) (\<lambda>eth_l1_data_gas_price.
       res_bind (field_element_to_non_zero_u128 L (price_in_fri l1_data_gas_price)) (\<lambda>strk_l1_data_gas_price.
       Ok (Some \<lparr> eth_l1_gas_price = eth_l1_gas_price, strk_l1_gas_price = strk_l1_gas_price,
         eth_l1_data_gas_price = eth_l1_data_gas_price, strk_l1_data_gas_price = strk_l1_data_gas_price \<rparr>))))))"

primrec l1_da_mode_conv :: "core_l1_da_mode \<Rightarrow> l1_da_mode" where
  "l1_da_mode_conv CoreCalldata = Calldata"
| "l1_da_mode_conv CoreBlob = Blob"

section \<open>Transactions\<close>

definition declare_transaction_conv :: "felt_lib \<Rightarrow> prov_declare \<Rightarrow> declare_transaction panicking" where
  "declare_transaction_conv L tx =
    (if pd_version tx = ZERO \<or> pd_version tx = ONE then
       res_bind (unwrap_opt (pd_max_fee tx)) (\<lambda>max_fee. res_bind (fee_conv L max_fee) (\<lambda>max_fee.
       res_bind (felts_conv L (pd_signature tx)) (\<lambda>signature.
       res_bind (felt_conv L (pd_nonce tx)) (\<lambda>nonce.
       res_bind (felt_conv L (pd_class_hash tx)) (\<lambda>class_hash.
       res_bind (felt_conv L (pd_sender_address tx)) (\<lambda>sender_address.
       Ok (DeclareV1 \<lparr> dc1_max_fee = max_fee, dc1_signature = signature, dc1_nonce = nonce,
         dc1_class_hash = class_hash, dc1_sender_address = sender_address \<rparr>)))))))
     else if pd_version tx = TWO then
       res_bind (unwrap_opt (pd_max_fee tx)) (\<lambda>max_fee. res_bind (fee_conv L max_fee) (\<lambda>max_fee.
       res_bind (felts_conv L (pd_signature tx)) (\<lambda>signature.
       res_bind (felt_conv L (pd_nonce tx)) (\<lambda>nonce.
       res_bind (felt_conv L (pd_class_hash tx)) (\<lambda>class_hash.
       res_bind (unwrap_opt (pd_compiled_class_hash tx)) (\<lambda>compiled. res_bind (felt_conv L compiled) (\<lambda>compiled.
       res_bind (felt_conv L (pd_sender_address tx)) (\<lambda>sender_address.
       Ok (DeclareV2 \<lparr> dc2_max_fee = max_fee, dc2_signature = signature, dc2_nonce = nonce,
         dc2_class_hash = class_hash, dc2_compiled_class_hash = compiled,
         dc2_sender_address = sender_address \<rparr>)))))))))
     else if pd_version tx = THREE then
       res_bind (unwrap_opt (pd_resource_bounds tx)) (\<lambda>resource_bounds.
       res_bind (unwrap_opt (pd_tip tx)) (\<lambda>tip.
       res_bind (felts_conv L (pd_signature tx)) (\<lambda>signature.
       res_bind (felt_conv L (pd_nonce tx)) (\<lambda>nonce.
       res_bind (felt_conv L (pd_class_hash tx)) (\<lambda>class_hash.
       res_bind (unwrap_opt (pd_compiled_class_hash tx)) (\<lambda>compiled. res_bind (felt_conv L compiled) (\<lambda>compiled.
       res_bind (felt_conv L (pd_sender_address tx)) (\<lambda>sender_address.
       res_bind (unwrap_opt (pd_nonce_da tx)) (\<lambda>nonce_da.
       res_bind (unwrap_opt (pd_fee_da tx)) (\<lambda>fee_da.
       res_bind (unwrap_opt (pd_paymaster_data tx)) (\<lambda>paymaster. res_bind (felts_conv L paymaster) (\<lambda>paymaster.
       res_bind (unwrap_opt (pd_account_deployment_data tx)) (\<lambda>deployment. res_bind (felts_conv L deployment) (\<lambda>deployment.
       Ok (DeclareV3 \<lparr> dc3_resource_bounds = resource_bounds_conv resource_bounds, dc3_tip = tip,
         dc3_signature = signature, dc3_nonce = nonce, dc3_class_hash = class_hash,
         dc3_compiled_class_hash = compiled, dc3_sender_address = sender_address,
         dc3_nonce_da = data_availability_mode_conv nonce_da, dc3_fee_da = data_availability_mode_conv fee_da,
         dc3_paymaster_data = paymaster, dc3_account_deployment_data = deployment \<rparr>)))))))))))))))
     else Panic)"

definition deploy_transaction_conv :: "felt_lib \<Rightarrow> prov_deploy \<Rightarrow> deploy_tx panicking" where
  "deploy_transaction_conv L tx =
    res_bind (felt_conv L (pp_version tx)) (\<lambda>version.
    res_bind (felt_conv L (pp_class_hash tx)) (\<lambda>class_hash.
    res_bind (felt_conv L (pp_contract_address_salt tx)) (\<lambda>salt.
    res_bind (felts_conv L (pp_constructor_calldata tx)) (\<lambda>calldata.
    Ok \<lparr> dp_version = version, dp_class_hash = class_hash, dp_contract_address_salt = salt,
      dp_constructor_calldata = calldata \<rparr>))))"

definition deploy_account_transaction_version :: "prov_deploy_account \<Rightarrow> nat" where
  "deploy_account_transaction_version tx = (if pa_resource_bounds tx \<noteq> None then 3 else 1)"

definition deploy_account_transaction_conv :: "felt_lib \<Rightarrow> prov_deploy_account \<Rightarrow> deploy_account_transaction panicking" where
  "deploy_account_transaction_conv L tx =
    (if deploy_account_transaction_version tx = 1 then
       res_bind (unwrap_opt (pa_max_fee tx)) (\<lambda>max_fee. res_bind (fee_conv L max_fee) (\<lambda>max_fee.
       res_bind (felts_conv L (pa_signature tx)) (\<lambda>signature.
       res_bind (felt_conv L (pa_nonce tx)) (\<lambda>nonce.
       res_bind (felt_conv L (pa_class_hash tx)) (\<lambda>class_hash.
       res_bind (felt_conv L (pa_contract_address_salt tx)) (\<lambda>salt.
       res_bind (felts_conv L (pa_constructor_calldata tx)) (\<lambda>calldata.
       Ok (DeployAccountV1 \<lparr> da1_max_fee = max_fee, da1_signature = signature, da1_nonce = nonce,
         da1_class_hash = class_hash, da1_contract_address_salt = salt, da1_constructor_calldata = calldata \<rparr>))))))))
     else if deploy_account_transaction_version tx = 3 then
       res_bind (unwrap_opt (pa_resource_bounds tx)) (\<lambda>resource_bounds.
       res_bind (unwrap_opt (pa_tip tx)) (\<lambda>tip.
       res_bind (felts_conv L (pa_signature tx)) (\<lambda>signature.
       res_bind (felt_conv L (pa_nonce tx)) (\<lambda>nonce.
       res_bind (felt_conv L (pa_class_hash tx)) (\<lambda>class_hash.
       res_bind (felt_conv L (pa_contract_address_salt tx)) (\<lambda>salt.
       res_bind (felts_conv L (pa_constructor_calldata tx)) (\<lambda>calldata.
       res_bind (unwrap_opt (pa_nonce_da tx)) (\<lambda>nonce_da.
       res_bind (unwrap_opt (pa_fee_da tx)) (\<lambda>fee_da.
       res_bind (unwrap_opt (pa_paymaster_data tx)) (\<lambda>paymaster. res_bind (felts_conv L paymaster) (\<lambda>paymaster.
       Ok (DeployAccountV3 \<lparr> da3_resource_bounds = resource_bounds_conv resource_bounds, da3_tip = tip,
         da3_signature = signature, da3_nonce = nonce, da3_class_hash = class_hash,
         da3_contract_address_salt = salt, da3_constructor_calldata = calldata,
         da3_nonce_da = data_availability_mode_conv nonce_da, da3_fee_da = data_availability_mode_conv fee_da,
         da3_paymaster_data = paymaster \<rparr>))))))))))))
     else Panic)"

definition invoke_transaction_conv :: "felt_lib \<Rightarrow> prov_invoke \<Rightarrow> invoke_transaction panicking" where
  "invoke_transaction_conv L tx =
    (if pi_version tx = ZERO then
       res_bind (unwrap_opt (pi_max_fee tx)) (\<lambda>max_fee. res_bind (fee_conv L max_fee) (\<lambda>max_fee.
       res_bind (felts_conv L (pi_signature tx)) (\<lambda>signature.
       res_bind (felt_conv L (pi_sender_address tx)) (\<lambda>contract_address.
       res_bind (unwrap_opt (pi_entry_point_selector tx)) (\<lambda>selector. res_bind (felt_conv L selector) (\<lambda>selector.
       res_bind (felts_conv L (pi_calldata tx)) (\<lambda>calldata.
       Ok (InvokeV0 \<lparr> iv0_max_fee = max_fee, iv0_signature = signature, iv0_contract_address = contract_address,
         iv0_entry_point_selector = selector, iv0_calldata = calldata \<rparr>))))))))
     else if pi_version tx = ONE then
       res_bind (unwrap_opt (pi_max_fee tx)) (\<lambda>max_fee. res_bind (fee_conv L max_fee) (\<lambda>max_fee.
       res_bind (felts_conv L (pi_signature tx)) (\<lambda>signature.
       res_bind (unwrap_opt (pi_nonce tx)) (\<lambda>nonce. res_bind (felt_conv L nonce) (\<lambda>nonce.
       res_bind (felt_conv L (pi_sender_address tx)) (\<lambda>sender_address.
       res_bind (felts_conv L (pi_calldata tx)) (\<lambda>calldata.
       Ok (InvokeV1 \<lparr> iv1_max_fee = max_fee, iv1_signature = signature, iv1_nonce = nonce,
         iv1_sender_address = sender_address, iv1_calldata = calldata \<rparr>))))))))
     else if pi_version tx = THREE then
       res_bind (unwrap_opt (pi_resource_bounds tx)) (\<lambda>resource_bounds.
       res_bind (unwrap_opt (pi_tip tx)) (\<lambda>tip.
       res_bind (felts_conv L (pi_signature tx)) (\<lambda>signature.
       res_bind (unwrap_opt (pi_nonce tx)) (\<lambda>nonce. res_bind (felt_conv L nonce) (\<lambda>nonce.
       res_bind (felt_conv L (pi_sender_address tx)) (\<lambda>sender_address.
       res_bind (felts_conv L (pi_calldata tx)) (\<lambda>calldata.
       res_bind (unwrap_opt (pi_nonce_da tx)) (\<lambda>nonce_da.
       res_bind (unwrap_opt (pi_fee_da tx)) (\<lambda>fee_da.
       res_bind (unwrap_opt (pi_paymaster_data tx)) (\<lambda>paymaster. res_bind (felts_conv L paymaster) (\<lambda>paymaster.
       res_bind (unwrap_opt (pi_account_deployment_data tx)) (\<lambda>deployment. res_bind (felts_conv L deployment) (\<lambda>deployment.
       Ok (InvokeV3 \<lparr> iv3_resource_bounds = resource_bounds_conv resource_bounds, iv3_tip = tip,
         iv3_signature = signature, iv3_nonce = nonce, iv3_sender_address = sender_address,
         iv3_calldata = calldata, iv3_nonce_da = data_availability_mode_conv nonce_da,
         iv3_fee_da = data_availability_mode_conv fee_da, iv3_paymaster_data = paymaster,
         iv3_account_deployment_data = deployment \<rparr>))))))))))))))
     else Panic)"

definition l1_handler_transaction_conv :: "felt_lib \<Rightarrow> prov_l1_handler \<Rightarrow> l1_handler_tx panicking" where
  "l1_handler_transaction_conv L tx =
    res_bind (felt_conv L (ph_version tx)) (\<lambda>version.
    res_bind (felt_conv L (case ph_nonce tx of Some nonce \<Rightarrow> nonce | None \<Rightarrow> ZERO)) (\<lambda>nonce.
    res_bind (felt_conv L (ph_contract_address tx)) (\<lambda>contract_address.
    res_bind (felt_conv L (ph_entry_point_selector tx)) (\<lambda>selector.
    res_bind (felts_conv L (ph_calldata tx)) (\<lambda>calldata.
    Ok \<lparr> l1_version = version, l1_nonce = nonce, l1_contract_address = contract_address,
      l1_entry_point_selector = selector, l1_calldata = calldata \<rparr>)))))"

definition transaction_conv :: "felt_lib \<Rightarrow> prov_transaction \<Rightarrow> transaction panicking" where
  "transaction_conv L t =
    (case t of
       ProvDeclare tx \<Rightarrow> map_ok Declare (declare_transaction_conv L tx)
     | ProvDeploy tx \<Rightarrow> map_ok Deploy (deploy_transaction_conv L tx)
     | ProvDeployAccount tx \<Rightarrow> map_ok DeployAccount (deploy_account_transaction_conv L tx)
     | ProvInvoke tx \<Rightarrow> map_ok Invoke (invoke_transaction_conv L tx)
     | ProvL1Handler tx \<Rightarrow> map_ok L1Handler (l1_handler_transaction_conv L tx))"

definition transactions_conv :: "felt_lib \<Rightarrow> prov_transaction list \<Rightarrow> transaction list panicking" where
  "transactions_conv L txs = try_map (transaction_conv L) txs"

section \<open>Events, commitments and the block\<close>

definition event_conv :: "felt_lib \<Rightarrow> prov_event \<Rightarrow> event panicking" where
  "event_conv L e =
    res_bind (felt_conv L (pe_from_address e)) (\<lambda>from_address.
    res_bind (felts_conv L (pe_keys e)) (\<lambda>keys.
    res_bind (felts_conv L (pe_data e)) (\<lambda>data.
    Ok \<lparr> ev_from_address = from_address, ev_keys = keys, ev_data = data \<rparr>)))"

definition events_conv :: "felt_lib \<Rightarrow> prov_receipt list \<Rightarrow> event list panicking" where
  "events_conv L receipts = try_map (event_conv L) (concat (map pr_events receipts))"

text \<open>The chain id of the configuration; without one the felt of no bytes.\<close>

definition chain_id_conv :: "felt_lib \<Rightarrow> felt option \<Rightarrow> felt panicking" where
  "chain_id_conv L config =
    (case config of Some chain_id \<Rightarrow> Ok chain_id | None \<Rightarrow> unwrap (fe_from_byte_slice_be L []))"

definition commitments_conv :: "felt_lib \<Rightarrow> crypto_lib \<Rightarrow> ('b, 'tr) bonsai_lib \<Rightarrow> (unit, 'b) res \<Rightarrow> 64 word \<Rightarrow> felt option
    \<Rightarrow> transaction list \<Rightarrow> event list \<Rightarrow> 64 word \<Rightarrow> (felt \<times> felt) panicking" where
  "commitments_conv L K B mem trie_id config transactions events block_number =
    res_bind (chain_id_conv L config) (\<lambda>chain_id.
    res_bind (calculate_commitments L K B mem trie_id transactions events chain_id block_number)
      (\<lambda>(commitment_tx, commitment_event).
    res_bind (into_stark_felt L commitment_tx) (\<lambda>tx_felt.
    res_bind (into_stark_felt L commitment_event) (\<lambda>event_felt. Ok (tx_felt, event_felt)))))"

definition ordered_events_conv :: "felt_lib \<Rightarrow> prov_receipt list \<Rightarrow> ordered_events list panicking" where
  "ordered_events_conv L receipts =
    try_map (\<lambda>(i, r). map_ok (ordered_events_new (of_nat i)) (try_map (event_conv L) (pr_events r)))
      (filter (\<lambda>(_, r). pr_events r \<noteq> []) (enumerated receipts))"

definition convert_block_sync :: "felt_lib \<Rightarrow> crypto_lib \<Rightarrow> ('b, 'tr) bonsai_lib \<Rightarrow> (unit, 'b) res \<Rightarrow> 64 word \<Rightarrow> felt option
    \<Rightarrow> prov_block \<Rightarrow> deoxys_block panicking" where
  "convert_block_sync L K B mem trie_id config block =
    res_bind (transactions_conv L (pk_transactions block)) (\<lambda>transactions.
    res_bind (events_conv L (pk_receipts block)) (\<lambda>events.
    res_bind (felt_conv L (pk_parent_block_hash block)) (\<lambda>parent_block_hash.
    res_bind (unwrap_opt (pk_block_number block)) (\<lambda>block_number.
    res_bind (unwrap_opt (pk_state_root block)) (\<lambda>state_root.
    res_bind (felt_conv L state_root) (\<lambda>global_state_root.
    res_bind (felt_conv L ZERO) (\<lambda>default_address.
    res_bind (case pk_sequencer_address block of Some address \<Rightarrow> felt_conv L address | None \<Rightarrow> Ok default_address)
      (\<lambda>sequencer_address.
    let transaction_count = of_nat (length transactions);
        event_count = of_nat (length events)
    in
    res_bind (commitments_conv L K B mem trie_id config transactions events block_number)
      (\<lambda>(transaction_commitment, event_commitment).
    res_bind (starknet_version L (pk_starknet_version block)) (\<lambda>protocol_version.
    res_bind (resource_price_conv L (pk_l1_gas_price block) (pk_l1_data_gas_price block)) (\<lambda>l1_gas_price.
    let l1_da_mode = l1_da_mode_conv (pk_l1_da_mode block);
        extra_data = map_option (\<lambda>h. u256_from_be L (fe_to_bytes_be L h)) (pk_block_hash block);
        header =
          \<lparr> h_parent_block_hash = parent_block_hash,
            h_block_number = block_number,
            h_global_state_root = global_state_root,
            h_sequencer_address = sequencer_address,
            h_block_timestamp = pk_timestamp block,
            h_transaction_count = transaction_count,
            h_transaction_commitment = transaction_commitment,
            h_event_count = event_count,
            h_event_commitment = event_commitment,
            h_protocol_version = protocol_version,
            h_l1_gas_price = l1_gas_price,
            h_l1_da_mode = l1_da_mode,
            h_extra_data = extra_data \<rparr>
    in
    res_bind (ordered_events_conv L (pk_receipts block)) (\<lambda>ordered_events.
    Ok (deoxys_block_new header transactions ordered_events)))))))))))))"

section \<open>State updates\<close>

text \<open>For the database and the tries, \<open>StateUpdateWrapper::from\<close>.\<close>

definition storage_diff_wrapper :: "storage_diff \<Rightarrow> storage_diff" where
  "storage_diff_wrapper diff = \<lparr> sd_key = sd_key diff, sd_value = sd_value diff \<rparr>"

definition deployed_contract_wrapper :: "deployed_contract \<Rightarrow> deployed_contract" where
  "deployed_contract_wrapper contract =
    \<lparr> dep_address = dep_address contract, dep_class_hash = dep_class_hash contract \<rparr>"

definition declared_contract_wrapper :: "declared_contract \<Rightarrow> declared_contract" where
  "declared_contract_wrapper contract =
    \<lparr> dec_class_hash = dec_class_hash contract, dec_compiled_class_hash = dec_compiled_class_hash contract \<rparr>"

definition state_diff_wrapper :: "prov_state_diff \<Rightarrow> state_diff" where
  "state_diff_wrapper diff =
    \<lparr> storage_diffs = map (\<lambda>(key, diffs). (key, map storage_diff_wrapper diffs)) (psd_storage_diffs diff),
      deployed_contracts = map deployed_contract_wrapper (psd_deployed_contracts diff),
      old_declared_contracts = psd_old_declared_contracts diff,
      declared_classes = map declared_contract_wrapper (psd_declared_classes diff),
      nonces = map (\<lambda>(key, value). (key, value)) (psd_nonces diff),
      replaced_classes = map deployed_contract_wrapper (psd_replaced_classes diff) \<rparr>"

definition state_update_wrapper :: "prov_state_update \<Rightarrow> state_update" where
  "state_update_wrapper update =
    \<lparr> su_block_hash = pu_block_hash update,
      su_new_root = pu_new_root update,
      su_old_root = pu_old_root update,
      su_state_diff = state_diff_wrapper (pu_state_diff update) \<rparr>"

text \<open>For the pending block of the RPC, \<open>convert::state_update\<close>.\<close>

definition storage_entries_conv :: "storage_diff list \<Rightarrow> (felt \<times> felt) list" where
  "storage_entries_conv entries = map (\<lambda>d. (sd_key d, sd_value d)) entries"

definition storage_diffs_conv :: "(felt \<times> storage_diff list) list \<Rightarrow> core_storage_diff_item list" where
  "storage_diffs_conv diffs = map (\<lambda>(address, entries).
    \<lparr> csd_address = address, csd_entries = storage_entries_conv entries \<rparr>) diffs"

definition declared_classes_conv :: "declared_contract list \<Rightarrow> (felt \<times> felt) list" where
  "declared_classes_conv cs = map (\<lambda>c. (dec_class_hash c, dec_compiled_class_hash c)) cs"

definition deployed_contracts_conv :: "deployed_contract list \<Rightarrow> (felt \<times> felt) list" where
  "deployed_contracts_conv cs = map (\<lambda>c. (dep_address c, dep_class_hash c)) cs"

definition replaced_classes_conv :: "deployed_contract list \<Rightarrow> (felt \<times> felt) list" where
  "replaced_classes_conv cs = map (\<lambda>c. (dep_address c, dep_class_hash c)) cs"

definition nonces_conv :: "(felt \<times> felt) list \<Rightarrow> (felt \<times> felt) list" where
  "nonces_conv ns = map (\<lambda>(contract_address, nonce). (contract_address, nonce)) ns"

definition state_diff_conv :: "prov_state_diff \<Rightarrow> core_state_diff" where
  "state_diff_conv diff =
    \<lparr> csf_storage_diffs = storage_diffs_conv (psd_storage_diffs diff),
      csf_deprecated_declared_classes = psd_old_declared_contracts diff,
      csf_declared_classes = declared_classes_conv (psd_declared_classes diff),
      csf_deployed_contracts = deployed_contracts_conv (psd_deployed_contracts diff),
      csf_replaced_classes = replaced_classes_conv (psd_replaced_classes diff),
      csf_nonces = nonces_conv (psd_nonces diff) \<rparr>"

definition state_update_conv :: "prov_state_update \<Rightarrow> core_pending_state_update" where
  "state_update_conv update =
    \<lparr> cpu_old_root = pu_old_root update, cpu_state_diff = state_diff_conv (pu_state_diff update) \<rparr>"

section \<open>What the conversions return\<close>

lemma felt_conv_ok [result_simps]: "felt_codec L \<Longrightarrow> felt_conv L f = Ok f"
  by (simp add: felt_conv_def felt_codec.fe_to_bytes_be felt_codec.stark_new be_felt del: power_numeral)

lemma felts_conv_ok [result_simps]: "felt_codec L \<Longrightarrow> felts_conv L fs = Ok fs"
  by (simp add: felts_conv_def felt_conv_ok try_map_all_ok [where g = "\<lambda>x. x"])




lemma fee_conv_outcome:
  "felt_codec L \<Longrightarrow> res_bind (fee_conv L f) g =
    (if felt_nat f < 2 ^ 128 then g (of_nat (felt_nat f)) else Panic)"
  by (simp add: fee_conv_def felt_codec.fe_to_u128 del: power_numeral)







lemma version_felts: "ZERO \<noteq> ONE" "ZERO \<noteq> TWO" "ZERO \<noteq> THREE" "ONE \<noteq> TWO" "ONE \<noteq> THREE" "TWO \<noteq> THREE"
proof -
  have "felt_nat ZERO = 0" "felt_nat ONE = 1" "felt_nat TWO = 2" "felt_nat THREE = 3"
    by (simp_all add: ZERO_def ONE_def TWO_def THREE_def STARK_PRIME_def)
  then show "ZERO \<noteq> ONE" "ZERO \<noteq> TWO" "ZERO \<noteq> THREE" "ONE \<noteq> TWO" "ONE \<noteq> THREE" "TWO \<noteq> THREE" by auto
qed






definition sample_prov_invoke :: "felt option \<Rightarrow> prov_invoke" where
  "sample_prov_invoke n = \<lparr> pi_version = ONE, pi_max_fee = Some 1, pi_signature = [1], pi_nonce = n,
     pi_sender_address = 1, pi_entry_point_selector = None, pi_calldata = [1, 0], pi_resource_bounds = None,
     pi_tip = None, pi_nonce_da = None, pi_fee_da = None, pi_paymaster_data = None,
     pi_account_deployment_data = None \<rparr>"



section \<open>The converted block\<close>

definition converted_event :: "prov_event \<Rightarrow> event" where
  "converted_event e = \<lparr> ev_from_address = pe_from_address e, ev_keys = pe_keys e, ev_data = pe_data e \<rparr>"

lemma event_conv_ok: "felt_codec L \<Longrightarrow> event_conv L e = Ok (converted_event e)"
  by (simp add: event_conv_def felt_conv_ok felts_conv_ok converted_event_def)

lemma events_conv_ok: "felt_codec L \<Longrightarrow> events_conv L rs = Ok (map converted_event (concat (map pr_events rs)))"
  by (simp add: events_conv_def event_conv_ok try_map_all_ok)

definition receipts_with_events :: "prov_receipt list \<Rightarrow> (nat \<times> prov_receipt) list" where
  "receipts_with_events rs = filter (\<lambda>(_, r). pr_events r \<noteq> []) (enumerated rs)"

lemma ordered_events_conv_ok:
  "felt_codec L \<Longrightarrow> ordered_events_conv L rs =
    Ok (map (\<lambda>(i, r). ordered_events_new (of_nat i) (map converted_event (pr_events r))) (receipts_with_events rs))"
  by (auto simp: ordered_events_conv_def receipts_with_events_def event_conv_ok
      try_map_all_ok [where g = converted_event] intro!: try_map_all_ok)

lemma concat_filter_nonempty: "concat (map f (filter (\<lambda>x. f x \<noteq> []) xs)) = concat (map f xs)"
  by (induction xs) auto

lemma receipts_with_events_concat:
  "concat (map (\<lambda>(i, r). pr_events r) (receipts_with_events rs)) = concat (map pr_events rs)"
proof -
  have "concat (map (\<lambda>x. pr_events (snd x)) (filter (\<lambda>x. pr_events (snd x) \<noteq> []) (enumerated rs))) =
      concat (map (\<lambda>x. pr_events (snd x)) (enumerated rs))"
    by (rule concat_filter_nonempty)
  also have "map (\<lambda>x. pr_events (snd x)) (enumerated rs) = map pr_events (map snd (enumerated rs))"
    by (simp only: map_map comp_def)
  finally show ?thesis by (simp add: receipts_with_events_def split_def)
qed

lemma receipts_with_events_sorted: "sorted_wrt (<) (map fst (receipts_with_events rs))"
proof -
  have "sorted_wrt (\<lambda>x y. fst x < fst y) (enumerated rs)"
    using sorted_wrt_map [of "(<)" fst "enumerated rs"] by (simp del: upt_Suc)
  then show ?thesis unfolding receipts_with_events_def sorted_wrt_map by (rule sorted_wrt_filter)
qed

lemma receipts_with_events_mem:
  "(i, r) \<in> set (receipts_with_events rs) \<Longrightarrow> i < length rs \<and> r = rs ! i \<and> pr_events r \<noteq> []"
  by (auto simp: receipts_with_events_def enumerated_def in_set_zip)

definition version_felt_of :: "bytes option \<Rightarrow> felt" where
  "version_felt_of v = (case v of Some bs \<Rightarrow> felt_of_nat (be_nat bs) | None \<Rightarrow> 0)"

lemma starknet_version_ok:
  assumes "felt_codec L" and "case v of Some bs \<Rightarrow> length bs \<le> 31 | None \<Rightarrow> True"
  shows "starknet_version L v = Ok (version_felt_of v)"
  using assms short_bytes_lt_prime
  by (auto simp: starknet_version_def version_felt_of_def felt_codec.slice_accept ZERO_def split: option.splits)

definition price_of :: "felt \<Rightarrow> 128 word" where
  "price_of f = (if f = 0 then 1 else of_nat (felt_nat f))"

lemma price_ok:
  assumes "felt_codec L" and "felt_nat f < 2 ^ 128"
  shows "field_element_to_non_zero_u128 L f = Ok (price_of f)" and "price_of f \<noteq> 0"
proof -
  have "f \<noteq> 0 \<Longrightarrow> felt_nat f \<noteq> 0" by (metis felt_nat_inject felt_nat_zero)
  then have "f \<noteq> 0 \<Longrightarrow> (of_nat (felt_nat f) :: 128 word) \<noteq> 0"
    using assms(2) by (simp add: word_of_nat_eq_0_iff nat_dvd_not_less del: power_numeral)
  then show nz: "price_of f \<noteq> 0" by (simp add: price_of_def)
  from assms nz show "field_element_to_non_zero_u128 L f = Ok (price_of f)"
    by (simp add: field_element_to_non_zero_u128_def felt_codec.fe_to_u128 ZERO_def price_of_def del: power_numeral
        split: if_splits)
qed

definition prices_of :: "resource_price \<Rightarrow> resource_price \<Rightarrow> gas_prices option" where
  "prices_of p d = (if price_in_wei p = 0 then None
     else Some \<lparr> eth_l1_gas_price = price_of (price_in_wei p), strk_l1_gas_price = price_of (price_in_fri p),
       eth_l1_data_gas_price = price_of (price_in_wei d), strk_l1_data_gas_price = price_of (price_in_fri d) \<rparr>)"

lemma resource_price_conv_ok:
  assumes "felt_codec L" and "list_all (\<lambda>f. felt_nat f < 2 ^ 128)
    [price_in_wei p, price_in_fri p, price_in_wei d, price_in_fri d]"
  shows "resource_price_conv L p d = Ok (prices_of p d)"
  using assms(2)
  by (simp add: resource_price_conv_def prices_of_def price_ok [OF assms(1)] ZERO_def del: power_numeral)

definition chain_of :: "felt option \<Rightarrow> felt" where
  "chain_of config = (case config of Some c \<Rightarrow> c | None \<Rightarrow> 0)"

lemma chain_id_conv_ok: "felt_codec L \<Longrightarrow> chain_id_conv L config = Ok (chain_of config)"
  by (cases config) (simp_all add: chain_id_conv_def chain_of_def felt_codec.fe_from_byte_slice_be STARK_PRIME_def zero_felt_def)

lemma commitments_conv_ok:
  assumes "felt_codec L" and "merkle_trie B tree merkle" and "tree b = (\<lambda>_. Map.empty)"
    and "those (map (tx_digest K (chain_of config) n) txs) = Some ds" and "length txs \<le> 2 ^ 64" and "length evs \<le> 2 ^ 64"
  shows "commitments_conv L K B (Ok b) i config txs evs n =
    Ok (merkle (index_leaves ds), if evs = [] then 0 else merkle (index_leaves (map (event_digest K) evs)))"
  using commitments_value [OF assms]
  by (simp add: commitments_conv_def chain_id_conv_ok [OF assms(1)] stark_into_ok [OF assms(1)])

text \<open>The block that the conversion builds.\<close>

definition block_of :: "prov_block \<Rightarrow> 64 word \<Rightarrow> felt \<Rightarrow> transaction list \<Rightarrow> felt \<Rightarrow> felt \<Rightarrow> deoxys_block" where
  "block_of p n root txs tx_root ev_root = deoxys_block_new
    (header_new (pk_parent_block_hash p) n root (case pk_sequencer_address p of Some a \<Rightarrow> a | None \<Rightarrow> 0)
      (pk_timestamp p) (of_nat (length txs)) tx_root (of_nat (length (concat (map pr_events (pk_receipts p))))) ev_root
      (version_felt_of (pk_starknet_version p)) (prices_of (pk_l1_gas_price p) (pk_l1_data_gas_price p))
      (l1_da_mode_conv (pk_l1_da_mode p)) (map_option (\<lambda>h. of_nat (felt_nat h)) (pk_block_hash p)))
    txs
    (map (\<lambda>(i, r). ordered_events_new (of_nat i) (map converted_event (pr_events r))) (receipts_with_events (pk_receipts p)))"

lemma block_of_built:
  assumes "felt_codec L" and "transactions_conv L (pk_transactions p) = Ok txs"
    and "pk_block_number p = Some n" and "pk_state_root p = Some root"
    and "case pk_starknet_version p of Some bs \<Rightarrow> length bs \<le> 31 | None \<Rightarrow> True"
    and "list_all (\<lambda>f. felt_nat f < 2 ^ 128) [price_in_wei (pk_l1_gas_price p), price_in_fri (pk_l1_gas_price p),
      price_in_wei (pk_l1_data_gas_price p), price_in_fri (pk_l1_data_gas_price p)]"
    and "commitments_conv L K B mem i config txs (map converted_event (concat (map pr_events (pk_receipts p)))) n = Ok (tr, er)"
  shows "convert_block_sync L K B mem i config p = Ok (block_of p n root txs tr er)"
proof -
  have "(case pk_sequencer_address p of Some address \<Rightarrow> felt_conv L address | None \<Rightarrow> Ok ZERO) =
      Ok (case pk_sequencer_address p of Some a \<Rightarrow> a | None \<Rightarrow> 0)"
    by (simp add: felt_conv_ok [OF assms(1)] ZERO_def split: option.split)
  then show ?thesis
    by (simp add: convert_block_sync_def assms(2-4,7) felt_conv_ok [OF assms(1)] events_conv_ok [OF assms(1)]
        ordered_events_conv_ok [OF assms(1)] starknet_version_ok [OF assms(1,5)] resource_price_conv_ok [OF assms(1,6)]
        block_of_def header_new_def Let_def felt_codec.fe_to_bytes_be [OF assms(1)] felt_codec.u256_from_be [OF assms(1)]
        be_felt comp_def)
qed

lemma block_of_events:
  assumes "length (pk_receipts p) \<le> 2 ^ 64"
  shows "concat (map oe_events (blk_events (block_of p n root txs tr er))) =
      map converted_event (concat (map pr_events (pk_receipts p)))"
    and "sorted_wrt (<) (map oe_index (blk_events (block_of p n root txs tr er)))"
    and "list_all (\<lambda>o'. unat (oe_index o') < length (pk_receipts p) \<and> oe_events o' \<noteq> []
      \<and> oe_events o' = map converted_event (pr_events (pk_receipts p ! unat (oe_index o')))) (blk_events (block_of p n root txs tr er))"
proof -
  let ?rs = "receipts_with_events (pk_receipts p)"
  have idx: "unat (of_nat i :: 128 word) = i" if "(i, r) \<in> set ?rs" for i r
  proof -
    have "i < 2 ^ 64" using receipts_with_events_mem [OF that] assms by linarith
    then have "i < 2 ^ 128" by simp
    then show ?thesis by (simp add: unat_of_nat take_bit_eq_mod del: power_numeral)
  qed
  have "concat (map oe_events (blk_events (block_of p n root txs tr er))) =
      concat (map (\<lambda>(i, r). map converted_event (pr_events r)) ?rs)"
    by (simp add: block_of_def deoxys_block_new_def ordered_events_new_def comp_def split_def)
  also have "\<dots> = map converted_event (concat (map (\<lambda>(i, r). pr_events r) ?rs))"
    by (simp add: map_concat comp_def split_def)
  finally show "concat (map oe_events (blk_events (block_of p n root txs tr er))) =
      map converted_event (concat (map pr_events (pk_receipts p)))"
    unfolding receipts_with_events_concat .
  have "sorted_wrt (\<lambda>x y. fst x < fst y) ?rs" using receipts_with_events_sorted by (simp add: sorted_wrt_map)
  then have "sorted_wrt (\<lambda>x y. (of_nat (fst x) :: 128 word) < of_nat (fst y)) ?rs"
    by (rule sorted_wrt_mono_rel [rotated]) (metis idx prod.collapse word_less_nat_alt)
  then show "sorted_wrt (<) (map oe_index (blk_events (block_of p n root txs tr er)))"
    by (simp add: block_of_def deoxys_block_new_def ordered_events_new_def comp_def split_def sorted_wrt_map)
  show "list_all (\<lambda>o'. unat (oe_index o') < length (pk_receipts p) \<and> oe_events o' \<noteq> []
      \<and> oe_events o' = map converted_event (pr_events (pk_receipts p ! unat (oe_index o')))) (blk_events (block_of p n root txs tr er))"
    using receipts_with_events_mem
    by (fastforce simp: block_of_def deoxys_block_new_def ordered_events_new_def list_all_iff idx)
qed

text \<open>C23: a block of the sequencer with its number, its state root, a version of at most 31 bytes, prices
  of at most 128 bits, and transactions that can be converted and hashed is converted. The block has the
  converted transactions in their order, its events are those of the receipts in their order, filed by
  increasing position of their receipt and never empty, and its header counts both and has their
  commitments for the configured chain. The prices are absent exactly for a zero price in wei.\<close>

theorem converted_block:
  assumes "felt_codec L" and "merkle_trie B tree merkle" and "tree b = (\<lambda>_. Map.empty)"
    and "transactions_conv L (pk_transactions p) = Ok txs" and "pk_block_number p = Some n" and "pk_state_root p = Some root"
    and "case pk_starknet_version p of Some bs \<Rightarrow> length bs \<le> 31 | None \<Rightarrow> True"
    and "list_all (\<lambda>f. felt_nat f < 2 ^ 128) [price_in_wei (pk_l1_gas_price p), price_in_fri (pk_l1_gas_price p),
      price_in_wei (pk_l1_data_gas_price p), price_in_fri (pk_l1_data_gas_price p)]"
    and "those (map (tx_digest K (chain_of config) n) txs) = Some ds"
    and "length (pk_transactions p) \<le> 2 ^ 64" and "length (pk_receipts p) \<le> 2 ^ 64"
    and "length (concat (map pr_events (pk_receipts p))) \<le> 2 ^ 64"
  shows "\<exists>blk evs. convert_block_sync L K B (Ok b) i config p = Ok blk
    \<and> blk_transactions blk = txs \<and> length txs = length (pk_transactions p)
    \<and> concat (map oe_events (blk_events blk)) = evs \<and> evs = map converted_event (concat (map pr_events (pk_receipts p)))
    \<and> sorted_wrt (<) (map oe_index (blk_events blk))
    \<and> list_all (\<lambda>o'. unat (oe_index o') < length (pk_receipts p) \<and> oe_events o' \<noteq> []
        \<and> oe_events o' = map converted_event (pr_events (pk_receipts p ! unat (oe_index o')))) (blk_events blk)
    \<and> h_transaction_count (blk_header blk) = of_nat (length txs) \<and> h_event_count (blk_header blk) = of_nat (length evs)
    \<and> h_transaction_commitment (blk_header blk) = merkle (index_leaves ds)
    \<and> h_event_commitment (blk_header blk) = (if evs = [] then 0 else merkle (index_leaves (map (event_digest K) evs)))
    \<and> h_block_number (blk_header blk) = n \<and> h_global_state_root (blk_header blk) = root
    \<and> h_parent_block_hash (blk_header blk) = pk_parent_block_hash p \<and> h_block_timestamp (blk_header blk) = pk_timestamp p
    \<and> (h_l1_gas_price (blk_header blk) = None \<longleftrightarrow> price_in_wei (pk_l1_gas_price p) = 0)"
proof -
  let ?evs = "map converted_event (concat (map pr_events (pk_receipts p)))"
  let ?blk = "block_of p n root txs (merkle (index_leaves ds)) (if ?evs = [] then 0 else merkle (index_leaves (map (event_digest K) ?evs)))"
  have len: "length txs = length (pk_transactions p)"
    using assms(4) unfolding transactions_conv_def by (rule try_map_length)
  have "convert_block_sync L K B (Ok b) i config p = Ok ?blk"
    using len assms(10,12) by (intro block_of_built [OF assms(1,4-8)] commitments_conv_ok [OF assms(1-3,9)]) simp_all
  then show ?thesis
    using len block_of_events [OF assms(11)]
    by (intro exI [of _ ?blk] exI [of _ ?evs])
      (simp add: block_of_def deoxys_block_new_def header_new_def prices_of_def)
qed

definition sample_prov_block :: prov_block where
  "sample_prov_block = \<lparr> pk_block_hash = Some 9, pk_block_number = Some 5, pk_parent_block_hash = 8, pk_timestamp = 1000,
     pk_sequencer_address = None, pk_state_root = Some 3, pk_transactions = [ProvInvoke (sample_prov_invoke (Some 0))],
     pk_receipts = [\<lparr> pr_events = [\<lparr> pe_from_address = 1, pe_keys = [], pe_data = [1] \<rparr>] \<rparr>],
     pk_starknet_version = Some (ascii ''0.13.1''), pk_l1_gas_price = \<lparr> price_in_fri = 0, price_in_wei = 0 \<rparr>,
     pk_l1_data_gas_price = \<lparr> price_in_fri = 0, price_in_wei = 0 \<rparr>, pk_l1_da_mode = CoreBlob \<rparr>"

definition sample_stored_invoke :: transaction where
  "sample_stored_invoke = Invoke (InvokeV1 \<lparr> iv1_max_fee = 1, iv1_signature = [1], iv1_nonce = 0,
     iv1_sender_address = 1, iv1_calldata = [1, 0] \<rparr>)"

lemma sample_block_transactions:
  "transactions_conv ref_felt_lib (pk_transactions sample_prov_block) = Ok [sample_stored_invoke]"
proof -
  have "felt_nat 1 = 1" by (simp add: one_felt_def STARK_PRIME_def)
  then show ?thesis
    by (simp add: transactions_conv_def sample_prov_block_def transaction_conv_def invoke_transaction_conv_def
      sample_prov_invoke_def version_felts version_felts [symmetric] fee_conv_outcome [OF ref_felt_codec]
      felt_conv_ok [OF ref_felt_codec] felts_conv_ok [OF ref_felt_codec] sample_stored_invoke_def)
qed

lemma sample_block_digests:
  "those (map (tx_digest ref_crypto (chain_of (Some 5)) 5) [sample_stored_invoke]) =
    Some [the (tx_digest ref_crypto (chain_of (Some 5)) 5 sample_stored_invoke)]"
  by (simp add: tx_digest_def sample_stored_invoke_def)

lemma sample_block_fields:
  "pk_block_number sample_prov_block = Some 5" "pk_state_root sample_prov_block = Some 3"
  "case pk_starknet_version sample_prov_block of Some bs \<Rightarrow> length bs \<le> 31 | None \<Rightarrow> True"
  "list_all (\<lambda>f. felt_nat f < 2 ^ 128) [price_in_wei (pk_l1_gas_price sample_prov_block),
    price_in_fri (pk_l1_gas_price sample_prov_block), price_in_wei (pk_l1_data_gas_price sample_prov_block),
    price_in_fri (pk_l1_data_gas_price sample_prov_block)]"
  by (simp_all add: sample_prov_block_def ascii_def)

lemma sample_block_lengths:
  "length (pk_transactions sample_prov_block) \<le> 2 ^ 64" "length (pk_receipts sample_prov_block) \<le> 2 ^ 64"
  "length (concat (map pr_events (pk_receipts sample_prov_block))) \<le> 2 ^ 64"
  by (simp_all add: sample_prov_block_def)

lemma empty_trees: "(\<lambda>i k. Map.empty (i, k)) = (\<lambda>_. Map.empty)"
  by (simp add: fun_eq_iff)

theorem converted_block_witness:
  "\<exists>blk. convert_block_sync ref_felt_lib ref_crypto count_bonsai (Ok Map.empty) 0 (Some 5) sample_prov_block = Ok blk
    \<and> blk_transactions blk = [sample_stored_invoke] \<and> h_event_count (blk_header blk) = 1
    \<and> h_block_number (blk_header blk) = 5 \<and> h_l1_gas_price (blk_header blk) = None"
  using converted_block [where b = Map.empty and i = 0, OF ref_felt_codec count_merkle empty_trees
      sample_block_transactions sample_block_fields sample_block_digests sample_block_lengths]
  by (elim exE conjE) (auto simp: sample_prov_block_def)

section \<open>What the RPC shows of the converted header\<close>

lemma convert_header_prices:
  assumes "convert_block_sync L K B mem i config p = Ok blk"
  shows "resource_price_conv L (pk_l1_gas_price p) (pk_l1_data_gas_price p) = Ok (h_l1_gas_price (blk_header blk))"
    and "h_l1_da_mode (blk_header blk) = l1_da_mode_conv (pk_l1_da_mode p)"
  using assms
  by (auto simp: convert_block_sync_def res_bind_Ok_iff Let_def deoxys_block_new_def split: prod.splits)

lemma non_zero_outcome:
  assumes "felt_codec L"
  shows "field_element_to_non_zero_u128 L f = (if felt_nat f < 2 ^ 128 then Ok (price_of f) else Panic)"
proof (cases "felt_nat f < 2 ^ 128")
  case False
  moreover have "f \<noteq> 0" using False by (auto simp del: power_numeral)
  ultimately show ?thesis
    by (simp add: field_element_to_non_zero_u128_def felt_codec.fe_to_u128 [OF assms] ZERO_def del: power_numeral)
qed (simp add: price_ok [OF assms] del: power_numeral)

lemma price_back:
  assumes "felt_nat f < 2 ^ 128"
  shows "felt_of_nat (unat (price_of f)) = (if f = 0 then 1 else f)" and "price_of f = 1 \<longleftrightarrow> f = 0 \<or> f = 1"
proof -
  have one: "felt_nat 1 = 1" by (simp add: one_felt_def STARK_PRIME_def)
  have u: "unat (of_nat (felt_nat f) :: 128 word) = felt_nat f"
    using assms by (simp add: unat_of_nat take_bit_eq_mod del: power_numeral)
  then show "felt_of_nat (unat (price_of f)) = (if f = 0 then 1 else f)"
    by (simp add: price_of_def one_felt_def)
  have "(of_nat (felt_nat f) :: 128 word) = 1 \<longleftrightarrow> f = 1"
    using u one by (metis felt_nat_inject of_nat_1 unat_1)
  then show "price_of f = 1 \<longleftrightarrow> f = 0 \<or> f = 1" by (auto simp: price_of_def)
qed

text \<open>C25: the RPC shows the data availability mode of the sequencer. It shows the sequencer's gas price
  exactly when neither of its prices is 1 and a zero price in wei comes with a zero price in fri, and the
  sequencer's price for data exactly when none of its prices is zero, or all are 1 in a block without
  prices: the 1 that stands for a zero is undone for the first price and not for the second.\<close>

theorem shown_prices:
  assumes "felt_codec L" and "convert_block_sync L K B mem i config p = Ok blk"
  shows "rpc_l1_da_mode blk = pk_l1_da_mode p
    \<and> (rpc_l1_gas_price L blk = pk_l1_gas_price p \<longleftrightarrow>
        (if price_in_wei (pk_l1_gas_price p) = 0 then price_in_fri (pk_l1_gas_price p) = 0
         else price_in_wei (pk_l1_gas_price p) \<noteq> 1 \<and> price_in_fri (pk_l1_gas_price p) \<noteq> 1))
    \<and> (rpc_l1_data_gas_price L blk = pk_l1_data_gas_price p \<longleftrightarrow>
        (if price_in_wei (pk_l1_gas_price p) = 0
         then price_in_wei (pk_l1_data_gas_price p) = 1 \<and> price_in_fri (pk_l1_data_gas_price p) = 1
         else price_in_wei (pk_l1_data_gas_price p) \<noteq> 0 \<and> price_in_fri (pk_l1_data_gas_price p) \<noteq> 0))"
proof -
  obtain gf gw df dw where g: "pk_l1_gas_price p = \<lparr> price_in_fri = gf, price_in_wei = gw \<rparr>"
    "pk_l1_data_gas_price p = \<lparr> price_in_fri = df, price_in_wei = dw \<rparr>"
    by (metis resource_price.cases)
  have da: "rpc_l1_da_mode blk = pk_l1_da_mode p"
    by (cases "pk_l1_da_mode p") (simp_all add: rpc_l1_da_mode_def convert_header_prices(2) [OF assms(2)])
  show ?thesis
  proof (cases "gw = 0")
    case True
    then have "h_l1_gas_price (blk_header blk) = None"
      using convert_header_prices(1) [OF assms(2)] by (simp add: resource_price_conv_def g ZERO_def)
    with True da show ?thesis by (auto simp: rpc_l1_gas_price_def rpc_l1_data_gas_price_def g)
  next
    case False
    then have small: "felt_nat gw < 2 ^ 128" "felt_nat gf < 2 ^ 128" "felt_nat dw < 2 ^ 128" "felt_nat df < 2 ^ 128"
      and h: "h_l1_gas_price (blk_header blk) = Some \<lparr> eth_l1_gas_price = price_of gw, strk_l1_gas_price = price_of gf,
        eth_l1_data_gas_price = price_of dw, strk_l1_data_gas_price = price_of df \<rparr>"
      using convert_header_prices(1) [OF assms(2)]
      by (simp_all add: resource_price_conv_def g ZERO_def non_zero_outcome [OF assms(1)] del: power_numeral split: if_splits)
    have "(1 :: felt) \<noteq> 0" using version_felts(1) by (simp add: ZERO_def ONE_def)
    with False da show ?thesis
      by (auto simp: rpc_l1_gas_price_def rpc_l1_data_gas_price_def g h non_zero_u128_to_field_element_def
          felt_codec.fe_from_u128 [OF assms(1)] price_back [OF small(1)] price_back [OF small(2)]
          price_back [OF small(3)] price_back [OF small(4)])
  qed
qed

lemma sample_block_converts:
  "\<exists>blk. convert_block_sync ref_felt_lib ref_crypto count_bonsai (Ok Map.empty) 0 (Some 5) sample_prov_block = Ok blk"
proof (rule exI, rule block_of_built [OF ref_felt_codec sample_block_transactions sample_block_fields])
  let ?evs = "map converted_event (concat (map pr_events (pk_receipts sample_prov_block)))"
  have "length [sample_stored_invoke] \<le> 2 ^ 64" "length ?evs \<le> 2 ^ 64"
    using sample_block_lengths(3) by (simp_all only: length_map) simp
  then show "commitments_conv ref_felt_lib ref_crypto count_bonsai (Ok Map.empty) 0 (Some 5) [sample_stored_invoke] ?evs 5 =
      Ok (felt_of_nat (card (dom (index_leaves [the (tx_digest ref_crypto (chain_of (Some 5)) 5 sample_stored_invoke)]))),
        if ?evs = [] then 0 else felt_of_nat (card (dom (index_leaves (map (event_digest ref_crypto) ?evs)))))"
    by (rule commitments_conv_ok [where b = Map.empty, OF ref_felt_codec count_merkle empty_trees sample_block_digests])
qed

theorem shown_prices_witness:
  "\<exists>blk. convert_block_sync ref_felt_lib ref_crypto count_bonsai (Ok Map.empty) 0 (Some 5) sample_prov_block = Ok blk
    \<and> rpc_l1_da_mode blk = CoreBlob \<and> rpc_l1_gas_price ref_felt_lib blk = pk_l1_gas_price sample_prov_block
    \<and> rpc_l1_data_gas_price ref_felt_lib blk \<noteq> pk_l1_data_gas_price sample_prov_block"
proof -
  obtain blk where blk: "convert_block_sync ref_felt_lib ref_crypto count_bonsai (Ok Map.empty) 0 (Some 5) sample_prov_block = Ok blk"
    using sample_block_converts by blast
  have "(1 :: felt) \<noteq> 0" using version_felts(1) by (simp add: ZERO_def ONE_def)
  with shown_prices [OF ref_felt_codec blk] blk show ?thesis by (auto simp: sample_prov_block_def)
qed

end
