(* ===== verification/SyncFetch.thy ===== *)
theory SyncFetch
  imports SyncConvert ContractClasses
begin

text \<open>
  What the node asks of the sequencer and of Ethereum, in \<open>client/sync/src\<close>: \<open>fetch/fetchers.rs\<close> (blocks,
  state updates and classes, with the retries), \<open>utils/utility.rs\<close>, \<open>l1.rs\<close> (the state that Ethereum
  verified) and \<open>reorgs/lib.rs\<close>. The sequencer and the Ethereum node answer over the network: a
  \<open>provider\<close> and an \<open>eth_client\<close> hold their answers, and where the code asks again it has one for each
  attempt.
\<close>

section \<open>The sequencer and the Substrate client\<close>

datatype provider_error = RateLimited | ProviderBlockNotFound | ProviderOther string

datatype l2_sync_error = ProviderFailed provider_error | FetchRetryLimit

datatype prov_block_id = ByNumber "64 word" | PendingId

record provider =
  pv_get_block :: "prov_block_id \<Rightarrow> (provider_error, prov_block) res"
  pv_get_state_update :: "prov_block_id \<Rightarrow> (provider_error, prov_state_update) res"
  pv_get_class :: "felt \<Rightarrow> felt \<Rightarrow> (provider_error, core_class) res"
  pv_get_block_id_by_hash :: "felt \<Rightarrow> (provider_error, 64 word) res"

text \<open>\<open>client\<close>: \<open>HeaderBackend::hash\<close>.\<close>

definition block_hash_substrate :: "(32 word \<Rightarrow> (unit, 'h option) res) \<Rightarrow> 64 word \<Rightarrow> ('e, 'h option) res" where
  "block_hash_substrate client block_number = unwrap (client (saturate_u32 block_number))"

definition block_hash_deoxys :: "prov_state_update \<Rightarrow> ('e, felt) res" where
  "block_hash_deoxys state_update = unwrap_opt (pu_block_hash state_update)"

section \<open>Classes\<close>

text \<open>\<open>Itertools::unique\<close>: the first occurrence of every element.\<close>

fun unique :: "'a list \<Rightarrow> 'a list" where
  "unique [] = []"
| "unique (x # xs) = x # filter (\<lambda>y. y \<noteq> x) (unique xs)"

definition aggregate_classes :: "prov_state_update \<Rightarrow> felt list" where
  "aggregate_classes state_update =
    unique (map dep_class_hash (psd_deployed_contracts (pu_state_diff state_update))
      @ map dec_class_hash (psd_declared_classes (pu_state_diff state_update)))"

definition is_missing_class :: "felt_lib \<Rightarrow> ('h, 'c, 'a) override_handle \<Rightarrow> 'h \<Rightarrow> felt \<Rightarrow> ('e, bool) res" where
  "is_missing_class L overrides block_hash hash =
    res_bind (class_of L hash) (\<lambda>class_hash.
      Ok (contract_class_by_class_hash (for_schema_version overrides Undefined) block_hash class_hash = None))"

definition fetch_missing_classes :: "felt_lib \<Rightarrow> prov_state_update \<Rightarrow> ('h, 'c, 'a) override_handle \<Rightarrow> 'h \<Rightarrow> ('e, felt list) res" where
  "fetch_missing_classes L state_update overrides block_hash =
    map_ok (\<lambda>cs. map fst (filter snd cs))
      (try_map (\<lambda>c. map_ok (Pair c) (is_missing_class L overrides block_hash c)) (aggregate_classes state_update))"

definition fetch_class :: "felt_lib \<Rightarrow> ('abi, 'rabi, 'lprog, 'prog, 'v1, 'ci) class_lib \<Rightarrow> felt \<Rightarrow> felt \<Rightarrow> provider
    \<Rightarrow> (l2_sync_error, (('prog, 'v1) blockifier_class, contract_abi) contract_class_data) res" where
  "fetch_class L M hash block_hash P =
    res_bind (map_err ProviderFailed (pv_get_class P block_hash hash)) (\<lambda>core_class.
    res_bind (class_of L hash) (\<lambda>hash.
    res_bind (unwrap (wrapper_try_from L M core_class)) (\<lambda>contract_class.
    Ok \<lparr> ccd_hash = hash, ccd_contract = cw_contract contract_class, ccd_abi = cw_abi contract_class \<rparr>)))"

text \<open>\<open>tasks\<close>: the order in which the downloads of a \<open>JoinSet\<close> end.\<close>

definition fetch_class_update :: "felt_lib \<Rightarrow> ('abi, 'rabi, 'lprog, 'prog, 'v1, 'ci) class_lib \<Rightarrow> ('h, 'c, 'a) override_handle
    \<Rightarrow> (32 word \<Rightarrow> (unit, 'h option) res) \<Rightarrow> (felt list \<Rightarrow> felt list) \<Rightarrow> provider \<Rightarrow> prov_state_update \<Rightarrow> 64 word
    \<Rightarrow> (l2_sync_error, (('prog, 'v1) blockifier_class, contract_abi) class_update) res" where
  "fetch_class_update L M overrides client tasks P state_update block_number =
    res_bind (block_hash_substrate client block_number) (\<lambda>substrate_hash.
    res_bind (case substrate_hash of
        Some h \<Rightarrow> fetch_missing_classes L state_update overrides h
      | None \<Rightarrow> Ok (aggregate_classes state_update)) (\<lambda>missing_classes.
    try_map (\<lambda>class_hash. res_bind (block_hash_deoxys state_update) (\<lambda>block_hash.
        fetch_class L M class_hash block_hash P))
      (tasks missing_classes)))"

section \<open>Blocks and state updates, with retries\<close>

definition fetch_block :: "provider \<Rightarrow> 64 word \<Rightarrow> (l2_sync_error, prov_block) res" where
  "fetch_block P block_number = map_err ProviderFailed (pv_get_block P (ByNumber block_number))"

definition fetch_state_update :: "provider \<Rightarrow> 64 word \<Rightarrow> (l2_sync_error, prov_state_update) res" where
  "fetch_state_update P block_number = map_err ProviderFailed (pv_get_state_update P (ByNumber block_number))"

definition fetch_state_and_class_update :: "felt_lib \<Rightarrow> ('abi, 'rabi, 'lprog, 'prog, 'v1, 'ci) class_lib
    \<Rightarrow> ('h, 'c, 'a) override_handle \<Rightarrow> (32 word \<Rightarrow> (unit, 'h option) res) \<Rightarrow> (felt list \<Rightarrow> felt list) \<Rightarrow> provider \<Rightarrow> 64 word
    \<Rightarrow> (l2_sync_error, prov_state_update \<times> (('prog, 'v1) blockifier_class, contract_abi) class_update) res" where
  "fetch_state_and_class_update L M overrides client tasks P block_number =
    res_bind (fetch_state_update P block_number) (\<lambda>state_update.
    res_bind (fetch_class_update L M overrides client tasks P state_update block_number) (\<lambda>class_update.
    Ok (state_update, class_update)))"

definition res_err :: "('e, 'a) res \<Rightarrow> 'e option" where
  "res_err r = (case r of Err e \<Rightarrow> Some e | _ \<Rightarrow> None)"

definition MAX_RETRY :: nat where "MAX_RETRY = 15"

text \<open>The seconds slept after an attempt, \<open>2_u32.pow(attempt - 1).min(6)\<close>.\<close>

definition retry_delay :: "nat \<Rightarrow> nat" where
  "retry_delay attempt = min (2 ^ (attempt - 1)) 6"

text \<open>The loop, from \<open>attempt\<close> failures on; \<open>P i\<close> answers the attempt after \<open>i\<close> failures. The result
  is that of the fetch, with the delays slept before it.\<close>

function fetch_loop :: "felt_lib \<Rightarrow> ('abi, 'rabi, 'lprog, 'prog, 'v1, 'ci) class_lib \<Rightarrow> ('h, 'c, 'a) override_handle
    \<Rightarrow> (32 word \<Rightarrow> (unit, 'h option) res) \<Rightarrow> (felt list \<Rightarrow> felt list) \<Rightarrow> (nat \<Rightarrow> provider) \<Rightarrow> 64 word \<Rightarrow> nat
    \<Rightarrow> nat list \<times> (l2_sync_error, prov_block \<times> prov_state_update \<times> (('prog, 'v1) blockifier_class, contract_abi) class_update) res" where
  "fetch_loop L M overrides client tasks P block_n attempt =
    (let block = fetch_block (P attempt) block_n;
         state_update = fetch_state_and_class_update L M overrides client tasks (P attempt) block_n
     in if block = Panic \<or> state_update = Panic then ([], Panic)
        else
          (case (case res_err block of Some e \<Rightarrow> Some e | None \<Rightarrow> res_err state_update) of
             Some (ProviderFailed RateLimited) \<Rightarrow>
               if attempt + 1 \<ge> MAX_RETRY then ([], Err FetchRetryLimit)
               else
                 (let (delays, r) = fetch_loop L M overrides client tasks P block_n (attempt + 1)
                  in (retry_delay (attempt + 1) # delays, r))
           | _ \<Rightarrow> ([], res_bind block (\<lambda>block. res_bind state_update (\<lambda>(state_update, class_update).
                    Ok (block, state_update, class_update))))))"
  by auto
termination
  by (relation "measure (\<lambda>(_, _, _, _, _, _, _, attempt). MAX_RETRY - attempt)") auto

definition fetch_block_and_updates :: "felt_lib \<Rightarrow> ('abi, 'rabi, 'lprog, 'prog, 'v1, 'ci) class_lib \<Rightarrow> ('h, 'c, 'a) override_handle
    \<Rightarrow> (32 word \<Rightarrow> (unit, 'h option) res) \<Rightarrow> (felt list \<Rightarrow> felt list) \<Rightarrow> (nat \<Rightarrow> provider) \<Rightarrow> 64 word
    \<Rightarrow> nat list \<times> (l2_sync_error, prov_block \<times> prov_state_update \<times> (('prog, 'v1) blockifier_class, contract_abi) class_update) res" where
  "fetch_block_and_updates L M overrides client tasks P block_n = fetch_loop L M overrides client tasks P block_n 0"

text \<open>The genesis block, fetched when the node starts; the source turns the error of the provider into a
  text that shows it.\<close>

definition fetch_apply_genesis_block :: "felt_lib \<Rightarrow> crypto_lib \<Rightarrow> ('b, 'tr) bonsai_lib \<Rightarrow> (unit, 'b) res \<Rightarrow> 64 word
    \<Rightarrow> felt option \<Rightarrow> provider \<Rightarrow> (provider_error, deoxys_block) res" where
  "fetch_apply_genesis_block L K B mem trie_id config P =
    res_bind (pv_get_block P (ByNumber 0)) (\<lambda>block. unwrap (convert_block_sync L K B mem trie_id config block))"

section \<open>The configuration\<close>

record fetch_config =
  fc_gateway :: string
  fc_feeder_gateway :: string
  fc_chain_id :: felt
  fc_workers :: "32 word"
  fc_sound :: bool
  fc_l1_core_address :: bytes
  fc_verify :: bool
  fc_api_key :: "string option"

text \<open>The shared \<open>CONFIG\<close>, set once when the node starts.\<close>

definition update_config :: "fetch_config \<Rightarrow> fetch_config option \<Rightarrow> fetch_config option" where
  "update_config config shared = Some config"

definition get_config :: "fetch_config option \<Rightarrow> (string, fetch_config) res" where
  "get_config shared = ok_or ''Configuration not set yet'' shared"

section \<open>The state verified on L1\<close>

record l1_state_update =
  l1u_block_number :: "64 word"
  l1u_global_root :: felt
  l1u_block_hash :: felt

record l2_state_update =
  l2u_block_number :: "64 word"
  l2u_global_root :: felt
  l2u_block_hash :: felt

text \<open>The event of the core contract: two \<open>U256\<close> and an \<open>I256\<close>.\<close>

record log_state_update =
  lsu_global_root :: "256 word"
  lsu_block_number :: "256 word"
  lsu_block_hash :: "256 word"

definition u256_to_starkfelt :: "felt_lib \<Rightarrow> 256 word \<Rightarrow> (string, felt) res" where
  "u256_to_starkfelt L u = ok_or ''Failed to convert U256 to StarkFelt'' (stark_new L (u256_to_be L u))"

definition convert_log_state_update :: "felt_lib \<Rightarrow> log_state_update \<Rightarrow> (string, l1_state_update) res" where
  "convert_log_state_update L log =
    res_bind (if sint (lsu_block_number log) \<ge> 0 then Ok (ucast (lsu_block_number log))
              else Err ''Block number is negative'') (\<lambda>block_number.
    res_bind (u256_to_starkfelt L (lsu_global_root log)) (\<lambda>global_root.
    res_bind (u256_to_starkfelt L (lsu_block_hash log)) (\<lambda>block_hash.
    Ok \<lparr> l1u_block_number = block_number, l1u_global_root = global_root, l1u_block_hash = block_hash \<rparr>)))"

text \<open>An Ethereum node: the answers of calls to a contract as text, the latest block number, the block
  numbers of the contract's logs from a block on, and the stream of its events.\<close>

record eth_client =
  ec_call :: "bytes \<Rightarrow> string \<Rightarrow> (string, string) res"
  ec_block_number :: "(string, 64 word) res"
  ec_get_logs :: "bytes \<Rightarrow> 64 word \<Rightarrow> (string, 64 word option list) res"
  ec_events :: "bytes \<Rightarrow> 64 word \<Rightarrow> (string, (string, log_state_update) res list) res"

function trim_start_matches :: "string \<Rightarrow> string \<Rightarrow> string" where
  "trim_start_matches p s =
    (if p \<noteq> [] \<and> length p \<le> length s \<and> take (length p) s = p then trim_start_matches p (drop (length p) s) else s)"
  by auto
termination
  by (relation "measure (\<lambda>(p, s). length s)") (auto, metis diff_less length_greater_0_conv less_le_trans)

definition trim_end_char :: "char \<Rightarrow> string \<Rightarrow> string" where
  "trim_end_char c s = rev (dropWhile (\<lambda>x. x = c) (rev s))"

definition hex_digit :: "char \<Rightarrow> nat option" where
  "hex_digit c =
    (let n = of_char c :: nat in
     if 48 \<le> n \<and> n \<le> 57 then Some (n - 48)
     else if 97 \<le> n \<and> n \<le> 102 then Some (n - 87)
     else if 65 \<le> n \<and> n \<le> 70 then Some (n - 55)
     else None)"

text \<open>\<open>u64::from_str_radix(s, 16)\<close>: an optional plus sign, at least one digit, and no overflow.\<close>

definition u64_from_hex :: "string \<Rightarrow> 64 word option" where
  "u64_from_hex s =
    (let digits = (if take 1 s = ''+'' then drop 1 s else s) in
     if digits = [] then None
     else Option.bind (those (map hex_digit digits)) (\<lambda>ds.
       let n = foldl (\<lambda>acc d. 16 * acc + d) 0 ds in if n < 2 ^ 64 then Some (of_nat n) else None))"

definition get_last_block_number :: "fetch_config option \<Rightarrow> eth_client \<Rightarrow> (string, 64 word) res" where
  "get_last_block_number shared client =
    res_bind (unwrap (get_config shared)) (\<lambda>config.
    res_bind (unwrap (ec_call client (fc_l1_core_address config) ''35befa5d'')) (\<lambda>result_str.
    let hex_str = trim_start_matches ''0x'' (trim_end_char (CHR '')'') (trim_start_matches ''Bytes(0x'' result_str))
    in unwrap_opt (u64_from_hex hex_str)))"

definition get_last_state_root :: "felt_lib \<Rightarrow> fetch_config option \<Rightarrow> eth_client \<Rightarrow> (string, felt) res" where
  "get_last_state_root L shared client =
    res_bind (unwrap (get_config shared)) (\<lambda>config.
    res_bind (unwrap (ec_call client (fc_l1_core_address config) ''9588eca2'')) (\<lambda>result.
    res_bind (unwrap (from_hex_be L result)) (into_stark_felt L)))"

definition get_last_block_hash :: "felt_lib \<Rightarrow> fetch_config option \<Rightarrow> eth_client \<Rightarrow> (string, felt) res" where
  "get_last_block_hash L shared client =
    res_bind (unwrap (get_config shared)) (\<lambda>config.
    res_bind (unwrap (ec_call client (fc_l1_core_address config) ''0x382d83e3'')) (\<lambda>result.
    res_bind (unwrap (from_hex_be L result)) (into_stark_felt L)))"

definition get_initial_state :: "felt_lib \<Rightarrow> fetch_config option \<Rightarrow> eth_client \<Rightarrow> (unit, l1_state_update) res" where
  "get_initial_state L shared client =
    res_bind (map_err (\<lambda>_. ()) (get_last_block_number shared client)) (\<lambda>block_number.
    res_bind (map_err (\<lambda>_. ()) (get_last_block_hash L shared client)) (\<lambda>block_hash.
    res_bind (map_err (\<lambda>_. ()) (get_last_state_root L shared client)) (\<lambda>global_root.
    Ok \<lparr> l1u_block_number = block_number, l1u_global_root = global_root, l1u_block_hash = block_hash \<rparr>)))"

text \<open>The subtraction of \<open>U64\<close> panics below zero.\<close>

definition get_last_event_block_number :: "fetch_config option \<Rightarrow> eth_client \<Rightarrow> (string, 64 word) res" where
  "get_last_event_block_number shared client =
    res_bind (get_config shared) (\<lambda>config.
    res_bind (unwrap (ec_block_number client)) (\<lambda>latest_block.
    if latest_block < 6000 then Panic
    else
      res_bind (ec_get_logs client (fc_l1_core_address config) (latest_block - 6000)) (\<lambda>logs.
      if logs = [] then Err ''No events found'' else ok_or ''No block number in log'' (last logs))))"

definition update_l1 :: "l1_state_update \<Rightarrow> l1_state_update \<Rightarrow> l1_state_update" where
  "update_l1 state_update ethereum = state_update"

text \<open>The events one after the other; \<open>ethereum\<close> is the shared \<open>ETHEREUM_STATE_UPDATE\<close>.\<close>

primrec listen_loop :: "felt_lib \<Rightarrow> (string, log_state_update) res list \<Rightarrow> l1_state_update \<Rightarrow> l1_state_update panicking" where
  "listen_loop L [] ethereum = Ok ethereum"
| "listen_loop L (event # events) ethereum =
    (case event of
       Ok log \<Rightarrow>
         res_bind (unwrap (convert_log_state_update L log)) (\<lambda>format_event.
           listen_loop L events (update_l1 format_event ethereum))
     | Err _ \<Rightarrow> listen_loop L events ethereum
     | Panic \<Rightarrow> Panic)"

definition listen_and_update_state :: "felt_lib \<Rightarrow> fetch_config option \<Rightarrow> eth_client \<Rightarrow> 64 word \<Rightarrow> l1_state_update \<Rightarrow> l1_state_update panicking" where
  "listen_and_update_state L shared client start_block ethereum =
    res_bind (unwrap (get_config shared)) (\<lambda>config.
    res_bind (unwrap (ec_events client (fc_l1_core_address config) start_block)) (\<lambda>event_stream.
      listen_loop L event_stream ethereum))"

definition l1_sync :: "felt_lib \<Rightarrow> fetch_config option \<Rightarrow> eth_client \<Rightarrow> l1_state_update \<Rightarrow> l1_state_update panicking" where
  "l1_sync L shared client ethereum =
    (case get_initial_state L shared client of
       Ok initial_state \<Rightarrow>
         (let ethereum = update_l1 initial_state ethereum in
          res_bind (unwrap (get_last_event_block_number shared client)) (\<lambda>start_block.
            listen_and_update_state L shared client start_block ethereum))
     | Err _ \<Rightarrow> Ok ethereum
     | Panic \<Rightarrow> Panic)"

section \<open>Checking L2 against L1\<close>

text \<open>The messages are those of the source without their leading symbol. What one request to the node's own RPC brings: no response, no JSON, an answer without result, or a
  result and its reading as an \<open>L2StateUpdate\<close>.\<close>

datatype rpc_response = RequestFailed | NotJson | NoResult | ResultValue "(string, l2_state_update) res"

function state_update_attempts :: "(nat \<Rightarrow> rpc_response) \<Rightarrow> nat \<Rightarrow> (string, l2_state_update) res" where
  "state_update_attempts response attempts =
    (if attempts < 3 then
       (case response attempts of
          ResultValue r \<Rightarrow> r
        | _ \<Rightarrow> state_update_attempts response (attempts + 1))
     else Err ''Maximum retries exceeded'')"
  by auto
termination
  by (relation "measure (\<lambda>(_, attempts). 3 - attempts)") auto

definition get_state_update_at :: "(64 word \<Rightarrow> nat \<Rightarrow> rpc_response) \<Rightarrow> 64 word \<Rightarrow> (string, l2_state_update) res" where
  "get_state_update_at rpc block_number = state_update_attempts (rpc block_number) 0"

definition verify_l1 :: "(64 word \<Rightarrow> nat \<Rightarrow> rpc_response) \<Rightarrow> l2_state_update \<Rightarrow> l1_state_update \<Rightarrow> (string, unit) res" where
  "verify_l1 rpc starknet state_update =
    (let starknet_state_block_number = l2u_block_number starknet in
     if l1u_block_number state_update > starknet_state_block_number
     then Err ''L1 state verification failed: Node still syncing''
     else
       res_bind (map_err (\<lambda>e. ''Error retrieving state update: '' @ e) (get_state_update_at rpc (l1u_block_number state_update)))
         (\<lambda>current.
         if l2u_block_number current \<noteq> l1u_block_number state_update
            \<or> l2u_global_root current \<noteq> l1u_global_root state_update
            \<or> l2u_block_hash current \<noteq> l1u_block_hash state_update
         then Err ''L1 state verification failed: Verification mismatch''
         else Ok ()))"

section \<open>Reorganisations\<close>

text \<open>The module is compiled, but nothing in the node calls \<open>reorg\<close>. The body of the loop only reads the shared
  highest block hash again: \<open>highest i\<close> is its value at the \<open>i\<close>-th read.\<close>

partial_function (option) reorg_loop :: "(nat \<Rightarrow> felt) \<Rightarrow> felt \<Rightarrow> nat \<Rightarrow> felt \<Rightarrow> bool option" where
  "reorg_loop highest parent i new_lsbh =
    (if parent \<noteq> new_lsbh then reorg_loop highest parent (i + 1) (highest i) else Some True)"

definition reorg :: "(nat \<Rightarrow> felt) \<Rightarrow> prov_block \<Rightarrow> bool option" where
  "reorg highest block =
    (let last_synced_block_hash = highest 0 in
     if pk_parent_block_hash block \<noteq> last_synced_block_hash
     then reorg_loop highest (pk_parent_block_hash block) 1 last_synced_block_hash
     else Some False)"

section \<open>Fetching ends\<close>

text \<open>The answer of one attempt, and whether it was refused by the rate limit.\<close>

definition attempt_answer :: "felt_lib \<Rightarrow> ('abi, 'rabi, 'lprog, 'prog, 'v1, 'ci) class_lib \<Rightarrow> ('h, 'c, 'a) override_handle
    \<Rightarrow> (32 word \<Rightarrow> (unit, 'h option) res) \<Rightarrow> (felt list \<Rightarrow> felt list) \<Rightarrow> provider \<Rightarrow> 64 word
    \<Rightarrow> (l2_sync_error, prov_block \<times> prov_state_update \<times> (('prog, 'v1) blockifier_class, contract_abi) class_update) res" where
  "attempt_answer L M ov client tasks P n =
    (case (fetch_block P n, fetch_state_and_class_update L M ov client tasks P n) of
       (Panic, _) \<Rightarrow> Panic
     | (_, Panic) \<Rightarrow> Panic
     | (Err e, _) \<Rightarrow> Err e
     | (_, Err e) \<Rightarrow> Err e
     | (Ok b, Ok (su, cu)) \<Rightarrow> Ok (b, su, cu))"

abbreviation rate_limited :: "felt_lib \<Rightarrow> ('e1, 'a1, 'b1, 'p1, 'v1, 'c1) class_lib \<Rightarrow> ('h, 'c, 'a) override_handle
    \<Rightarrow> (32 word \<Rightarrow> (unit, 'h option) res) \<Rightarrow> (felt list \<Rightarrow> felt list) \<Rightarrow> provider \<Rightarrow> 64 word \<Rightarrow> bool" where
  "rate_limited L M ov client tasks P n \<equiv>
    attempt_answer L M ov client tasks P n = Err (ProviderFailed RateLimited)"

lemma fetch_loop_step:
  "fetch_loop L M ov client tasks P n a =
    (if rate_limited L M ov client tasks (P a) n then
       if a + 1 \<ge> MAX_RETRY then ([], Err FetchRetryLimit)
       else (retry_delay (a + 1) # fst (fetch_loop L M ov client tasks P n (a + 1)),
             snd (fetch_loop L M ov client tasks P n (a + 1)))
     else ([], attempt_answer L M ov client tasks (P a) n))"
  by (subst fetch_loop.simps)
    (auto simp: attempt_answer_def res_err_def Let_def split_def simp del: fetch_loop.simps
      split: res.splits l2_sync_error.splits provider_error.splits)

declare fetch_loop.simps [simp del]

lemma fetch_loop_ends:
  assumes "a < MAX_RETRY"
  shows "\<exists>k. a \<le> k \<and> k < MAX_RETRY \<and> (\<forall>j. a \<le> j \<longrightarrow> j < k \<longrightarrow> rate_limited L M ov client tasks (P j) n)
    \<and> fetch_loop L M ov client tasks P n a =
      (map retry_delay [a + 1..<k + 1],
       if rate_limited L M ov client tasks (P k) n then Err FetchRetryLimit else attempt_answer L M ov client tasks (P k) n)
    \<and> (rate_limited L M ov client tasks (P k) n \<longrightarrow> k + 1 = MAX_RETRY)"
  using assms
proof (induction "MAX_RETRY - a" arbitrary: a)
  case 0
  then show ?case by simp
next
  case (Suc m)
  show ?case
  proof (cases "rate_limited L M ov client tasks (P a) n \<and> a + 1 < MAX_RETRY")
    case False
    with Suc.prems show ?thesis by (intro exI [of _ a]) (auto simp: fetch_loop_step [of L M ov client tasks P n a])
  next
    case True
    with Suc obtain k where k: "a + 1 \<le> k" "k < MAX_RETRY"
      "\<forall>j. a + 1 \<le> j \<longrightarrow> j < k \<longrightarrow> rate_limited L M ov client tasks (P j) n"
      "fetch_loop L M ov client tasks P n (a + 1) = (map retry_delay [a + 1 + 1..<k + 1],
        if rate_limited L M ov client tasks (P k) n then Err FetchRetryLimit else attempt_answer L M ov client tasks (P k) n)"
      "rate_limited L M ov client tasks (P k) n \<longrightarrow> k + 1 = MAX_RETRY"
      using Suc.hyps(1) [of "a + 1"] by fastforce
    have "[a + 1..<k + 1] = (a + 1) # [a + 1 + 1..<k + 1]" using k(1) by (simp add: upt_conv_Cons)
    then have "fetch_loop L M ov client tasks P n a = (map retry_delay [a + 1..<k + 1],
        if rate_limited L M ov client tasks (P k) n then Err FetchRetryLimit else attempt_answer L M ov client tasks (P k) n)"
      using True k(4) by (simp add: fetch_loop_step [of L M ov client tasks P n a] del: upt_Suc)
    moreover have "\<forall>j. a \<le> j \<longrightarrow> j < k \<longrightarrow> rate_limited L M ov client tasks (P j) n"
      using True k(3) by (metis Suc_eq_plus1 not_less_eq_eq order_antisym_conv)
    ultimately show ?thesis using k(1,2,5) by (intro exI [of _ k] conjI) (simp_all del: upt_Suc)
  qed
qed

lemma retry_delays:
  assumes "k < MAX_RETRY"
  shows "sum_list (map retry_delay [1..<k + 1]) \<le> 73"
proof -
  have all: "sum_list (map retry_delay [1..<15]) = 73" by code_simp
  have "[1..<15] = [1..<k + 1] @ [k + 1..<15]"
    using assms upt_add_eq_append [of 1 "k + 1" "14 - k"] by (simp add: MAX_RETRY_def)
  then have "sum_list (map retry_delay [1..<15]) =
      sum_list (map retry_delay [1..<k + 1]) + sum_list (map retry_delay [k + 1..<15])"
    by (simp only: map_append sum_list_append)
  with all show ?thesis by linarith
qed

text \<open>C26: fetching a block ends, after at most fifteen attempts and 73 seconds of waiting. The attempts
  before the last one were all refused by the rate limit; the result is the answer of the last attempt,
  or the error \<open>FetchRetryLimit\<close> exactly when the fifteenth attempt was refused too.\<close>

theorem fetch_ends:
  "\<exists>k < 15. (\<forall>j < k. rate_limited L M ov client tasks (P j) n)
    \<and> fetch_block_and_updates L M ov client tasks P n =
      (map retry_delay [1..<k + 1],
       if rate_limited L M ov client tasks (P k) n then Err FetchRetryLimit else attempt_answer L M ov client tasks (P k) n)
    \<and> (rate_limited L M ov client tasks (P k) n \<longrightarrow> k = 14)
    \<and> sum_list (map retry_delay [1..<k + 1]) \<le> 73"
proof -
  obtain k where k: "k < MAX_RETRY" "\<forall>j. 0 \<le> j \<longrightarrow> j < k \<longrightarrow> rate_limited L M ov client tasks (P j) n"
    "fetch_loop L M ov client tasks P n 0 = (map retry_delay [0 + 1..<k + 1],
      if rate_limited L M ov client tasks (P k) n then Err FetchRetryLimit else attempt_answer L M ov client tasks (P k) n)"
    "rate_limited L M ov client tasks (P k) n \<longrightarrow> k + 1 = MAX_RETRY"
    using fetch_loop_ends [of 0 L M ov client tasks P n] by (auto simp: MAX_RETRY_def simp del: upt_Suc)
  show ?thesis
    using k retry_delays [OF k(1)]
    by (intro exI [of _ k]) (simp add: MAX_RETRY_def fetch_block_and_updates_def del: upt_Suc)
qed

definition limited_provider :: provider where
  "limited_provider = \<lparr> pv_get_block = (\<lambda>_. Err RateLimited), pv_get_state_update = (\<lambda>_. Err RateLimited),
     pv_get_class = (\<lambda>_ _. Err RateLimited), pv_get_block_id_by_hash = (\<lambda>_. Err RateLimited) \<rparr>"

theorem fetch_ends_witness:
  "snd (fetch_block_and_updates ref_felt_lib ref_class_lib sample_override (\<lambda>_. Ok None) (\<lambda>xs. xs) (\<lambda>_. limited_provider) 7) =
    Err FetchRetryLimit
   \<and> length (fst (fetch_block_and_updates ref_felt_lib ref_class_lib sample_override (\<lambda>_. Ok None) (\<lambda>xs. xs)
       (\<lambda>_. limited_provider) 7)) = 14"
proof -
  have "rate_limited ref_felt_lib ref_class_lib sample_override (\<lambda>_. Ok None) (\<lambda>xs. xs) limited_provider 7"
    by (simp add: attempt_answer_def fetch_block_def limited_provider_def fetch_state_and_class_update_def fetch_state_update_def)
  with fetch_ends [of ref_felt_lib ref_class_lib sample_override "\<lambda>_. Ok None" "\<lambda>xs. xs" "\<lambda>_. limited_provider" 7]
  show ?thesis by (auto simp del: upt_Suc)
qed

section \<open>The classes of a state update\<close>

lemma unique_distinct [simp]: "distinct (unique xs)" and unique_set [simp]: "set (unique xs) = set xs"
  by (induction xs) auto

text \<open>The classes that a state update deploys or declares and that are not stored at a Substrate block, as a
  set and in the order of the code.\<close>

definition stored_at :: "('h, 'c, 'a) override_handle \<Rightarrow> 'h option \<Rightarrow> felt \<Rightarrow> bool" where
  "stored_at ov h c \<longleftrightarrow> (\<exists>b. h = Some b \<and> contract_class_by_class_hash (for_schema_version ov Undefined) b c \<noteq> None)"

definition wanted_classes :: "prov_state_update \<Rightarrow> ('h, 'c, 'a) override_handle \<Rightarrow> 'h option \<Rightarrow> felt set" where
  "wanted_classes su ov h = {c \<in> dep_class_hash ` set (psd_deployed_contracts (pu_state_diff su))
      \<union> dec_class_hash ` set (psd_declared_classes (pu_state_diff su)). \<not> stored_at ov h c}"

definition wanted_list :: "prov_state_update \<Rightarrow> ('h, 'c, 'a) override_handle \<Rightarrow> 'h option \<Rightarrow> felt list" where
  "wanted_list su ov h = filter (\<lambda>c. \<not> stored_at ov h c) (aggregate_classes su)"

lemma wanted_list: "distinct (wanted_list su ov h)" "set (wanted_list su ov h) = wanted_classes su ov h"
  by (auto simp: wanted_list_def aggregate_classes_def wanted_classes_def)

lemma wanted_classes_fetched:
  assumes "felt_codec L"
  shows "(case h of Some b \<Rightarrow> fetch_missing_classes L su ov b | None \<Rightarrow> Ok (aggregate_classes su)) =
    (Ok (wanted_list su ov h) :: ('e, felt list) res)"
proof (cases h)
  case (Some b)
  have "class_of L c = (Ok c :: ('e, felt) res)" for c
    by (rule genesis_conversions(2) [OF assms])
  then have "try_map (\<lambda>c. map_ok (Pair c) (is_missing_class L ov b c)) (aggregate_classes su) =
      (Ok (map (\<lambda>c. (c, contract_class_by_class_hash (for_schema_version ov Undefined) b c = None)) (aggregate_classes su))
        :: ('e, (felt \<times> bool) list) res)"
    by (intro try_map_all_ok) (simp add: is_missing_class_def)
  then show ?thesis
    by (simp add: Some fetch_missing_classes_def wanted_list_def stored_at_def filter_map comp_def)
qed (simp add: wanted_list_def stored_at_def)

lemma try_map_results: "try_map f xs = Ok ys \<longleftrightarrow> list_all2 (\<lambda>x y. f x = Ok y) xs ys"
  by (induction xs arbitrary: ys) (auto simp: result_simps list_all2_Cons1)

text \<open>The stored form of a class the sequencer serves for the block of a state update.\<close>

definition served :: "felt_lib \<Rightarrow> ('abi, 'rabi, 'lprog, 'prog, 'v1, 'ci) class_lib \<Rightarrow> provider \<Rightarrow> prov_state_update \<Rightarrow> felt
    \<Rightarrow> (('prog, 'v1) blockifier_class, contract_abi) contract_class_data \<Rightarrow> bool" where
  "served L M P su c d \<longleftrightarrow> (\<exists>block_hash core w. pu_block_hash su = Some block_hash
     \<and> pv_get_class P block_hash c = Ok core \<and> wrapper_try_from L M core = Ok w
     \<and> d = \<lparr> ccd_hash = c, ccd_contract = cw_contract w, ccd_abi = cw_abi w \<rparr>)"

lemma fetch_class_served:
  assumes "felt_codec L"
  shows "res_bind (block_hash_deoxys su) (\<lambda>block_hash. fetch_class L M c block_hash P) = Ok d \<longleftrightarrow> served L M P su c d"
  by (auto simp: block_hash_deoxys_def fetch_class_def served_def genesis_conversions(2) [OF assms] result_simps)

text \<open>C27: the class update of a block has exactly the classes its state update deploys or declares and
  the node does not store at that height, all of them when the node does not have the block yet, each
  once and in the form it is stored in. It is returned exactly when the sequencer serves all of them and
  they can be converted, whatever the order in which the downloads end. The classes of old declarations
  (\<open>old_declared_contracts\<close>) are not among them unless the update deploys them.\<close>

theorem class_update_complete:
  assumes "felt_codec L" and "\<forall>xs. mset (tasks xs) = mset xs" and "client (saturate_u32 n) = Ok h"
  shows "((\<exists>cs. fetch_class_update L M ov client tasks P su n = Ok cs) \<longleftrightarrow>
      (\<forall>c \<in> wanted_classes su ov h. \<exists>d. served L M P su c d))
    \<and> (\<forall>cs. fetch_class_update L M ov client tasks P su n = Ok cs \<longrightarrow>
      distinct (map ccd_hash cs) \<and> set (map ccd_hash cs) = wanted_classes su ov h
      \<and> (\<forall>d \<in> set cs. served L M P su (ccd_hash d) d))"
proof -
  let ?f = "\<lambda>c. res_bind (block_hash_deoxys su) (\<lambda>block_hash. fetch_class L M c block_hash P)"
  let ?w = "tasks (wanted_list su ov h)"
  have "fetch_class_update L M ov client tasks P su n = try_map ?f ?w"
    by (simp add: fetch_class_update_def block_hash_substrate_def assms(3) wanted_classes_fetched [OF assms(1)])
  then have run: "fetch_class_update L M ov client tasks P su n = Ok cs \<longleftrightarrow> list_all2 (served L M P su) ?w cs" for cs
    by (simp add: try_map_results fetch_class_served [OF assms(1)])
  have perm: "mset ?w = mset (wanted_list su ov h)" using assms(2) by simp
  have w: "set ?w = wanted_classes su ov h" "distinct ?w"
    using mset_eq_setD [OF perm] mset_eq_imp_distinct_iff [OF perm] by (simp_all add: wanted_list)
  have hashes: "map ccd_hash cs = ?w" if "list_all2 (served L M P su) ?w cs" for cs
    using that by (induction rule: list_all2_induct) (auto simp: served_def)
  have "(\<exists>cs. list_all2 (served L M P su) xs cs) \<longleftrightarrow> (\<forall>c \<in> set xs. \<exists>d. served L M P su c d)" for xs
    by (induction xs) (auto simp: list_all2_Cons1)
  then have "(\<exists>cs. fetch_class_update L M ov client tasks P su n = Ok cs) \<longleftrightarrow>
      (\<forall>c \<in> wanted_classes su ov h. \<exists>d. served L M P su c d)"
    unfolding run w(1) [symmetric] by blast
  moreover have "\<forall>d \<in> set cs. served L M P su (ccd_hash d) d" if "list_all2 (served L M P su) ?w cs" for cs
    using that unfolding list_all2_conv_all_nth hashes [OF that, symmetric] by (metis in_set_conv_nth length_map nth_map)
  ultimately show ?thesis unfolding run using hashes w by metis
qed

definition sample_prov_update :: prov_state_update where
  "sample_prov_update = \<lparr> pu_block_hash = Some 9, pu_new_root = Some 3, pu_old_root = 2,
     pu_state_diff = \<lparr> psd_storage_diffs = [], psd_deployed_contracts = [\<lparr> dep_address = 5, dep_class_hash = 7 \<rparr>],
       psd_old_declared_contracts = [8], psd_declared_classes = [], psd_nonces = [(5, 1)], psd_replaced_classes = [] \<rparr> \<rparr>"

definition legacy_provider :: provider where
  "legacy_provider = limited_provider\<lparr>pv_get_class := \<lambda>_ _. Ok (CoreLegacy sample_legacy_class)\<rparr>"

lemma sample_wanted: "wanted_classes sample_prov_update ov None = {7}"
  by (auto simp: wanted_classes_def stored_at_def sample_prov_update_def)

lemma sample_served: "\<exists>d. served ref_felt_lib ref_class_lib legacy_provider sample_prov_update 7 d"
proof -
  obtain w where "wrapper_try_from ref_felt_lib ref_class_lib (CoreLegacy sample_legacy_class) = Ok w"
    by (auto simp: wrapper_try_from_def from_contract_class_cairo_def decompress_def ref_class_lib_def sample_legacy_class_def)
  then show ?thesis by (auto simp: served_def legacy_provider_def sample_prov_update_def)
qed

theorem class_update_complete_witness:
  "\<exists>cs. fetch_class_update ref_felt_lib ref_class_lib sample_override (\<lambda>_. Ok None) rev legacy_provider sample_prov_update 4
      = Ok cs \<and> set (map ccd_hash cs) = {7}"
proof -
  note c = class_update_complete [where n = 4, OF ref_felt_codec, of rev "\<lambda>_. Ok None" None ref_class_lib sample_override
      legacy_provider sample_prov_update]
  from c sample_served obtain cs where "fetch_class_update ref_felt_lib ref_class_lib sample_override (\<lambda>_. Ok None) rev
      legacy_provider sample_prov_update 4 = Ok cs"
    by (auto simp: sample_wanted)
  moreover from this c have "set (map ccd_hash cs) = {7}" by (auto simp: sample_wanted)
  ultimately show ?thesis by blast
qed

section \<open>Following L1\<close>

definition readable_log :: "log_state_update \<Rightarrow> bool" where
  "readable_log log \<longleftrightarrow> 0 \<le> sint (lsu_block_number log) \<and> unat (lsu_global_root log) < STARK_PRIME
     \<and> unat (lsu_block_hash log) < STARK_PRIME"

definition head_of_log :: "log_state_update \<Rightarrow> l1_state_update" where
  "head_of_log log = \<lparr> l1u_block_number = ucast (lsu_block_number log),
     l1u_global_root = felt_of_nat (unat (lsu_global_root log)), l1u_block_hash = felt_of_nat (unat (lsu_block_hash log)) \<rparr>"

text \<open>A \<open>StarkFelt\<close> is checked by its top four bits only: from the prime up to \<open>2^252\<close> nothing is said.\<close>

definition rejected_log :: "log_state_update \<Rightarrow> bool" where
  "rejected_log log \<longleftrightarrow> sint (lsu_block_number log) < 0 \<or> 2 ^ 252 \<le> unat (lsu_global_root log)
     \<or> 2 ^ 252 \<le> unat (lsu_block_hash log)"

lemma u256_to_starkfelt_outcome:
  assumes "felt_codec L"
  shows "unat u < STARK_PRIME \<Longrightarrow> u256_to_starkfelt L u = Ok (felt_of_nat (unat u))"
    "2 ^ 252 \<le> unat u \<Longrightarrow> u256_to_starkfelt L u = Err ''Failed to convert U256 to StarkFelt''"
    "u256_to_starkfelt L u \<noteq> Panic"
proof -
  have "unat u < 256 ^ 32" using unsigned_less [of u, where ?'a = nat] by simp
  then have "be_nat (nat_be 32 (unat u)) = unat u" by (simp add: be_nat_nat_be del: power_numeral)
  then show "unat u < STARK_PRIME \<Longrightarrow> u256_to_starkfelt L u = Ok (felt_of_nat (unat u))"
    "2 ^ 252 \<le> unat u \<Longrightarrow> u256_to_starkfelt L u = Err ''Failed to convert U256 to StarkFelt''"
    using felt_codec.stark_new_big [OF assms, of "nat_be 32 (unat u)"]
    by (simp_all add: u256_to_starkfelt_def felt_codec.u256_to_be [OF assms] felt_codec.stark_new [OF assms]
        del: nat_be.simps)
qed (cases "stark_new L (u256_to_be L u)"; simp add: u256_to_starkfelt_def)

lemma convert_log_outcome:
  assumes "felt_codec L"
  shows "readable_log log \<Longrightarrow> unwrap (convert_log_state_update L log) = Ok (head_of_log log)"
    "rejected_log log \<Longrightarrow> unwrap (convert_log_state_update L log) = Panic"
  using u256_to_starkfelt_outcome(3) [OF assms, of "lsu_global_root log"]
  by (cases "u256_to_starkfelt L (lsu_global_root log)";
      auto simp: convert_log_state_update_def u256_to_starkfelt_outcome(1,2) [OF assms] readable_log_def rejected_log_def
        head_of_log_def)+

text \<open>Following the logs of the core contract, the shared L1 head is at the end the state of the last
  log received, its number taken modulo \<open>2^64\<close>; failed notifications leave it as it is. The node panics
  if some log has a negative number or a value of more than 252 bits.\<close>

theorem l1_head_follows:
  assumes "felt_codec L" and "Panic \<notin> set events"
  shows "((\<forall>log. Ok log \<in> set events \<longrightarrow> readable_log log) \<longrightarrow> listen_loop L events head =
      Ok (last (head # map head_of_log (List.map_filter (\<lambda>e. case e of Ok log \<Rightarrow> Some log | _ \<Rightarrow> None) events))))
    \<and> ((\<exists>log. Ok log \<in> set events \<and> rejected_log log) \<longrightarrow> listen_loop L events head = Panic)"
  using assms(2)
proof (induction events arbitrary: head)
  case (Cons e events)
  show ?case
  proof (cases e)
    case (Ok log)
    have "unwrap (convert_log_state_update L log) \<noteq> Err ()" by (cases "convert_log_state_update L log") simp_all
    with Ok Cons show ?thesis
      by (cases "unwrap (convert_log_state_update L log) :: l1_state_update panicking")
        (auto simp: convert_log_outcome [OF assms(1)] update_l1_def map_filter_simps)
  qed (use Cons in \<open>auto simp: map_filter_simps\<close>)
qed (simp add: map_filter_simps)

theorem l1_head_follows_witness:
  "listen_loop ref_felt_lib [Err ''timeout'', Ok \<lparr> lsu_global_root = 3, lsu_block_number = 12, lsu_block_hash = 4 \<rparr>]
     \<lparr> l1u_block_number = 0, l1u_global_root = 0, l1u_block_hash = 0 \<rparr> =
    Ok \<lparr> l1u_block_number = 12, l1u_global_root = felt_of_nat 3, l1u_block_hash = felt_of_nat 4 \<rparr>"
proof -
  have "readable_log \<lparr> lsu_global_root = 3, lsu_block_number = 12, lsu_block_hash = 4 \<rparr>"
    by (simp add: readable_log_def STARK_PRIME_def)
  then show ?thesis
    using l1_head_follows [OF ref_felt_codec, of
        "[Err ''timeout'', Ok \<lparr> lsu_global_root = 3, lsu_block_number = 12, lsu_block_hash = 4 \<rparr>]"]
    by (simp add: map_filter_simps head_of_log_def)
qed

section \<open>Reorganisations end only by luck\<close>

lemma reorg_loop_found:
  "highest (i + k) = parent \<Longrightarrow> reorg_loop highest parent i x = Some True"
proof (induction k arbitrary: i x)
  case 0
  then show ?case by (simp add: reorg_loop.simps)
next
  case (Suc k)
  then show ?case by (subst reorg_loop.simps) simp
qed

lemma reorg_loop_returned:
  assumes "reorg_loop highest parent i x = Some r"
  shows "r \<and> (parent = x \<or> (\<exists>j \<ge> i. highest j = parent))"
  by (rule reorg_loop.raw_induct [OF _ assms]) (fastforce split: if_splits dest: Suc_leD)

text \<open>C28: the handling of a reorganisation changes nothing and only waits. It answers that there is none
  exactly when the parent of the block is the highest block known; otherwise it returns only if a later
  read of that shared value happens to be the parent, and never returns if the value stays the same.\<close>

theorem reorg_returns:
  "reorg highest block =
    (if highest 0 = pk_parent_block_hash block then Some False
     else if \<exists>i \<ge> 1. highest i = pk_parent_block_hash block then Some True
     else None)"
proof (cases "\<exists>i \<ge> 1. highest i = pk_parent_block_hash block")
  case True
  then obtain k where "highest (1 + k) = pk_parent_block_hash block" by (auto simp: le_iff_add)
  then have "reorg_loop highest (pk_parent_block_hash block) 1 (highest 0) = Some True" by (rule reorg_loop_found)
  with True show ?thesis by (auto simp: reorg_def Let_def)
next
  case False
  then have "reorg_loop highest (pk_parent_block_hash block) 1 (highest 0) = None"
    if "highest 0 \<noteq> pk_parent_block_hash block"
    using that reorg_loop_returned [of highest "pk_parent_block_hash block" 1 "highest 0"]
    by (cases "reorg_loop highest (pk_parent_block_hash block) 1 (highest 0)") auto
  with False show ?thesis by (auto simp: reorg_def Let_def)
qed

end
