(* ===== verification/SyncL2.thy ===== *)
theory SyncL2
  imports SyncFetch
begin

text \<open>
  The loop that follows the sequencer, \<open>client/sync/src/l2.rs\<close>, and the hand-over to Substrate,
  \<open>QueryBlockConsensusDataProvider\<close> of \<open>node/src/service.rs\<close>. The shared variables of the source
  (\<open>lazy_static\<close> values behind locks, which are not poisoned) are the record \<open>sync_globals\<close>. The tasks
  that \<open>tokio\<close> runs beside each other touch them one step at a time, so a run is a list of events: a
  fetched block, a refresh of the highest block, or a head learned from L1. The engine of manual sealing
  and the Substrate client are fields of \<open>l2_env\<close>.
\<close>

section \<open>The shared state\<close>

datatype sync_status = SyncVerifiedState | SyncUnverifiedState | SyncPendingState

record sync_globals =
  sg_sync_status :: sync_status
  sg_starknet_state_update :: l2_state_update
  sg_ethereum_state_update :: l1_state_update
  sg_highest :: "felt \<times> 64 word"
  sg_pending_block :: "deoxys_block option"
  sg_pending_state_update :: "core_pending_state_update option"

definition initial_globals :: sync_globals where
  "initial_globals = \<lparr> sg_sync_status = SyncVerifiedState,
     sg_starknet_state_update = \<lparr> l2u_block_number = 0, l2u_global_root = 0, l2u_block_hash = 0 \<rparr>,
     sg_ethereum_state_update = \<lparr> l1u_block_number = 0, l1u_global_root = 0, l1u_block_hash = 0 \<rparr>,
     sg_highest = (0, 0), sg_pending_block = None, sg_pending_state_update = None \<rparr>"

definition get_highest_block_hash_and_number :: "sync_globals \<Rightarrow> felt \<times> 64 word" where
  "get_highest_block_hash_and_number g = sg_highest g"

definition get_pending_block :: "sync_globals \<Rightarrow> deoxys_block option" where
  "get_pending_block g = sg_pending_block g"

definition get_pending_state_update :: "sync_globals \<Rightarrow> core_pending_state_update option" where
  "get_pending_state_update g = sg_pending_state_update g"

definition update_l2 :: "l2_state_update \<Rightarrow> sync_globals \<Rightarrow> sync_globals" where
  "update_l2 state_update g =
    (let g = g\<lparr>sg_starknet_state_update := state_update\<rparr> in
     if l2u_block_number state_update \<ge> l1u_block_number (sg_ethereum_state_update g)
     then g\<lparr>sg_sync_status := SyncUnverifiedState\<rparr> else g)"

definition verify_l2 :: "(felt list \<Rightarrow> felt list) \<Rightarrow> felt_lib \<Rightarrow> crypto_lib \<Rightarrow> ('b, 'tr) bonsai_lib
    \<Rightarrow> ('h, 'c, 'a) override_handle \<Rightarrow> 64 word \<Rightarrow> prov_state_update \<Rightarrow> 'h option \<Rightarrow> sync_globals \<times> 'b deoxys_backend
    \<Rightarrow> (sync_globals \<times> 'b deoxys_backend) panicking" where
  "verify_l2 schedule L K B overrides block_number state_update substrate_block_hash shared =
    (let (g, bk) = shared in
     res_bind (build_commitment_state_diff L (state_update_wrapper state_update)) (\<lambda>csd.
     let (state_root, bk) = update_state_root schedule L K B overrides bk csd block_number substrate_block_hash in
     res_bind state_root (\<lambda>state_root.
     res_bind (unwrap_opt (pu_block_hash state_update)) (\<lambda>block_hash.
     res_bind (into_stark_felt L state_root) (\<lambda>global_root.
     res_bind (into_stark_felt L block_hash) (\<lambda>block_hash.
     Ok (update_l2 \<lparr> l2u_block_number = block_number, l2u_global_root = global_root,
           l2u_block_hash = block_hash \<rparr> g, bk)))))))"

section \<open>Handing blocks to Substrate\<close>

text \<open>The three channels between the loop and the engine.\<close>

record ('c, 'a) channels =
  ch_blocks :: "deoxys_block list"
  ch_state_updates :: "state_update list"
  ch_class_updates :: "('c, 'a) class_update list"

definition empty_channels :: "('c, 'a) channels" where
  "empty_channels = \<lparr> ch_blocks = [], ch_state_updates = [], ch_class_updates = [] \<rparr>"

datatype seal_error = EmptyTransactionPool

text \<open>The digest of the next block; \<open>enc_su\<close> and \<open>enc_cu\<close> are the derived encoders. A block taken from its
  channel is lost when another channel is empty.\<close>

definition create_digest :: "('c, 'a) codecs \<Rightarrow> (state_update \<Rightarrow> bytes) \<Rightarrow> (('c, 'a) class_update \<Rightarrow> bytes) \<Rightarrow> ('c, 'a) channels
    \<Rightarrow> (seal_error, digest_item list) res \<times> ('c, 'a) channels" where
  "create_digest S enc_su enc_cu ch =
    (case ch_blocks ch of
       [] \<Rightarrow> (Err EmptyTransactionPool, ch)
     | block # blocks \<Rightarrow>
         (let ch = ch\<lparr>ch_blocks := blocks\<rparr>;
              block_digest_item = PreRuntime MADARA_ENGINE_ID (block_encode S block)
          in case ch_state_updates ch of
            [] \<Rightarrow> (Err EmptyTransactionPool, ch)
          | state_update # state_updates \<Rightarrow>
              (let ch = ch\<lparr>ch_state_updates := state_updates\<rparr>;
                   state_update_digest_item = PreRuntime STATE_ENGINE_ID (enc_su state_update)
               in case ch_class_updates ch of
                 [] \<Rightarrow> (Err EmptyTransactionPool, ch)
               | classes # class_updates \<Rightarrow>
                   (let ch = ch\<lparr>ch_class_updates := class_updates\<rparr>;
                        class_digest_item = PreRuntime CLASS_ENGINE_ID (enc_cu classes)
                    in (Ok [block_digest_item, state_update_digest_item, class_digest_item], ch)))))"

record ('n, 'h, 'c, 'a, 'b, 'tr) l2_env =
  en_felt :: felt_lib
  en_crypto :: crypto_lib
  en_bonsai :: "('b, 'tr) bonsai_lib"
  en_memory :: "(unit, 'b) res"
  en_trie_id :: "64 word"
  en_schedule :: "felt list \<Rightarrow> felt list"
  en_config :: "fetch_config option"
  en_client :: "'n \<Rightarrow> 32 word \<Rightarrow> (unit, 'h option) res"
  en_best_hash :: "'n \<Rightarrow> 'h"
  en_hash_from_str :: "felt \<Rightarrow> 'h option"
  en_default_hash :: 'h
  en_overrides :: "'n \<Rightarrow> ('h, 'c, 'a) override_handle"
  en_seal :: "'n \<Rightarrow> ('c, 'a) channels \<Rightarrow> (string, 'h) res \<times> 'n \<times> ('c, 'a) channels"

record ('n, 'h, 'c, 'a, 'b) l2_state =
  ls_globals :: sync_globals
  ls_backend :: "'b deoxys_backend"
  ls_channels :: "('c, 'a) channels"
  ls_node :: 'n
  ls_last_block_hash :: "'h option"

definition create_block :: "('n, 'h, 'c, 'a, 'b, 'tr) l2_env \<Rightarrow> ('n, 'h, 'c, 'a, 'b) l2_state
    \<Rightarrow> (string, unit) res \<times> ('n, 'h, 'c, 'a, 'b) l2_state" where
  "create_block E st =
    (let (create_block_info, node, ch) = en_seal E (ls_node st) (ls_channels st);
         st = st\<lparr>ls_node := node, ls_channels := ch\<rparr>
     in case create_block_info of
       Ok hash \<Rightarrow> (Ok (), st\<lparr>ls_last_block_hash := Some hash\<rparr>)
     | Err err \<Rightarrow> (Err (''failed to seal block: '' @ err), st)
     | Panic \<Rightarrow> (Panic, st))"

section \<open>The loop\<close>

type_synonym ('c, 'a) fetched = "prov_block \<times> prov_state_update \<times> ('c, 'a) class_update"

definition convert_block :: "('n, 'h, 'c, 'a, 'b, 'tr) l2_env \<Rightarrow> prov_block \<Rightarrow> deoxys_block panicking" where
  "convert_block E block = convert_block_sync (en_felt E) (en_crypto E) (en_bonsai E) (en_memory E) (en_trie_id E)
    (map_option fc_chain_id (en_config E)) block"

text \<open>One round of the loop. A root that differs from the one of the fetched block is only logged. The
  sends wait for room in their channels, which the engine makes.\<close>

definition apply_block :: "('n, 'h, 'c, 'a, 'b, 'tr) l2_env \<Rightarrow> fetch_config \<Rightarrow> 64 word \<Rightarrow> ('c, 'a) fetched
    \<Rightarrow> ('n, 'h, 'c, 'a, 'b) l2_state \<Rightarrow> ('n, 'h, 'c, 'a, 'b) l2_state panicking" where
  "apply_block E config block_n val st =
    (let (block, state_update, class_update) = val in
     res_bind (block_hash_substrate (en_client E (ls_node st)) (block_n - 1)) (\<lambda>block_hash.
     res_bind (if fc_verify config
         then verify_l2 (en_schedule E) (en_felt E) (en_crypto E) (en_bonsai E) (en_overrides E (ls_node st)) block_n
           state_update block_hash (ls_globals st, ls_backend st)
         else Ok (ls_globals st, ls_backend st)) (\<lambda>(g, bk).
     res_bind (convert_block E block) (\<lambda>block_conv.
     let ch = ls_channels st;
         st = st\<lparr>ls_globals := g, ls_backend := bk,
           ls_channels := ch\<lparr>ch_blocks := ch_blocks ch @ [block_conv],
             ch_state_updates := ch_state_updates ch @ [state_update_wrapper state_update],
             ch_class_updates := ch_class_updates ch @ [class_update]\<rparr>\<rparr>
     in let (created, st) = create_block E st in res_bind (unwrap created) (\<lambda>_. Ok st)))))"

definition update_starknet_data :: "('n, 'h, 'c, 'a, 'b, 'tr) l2_env \<Rightarrow> provider \<Rightarrow> 'n \<Rightarrow> sync_globals
    \<Rightarrow> (provider_error, sync_globals) res" where
  "update_starknet_data E P node g =
    res_bind (pv_get_block P PendingId) (\<lambda>block.
    let hash_best = en_best_hash E node;
        hash_current = pk_parent_block_hash block
    in
    res_bind (pv_get_block_id_by_hash P hash_current) (\<lambda>number.
    let tmp = (case en_hash_from_str E hash_current of Some h \<Rightarrow> h | None \<Rightarrow> en_default_hash E) in
    res_bind (if hash_best = tmp then
        res_bind (pv_get_state_update P PendingId) (\<lambda>state_update.
        res_bind (unwrap (convert_block E block)) (\<lambda>block_conv.
        Ok (g\<lparr>sg_pending_block := Some block_conv, sg_pending_state_update := Some (state_update_conv state_update)\<rparr>)))
      else Ok g) (\<lambda>g.
    Ok (g\<lparr>sg_highest := (hash_current, number)\<rparr>))))"

text \<open>The values of the fetch stream arrive in the order of their numbers (\<open>buffered\<close>).\<close>

datatype ('c, 'a) sync_event =
  Fetched "(l2_sync_error, ('c, 'a) fetched) res"
| Refresh provider
| L1Head l1_state_update

primrec l2_run :: "('n, 'h, 'c, 'a, 'b, 'tr) l2_env \<Rightarrow> fetch_config \<Rightarrow> ('c, 'a) sync_event list \<Rightarrow> 64 word
    \<Rightarrow> ('n, 'h, 'c, 'a, 'b) l2_state \<Rightarrow> ('n, 'h, 'c, 'a, 'b) l2_state panicking" where
  "l2_run E config [] block_n st = Ok st"
| "l2_run E config (event # events) block_n st =
    (case event of
       Fetched val \<Rightarrow>
         if val = Err (ProviderFailed ProviderBlockNotFound) then Ok st
         else res_bind (unwrap val) (\<lambda>val. res_bind (apply_block E config block_n val st) (\<lambda>st.
           l2_run E config events (block_n + 1) st))
     | Refresh P \<Rightarrow>
         (case update_starknet_data E P (ls_node st) (ls_globals st) of
            Ok g \<Rightarrow> l2_run E config events block_n (st\<lparr>ls_globals := g\<rparr>)
          | Err _ \<Rightarrow> l2_run E config events block_n st
          | Panic \<Rightarrow> Panic)
     | L1Head head \<Rightarrow> l2_run E config events block_n
         (st\<lparr>ls_globals := (ls_globals st)\<lparr>sg_ethereum_state_update :=
            update_l1 head (sg_ethereum_state_update (ls_globals st))\<rparr>\<rparr>))"

text \<open>\<open>P\<close> answers the request for the state update of the genesis block.\<close>

definition l2_sync :: "('n, 'h, 'c, 'a, 'b, 'tr) l2_env \<Rightarrow> fetch_config \<Rightarrow> provider \<Rightarrow> 64 word \<Rightarrow> ('c, 'a) sync_event list
    \<Rightarrow> ('n, 'h, 'c, 'a, 'b) l2_state \<Rightarrow> ('n, 'h, 'c, 'a, 'b) l2_state panicking" where
  "l2_sync E config P first_block events st =
    res_bind (if first_block = 1 then
        res_bind (unwrap (pv_get_state_update P (ByNumber 0))) (\<lambda>state_update.
          verify_l2 (en_schedule E) (en_felt E) (en_crypto E) (en_bonsai E) (en_overrides E (ls_node st)) 0 state_update None
            (ls_globals st, ls_backend st))
      else Ok (ls_globals st, ls_backend st)) (\<lambda>(g, bk).
    l2_run E config events first_block (st\<lparr>ls_globals := g, ls_backend := bk, ls_last_block_hash := None\<rparr>))"

text \<open>The worker starts after the best block of the node; the heads that \<open>l1::sync\<close>, run beside it, stores
  are the \<open>L1Head\<close> events.\<close>

definition starknet_sync_worker :: "('n, 'h, 'c, 'a, 'b, 'tr) l2_env \<Rightarrow> fetch_config \<Rightarrow> provider \<Rightarrow> 32 word
    \<Rightarrow> ('c, 'a) sync_event list \<Rightarrow> ('n, 'h, 'c, 'a, 'b) l2_state \<Rightarrow> ('n, 'h, 'c, 'a, 'b) l2_state panicking" where
  "starknet_sync_worker E config P starting_block events st =
    (let starting_block = starting_block + 1 in l2_sync E config P (ucast starting_block) events st)"

section \<open>One Substrate block for each Starknet block\<close>

text \<open>The digest that announces a converted block with what was fetched beside it.\<close>

definition announcement :: "('c, 'a) codecs \<Rightarrow> (state_update \<Rightarrow> bytes) \<Rightarrow> (('c, 'a) class_update \<Rightarrow> bytes) \<Rightarrow> ('c, 'a) fetched
    \<Rightarrow> deoxys_block \<Rightarrow> digest_item list" where
  "announcement S enc_su enc_cu x b =
    [PreRuntime MADARA_ENGINE_ID (block_encode S b),
     PreRuntime STATE_ENGINE_ID (enc_su (state_update_wrapper (fst (snd x)))),
     PreRuntime CLASS_ENGINE_ID (enc_cu (snd (snd x)))]"

lemma create_digest_one:
  "create_digest S enc_su enc_cu \<lparr> ch_blocks = [b], ch_state_updates = [state_update_wrapper (fst (snd x))],
      ch_class_updates = [snd (snd x)] \<rparr> = (Ok (announcement S enc_su enc_cu x b), empty_channels)"
  by (simp add: create_digest_def announcement_def empty_channels_def)

text \<open>The fetched blocks of a run, up to the one the sequencer does not have yet.\<close>

fun applied :: "('c, 'a) sync_event list \<Rightarrow> ('c, 'a) fetched list" where
  "applied [] = []"
| "applied (Fetched (Ok x) # events) = x # applied events"
| "applied (Fetched _ # events) = []"
| "applied (_ # events) = applied events"

lemma refresh_keeps:
  assumes "update_starknet_data E P node g = Ok g'"
  shows "sg_starknet_state_update g' = sg_starknet_state_update g \<and> sg_sync_status g' = sg_sync_status g"
  using assms by (auto simp: update_starknet_data_def Let_def result_simps split: if_splits)

lemma verify_l2_head:
  assumes "felt_codec L" and "verify_l2 schedule L K B ov n su bh shared = Ok (g, bk)"
  shows "l2u_block_number (sg_starknet_state_update g) = n
    \<and> pu_block_hash su = Some (l2u_block_hash (sg_starknet_state_update g))"
  using assms(2)
  by (auto simp: verify_l2_def update_l2_def Let_def split_def result_simps stark_into_ok [OF assms(1)])

text \<open>The conditions under which a refresh and a run cannot panic.\<close>

definition refresh_safe :: "('n, 'h, 'c, 'a, 'b, 'tr) l2_env \<Rightarrow> provider \<Rightarrow> bool" where
  "refresh_safe E P \<longleftrightarrow> pv_get_block P PendingId \<noteq> Panic \<and> pv_get_state_update P PendingId \<noteq> Panic
     \<and> (\<forall>h. pv_get_block_id_by_hash P h \<noteq> Panic)
     \<and> (\<forall>block. pv_get_block P PendingId = Ok block \<longrightarrow> (\<exists>b. convert_block E block = Ok b))"

fun run_safe :: "('n, 'h, 'c, 'a, 'b, 'tr) l2_env \<Rightarrow> ('c, 'a) sync_event list \<Rightarrow> bool" where
  "run_safe E [] \<longleftrightarrow> True"
| "run_safe E (Fetched (Ok x) # events) \<longleftrightarrow> (\<exists>b. convert_block E (fst x) = Ok b) \<and> run_safe E events"
| "run_safe E (Fetched r # events) \<longleftrightarrow> r = Err (ProviderFailed ProviderBlockNotFound)"
| "run_safe E (Refresh P # events) \<longleftrightarrow> refresh_safe E P \<and> run_safe E events"
| "run_safe E (L1Head _ # events) \<longleftrightarrow> run_safe E events"

lemma res_bind_Panic_iff: "res_bind m f = Panic \<longleftrightarrow> m = Panic \<or> (\<exists>x. m = Ok x \<and> f x = Panic)"
  by (cases m) auto

lemma refresh_returns:
  assumes "refresh_safe E P"
  shows "update_starknet_data E P node g \<noteq> Panic"
proof -
  have "unwrap (convert_block E block) \<noteq> (Panic :: (provider_error, deoxys_block) res)" if "pv_get_block P PendingId = Ok block" for block
    using assms that unfolding refresh_safe_def by fastforce
  with assms show ?thesis
    unfolding update_starknet_data_def Let_def by (auto simp: refresh_safe_def res_bind_Panic_iff split: if_splits)
qed

text \<open>Sealing: when the digest can be created, the engine seals a block with it and the channels are those
  the creation left. \<open>chain\<close> reads the digests of the blocks of a node.\<close>

locale sealing =
  fixes E :: "('n, 'h, 'c, 'a, 'b, 'tr) l2_env" and S :: "('c, 'a) codecs"
    and enc_su :: "state_update \<Rightarrow> bytes" and enc_cu :: "('c, 'a) class_update \<Rightarrow> bytes"
    and chain :: "'n \<Rightarrow> digest_item list list"
  assumes seals: "create_digest S enc_su enc_cu ch = (Ok d, ch') \<Longrightarrow>
    \<exists>h node'. en_seal E node ch = (Ok h, node', ch') \<and> chain node' = chain node @ [d]"
begin

lemma create_block_seals:
  assumes "ls_channels st = \<lparr> ch_blocks = [b], ch_state_updates = [state_update_wrapper (fst (snd x))],
      ch_class_updates = [snd (snd x)] \<rparr>"
  shows "\<exists>h node'. create_block E st = (Ok (), st\<lparr>ls_node := node', ls_channels := empty_channels,
      ls_last_block_hash := Some h\<rparr>) \<and> chain node' = chain (ls_node st) @ [announcement S enc_su enc_cu x b]"
proof -
  obtain h node' where "en_seal E (ls_node st) (ls_channels st) = (Ok h, node', empty_channels)"
    "chain node' = chain (ls_node st) @ [announcement S enc_su enc_cu x b]"
    using seals create_digest_one assms by metis
  then show ?thesis by (auto simp: create_block_def)
qed

text \<open>What the verification of a block leaves in the shared state.\<close>

abbreviation verified :: "fetch_config \<Rightarrow> 64 word \<Rightarrow> ('c, 'a) fetched \<Rightarrow> 'h option \<Rightarrow> ('n, 'h, 'c, 'a, 'b) l2_state
    \<Rightarrow> (sync_globals \<times> 'b deoxys_backend) panicking" where
  "verified config n x bh st \<equiv> if fc_verify config
     then verify_l2 (en_schedule E) (en_felt E) (en_crypto E) (en_bonsai E) (en_overrides E (ls_node st)) n (fst (snd x)) bh
       (ls_globals st, ls_backend st)
     else Ok (ls_globals st, ls_backend st)"

lemma apply_block_outcome:
  assumes "ls_channels st = empty_channels"
    and "block_hash_substrate (en_client E (ls_node st)) (n - 1) = (Ok bh :: (unit, 'h option) res)"
    and "verified config n x bh st = Ok (g, bk)" and "convert_block E (fst x) = Ok b"
  shows "\<exists>st'. apply_block E config n x st = Ok st' \<and> ls_channels st' = empty_channels \<and> ls_globals st' = g
    \<and> ls_backend st' = bk \<and> chain (ls_node st') = chain (ls_node st) @ [announcement S enc_su enc_cu x b]"
proof -
  let ?st = "st\<lparr>ls_globals := g, ls_backend := bk, ls_channels := \<lparr> ch_blocks = [b],
    ch_state_updates = [state_update_wrapper (fst (snd x))], ch_class_updates = [snd (snd x)] \<rparr>\<rparr>"
  have "ls_channels ?st = \<lparr> ch_blocks = [b], ch_state_updates = [state_update_wrapper (fst (snd x))],
      ch_class_updates = [snd (snd x)] \<rparr>" by simp
  from create_block_seals [OF this] obtain h node' where seal: "create_block E ?st =
      (Ok (), ?st\<lparr>ls_node := node', ls_channels := empty_channels, ls_last_block_hash := Some h\<rparr>)"
    "chain node' = chain (ls_node ?st) @ [announcement S enc_su enc_cu x b]" by blast
  have "apply_block E config n x st = Ok (?st\<lparr>ls_node := node', ls_channels := empty_channels, ls_last_block_hash := Some h\<rparr>)"
    using assms seal(1) by (simp add: apply_block_def split_def empty_channels_def Let_def)
  with seal(2) show ?thesis by simp
qed

lemma apply_block_parts:
  assumes "apply_block E config n x st = Ok st'"
  shows "\<exists>bh g bk b. block_hash_substrate (en_client E (ls_node st)) (n - 1) = (Ok bh :: (unit, 'h option) res)
    \<and> verified config n x bh st = Ok (g, bk) \<and> convert_block E (fst x) = Ok b"
  using assms by (fastforce simp: apply_block_def split_def res_bind_Ok_iff)

lemma apply_block_sealed:
  assumes "apply_block E config n x st = Ok st'" and "ls_channels st = empty_channels"
  shows "\<exists>bh b. convert_block E (fst x) = Ok b \<and> verified config n x bh st = Ok (ls_globals st', ls_backend st')
    \<and> ls_channels st' = empty_channels \<and> chain (ls_node st') = chain (ls_node st) @ [announcement S enc_su enc_cu x b]"
  using apply_block_parts [OF assms(1)] apply_block_outcome [OF assms(2)] assms(1) by (metis res.inject(1))

lemma run_sealed:
  assumes "l2_run E config events n st = Ok st'" and "ls_channels st = empty_channels"
  shows "\<exists>bs. list_all2 (\<lambda>x b. convert_block E (fst x) = Ok b) (applied events) bs
    \<and> chain (ls_node st') = chain (ls_node st) @ map2 (announcement S enc_su enc_cu) (applied events) bs
    \<and> ls_channels st' = empty_channels"
  using assms
proof (induction events arbitrary: n st)
  case (Cons e events)
  show ?case
  proof (cases e)
    case (Fetched val)
    show ?thesis
    proof (cases val)
      case (Ok x)
      with Cons.prems(1) Fetched obtain st1 where st1: "apply_block E config n x st = Ok st1"
        "l2_run E config events (n + 1) st1 = Ok st'" by (auto simp: res_bind_Ok_iff)
      from apply_block_sealed [OF st1(1) Cons.prems(2)] obtain b where b: "convert_block E (fst x) = Ok b"
        "ls_channels st1 = empty_channels" "chain (ls_node st1) = chain (ls_node st) @ [announcement S enc_su enc_cu x b]"
        by blast
      from Cons.IH [OF st1(2) b(2)] obtain bs where
        "list_all2 (\<lambda>x b. convert_block E (fst x) = Ok b) (applied events) bs"
        "chain (ls_node st') = chain (ls_node st1) @ map2 (announcement S enc_su enc_cu) (applied events) bs"
        "ls_channels st' = empty_channels" by blast
      with b show ?thesis by (intro exI [of _ "b # bs"]) (simp add: Fetched Ok)
    next
      case (Err e')
      with Cons.prems Fetched show ?thesis by (auto split: if_splits)
    next
      case Panic
      with Cons.prems Fetched show ?thesis by simp
    qed
  next
    case (Refresh P)
    show ?thesis
    proof (cases "update_starknet_data E P (ls_node st) (ls_globals st)")
      case (Ok g)
      with Cons.prems Refresh Cons.IH [of n "st\<lparr>ls_globals := g\<rparr>"] show ?thesis by simp
    qed (use Cons Refresh in auto)
  next
    case (L1Head head)
    with Cons.prems Cons.IH [of n "st\<lparr>ls_globals := (ls_globals st)\<lparr>sg_ethereum_state_update :=
        update_l1 head (sg_ethereum_state_update (ls_globals st))\<rparr>\<rparr>"]
    show ?thesis by simp
  qed
qed simp

lemma run_head:
  assumes "felt_codec (en_felt E)" and "fc_verify config"
    and "l2_run E config events n st = Ok st'" and "ls_channels st = empty_channels"
  shows "if applied events = [] then sg_starknet_state_update (ls_globals st') = sg_starknet_state_update (ls_globals st)
    else l2u_block_number (sg_starknet_state_update (ls_globals st')) = n + of_nat (length (applied events)) - 1
      \<and> pu_block_hash (fst (snd (last (applied events)))) = Some (l2u_block_hash (sg_starknet_state_update (ls_globals st')))"
  using assms(3,4)
proof (induction events arbitrary: n st)
  case (Cons e events)
  show ?case
  proof (cases e)
    case (Fetched val)
    show ?thesis
    proof (cases val)
      case (Ok x)
      with Cons.prems(1) Fetched obtain st1 where st1: "apply_block E config n x st = Ok st1"
        "l2_run E config events (n + 1) st1 = Ok st'" by (auto simp: res_bind_Ok_iff)
      from apply_block_sealed [OF st1(1) Cons.prems(2)] obtain bh where bh: "ls_channels st1 = empty_channels"
        "verified config n x bh st = Ok (ls_globals st1, ls_backend st1)" by blast
      from bh(2) assms(2) have "verify_l2 (en_schedule E) (en_felt E) (en_crypto E) (en_bonsai E) (en_overrides E (ls_node st)) n
          (fst (snd x)) bh (ls_globals st, ls_backend st) = Ok (ls_globals st1, ls_backend st1)" by simp
      from verify_l2_head [OF assms(1) this] have "l2u_block_number (sg_starknet_state_update (ls_globals st1)) = n
          \<and> pu_block_hash (fst (snd x)) = Some (l2u_block_hash (sg_starknet_state_update (ls_globals st1)))" .
      with Cons.IH [OF st1(2) bh(1)] show ?thesis by (auto simp: Fetched Ok algebra_simps)
    qed (use Cons.prems Fetched in \<open>auto split: if_splits\<close>)
  next
    case (Refresh P)
    show ?thesis
    proof (cases "update_starknet_data E P (ls_node st) (ls_globals st)")
      case (Ok g)
      with Cons.prems Refresh Cons.IH [of n "st\<lparr>ls_globals := g\<rparr>"] refresh_keeps [OF Ok] show ?thesis by simp
    qed (use Cons Refresh in auto)
  next
    case (L1Head head)
    with Cons.prems Cons.IH [of n "st\<lparr>ls_globals := (ls_globals st)\<lparr>sg_ethereum_state_update :=
        update_l1 head (sg_ethereum_state_update (ls_globals st))\<rparr>\<rparr>"]
    show ?thesis by simp
  qed
qed simp

lemma run_returns:
  assumes "\<not> fc_verify config" and "\<forall>node k. \<exists>h. en_client E node k = Ok h" and "run_safe E events"
    and "ls_channels st = empty_channels"
  shows "\<exists>st'. l2_run E config events n st = Ok st' \<and> ls_backend st' = ls_backend st"
  using assms(3,4)
proof (induction events arbitrary: n st)
  case (Cons e events)
  show ?case
  proof (cases e)
    case (Fetched val)
    show ?thesis
    proof (cases val)
      case (Ok x)
      with Cons.prems Fetched obtain b where b: "convert_block E (fst x) = Ok b" "run_safe E events" by auto
      obtain bh where "en_client E (ls_node st) (saturate_u32 (n - 1)) = Ok bh" using assms(2) by blast
      then have "block_hash_substrate (en_client E (ls_node st)) (n - 1) = (Ok bh :: (unit, 'h option) res)"
        by (simp add: block_hash_substrate_def)
      from apply_block_outcome [OF Cons.prems(2) this _ b(1), of config "ls_globals st" "ls_backend st"] assms(1)
      obtain st1 where "apply_block E config n x st = Ok st1" "ls_channels st1 = empty_channels" "ls_backend st1 = ls_backend st"
        by auto
      with Cons.IH [OF b(2), of st1 "n + 1"] show ?thesis by (auto simp: Fetched Ok)
    qed (use Cons.prems Fetched in auto)
  next
    case (Refresh P)
    show ?thesis
    proof (cases "update_starknet_data E P (ls_node st) (ls_globals st)")
      case (Ok g)
      with Cons.prems Refresh Cons.IH [of "st\<lparr>ls_globals := g\<rparr>" n] show ?thesis by simp
    next
      case Panic
      moreover have "refresh_safe E P" using Cons.prems(1) Refresh by simp
      ultimately show ?thesis using refresh_returns by metis
    qed (use Cons Refresh in auto)
  next
    case (L1Head head)
    with Cons.prems Cons.IH [of "st\<lparr>ls_globals := (ls_globals st)\<lparr>sg_ethereum_state_update :=
        update_l1 head (sg_ethereum_state_update (ls_globals st))\<rparr>\<rparr>" n]
    show ?thesis by simp
  qed
qed simp

end

section \<open>The status of the synchronisation\<close>

lemma create_block_globals: "ls_globals (snd (create_block E st)) = ls_globals st"
  by (simp add: create_block_def split_def Let_def split: res.split)

lemma verify_l2_status:
  assumes "verify_l2 schedule L K B ov n su bh (g, bk) = Ok (g', bk')"
  shows "sg_sync_status g' \<in> {sg_sync_status g, SyncUnverifiedState}"
  using assms by (auto simp: verify_l2_def update_l2_def Let_def split_def result_simps)

lemma apply_block_status:
  assumes "apply_block E config n x st = Ok st'"
  shows "sg_sync_status (ls_globals st') \<in> {sg_sync_status (ls_globals st), SyncUnverifiedState}"
proof -
  from assms obtain bh g bk where
    "(if fc_verify config then verify_l2 (en_schedule E) (en_felt E) (en_crypto E) (en_bonsai E) (en_overrides E (ls_node st)) n
        (fst (snd x)) bh (ls_globals st, ls_backend st) else Ok (ls_globals st, ls_backend st)) = Ok (g, bk)"
    "ls_globals st' = g"
    by (fastforce simp: apply_block_def split_def Let_def result_simps create_block_globals)
  with verify_l2_status show ?thesis by (metis Pair_inject insertI1 res.inject(1))
qed

text \<open>Blocks only ever move the status to \<open>SyncUnverifiedState\<close>; nothing moves it back when L1 gets ahead
  again, and nothing sets \<open>SyncPendingState\<close>.\<close>

lemma status_moves_once:
  assumes "l2_run E config events n st = Ok st'"
  shows "sg_sync_status (ls_globals st') \<in> {sg_sync_status (ls_globals st), SyncUnverifiedState}"
  using assms
proof (induction events arbitrary: n st)
  case (Cons e events)
  show ?case
  proof (cases e)
    case (Fetched val)
    with Cons.prems show ?thesis
      by (cases val) (auto simp: result_simps split: if_splits dest!: apply_block_status Cons.IH)
  next
    case (Refresh P)
    show ?thesis
    proof (cases "update_starknet_data E P (ls_node st) (ls_globals st)")
      case (Ok g)
      with Cons.prems Refresh Cons.IH [of n "st\<lparr>ls_globals := g\<rparr>"] refresh_keeps [OF Ok] show ?thesis by simp
    qed (use Cons Refresh in auto)
  next
    case (L1Head head)
    with Cons.prems Cons.IH [of n "st\<lparr>ls_globals := (ls_globals st)\<lparr>sg_ethereum_state_update :=
        update_l1 head (sg_ethereum_state_update (ls_globals st))\<rparr>\<rparr>"]
    show ?thesis by simp
  qed
qed simp

section \<open>The chain that the loop builds\<close>

text \<open>A node that keeps the digests it sealed.\<close>

definition ref_seal :: "('c, 'a) codecs \<Rightarrow> (state_update \<Rightarrow> bytes) \<Rightarrow> (('c, 'a) class_update \<Rightarrow> bytes)
    \<Rightarrow> digest_item list list \<Rightarrow> ('c, 'a) channels \<Rightarrow> (string, unit) res \<times> digest_item list list \<times> ('c, 'a) channels" where
  "ref_seal S enc_su enc_cu node ch =
    (case create_digest S enc_su enc_cu ch of
       (Ok d, ch) \<Rightarrow> (Ok (), node @ [d], ch)
     | (_, ch) \<Rightarrow> (Err ''empty transaction pool'', node, ch))"

definition ref_config :: fetch_config where
  "ref_config = \<lparr> fc_gateway = [], fc_feeder_gateway = [], fc_chain_id = 5, fc_workers = 1, fc_sound = False,
     fc_l1_core_address = [], fc_verify = False, fc_api_key = None \<rparr>"

definition ref_l2_env :: "(felt, felt) codecs \<Rightarrow> (state_update \<Rightarrow> bytes) \<Rightarrow> ((felt, felt) class_update \<Rightarrow> bytes)
    \<Rightarrow> (digest_item list list, unit, felt, felt, bytes \<times> bool list \<rightharpoonup> felt, unit) l2_env" where
  "ref_l2_env S enc_su enc_cu = \<lparr> en_felt = ref_felt_lib, en_crypto = ref_crypto, en_bonsai = count_bonsai,
     en_memory = Ok Map.empty, en_trie_id = 0, en_schedule = rev, en_config = Some ref_config,
     en_client = (\<lambda>_ _. Ok None), en_best_hash = (\<lambda>_. ()), en_hash_from_str = (\<lambda>_. None), en_default_hash = (),
     en_overrides = (\<lambda>_. sample_override), en_seal = ref_seal S enc_su enc_cu \<rparr>"

interpretation ref_sealing: sealing "ref_l2_env S enc_su enc_cu" S enc_su enc_cu "\<lambda>node. node" for S enc_su enc_cu
  by unfold_locales (simp add: ref_l2_env_def ref_seal_def)

lemma ref_sealing: "sealing (ref_l2_env S enc_su enc_cu) S enc_su enc_cu (\<lambda>node. node)"
  by (rule ref_sealing.sealing_axioms)

text \<open>C22: following the sequencer, the node seals one Substrate block for each Starknet block, in their
  order and nothing else, whatever refreshes and L1 heads come in between: the digest of each carries the
  converted block, its state update and its classes, and the channels are empty again. With verification
  the shared L2 state is at the end that of the last block. Without it the loop returns, and leaves the
  tries alone, when every block converts and the client and the pending data cause no panic.\<close>

theorem l2_seals_in_order:
  assumes "sealing E S enc_su enc_cu chain" and "felt_codec (en_felt E)" and "ls_channels st = empty_channels"
  shows "(\<forall>st'. l2_run E config events n st = Ok st' \<longrightarrow>
      (\<exists>bs. list_all2 (\<lambda>x b. convert_block E (fst x) = Ok b) (applied events) bs
        \<and> chain (ls_node st') = chain (ls_node st) @ map2 (announcement S enc_su enc_cu) (applied events) bs)
      \<and> ls_channels st' = empty_channels
      \<and> (fc_verify config \<and> applied events \<noteq> [] \<longrightarrow>
          l2u_block_number (sg_starknet_state_update (ls_globals st')) = n + of_nat (length (applied events)) - 1
          \<and> pu_block_hash (fst (snd (last (applied events)))) =
              Some (l2u_block_hash (sg_starknet_state_update (ls_globals st')))))
    \<and> (\<not> fc_verify config \<and> (\<forall>node k. \<exists>h. en_client E node k = Ok h) \<and> run_safe E events \<longrightarrow>
      (\<exists>st'. l2_run E config events n st = Ok st' \<and> ls_backend st' = ls_backend st))"
proof (intro conjI allI impI; (elim conjE)?)
  fix st' assume run: "l2_run E config events n st = Ok st'"
  show "\<exists>bs. list_all2 (\<lambda>x b. convert_block E (fst x) = Ok b) (applied events) bs
      \<and> chain (ls_node st') = chain (ls_node st) @ map2 (announcement S enc_su enc_cu) (applied events) bs"
    and "ls_channels st' = empty_channels"
    using sealing.run_sealed [OF assms(1) run assms(3)] by blast+
  assume "fc_verify config" "applied events \<noteq> []"
  then show "l2u_block_number (sg_starknet_state_update (ls_globals st')) = n + of_nat (length (applied events)) - 1"
    and "pu_block_hash (fst (snd (last (applied events)))) = Some (l2u_block_hash (sg_starknet_state_update (ls_globals st')))"
    using sealing.run_head [OF assms(1,2) _ run assms(3)] by simp_all
next
  assume "\<not> fc_verify config" "\<forall>node k. \<exists>h. en_client E node k = Ok h" "run_safe E events"
  then show "\<exists>st'. l2_run E config events n st = Ok st' \<and> ls_backend st' = ls_backend st"
    by (rule sealing.run_returns [OF assms(1) _ _ _ assms(3)])
qed

definition ref_l2_state :: "(digest_item list list, unit, felt, felt, bytes \<times> bool list \<rightharpoonup> felt) l2_state" where
  "ref_l2_state = \<lparr> ls_globals = initial_globals, ls_backend = empty_backend, ls_channels = empty_channels, ls_node = [],
     ls_last_block_hash = None \<rparr>"

definition ref_events :: "(felt, felt) sync_event list" where
  "ref_events = [Refresh limited_provider, Fetched (Ok (sample_prov_block, sample_prov_update, [])),
     Fetched (Err (ProviderFailed ProviderBlockNotFound))]"

lemma ref_converts: "\<exists>b. convert_block (ref_l2_env S enc_su enc_cu) sample_prov_block = Ok b"
  using sample_block_converts by (simp add: convert_block_def ref_l2_env_def ref_config_def)

theorem l2_seals_in_order_witness:
  "\<exists>st'. l2_run (ref_l2_env (one_block_lib sample_block) (\<lambda>_. [1]) (\<lambda>_. [2])) ref_config ref_events 1 ref_l2_state = Ok st'
    \<and> length (ls_node st') = 1 \<and> ls_channels st' = empty_channels"
proof -
  let ?E = "ref_l2_env (one_block_lib sample_block) (\<lambda>_. [1]) (\<lambda>_. [2])"
  have f: "felt_codec (en_felt ?E)" by (simp add: ref_l2_env_def ref_felt_codec)
  have c: "ls_channels ref_l2_state = empty_channels" by (simp add: ref_l2_state_def)
  have "run_safe ?E ref_events"
    using ref_converts by (simp add: ref_events_def refresh_safe_def limited_provider_def)
  moreover have "\<not> fc_verify ref_config" "\<forall>node k. \<exists>h. en_client ?E node k = Ok h"
    by (simp_all add: ref_config_def ref_l2_env_def)
  moreover note l2_seals_in_order [OF ref_sealing f c, of ref_config ref_events 1]
  ultimately obtain st' bs where st': "l2_run ?E ref_config ref_events 1 ref_l2_state = Ok st'"
    "list_all2 (\<lambda>x b. convert_block ?E (fst x) = Ok b) (applied ref_events) bs"
    "ls_node st' = ls_node ref_l2_state @ map2 (announcement (one_block_lib sample_block) (\<lambda>_. [1]) (\<lambda>_. [2])) (applied ref_events) bs"
    "ls_channels st' = empty_channels" by blast
  have "length (applied ref_events) = 1" by (simp add: ref_events_def)
  with list_all2_lengthD [OF st'(2)] have "length (ls_node st') = 1" using st'(3) by (simp add: ref_l2_state_def)
  with st'(1,4) show ?thesis by blast
qed

end
