(* ===== verification/Spec2Isabelle.thy ===== *)
theory Spec2Isabelle
  imports Prelude Felt StarkTypes Hashers Transactions Block CallTree Pallet KvStore MappingDb BonsaiStore Adapter
    Simulations Genesis StorageOverride Commitments MappingSync TxConvert
    ContractClasses RpcCore RpcEvents RpcExecution RpcReceipts RpcTraces
    SyncConvert SyncFetch SyncL2
begin

text \<open>
  A verification development for Deoxys, a Starknet full node built on Substrate. All paths below are relative to
  \<open>src/crates\<close>.

  \<^bold>\<open>The program.\<close> Deoxys follows the Starknet chain. The sync client fetches blocks and state updates from the
  sequencer, converts them, computes their commitments and the state root over three Bonsai tries, and hands each
  block to Substrate in the digest of a new block. The Starknet pallet (\<open>pallets/starknet\<close>) runs inside the Substrate runtime: it
  keeps the contract state, receives the sequencer's address once in each block, and stores the finished Starknet block
  in a digest item of the Substrate header. The mapping-sync worker (\<open>client/mapping-sync\<close>) follows the Substrate chain,
  reads the Starknet blocks back from the digests and writes the tables that relate the hashes of both chains
  (\<open>client/db\<close>). The RPC server (\<open>client/rpc\<close>) answers Starknet's JSON-RPC queries from these tables, from the blocks
  in the digests and, for execution, from the runtime.

  \<^bold>\<open>Conventions.\<close> Machine integers are words of their width, so \<open>+\<close> and \<open>-\<close> wrap as they do in a release build;
  where the source saturates or panics on overflow the model does too. A fallible function returns the type \<open>res\<close> of
  Prelude: \<open>Ok\<close>, \<open>Err\<close> with the error the source returns, or \<open>Panic\<close> where the source panics (\<open>unwrap\<close>, \<open>expect\<close>,
  \<open>todo!\<close>, an index out of range). State is passed explicitly in records whose fields carry the names of the Rust
  fields with a prefix. Code outside \<open>src\<close> (the field arithmetic, the hash permutations, RocksDB, bonsai-trie,
  blockifier, the Substrate client, gzip, serde, the Cairo compilers) is a record of functions that the definitions take
  as an argument; what the code relies on of it is a locale with its documented laws, or a named hypothesis. Each such
  locale is interpreted on a reference implementation that evaluates (\<open>ref_felt_lib\<close>, \<open>ref_crypto\<close>, the association-list
  database, and so on), which the witnesses of the properties run on.

  \<^bold>\<open>Theories, from the bottom up.\<close>

  \<^item> Prelude: results, loops over lists that may fail, decimal numbers, and the lemmas the components share.
  \<^item> Felt (\<open>primitives/felt/src/lib.rs\<close>, \<open>starkware_types_conversions.rs\<close>): field elements and every conversion between
    felts, bytes, integers and hexadecimal strings; round trips and the errors out of range.
  \<^item> StarkTypes: the types of \<open>starknet_api\<close> that the sources use (transactions, events, headers).
  \<^item> Hashers (\<open>primitives/hashers\<close>): the Pedersen and Poseidon hashers on bytes, arrays and elements; they are total and,
    when the permutation is injective, binding.
  \<^item> Transactions (\<open>primitives/transactions/src/compute_hash.rs\<close>, \<open>getters.rs\<close>): the hash of every kind and version of
    transaction, its specification as one hash over a list of fields (the one the code uses, which for a version 1
    declaration is that of version 0), and that the hash binds those fields.
  \<^item> Block (\<open>primitives/block\<close>, \<open>primitives/digest-log\<close>): headers, blocks, ordered events, the header hash, and the search
    for the one Starknet log in a digest.
  \<^item> CallTree: the trees of calls that blockifier returns and the walk that recovers the order of events and messages.
  \<^item> Pallet (\<open>pallets/starknet/src/lib.rs\<close>, \<open>primitives/sequencer-address\<close>): genesis, the hooks \<open>on_initialize\<close> and
    \<open>on_finalize\<close>, the inherent, \<open>store_block\<close>, events and messages of transactions. The inherent succeeds exactly once
    in a block, and the block found in the digest is the one that was built.
  \<^item> Adapter, Simulations, Genesis (\<open>blockifier_state_adapter.rs\<close>, \<open>simulations.rs\<close>, \<open>types.rs\<close>, \<open>genesis_loader.rs\<close>):
    reads and writes of the execution state as an overlay; fee estimation, simulation and re-execution over the parameter
    \<open>engine\<close>; the genesis configuration.
  \<^item> KvStore, MappingDb, BonsaiStore (\<open>client/db\<close>): the columns of the database, the mapping tables and that they refine
    finite maps, the key-value store under the tries with its snapshots, and the handles of the three tries.
  \<^item> StorageOverride (\<open>client/storage\<close>): reading contract state through storage keys or through the runtime, and that both
    ways agree.
  \<^item> Commitments (\<open>client/sync/src/commitments\<close>): the state difference of a block, transaction and event commitments, and
    the state root; each equals the commitment of the trie it describes, whatever order the parallel work runs in.
  \<^item> MappingSync (\<open>client/mapping-sync\<close>): the worker as a state machine. Its runs refine a relation on abstract tables, it
    comes to rest, and at rest every block of the chain has been written.
  \<^item> TxConvert (\<open>to_starknet_core_transaction.rs\<close>, \<open>from_broadcasted_transactions.rs\<close>): the conversions between the
    transaction types of the RPC interface and of execution, and their round trips.
  \<^item> ContractClasses (\<open>primitives/contract\<close>, \<open>primitives/convert\<close>): stored classes, their ABI and their round trip.
  \<^item> RpcCore (\<open>client/rpc/src/lib.rs\<close>, \<open>errors.rs\<close>, \<open>utils.rs\<close> and the methods that read blocks, transactions and state):
    the look-ups of the server. Composed with MappingSync: what the worker has written is found, the cache of transaction
    hashes changes no answer about a block after genesis, and a block is found by its own hash. The node's genesis wraps a
    Starknet block which the worker files without transactions; the theorems say what the server then answers about it.
  \<^item> RpcEvents (\<open>methods/read/get_events.rs\<close>, \<open>events\<close>, \<open>types.rs\<close>): continuation tokens, filters and pages. Following the
    tokens from the first page gives every matching event once, in order.
  \<^item> RpcExecution (\<open>runtime/src/lib.rs\<close>, \<open>methods/read/call.rs\<close>, \<open>estimate_fee.rs\<close>, \<open>estimate_message_fee.rs\<close>,
    \<open>methods/write\<close>): the runtime API over the definitions of Pallet and Simulations, the calls and fee estimates that use
    it, and the errors the caller sees.
  \<^item> RpcReceipts (\<open>methods/read/get_transaction_receipt.rs\<close>, \<open>get_block_with_receipts.rs\<close>): receipts by executing the block
    again. Two functions of the source recurse without end; they are partial functions here, \<open>None\<close> meaning that the
    request never returns, and the theorem says exactly when.
  \<^item> RpcTraces (\<open>methods/trace\<close>): call trees as function invocations, traces of blocks and of single transactions, and
    simulation. A trace shows the call trees that were reported, except for the order numbers of messages, the
    resources and the tree of a reverted invoke; one transaction, its block and its receipt agree.
  \<^item> SyncConvert (\<open>client/sync/src/utils/convert.rs\<close>, \<open>primitives/block/src/state_update.rs\<close>): a block and a state update of
    the sequencer as the node stores them. The conversion is total on complete transactions, keeps order, counts and
    commitments, and the RPC shows the prices back only under the conditions the theorem gives.
  \<^item> SyncFetch (\<open>client/sync/src/fetch\<close>, \<open>l1.rs\<close>, \<open>reorgs\<close>, \<open>utils/utility.rs\<close>): the requests to the sequencer and to
    Ethereum. Fetching ends, the class update has exactly the missing classes, and the handling of a reorganisation, a
    partial function, returns only if another task changes the value it waits for.
  \<^item> SyncL2 (\<open>client/sync/src/l2.rs\<close>, \<open>lib.rs\<close>, \<open>create_digest\<close> of \<open>node/src/service.rs\<close>): the loop over the fetched
    blocks, interleaved with the refreshes and the L1 heads, and the channels to the sealing engine. One Substrate block
    is sealed for each Starknet block, in order.
  \<^item> This theory: the composition of SyncConvert, SyncL2 and Pallet. What the sequencer sent is what the pallet holds.

  \<^bold>\<open>Interfaces.\<close> The laws of the felt arithmetic (\<open>felt_codec\<close>), of the database and of the tries are locales; the
  client theories are proved inside them and instantiated on the model's definitions and on the reference instances.

  \<^bold>\<open>Bounds and fuel.\<close> Loops are structural recursions or functions with a termination proof. The walk of a call tree
  ends because the sizes of the remaining calls decrease. The worker of MappingSync is a step function that the property
  on its rest iterates; its bound is the number of blocks left to visit, so it is enough by proof. The loop over the
  blocks of an event query is bounded by the distance of its two block numbers. A fetch makes at most fifteen attempts,
  the constant of the source. A run of SyncL2 is a list of the events that reached the loop.

  \<^bold>\<open>Not modelled.\<close> Terminal user interface (\<open>tui\<close>), command line, service wiring (but for the digests) and process start-up (\<open>node\<close>), and the
  runtime composition (\<open>runtime\<close>) are configuration and macro expansion with no logic of their own. File and network I/O,
  logging, metrics registration and JSON through serde are left out throughout, and locks are not
  poisoned where the source expects them not to be. Commits to the tries are taken to come in the order of the blocks, as
  bonsai-trie requires. A few modelled parts are in the sources but not run by the node: \<open>commitments/contracts.rs\<close> is
  not compiled, \<open>reorg\<close> is called nowhere, and the emission of events in the pallet only from commented-out code. Contract execution is blockifier's, the
  tries are bonsai-trie's, and both are arguments. Tests are not modelled.
\<close>

section \<open>From the sequencer to the pallet\<close>

lemma on_finalize_keeps:
  assumes "on_finalize L S st = Ok st'"
  shows "ps_nonces st' = ps_nonces st" "ps_contract_class_hashes st' = ps_contract_class_hashes st"
    "ps_compiled_class_hashes st' = ps_compiled_class_hashes st" "ps_contract_classes st' = ps_contract_classes st"
    "ps_contract_abis st' = ps_contract_abis st" "sys_block_number st' = sys_block_number st"
  using assms
  by (auto simp: on_finalize_def store_block_def Let_def result_simps split: if_splits list.splits digest_item.splits option.splits)

lemma converted_block_hash:
  assumes "felt_codec L" and "convert_block_sync L K B mem i config p = Ok b" and "pk_block_hash p = Some h"
  shows "block_hash_of b = Some h"
proof -
  have "h_extra_data (blk_header b) = Some (of_nat (felt_nat h))"
    using assms(2,3)
    by (auto simp: convert_block_sync_def res_bind_Ok_iff Let_def deoxys_block_new_def be_felt
        felt_codec.fe_to_bytes_be [OF assms(1)] felt_codec.u256_from_be [OF assms(1)] split: prod.splits)
  moreover have "felt_nat h < 2 ^ 256"
    using felt_nat_lt [of h] by (simp add: STARK_PRIME_def)
  then have "unat (of_nat (felt_nat h) :: 256 word) = felt_nat h"
    by (simp add: unat_of_nat take_bit_eq_mod del: power_numeral)
  ultimately show ?thesis by (simp add: block_hash_of_def felt_nat_lt)
qed

text \<open>The digest of an announcement, as the pallet reads it.\<close>

lemma announcement_read:
  assumes "state_update_decode S (enc_su (state_update_wrapper su)) = Some (state_update_wrapper su)"
    and "class_update_decode S (enc_cu cu) = Some cu"
  shows "state_diffs S (announcement S enc_su enc_cu (p, su, cu) b) = [state_diff_wrapper (pu_state_diff su)]"
    and "class_datas S (announcement S enc_su enc_cu (p, su, cu) b) = cu"
  using assms engine_ids_distinct
  by (simp_all add: state_diffs_def class_datas_def announcement_def map_filter_simps state_update_wrapper_def
      MADARA_ENGINE_ID_def STATE_ENGINE_ID_def CLASS_ENGINE_ID_def ascii_def)

text \<open>C21: what the sequencer sent is what the pallet holds after the block. When the digest of a new block is
  the announcement of a converted block, initialising, setting the sequencer's address and finalising succeed;
  then the block is found in the digest, the next block has the sequencer's hash of this one as its parent,
  and nonces, class hashes and classes are those of before overlaid with the sequencer's state update, later
  entries first, and with the fetched classes.\<close>

theorem sequencer_block_in_pallet:
  assumes "felt_codec L" and "digest_codec S" and "codec_reads S b"
    and "convert_block_sync L K B mem i config p = Ok b" and "pk_block_hash p = Some h"
    and "state_update_decode S (enc_su (state_update_wrapper su)) = Some (state_update_wrapper su)"
    and "class_update_decode S (enc_cu cu) = Some cu"
    and "sys_digest st = announcement S enc_su enc_cu (p, su, cu) b"
    and "ps_seq_addr_update st = None" and "stark_new L addr = Some a" and "patricia_try_from L a = Some a'"
    and "unat (sys_block_number st) + 1 < 2 ^ 64"
  shows "\<exists>st1 st2. set_sequencer_address L True addr (on_initialize S st) = Ok st1 \<and> on_finalize L S st1 = Ok st2
    \<and> find_starknet_block S (sys_digest st2) = Ok b
    \<and> parent_block_hash st2 (sys_block_number st2 + 1) = h
    \<and> ps_sequencer_address st1 = a'
    \<and> ps_nonces st2 = ps_nonces st ++ map_of (rev (psd_nonces (pu_state_diff su)))
    \<and> ps_contract_class_hashes st2 = ps_contract_class_hashes st ++ map_of (rev (map (\<lambda>c. (dep_address c, dep_class_hash c))
        (psd_deployed_contracts (pu_state_diff su) @ psd_replaced_classes (pu_state_diff su))))
    \<and> ps_compiled_class_hashes st2 = ps_compiled_class_hashes st
        ++ map_of (rev (map (\<lambda>c. (dec_class_hash c, dec_compiled_class_hash c)) (psd_declared_classes (pu_state_diff su))))
    \<and> ps_contract_classes st2 = ps_contract_classes st ++ map_of (rev (map (\<lambda>d. (ccd_hash d, ccd_contract d)) cu))"
proof -
  let ?i = "on_initialize S st"
  let ?d = "state_diff_wrapper (pu_state_diff su)"
  note read = announcement_read [where enc_su = enc_su and enc_cu = enc_cu and su = su, OF assms(6,7)]
  note init = on_initialize_insert_all [of S st, unfolded assms(8) read]
  have fields: "ps_seq_addr_update ?i = None" "sys_digest ?i = announcement S enc_su enc_cu (p, su, cu) b"
    "sys_block_number ?i = sys_block_number st"
    by (simp_all add: init assms(8,9))
  define st1 where "st1 = ?i\<lparr>ps_sequencer_address := a', ps_seq_addr_update := Some True\<rparr>"
  have st1: "set_sequencer_address L True addr ?i = Ok st1"
    by (simp add: set_sequencer_address_def fields assms(10,11) st1_def)
  have "sys_digest st1 = PreRuntime MADARA_ENGINE_ID (block_encode S b) # map (\<lambda>(e, d). PreRuntime e d)
      [(STATE_ENGINE_ID, enc_su (state_update_wrapper su)), (CLASS_ENGINE_ID, enc_cu cu)]"
    by (simp add: st1_def fields announcement_def)
  from finalize_announced [OF assms(1-3) converted_block_hash [OF assms(1,4,5)] this] obtain st2 where
    st2: "on_finalize L S st1 = Ok st2" "find_starknet_block S (sys_digest st2) = Ok b"
      "parent_block_hash st2 (sys_block_number st2 + 1) = h"
    using assms(12) by (auto simp: st1_def fields)
  have writes: "nonces ?d = psd_nonces (pu_state_diff su)"
    "class_hash_writes ?d = map (\<lambda>c. (dep_address c, dep_class_hash c))
      (psd_deployed_contracts (pu_state_diff su) @ psd_replaced_classes (pu_state_diff su))"
    "compiled_hash_writes ?d = map (\<lambda>c. (dec_class_hash c, dec_compiled_class_hash c)) (psd_declared_classes (pu_state_diff su))"
    by (simp_all add: state_diff_wrapper_def class_hash_writes_def compiled_hash_writes_def deployed_contract_wrapper_def
        declared_contract_wrapper_def comp_def)
  have stored: "ps_nonces st1 = ps_nonces st ++ map_of (rev (psd_nonces (pu_state_diff su)))"
    "ps_contract_class_hashes st1 = ps_contract_class_hashes st ++ map_of (rev (map (\<lambda>c. (dep_address c, dep_class_hash c))
      (psd_deployed_contracts (pu_state_diff su) @ psd_replaced_classes (pu_state_diff su))))"
    "ps_compiled_class_hashes st1 = ps_compiled_class_hashes st
      ++ map_of (rev (map (\<lambda>c. (dec_class_hash c, dec_compiled_class_hash c)) (psd_declared_classes (pu_state_diff su))))"
    "ps_contract_classes st1 = ps_contract_classes st ++ map_of (rev (map (\<lambda>d. (ccd_hash d, ccd_contract d)) cu))"
    by (simp_all only: st1_def init insert_all_map_of writes list.map concat.simps append_Nil2) simp_all
  have "ps_sequencer_address st1 = a'" by (simp add: st1_def)
  then show ?thesis using st1 st2 stored on_finalize_keeps [OF st2(1)] by (intro exI [of _ st1] exI [of _ st2]) simp
qed

text \<open>Codecs that know one block and one state update.\<close>

definition one_update_lib :: "deoxys_block \<Rightarrow> state_update \<Rightarrow> (felt, felt) codecs" where
  "one_update_lib b u = (one_block_lib b)\<lparr>state_update_decode := \<lambda>_. Some u, class_update_decode := \<lambda>_. Some []\<rparr>"

interpretation one_update: digest_codec "one_update_lib b u" for b u
  by unfold_locales (auto simp: one_update_lib_def one_block_lib_def split: digest_item.split)

theorem sequencer_block_in_pallet_witness:
  "\<exists>b st1 st2. convert_block_sync ref_felt_lib ref_crypto count_bonsai (Ok Map.empty) 0 (Some 5) sample_prov_block = Ok b
    \<and> (let S = one_update_lib b (state_update_wrapper sample_prov_update);
           st = empty_storage\<lparr>sys_digest := announcement S (\<lambda>_. [1]) (\<lambda>_. [2]) (sample_prov_block, sample_prov_update, []) b\<rparr>
       in set_sequencer_address ref_felt_lib True (nat_be 32 1) (on_initialize S st) = Ok st1
         \<and> on_finalize ref_felt_lib S st1 = Ok st2
         \<and> find_starknet_block S (sys_digest st2) = Ok b
         \<and> parent_block_hash st2 (sys_block_number st2 + 1) = 9
         \<and> ps_nonces st2 5 = Some 1 \<and> ps_contract_class_hashes st2 5 = Some 7)"
proof -
  obtain b where b: "convert_block_sync ref_felt_lib ref_crypto count_bonsai (Ok Map.empty) 0 (Some 5) sample_prov_block = Ok b"
    using sample_block_converts by blast
  let ?u = "state_update_wrapper sample_prov_update"
  let ?S = "one_update_lib b ?u"
  let ?st = "(empty_storage :: (felt, felt) pallet_state)\<lparr>sys_digest :=
    announcement ?S (\<lambda>_. [1]) (\<lambda>_. [2]) (sample_prov_block, sample_prov_update, []) b\<rparr>"
  have reads: "codec_reads ?S b" by (simp add: codec_reads_def one_update_lib_def one_block_lib_def)
  have hash: "pk_block_hash sample_prov_block = Some 9" by (simp add: sample_prov_block_def)
  have dec: "state_update_decode ?S ((\<lambda>_. [1]) ?u) = Some ?u" "class_update_decode ?S ((\<lambda>_. [2]) []) = Some []"
    by (simp_all add: one_update_lib_def)
  have "be_nat (nat_be 32 1) = 1" by (simp add: be_nat_nat_be)
  then have addr: "stark_new ref_felt_lib (nat_be 32 1) = Some (felt_of_nat 1)"
    by (simp add: felt_codec.stark_new [OF ref_felt_codec] STARK_PRIME_def del: nat_be.simps)
  have key: "patricia_try_from ref_felt_lib (felt_of_nat 1) = Some (felt_of_nat 1)"
    by (simp add: felt_codec.patricia_try_from [OF ref_felt_codec] STARK_PRIME_def)
  have st: "ps_seq_addr_update ?st = None" "unat (sys_block_number ?st) + 1 < 2 ^ 64"
    by (simp_all add: empty_storage_def)
  have dig: "sys_digest ?st = announcement ?S (\<lambda>_. [1]) (\<lambda>_. [2]) (sample_prov_block, sample_prov_update, []) b" by simp
  from sequencer_block_in_pallet [where enc_su = "\<lambda>_. [1]" and enc_cu = "\<lambda>_. [2]" and su = sample_prov_update and cu = "[]",
      OF ref_felt_codec one_update.digest_codec_axioms reads b hash dec dig st(1) addr key st(2)]
  obtain st1 st2 where "set_sequencer_address ref_felt_lib True (nat_be 32 1) (on_initialize ?S ?st) = Ok st1"
    "on_finalize ref_felt_lib ?S st1 = Ok st2" "find_starknet_block ?S (sys_digest st2) = Ok b"
    "parent_block_hash st2 (sys_block_number st2 + 1) = 9"
    "ps_nonces st2 = ps_nonces ?st ++ map_of (rev (psd_nonces (pu_state_diff sample_prov_update)))"
    "ps_contract_class_hashes st2 = ps_contract_class_hashes ?st ++ map_of (rev (map (\<lambda>c. (dep_address c, dep_class_hash c))
        (psd_deployed_contracts (pu_state_diff sample_prov_update) @ psd_replaced_classes (pu_state_diff sample_prov_update))))"
    by blast
  then show ?thesis
    using b by (intro exI [of _ b] exI [of _ st1] exI [of _ st2])
      (simp add: Let_def sample_prov_update_def del: nat_be.simps)
qed

end
